(* ===== verification/Prelude.thy ===== *)
theory Prelude
  imports Main "HOL-Library.Sublist"
begin

text \<open>
  Shared vocabulary of the development: the fact collections the component
  theories extend, the result type of code that may throw (\<open>'e + 'a\<close>, \<open>Inl\<close> the
  thrown value), its sequencing operator, and the generic facts on lists that more
  than one component needs.
\<close>

named_theorems js_eval \<open>unfoldings that evaluate the string and regular-expression models\<close>
named_theorems io_simps \<open>equations of the effect operations\<close>
named_theorems emits_intro \<open>introduction rules for what a program may do to the outside\<close>
named_theorems yields_intro \<open>evaluation rules for programs whose calls are all answered\<close>
named_theorems settles_intro \<open>introduction rules for programs that never throw\<close>
named_theorems returns_intro \<open>introduction rules for what a program may return\<close>

section \<open>Results of code that may throw\<close>

text \<open>\<open>rbind\<close> runs the continuation on a value and passes a thrown error on.\<close>

definition rbind :: "'e + 'a \<Rightarrow> ('a \<Rightarrow> 'e + 'b) \<Rightarrow> 'e + 'b" where
  "rbind m f = (case m of Inl e \<Rightarrow> Inl e | Inr x \<Rightarrow> f x)"

lemma rbind_simps [simp]:
  "rbind (Inl e) f = Inl e"
  "rbind (Inr x) f = f x"
  by (simp_all add: rbind_def)

lemma rbind_Inr_iff: "rbind m f = Inr y \<longleftrightarrow> (\<exists>x. m = Inr x \<and> f x = Inr y)"
  by (cases m) auto

lemma rbind_Inl_iff:
  "rbind m f = Inl e \<longleftrightarrow> m = Inl e \<or> (\<exists>x. m = Inr x \<and> f x = Inl e)"
  by (cases m) auto

lemma rbind_assoc: "rbind (rbind m f) g = rbind m (\<lambda>x. rbind (f x) g)"
  by (cases m) auto

lemma rbind_cong [fundef_cong]:
  "m = m' \<Longrightarrow> (\<And>x. m' = Inr x \<Longrightarrow> f x = g x) \<Longrightarrow> rbind m f = rbind m' g"
  by (cases m') auto

text \<open>\<open>throw_if b e\<close> is the statement \<open>if (b) throw e\<close>.\<close>

definition throw_if :: "bool \<Rightarrow> 'e \<Rightarrow> 'e + unit" where
  "throw_if b e = (if b then Inl e else Inr ())"

lemma throw_if_simps [simp]:
  "throw_if True e = Inl e"
  "throw_if False e = Inr ()"
  "throw_if b e = Inr u \<longleftrightarrow> \<not> b"
  "throw_if b e = Inl e' \<longleftrightarrow> b \<and> e = e'"
  by (auto simp: throw_if_def)

text \<open>A loop that stops at the first error, as a \<open>for\<close> loop whose body throws.\<close>

fun for_each :: "('a \<Rightarrow> 'e + unit) \<Rightarrow> 'a list \<Rightarrow> 'e + unit" where
  "for_each f [] = Inr ()"
| "for_each f (x # xs) = rbind (f x) (\<lambda>_. for_each f xs)"

lemma for_each_Inr [simp]: "for_each f xs = Inr u \<longleftrightarrow> (\<forall>x \<in> set xs. f x = Inr ())"
  by (induction xs) (auto simp: rbind_Inr_iff)

lemma for_each_InlD: "for_each f xs = Inl e \<Longrightarrow> \<exists>x \<in> set xs. f x = Inl e"
  by (induction xs) (auto simp: rbind_Inl_iff)

text \<open>\<open>xs.map(f)\<close> for a function that may throw.\<close>

fun map_throw :: "('a \<Rightarrow> 'e + 'b) \<Rightarrow> 'a list \<Rightarrow> 'e + 'b list" where
  "map_throw f [] = Inr []"
| "map_throw f (x # xs) = rbind (f x) (\<lambda>y. rbind (map_throw f xs) (\<lambda>ys. Inr (y # ys)))"

lemma map_throw_Inr: "map_throw f xs = Inr ys \<longleftrightarrow> list_all2 (\<lambda>x y. f x = Inr y) xs ys"
  by (induction xs arbitrary: ys) (auto simp: rbind_Inr_iff list_all2_Cons1)

section \<open>Lists\<close>

text \<open>The last element of a list, as an option: the unit before a position.\<close>

definition last_opt :: "'a list \<Rightarrow> 'a option" where
  "last_opt xs = (if xs = [] then None else Some (last xs))"

lemma last_opt_simps [simp]:
  "last_opt [] = None"
  "last_opt (xs @ [x]) = Some x"
  "last_opt [x] = Some x"
  by (simp_all add: last_opt_def)

lemma last_opt_append: "last_opt (xs @ ys) = (if ys = [] then last_opt xs else last_opt ys)"
  by (auto simp: last_opt_def)

lemma last_opt_Cons: "last_opt (x # xs) = (if xs = [] then Some x else last_opt xs)"
  by (auto simp: last_opt_def)

lemma last_opt_None [simp]: "last_opt xs = None \<longleftrightarrow> xs = []"
  by (simp add: last_opt_def)

text \<open>Adding to an insertion-ordered set (\<open>Set.prototype.add\<close>).\<close>

definition set_add :: "'a \<Rightarrow> 'a list \<Rightarrow> 'a list" where
  "set_add x xs = (if x \<in> set xs then xs else xs @ [x])"

lemma set_set_add [simp]: "set (set_add x xs) = insert x (set xs)"
  by (auto simp: set_add_def)

lemma distinct_set_add [simp]: "distinct (set_add x xs) \<longleftrightarrow> distinct xs"
  by (auto simp: set_add_def)

text \<open>\<open>new Set(xs)\<close>: the elements in order of first insertion.\<close>

definition set_of :: "'a list \<Rightarrow> 'a list" where
  "set_of xs = fold set_add xs []"

lemma fold_set_add:
  "set (fold set_add xs acc) = set acc \<union> set xs \<and>
   (distinct (fold set_add xs acc) \<longleftrightarrow> distinct acc)"
  by (induction xs arbitrary: acc) auto

lemma set_set_of [simp]: "set (set_of xs) = set xs"
  by (simp add: set_of_def fold_set_add)

lemma distinct_set_of [simp]: "distinct (set_of xs)"
  by (simp add: set_of_def fold_set_add)

lemma length_set_of: "length (set_of xs) = card (set xs)"
  using distinct_card [OF distinct_set_of, of xs] by simp

end
