(* ===== verification/JsString.thy ===== *)
theory JsString
  imports Prelude
begin

text \<open>
  Strings as the program has them: ECMAScript strings are sequences of UTF-16 code
  units, here lists of \<open>int\<close> (each between 0 and 65535 in a running program). \<open>js\<close> turns
  an ASCII literal into such a list. The methods of \<open>String.prototype\<close> that the sources
  call are defined on code units exactly as the standard has them. The two that need the
  Unicode character database (\<open>toLowerCase\<close>, \<open>toUpperCase\<close>) and \<open>normalize("NFKC")\<close> are
  parameters of the model (theory \<open>Platform\<close>); their ASCII part is defined here.
\<close>

type_synonym code_unit = int
type_synonym jsstr = "code_unit list"

definition js :: "string \<Rightarrow> jsstr" where
  [js_eval]: "js s = map of_char s"

lemma js_append: "js (s @ t) = js s @ js t"
  by (simp add: js_def)

lemma js_eq_Nil [simp]: "js s = [] \<longleftrightarrow> s = []" "[] = js s \<longleftrightarrow> s = []"
  by (auto simp: js_def)

section \<open>Character classes of the standard\<close>

definition is_digit :: "code_unit \<Rightarrow> bool" where
  [js_eval]: "is_digit c \<longleftrightarrow> 48 \<le> c \<and> c \<le> 57"

definition is_ascii_upper :: "code_unit \<Rightarrow> bool" where
  [js_eval]: "is_ascii_upper c \<longleftrightarrow> 65 \<le> c \<and> c \<le> 90"

definition is_ascii_lower :: "code_unit \<Rightarrow> bool" where
  [js_eval]: "is_ascii_lower c \<longleftrightarrow> 97 \<le> c \<and> c \<le> 122"

definition is_ascii :: "code_unit \<Rightarrow> bool" where
  [js_eval]: "is_ascii c \<longleftrightarrow> 0 \<le> c \<and> c < 128"

text \<open>The word characters of a regular expression without the \<open>u\<close> and \<open>i\<close> flags together.\<close>

definition is_word :: "code_unit \<Rightarrow> bool" where
  [js_eval]: "is_word c \<longleftrightarrow> is_digit c \<or> is_ascii_upper c \<or> is_ascii_lower c \<or> c = 95"

text \<open>WhiteSpace and LineTerminator of ECMA-262: what \<open>trim\<close> and \<open>\s\<close> mean.\<close>

definition space_ranges :: "(int \<times> int) list" where
  [js_eval]: "space_ranges =
    [(9, 13), (32, 32), (160, 160), (5760, 5760), (8192, 8202), (8232, 8233),
     (8239, 8239), (8287, 8287), (12288, 12288), (65279, 65279)]"

definition in_ranges :: "(int \<times> int) list \<Rightarrow> code_unit \<Rightarrow> bool" where
  [js_eval]: "in_ranges rs c \<longleftrightarrow> list_ex (\<lambda>(a, b). a \<le> c \<and> c \<le> b) rs"

definition is_space :: "code_unit \<Rightarrow> bool" where
  [js_eval]: "is_space c \<longleftrightarrow> in_ranges space_ranges c"

definition lower_unit :: "code_unit \<Rightarrow> code_unit" where
  [js_eval]: "lower_unit c = (if is_ascii_upper c then c + 32 else c)"

definition upper_unit :: "code_unit \<Rightarrow> code_unit" where
  [js_eval]: "upper_unit c = (if is_ascii_lower c then c - 32 else c)"

lemma lower_unit_idem [simp]: "lower_unit (lower_unit c) = lower_unit c"
  by (auto simp: lower_unit_def is_ascii_upper_def)

lemma upper_unit_idem [simp]: "upper_unit (upper_unit c) = upper_unit c"
  by (auto simp: upper_unit_def is_ascii_lower_def)

lemma upper_lower_unit [simp]: "upper_unit (lower_unit c) = upper_unit c"
  by (auto simp: lower_unit_def upper_unit_def is_ascii_upper_def is_ascii_lower_def)

lemma lower_upper_unit [simp]: "lower_unit (upper_unit c) = lower_unit c"
  by (auto simp: lower_unit_def upper_unit_def is_ascii_upper_def is_ascii_lower_def)

lemma is_word_lower_unit [simp]: "is_word (lower_unit c) = is_word c"
  by (auto simp: is_word_def lower_unit_def is_ascii_upper_def is_ascii_lower_def is_digit_def)

section \<open>Methods of String.prototype\<close>

definition trim_start :: "jsstr \<Rightarrow> jsstr" where
  [js_eval]: "trim_start s = dropWhile is_space s"

definition trim_end :: "jsstr \<Rightarrow> jsstr" where
  [js_eval]: "trim_end s = rev (dropWhile is_space (rev s))"

definition trim :: "jsstr \<Rightarrow> jsstr" where
  [js_eval]: "trim s = trim_end (trim_start s)"

definition starts_with :: "jsstr \<Rightarrow> jsstr \<Rightarrow> bool" where
  [js_eval]: "starts_with s p \<longleftrightarrow> take (length p) s = p"

fun str_includes :: "jsstr \<Rightarrow> jsstr \<Rightarrow> bool" where
  "str_includes [] p = (p = [])"
| "str_includes (c # s) p = (starts_with (c # s) p \<or> str_includes s p)"

text \<open>\<open>slice(0, n)\<close> for a non-negative \<open>n\<close>.\<close>

abbreviation slice_to :: "nat \<Rightarrow> jsstr \<Rightarrow> jsstr" where
  "slice_to n s \<equiv> take n s"

text \<open>\<open>split\<close> on a single separator unit: always at least one part.\<close>

fun split_on :: "code_unit \<Rightarrow> jsstr \<Rightarrow> jsstr list" where
  "split_on d [] = [[]]"
| "split_on d (c # s) =
     (if c = d then [] # split_on d s
      else case split_on d s of [] \<Rightarrow> [[c]] | w # ws \<Rightarrow> (c # w) # ws)"

lemma split_on_nonempty [simp]: "split_on d s \<noteq> []"
  by (induction s) (auto split: list.splits)

text \<open>\<open>join\<close> of an array of strings.\<close>

fun join :: "jsstr \<Rightarrow> jsstr list \<Rightarrow> jsstr" where
  "join d [] = []"
| "join d [w] = w"
| "join d (w # v # ws) = w @ d @ join d (v # ws)"

text \<open>\<open>lastIndexOf\<close> of one unit, \<open>None\<close> for \<open>-1\<close>.\<close>

fun last_index_of :: "code_unit \<Rightarrow> jsstr \<Rightarrow> nat option" where
  "last_index_of d [] = None"
| "last_index_of d (c # s) =
     (case last_index_of d s of
        Some i \<Rightarrow> Some (Suc i)
      | None \<Rightarrow> if c = d then Some 0 else None)"

lemma last_index_of_None: "last_index_of d s = None \<longleftrightarrow> d \<notin> set s"
  by (induction s) (auto split: option.splits)

lemma last_index_of_append:
  "d \<notin> set t \<Longrightarrow> last_index_of d (s @ d # t) = Some (length s)"
proof (induction s)
  case Nil
  then have "last_index_of d t = None" by (simp add: last_index_of_None)
  then show ?case by simp
qed simp

text \<open>\<open>replaceAll(d, "")\<close> for one unit, and \<open>replace(d, r)\<close>, which changes the first only.\<close>

definition remove_unit :: "code_unit \<Rightarrow> jsstr \<Rightarrow> jsstr" where
  [js_eval]: "remove_unit d s = filter (\<lambda>c. c \<noteq> d) s"

fun replace_first :: "code_unit \<Rightarrow> code_unit \<Rightarrow> jsstr \<Rightarrow> jsstr" where
  "replace_first d r [] = []"
| "replace_first d r (c # s) = (if c = d then r # s else c # replace_first d r s)"

text \<open>UTF-8 of a string: a lone surrogate becomes the replacement character.\<close>

definition utf8_units :: "int \<Rightarrow> int list" where
  "utf8_units c =
     (if c < 128 then [c]
      else if c < 2048 then [192 + c div 64, 128 + c mod 64]
      else if c < 65536 then [224 + c div 4096, 128 + c div 64 mod 64, 128 + c mod 64]
      else [240 + c div 262144, 128 + c div 4096 mod 64, 128 + c div 64 mod 64, 128 + c mod 64])"

definition is_high :: "code_unit \<Rightarrow> bool" where
  "is_high c \<longleftrightarrow> 55296 \<le> c \<and> c < 56320"

definition is_low :: "code_unit \<Rightarrow> bool" where
  "is_low c \<longleftrightarrow> 56320 \<le> c \<and> c < 57344"

fun utf8_encode :: "jsstr \<Rightarrow> int list" where
  "utf8_encode [] = []"
| "utf8_encode (c # s) =
     (if is_high c \<and> s \<noteq> [] \<and> is_low (hd s)
      then utf8_units (65536 + (c - 55296) * 1024 + (hd s - 56320)) @ utf8_encode (tl s)
      else if is_high c \<or> is_low c then utf8_units 65533 @ utf8_encode s
      else utf8_units c @ utf8_encode s)"

section \<open>Laws\<close>

lemma starts_with_iff: "starts_with s p \<longleftrightarrow> (\<exists>t. s = p @ t)"
proof
  assume "starts_with s p"
  then have "s = p @ drop (length p) s"
    by (metis append_take_drop_id starts_with_def)
  then show "\<exists>t. s = p @ t" by blast
qed (auto simp: starts_with_def)

lemma str_includes_iff: "str_includes s p \<longleftrightarrow> (\<exists>pre post. s = pre @ p @ post)"
proof (induction s)
  case (Cons c s)
  have "(\<exists>pre post. c # s = pre @ p @ post) \<longleftrightarrow>
    (\<exists>post. c # s = p @ post) \<or> (\<exists>pre post. s = pre @ p @ post)"
    by (metis append_Cons append_Nil neq_Nil_conv list.inject)
  then show ?case using Cons by (simp add: starts_with_iff)
qed simp

lemma split_on_join: "join [d] (split_on d s) = s"
proof (induction s)
  case (Cons c s)
  obtain w ws where "split_on d s = w # ws"
    by (metis split_on_nonempty neq_Nil_conv)
  with Cons show ?case by (cases ws) auto
qed simp

lemma split_on_no_sep: "d \<notin> set s \<Longrightarrow> split_on d s = [s]"
  by (induction s) auto

lemma split_on_append: "d \<notin> set w \<Longrightarrow> split_on d (w @ d # s) = w # split_on d s"
  by (induction w) auto

lemma trim_end_append_nonspace: "\<not> is_space c \<Longrightarrow> trim_end (s @ [c]) = s @ [c]"
  by (simp add: trim_end_def)

lemma trim_id:
  assumes "s \<noteq> []" "\<not> is_space (hd s)" "\<not> is_space (last s)"
  shows "trim s = s"
proof -
  have "trim_start s = s"
    using assms(1,2) by (cases s) (auto simp: trim_start_def)
  moreover have "trim_end s = s"
    using assms(1,3) trim_end_append_nonspace [of "last s" "butlast s"] by simp
  ultimately show ?thesis by (simp add: trim_def)
qed

lemma set_trim: "set (trim s) \<subseteq> set s"
  unfolding trim_def trim_end_def trim_start_def
  by (metis set_dropWhileD set_rev subsetI)

lemma js_inject [simp]: "js a = js b \<longleftrightarrow> a = b"
proof -
  have "inj (of_char :: char \<Rightarrow> int)" by (rule injI) simp
  then show ?thesis by (simp add: js_def inj_map_eq_map)
qed

end
