(* ===== verification/JsNumber.thy ===== *)
theory JsNumber
  imports JsString Complex_Main "HOL-Library.Log_Nat"
begin

text \<open>
  The Number type: IEEE-754 binary64 values and the operations the sources use on them.
  A finite double is represented by the rational it denotes (the two zeros are one value:
  nothing in the program tells them apart). \<open>fl\<close> rounds an exact rational to the nearest
  double, ties to even, with gradual underflow and overflow to infinity; every arithmetic
  operation is the exact operation followed by \<open>fl\<close>. \<open>js_number\<close> is StringToNumber of
  ECMA-262, \<open>math_round\<close> is \<open>Math.round\<close>.

  The locale \<open>rounding\<close> states the one property of rounding that money arithmetic needs (a
  relative error of at most one half unit in the last place); the facts clients use
  are proved from it once and it is interpreted on \<open>fl\<close>.
\<close>

datatype dbl = NaN | Inf bool | Fin rat

text \<open>\<open>Inf True\<close> is negative infinity.\<close>

section \<open>Rounding to binary64\<close>

text \<open>The integer part of the binary logarithm of a positive rational.\<close>

definition ilog2 :: "rat \<Rightarrow> int" where
  "ilog2 x = (let (n, d) = quotient_of x; k = bitlen n - bitlen d
              in if 2 powi k \<le> x then k else k - 1)"

definition round_even :: "rat \<Rightarrow> int" where
  "round_even q = (let f = \<lfloor>q\<rfloor>; r = q - of_int f
     in if r < 1 / 2 then f else if r > 1 / 2 then f + 1 else if even f then f else f + 1)"

definition fl_pos :: "rat \<Rightarrow> dbl" where
  "fl_pos x = (let e = max (ilog2 x - 52) (- 1074); m = round_even (x / 2 powi e)
     in if e > 971 \<or> e = 971 \<and> m = 2 ^ 53 then Inf False else Fin (of_int m * 2 powi e))"

fun dneg :: "dbl \<Rightarrow> dbl" where
  "dneg NaN = NaN"
| "dneg (Inf s) = Inf (\<not> s)"
| "dneg (Fin x) = Fin (- x)"

definition fl :: "rat \<Rightarrow> dbl" where
  "fl x = (if x = 0 then Fin 0 else if 0 < x then fl_pos x else dneg (fl_pos (- x)))"

section \<open>Operations\<close>

text \<open>Multiplication by a finite positive number, and division of two counts.\<close>

fun dmul :: "dbl \<Rightarrow> rat \<Rightarrow> dbl" where
  "dmul NaN y = NaN"
| "dmul (Inf s) y = (if y = 0 then NaN else Inf (s \<noteq> (y < 0)))"
| "dmul (Fin x) y = fl (x * y)"

definition ddiv_nat :: "nat \<Rightarrow> nat \<Rightarrow> dbl" where
  "ddiv_nat a b = (if b = 0 then (if a = 0 then NaN else Inf False) else fl (of_nat a / of_nat b))"

text \<open>\<open>a < b\<close>: false when an operand is NaN.\<close>

fun dless :: "dbl \<Rightarrow> dbl \<Rightarrow> bool" where
  "dless (Fin x) (Fin y) = (x < y)"
| "dless (Inf s) (Fin y) = s"
| "dless (Fin x) (Inf s) = (\<not> s)"
| "dless (Inf s) (Inf t) = (s \<and> \<not> t)"
| "dless _ _ = False"

definition dle :: "dbl \<Rightarrow> dbl \<Rightarrow> bool" where
  "dle a b \<longleftrightarrow> a \<noteq> NaN \<and> b \<noteq> NaN \<and> \<not> dless b a"

fun is_finite :: "dbl \<Rightarrow> bool" where
  "is_finite (Fin x) = True"
| "is_finite _ = False"

fun math_round :: "dbl \<Rightarrow> dbl" where
  "math_round (Fin x) = Fin (of_int \<lfloor>x + 1 / 2\<rfloor>)"
| "math_round d = d"

section \<open>StringToNumber\<close>

definition dec_val :: "jsstr \<Rightarrow> int" where
  "dec_val ds = foldl (\<lambda>n c. 10 * n + (c - 48)) 0 ds"

definition digits_of :: "jsstr \<Rightarrow> jsstr \<times> jsstr" where
  "digits_of s = (takeWhile is_digit s, dropWhile is_digit s)"

text \<open>The optional exponent part; \<open>None\<close> when what is left is not an exponent.\<close>

definition exponent_part :: "jsstr \<Rightarrow> int option" where
  "exponent_part s = (case s of
      [] \<Rightarrow> Some 0
    | c # t \<Rightarrow>
        if c = 101 \<or> c = 69 then
          (let sg = (if t \<noteq> [] \<and> hd t = 45 then -1 else 1);
               u = (if t \<noteq> [] \<and> (hd t = 45 \<or> hd t = 43) then tl t else t)
           in if u \<noteq> [] \<and> list_all is_digit u then Some (sg * dec_val u) else None)
        else None)"

text \<open>StrUnsignedDecimalLiteral without Infinity.\<close>

definition unsigned_decimal :: "jsstr \<Rightarrow> rat option" where
  "unsigned_decimal s =
    (let (ds, r) = digits_of s;
         (fs, r') = (case r of [] \<Rightarrow> ([], []) | c # t \<Rightarrow> if c = 46 then digits_of t else ([], r))
     in if ds = [] \<and> fs = [] then None
        else case exponent_part r' of
               None \<Rightarrow> None
             | Some e \<Rightarrow> Some (of_int (dec_val (ds @ fs)) * 10 powi (e - int (length fs))))"

definition digit_in_base :: "int \<Rightarrow> code_unit \<Rightarrow> int option" where
  "digit_in_base b c =
    (let v = (if is_digit c then c - 48
              else if is_ascii_lower c then c - 87
              else if is_ascii_upper c then c - 55 else b)
     in if v < b then Some v else None)"

fun based_val :: "int \<Rightarrow> int \<Rightarrow> jsstr \<Rightarrow> int option" where
  "based_val b acc [] = Some acc"
| "based_val b acc (c # s) =
     (case digit_in_base b c of None \<Rightarrow> None | Some v \<Rightarrow> based_val b (b * acc + v) s)"

definition base_of_prefix :: "jsstr \<Rightarrow> int option" where
  "base_of_prefix s = (case s of
      a # c # _ \<Rightarrow>
        if a \<noteq> 48 then None
        else if c = 120 \<or> c = 88 then Some 16
        else if c = 111 \<or> c = 79 then Some 8
        else if c = 98 \<or> c = 66 then Some 2
        else None
    | _ \<Rightarrow> None)"

definition js_number :: "jsstr \<Rightarrow> dbl" where
  "js_number s =
    (let t = trim s in
     if t = [] then Fin 0
     else case base_of_prefix t of
       Some b \<Rightarrow>
         (if drop 2 t = [] then NaN
          else case based_val b 0 (drop 2 t) of None \<Rightarrow> NaN | Some v \<Rightarrow> fl (of_int v))
     | None \<Rightarrow>
         (let neg = (hd t = 45); u = (if hd t = 45 \<or> hd t = 43 then tl t else t);
              d = (if u = js ''Infinity'' then Inf False
                   else case unsigned_decimal u of None \<Rightarrow> NaN | Some x \<Rightarrow> fl x)
          in if neg then dneg d else d))"

section \<open>Laws of rounding\<close>

lemma bitlen_bounds_rat:
  assumes "0 < n"
  shows "(2::rat) powi (bitlen n - 1) \<le> of_int n" and "of_int n < (2::rat) powi bitlen n"
proof -
  have b: "0 < bitlen n" using assms by (simp add: bitlen_def compute_floorlog)
  have "2 ^ nat (bitlen n - 1) \<le> n \<and> n < 2 ^ nat (bitlen n)"
    using bitlen_bounds [OF assms] .
  then have "(of_int (2 ^ nat (bitlen n - 1)) :: rat) \<le> of_int n"
    and "of_int n < (of_int (2 ^ nat (bitlen n)) :: rat)"
    by (simp_all only: of_int_le_iff of_int_less_iff)
  with b show "(2::rat) powi (bitlen n - 1) \<le> of_int n" and "of_int n < (2::rat) powi bitlen n"
    by (simp_all add: power_int_def)
qed

lemma ilog2_bounds:
  assumes "0 < x"
  shows "2 powi ilog2 x \<le> x" and "x < 2 powi (ilog2 x + 1)"
proof -
  obtain n d where q: "quotient_of x = (n, d)" by fastforce
  have d: "0 < d" using quotient_of_denom_pos [OF q] .
  have x: "x = of_int n / of_int d" using quotient_of_div [OF q] .
  then have n: "0 < n" using assms d by (simp add: zero_less_divide_iff)
  define k where "k = bitlen n - bitlen d"
  note bn = bitlen_bounds_rat [OF n] and bd = bitlen_bounds_rat [OF d]
  have "x < 2 powi bitlen n / 2 powi (bitlen d - 1)"
    unfolding x using bn bd d n by (intro frac_less) auto
  also have "\<dots> = 2 powi (k + 1)"
    by (simp add: k_def algebra_simps flip: power_int_diff)
  finally have up: "x < 2 powi (k + 1)" .
  have "2 powi (bitlen n - 1) / 2 powi bitlen d \<le> x"
    unfolding x using bn bd d n by (intro frac_le) auto
  then have lo: "2 powi (k - 1) \<le> x"
    by (simp add: k_def flip: power_int_diff) (simp add: algebra_simps)
  have "ilog2 x = (if 2 powi k \<le> x then k else k - 1)"
    by (simp add: ilog2_def q k_def)
  with up lo show "2 powi ilog2 x \<le> x" and "x < 2 powi (ilog2 x + 1)"
    by auto
qed

lemma round_even_error: "\<bar>of_int (round_even q) - q\<bar> \<le> 1 / 2"
proof -
  define f where "f = \<lfloor>q\<rfloor>"
  have "of_int f \<le> q" "q < of_int f + 1"
    unfolding f_def using floor_correct [of q] by auto
  then have "q - of_int f \<le> 1 / 2 \<Longrightarrow> \<bar>of_int f - q\<bar> \<le> 1 / 2"
    and "1 / 2 \<le> q - of_int f \<Longrightarrow> \<bar>of_int (f + 1) - q\<bar> \<le> 1 / 2"
    by (simp_all add: abs_if)
  then show ?thesis
    unfolding round_even_def Let_def f_def [symmetric] by (simp split: if_splits)
qed

lemma fl_pos_error:
  assumes "0 < x" and e: "- 1022 \<le> ilog2 x" "ilog2 x < 1023"
  shows "\<exists>y. fl_pos x = Fin y \<and> \<bar>y - x\<bar> \<le> x / 2 ^ 53"
proof -
  define k where "k = ilog2 x - 52"
  have fl: "fl_pos x = Fin (of_int (round_even (x / 2 powi k)) * 2 powi k)"
    using e by (simp add: fl_pos_def Let_def k_def)
  define q where "q = x / 2 powi k"
  have x: "x = q * 2 powi k" by (simp add: q_def)
  have "\<bar>of_int (round_even q) * 2 powi k - x\<bar> = \<bar>of_int (round_even q) - q\<bar> * 2 powi k"
    unfolding x by (simp add: abs_mult flip: left_diff_distrib)
  also have "\<dots> \<le> 1 / 2 * 2 powi k"
    using round_even_error [of q] by (intro mult_right_mono) auto
  also have "\<dots> = 2 powi ilog2 x / 2 ^ 53"
    by (simp add: k_def power_int_diff)
  also have "\<dots> \<le> x / 2 ^ 53"
    using ilog2_bounds [OF \<open>0 < x\<close>] by (simp add: divide_right_mono)
  finally show ?thesis using fl unfolding q_def by blast
qed

lemma powi_le_ilog2: "0 < x \<Longrightarrow> 2 powi a \<le> x \<Longrightarrow> a \<le> ilog2 x"
proof (rule ccontr)
  assume x: "0 < x" "2 powi a \<le> x" and "\<not> a \<le> ilog2 x"
  then have "ilog2 x + 1 \<le> a" by simp
  then have "(2::rat) powi (ilog2 x + 1) \<le> 2 powi a" by (rule power_int_increasing) simp
  with ilog2_bounds(2) [OF x(1)] x(2) show False by linarith
qed

lemma ilog2_less_powi: "0 < x \<Longrightarrow> x < 2 powi a \<Longrightarrow> ilog2 x < a"
proof (rule ccontr)
  assume x: "0 < x" "x < 2 powi a" and "\<not> ilog2 x < a"
  then have "a \<le> ilog2 x" by simp
  then have "(2::rat) powi a \<le> 2 powi ilog2 x" by (rule power_int_increasing) simp
  with ilog2_bounds(1) [OF x(1)] x(2) show False by linarith
qed

lemma fl_error:
  assumes "1 / 2 ^ 100 \<le> x" "x < 2 ^ 100"
  shows "\<exists>y. fl x = Fin y \<and> \<bar>y - x\<bar> \<le> x / 2 ^ 53"
proof -
  have x: "0 < x" using assms(1) by (rule less_le_trans [rotated]) simp
  have "(2::rat) powi (- 100) \<le> x" using assms(1) by (simp add: power_int_minus field_simps)
  then have lo: "- 100 \<le> ilog2 x" by (rule powi_le_ilog2 [OF x])
  have "x < (2::rat) powi 100" using assms(2) by simp
  then have hi: "ilog2 x < 100" by (rule ilog2_less_powi [OF x])
  have "fl x = fl_pos x" using x by (simp add: fl_def)
  then show ?thesis using fl_pos_error [OF x] lo hi by simp
qed

section \<open>What money arithmetic needs of rounding\<close>

locale rounding =
  fixes rnd :: "rat \<Rightarrow> dbl"
  assumes rnd_error: "1 / 2 ^ 100 \<le> x \<Longrightarrow> x < 2 ^ 100 \<Longrightarrow>
    \<exists>y. rnd x = Fin y \<and> \<bar>y - x\<bar> \<le> x / 2 ^ 53"
begin

text \<open>A positive count of cents survives the trip through a decimal number of units.\<close>

lemma cents_exact:
  assumes k: "0 < k" "k \<le> 2 ^ 50"
  shows "\<exists>v. rnd (of_int k / 100) = Fin v \<and> 0 < v \<and>
    (\<exists>w. rnd (v * 100) = Fin w \<and> \<lfloor>w + 1 / 2\<rfloor> = k)"
proof -
  define r :: rat where "r = of_int k"
  have r: "1 \<le> r" "r \<le> 2 ^ 50"
    using k by (simp_all add: r_def flip: of_int_power)
  obtain v where v: "rnd (r / 100) = Fin v" "\<bar>v - r / 100\<bar> \<le> r / 100 / 2 ^ 53"
    using rnd_error [of "r / 100"] r by (fastforce simp: field_simps)
  have vr: "\<bar>v * 100 - r\<bar> \<le> r / 2 ^ 53"
    using v(2) by (simp add: abs_if field_simps split: if_splits)
  then have v100: "r / 2 \<le> v * 100" "v * 100 \<le> 2 * r"
    using r by (simp_all add: abs_if field_simps split: if_splits)
  obtain w where w: "rnd (v * 100) = Fin w" "\<bar>w - v * 100\<bar> \<le> v * 100 / 2 ^ 53"
    using rnd_error [of "v * 100"] v100 r by fastforce
  have "\<bar>w - v * 100\<bar> \<le> 1 / 4"
    using w(2) v100(2) r(2) by (simp add: field_simps)
  moreover have "\<bar>v * 100 - r\<bar> < 1 / 4"
    using vr r(2) by (simp add: field_simps)
  ultimately have "\<bar>w - r\<bar> < 1 / 2" by linarith
  then have "\<lfloor>w + 1 / 2\<rfloor> = k"
    by (intro floor_unique) (simp_all add: r_def abs_if split: if_splits)
  moreover have "0 < v" using v100(1) r(1) by linarith
  ultimately show ?thesis using v(1) w(1) r_def by auto
qed

text \<open>Rounded ratios below the threshold stay below its rounding.\<close>

lemma ratio_separated:
  assumes x: "1 / 2 ^ 100 \<le> x" and y: "y \<le> 1" and gap: "x * (1 + 1 / 2 ^ 50) < y"
  shows "\<exists>a b. rnd x = Fin a \<and> rnd y = Fin b \<and> a < b"
proof -
  have xy: "x < y" "0 < x"
    using gap x by (auto simp: field_simps intro: less_le_trans [rotated])
  obtain a where a: "rnd x = Fin a" "\<bar>a - x\<bar> \<le> x / 2 ^ 53"
    using rnd_error [of x] x xy y by fastforce
  obtain b where b: "rnd y = Fin b" "\<bar>b - y\<bar> \<le> y / 2 ^ 53"
    using rnd_error [of y] x xy y by fastforce
  have "a \<le> x + x / 2 ^ 53" "y - y / 2 ^ 53 \<le> b" using a(2) b(2) by linarith+
  moreover have "x + x / 2 ^ 53 < y - y / 2 ^ 53"
    using gap xy by (simp add: field_simps)
  ultimately show ?thesis using a(1) b(1) by auto
qed

end

interpretation double: rounding fl
  by unfold_locales (rule fl_error)

text \<open>\<open>Math.round(value * 100)\<close> of a two-decimal value is the count of cents.\<close>

lemma round_cents:
  assumes "0 < k" "k \<le> 2 ^ 50"
  shows "\<exists>v. fl (of_int k / 100) = Fin v \<and> 0 < v \<and>
    math_round (dmul (Fin v) 100) = Fin (of_int k)"
  using double.cents_exact [OF assms] by auto

text \<open>Integers below \<open>2 ^ 53\<close> are represented exactly.\<close>

lemma round_even_of_int [simp]: "round_even (of_int k) = k"
  by (simp add: round_even_def)

lemma fl_of_nat:
  assumes "n < 2 ^ 53"
  shows "fl (of_nat n) = Fin (of_nat n)"
proof (cases "n = 0")
  case False
  define x :: rat where "x = of_nat n"
  define k where "k = ilog2 x - 52"
  have x: "0 < x" "1 \<le> x" using False by (simp_all add: x_def)
  have "x < 2 ^ 53" using assms unfolding x_def by (metis of_nat_less_iff of_nat_numeral of_nat_power)
  then have "ilog2 x < 53" using x(1) by (intro ilog2_less_powi) simp_all
  moreover have "0 \<le> ilog2 x" using x by (intro powi_le_ilog2) simp_all
  ultimately have k: "k \<le> 0" "- 1074 \<le> k" by (simp_all add: k_def)
  define j where "j = nat (- k)"
  have j: "k = - int j" using k(1) by (simp add: j_def)
  have "x / 2 powi k = of_int (int n * 2 ^ j)"
    by (simp add: x_def j power_int_minus field_simps)
  then have "round_even (x / 2 powi k) = int n * 2 ^ j" by (simp only: round_even_of_int)
  moreover have "max (ilog2 x - 52) (- 1074) = k" using k by (simp add: k_def)
  moreover have "of_int (int n * 2 ^ j) * 2 powi k = x"
    by (simp add: x_def j power_int_minus)
  ultimately have "fl_pos x = Fin x" using k by (simp add: fl_pos_def Let_def)
  then show ?thesis using x(1) by (simp add: fl_def x_def)
qed (simp add: fl_def)

end
