(* ===== verification/JsObject.thy ===== *)
theory JsObject
  imports JsNumber
begin

text \<open>
  Objects used as dictionaries (\<open>Record<string, T>\<close>): association lists in the order of
  \<open>Object.entries\<close>, which lists the integer-index keys in ascending order first and the
  other keys in order of insertion. Keys that name properties of \<open>Object.prototype\<close>
  (\<open>__proto__\<close>, \<open>constructor\<close>, ...) are outside the model. Also here: decimal printing of
  counts, as template literals do it.
\<close>

type_synonym 'v dict = "(jsstr \<times> 'v) list"

section \<open>Printing counts\<close>

fun show_nat :: "nat \<Rightarrow> jsstr" where
  "show_nat n = (if n < 10 then [48 + int n] else show_nat (n div 10) @ [48 + int (n mod 10)])"

declare show_nat.simps [simp del]

lemma show_nat_digits: "list_all is_digit (show_nat n) \<and> show_nat n \<noteq> []"
proof (induction n rule: show_nat.induct)
  case (1 n)
  show ?case
  proof (cases "n < 10")
    case True
    then show ?thesis by (subst (1 2) show_nat.simps) (simp add: is_digit_def)
  next
    case False
    moreover have "is_digit (48 + int (n mod 10))" by (simp add: is_digit_def)
    ultimately show ?thesis using "1.IH" by (subst (1 2) show_nat.simps) simp
  qed
qed

lemma dec_val_snoc [simp]: "dec_val (ds @ [c]) = 10 * dec_val ds + (c - 48)"
  by (simp add: dec_val_def)

lemma dec_val_Nil [simp]: "dec_val [] = 0"
  by (simp add: dec_val_def)

text \<open>Reading back a printed count.\<close>

lemma dec_val_show_nat [simp]: "dec_val (show_nat n) = int n"
proof (induction n rule: show_nat.induct)
  case (1 n)
  show ?case
  proof (cases "n < 10")
    case True
    then show ?thesis by (subst show_nat.simps) (simp add: dec_val_def)
  next
    case False
    moreover have "10 * int (n div 10) + int (n mod 10) = int n"
      by (simp flip: of_nat_mult of_nat_add add: zdiv_int zmod_int)
    ultimately show ?thesis using "1.IH" by (subst show_nat.simps) simp
  qed
qed

section \<open>Dictionaries\<close>

text \<open>Canonical array indices: decimal, no leading zero, below \<open>2^32 - 1\<close>.\<close>

definition is_index :: "jsstr \<Rightarrow> bool" where
  "is_index k \<longleftrightarrow> k \<noteq> [] \<and> list_all is_digit k \<and> (hd k = 48 \<longrightarrow> k = [48]) \<and> dec_val k < 2 ^ 32 - 1"

fun insert_index :: "jsstr \<Rightarrow> 'v \<Rightarrow> 'v dict \<Rightarrow> 'v dict" where
  "insert_index k v [] = [(k, v)]"
| "insert_index k v ((k', v') # d) =
     (if is_index k' \<and> dec_val k' < dec_val k then (k', v') # insert_index k v d
      else (k, v) # (k', v') # d)"

definition obj_set :: "jsstr \<Rightarrow> 'v \<Rightarrow> 'v dict \<Rightarrow> 'v dict" where
  "obj_set k v d =
    (if k \<in> fst ` set d then map (\<lambda>(k', v'). if k' = k then (k, v) else (k', v')) d
     else if is_index k then insert_index k v d
     else d @ [(k, v)])"

abbreviation obj_get :: "'v dict \<Rightarrow> jsstr \<Rightarrow> 'v option" where
  "obj_get d k \<equiv> map_of d k"

abbreviation obj_keys :: "'v dict \<Rightarrow> jsstr list" where
  "obj_keys d \<equiv> map fst d"

lemma map_of_update: "k \<in> fst ` set d \<Longrightarrow>
  map_of (map (\<lambda>(k', v'). if k' = k then (k, v) else (k', v')) d) = (map_of d)(k \<mapsto> v)"
proof (induction d)
  case (Cons x d)
  have "map_of (map (\<lambda>(k', v'). if k' = k then (k, v) else (k', v')) d) =
    (if k \<in> fst ` set d then (map_of d)(k \<mapsto> v) else map_of d)"
  proof (cases "k \<in> fst ` set d")
    case False
    then have "map (\<lambda>(k', v'). if k' = k then (k, v) else (k', v')) d = d"
      by (intro map_idI) force
    with False show ?thesis by simp
  next
    case True
    then show ?thesis using Cons.IH by (simp only: if_True)
  qed
  with Cons.prems show ?case by (cases x) (auto simp: fun_eq_iff)
qed simp

lemma map_of_insert_index: "k \<notin> fst ` set d \<Longrightarrow> map_of (insert_index k v d) = (map_of d)(k \<mapsto> v)"
  by (induction k v d rule: insert_index.induct) (auto simp: fun_eq_iff)

text \<open>Reading after writing.\<close>

lemma map_of_obj_set [simp]: "map_of (obj_set k v d) = (map_of d)(k \<mapsto> v)"
proof (cases "k \<in> fst ` set d")
  case False
  then have "map_of d k = None" by (simp add: map_of_eq_None_iff)
  then have "map_of (d @ [(k, v)]) = (map_of d)(k \<mapsto> v)"
    by (auto simp: fun_eq_iff map_add_def split: option.splits)
  with False show ?thesis by (simp add: obj_set_def map_of_insert_index)
qed (simp add: obj_set_def map_of_update)

lemma set_insert_index [simp]: "set (insert_index k v d) = insert (k, v) (set d)"
  by (induction k v d rule: insert_index.induct) auto

lemma distinct_insert_index:
  "k \<notin> fst ` set d \<Longrightarrow> distinct (map fst d) \<Longrightarrow> distinct (map fst (insert_index k v d))"
  by (induction k v d rule: insert_index.induct) auto

lemma distinct_obj_set: "distinct (map fst d) \<Longrightarrow> distinct (map fst (obj_set k v d))"
proof -
  have "map fst (map (\<lambda>(k', v'). if k' = k then (k, v) else (k', v')) d) = map fst d"
    by (induction d) auto
  moreover assume "distinct (map fst d)"
  ultimately show ?thesis
    by (simp add: obj_set_def distinct_insert_index del: map_map)
qed

section \<open>Reading decimal text\<close>

lemma is_digit_not_space: "is_digit c \<Longrightarrow> \<not> is_space c"
  by (auto simp: is_digit_def is_space_def space_ranges_def in_ranges_def)

lemma digits_of_append:
  "list_all is_digit w \<Longrightarrow> s = [] \<or> \<not> is_digit (hd s) \<Longrightarrow> digits_of (w @ s) = (w, s)"
  by (cases s) (auto simp: digits_of_def list_all_iff takeWhile_append dropWhile_append)

lemma unsigned_decimal_fraction:
  assumes "list_all is_digit D" "D \<noteq> []" "list_all is_digit f"
  shows "unsigned_decimal (D @ 46 # f) = Some (of_int (dec_val (D @ f)) / 10 ^ length f)"
proof -
  have "digits_of (D @ 46 # f) = (D, 46 # f)"
    using assms by (intro digits_of_append) (auto simp: is_digit_def)
  moreover have "digits_of f = (f, [])"
    using digits_of_append [of f "[]"] assms(3) by simp
  ultimately show ?thesis
    using assms(2) by (simp add: unsigned_decimal_def exponent_part_def power_int_minus field_simps)
qed

lemma js_number_fraction:
  assumes D: "list_all is_digit D" "D \<noteq> []" and f: "list_all is_digit f" "f \<noteq> []"
  shows "js_number (D @ 46 # f) = fl (of_int (dec_val (D @ f)) / 10 ^ length f)"
proof -
  obtain a D' where D': "D = a # D'" using D(2) by (cases D) auto
  have a: "is_digit a" using D D' by simp
  have "trim (D @ 46 # f) = D @ 46 # f"
  proof (rule trim_id)
    show "\<not> is_space (hd (D @ 46 # f))" using D' a by (simp add: is_digit_not_space)
    have "last (D @ 46 # f) \<in> set f" using f(2) by simp
    then show "\<not> is_space (last (D @ 46 # f))" using f(1) by (auto simp: list_all_iff is_digit_not_space)
  qed simp
  moreover have "base_of_prefix (D @ 46 # f) = None"
  proof -
    have "\<exists>c r. D @ 46 # f = a # c # r \<and> (c = 46 \<or> is_digit c)"
      using D D' by (cases D') auto
    then show ?thesis by (auto simp: base_of_prefix_def is_digit_def)
  qed
  moreover have "a \<noteq> 45" "a \<noteq> 43" "D @ 46 # f \<noteq> js ''Infinity''"
    using a D' by (auto simp: is_digit_def js_def)
  ultimately show ?thesis
    using D' unsigned_decimal_fraction [OF D f(1)] by (simp add: js_number_def)
qed

lemma js_number_digits:
  assumes D: "list_all is_digit D" "D \<noteq> []"
  shows "js_number D = fl (of_int (dec_val D))"
proof -
  obtain a D' where D': "D = a # D'" using D(2) by (cases D) auto
  have a: "is_digit a" using D D' by simp
  have "trim D = D"
    using D D' by (intro trim_id) (auto simp: is_digit_not_space list_all_iff)
  moreover have "base_of_prefix D = None"
    using D D' by (cases D') (auto simp: base_of_prefix_def is_digit_def)
  moreover have "a \<noteq> 45" "a \<noteq> 43" "D \<noteq> js ''Infinity''"
    using a D' by (auto simp: is_digit_def js_def)
  moreover have "unsigned_decimal D = Some (of_int (dec_val D))"
    using digits_of_append [OF D(1), of "[]"] D(2)
    by (simp add: unsigned_decimal_def exponent_part_def)
  ultimately show ?thesis using D' by (simp add: js_number_def)
qed

text \<open>\<open>Number\<close> reads back a printed count.\<close>

lemma js_number_show_nat: "n < 2 ^ 53 \<Longrightarrow> js_number (show_nat n) = Fin (of_nat n)"
  using show_nat_digits [of n] by (simp add: js_number_digits fl_of_nat)

end
