(* ===== verification/Platform.thy ===== *)
theory Platform
  imports JsObject
begin

text \<open>
  What the program takes from outside its sources and that is not an interaction: the
  Unicode character database behind \<open>toLowerCase\<close>, \<open>toUpperCase\<close> and
  \<open>normalize("NFKC")\<close>, SHA-256 of \<open>node:crypto\<close> (a function of bytes), the WHATWG URL parser behind \<open>new URL\<close>
  \<open>isIP\<close> of \<open>node:net\<close> and the working directory. They are the fields of a record that every definition using
  them takes as an argument. \<open>unicode_ok\<close> states what the Unicode standard says of these
  functions on ASCII text.
\<close>

section \<open>URL objects\<close>

text \<open>
  The properties of a URL object the sources read. The serialisation is kept as the part
  before the fragment and the fragment, because \<open>url.hash = ""\<close> drops the latter.
\<close>

record url =
  url_protocol :: jsstr
  url_username :: jsstr
  url_password :: jsstr
  url_hostname :: jsstr
  url_port :: jsstr
  url_origin :: jsstr
  url_base :: jsstr
  url_fragment :: "jsstr option"

definition url_href :: "url \<Rightarrow> jsstr" where
  "url_href u = url_base u @ (case url_fragment u of None \<Rightarrow> [] | Some f \<Rightarrow> 35 # f)"

record platform =
  to_lower :: "jsstr \<Rightarrow> jsstr"
  to_upper :: "jsstr \<Rightarrow> jsstr"
  nfkc :: "jsstr \<Rightarrow> jsstr"
  sha256_hex :: "int list \<Rightarrow> jsstr"
  url_parse :: "jsstr \<Rightarrow> url option"
  is_ip :: "jsstr \<Rightarrow> nat"
  cwd :: jsstr

abbreviation ascii :: "jsstr \<Rightarrow> bool" where
  "ascii s \<equiv> list_all is_ascii s"

definition unicode_ok :: "('a platform_scheme) \<Rightarrow> bool" where
  "unicode_ok P \<longleftrightarrow>
    (\<forall>s. ascii s \<longrightarrow> to_lower P s = map lower_unit s) \<and>
    (\<forall>s. ascii s \<longrightarrow> to_upper P s = map upper_unit s) \<and>
    (\<forall>s. ascii s \<longrightarrow> nfkc P s = s)"

lemma unicode_okD:
  assumes "unicode_ok P" "ascii s"
  shows "to_lower P s = map lower_unit s" "to_upper P s = map upper_unit s" "nfkc P s = s"
  using assms by (auto simp: unicode_ok_def)

lemma is_ascii_lower_unit [simp]: "is_ascii (lower_unit c) = is_ascii c"
  by (auto simp: is_ascii_def lower_unit_def is_ascii_upper_def)

lemma ascii_map_lower [simp]: "ascii (map lower_unit s) = ascii s"
  by (induction s) auto

section \<open>A concrete platform\<close>

text \<open>
  An instance for evaluation: case mapping on ASCII only, the identity as digest, and a
  parser for URLs of the form \<open>scheme://host[:port][/path][#fragment]\<close> with nothing to
  normalise. It satisfies \<open>unicode_ok\<close>.
\<close>

definition simple_url :: "jsstr \<Rightarrow> url option" where
  "simple_url s =
    (let sch = takeWhile (\<lambda>c. c \<noteq> 58) s; r = drop (length sch + 3) s;
         beforefrag = takeWhile (\<lambda>c. c \<noteq> 35) s;
         auth = takeWhile (\<lambda>c. c \<noteq> 47 \<and> c \<noteq> 35) r;
         host = takeWhile (\<lambda>c. c \<noteq> 58) auth;
         frag = drop (length beforefrag) s
     in if take 3 (drop (length sch) s) \<noteq> js ''://'' \<or> host = [] then None
        else Some \<lparr>url_protocol = sch @ [58], url_username = [], url_password = [],
          url_hostname = host, url_port = drop (Suc (length host)) auth,
          url_origin = sch @ js ''://'' @ auth, url_base = beforefrag,
          url_fragment = (case frag of [] \<Rightarrow> None | _ # f \<Rightarrow> Some f)\<rparr>)"

definition ascii_platform :: platform where
  "ascii_platform = \<lparr>to_lower = map lower_unit, to_upper = map upper_unit, nfkc = id,
     sha256_hex = id, url_parse = simple_url,
     is_ip = (\<lambda>s. if list_all (\<lambda>c. is_digit c \<or> c = 46) s \<and> length (split_on 46 s) = 4 then 4 else 0),
     cwd = js ''/app''\<rparr>"

lemma unicode_ok_ascii_platform [simp]: "unicode_ok ascii_platform"
  by (simp add: unicode_ok_def ascii_platform_def)

end
