(* ===== verification/Contracts.thy ===== *)
theory Contracts
  imports Platform
begin

text \<open>
  The data contracts of the worker (\<open>worker/src/contracts.ts\<close>): supported currencies, cached
  actions, extraction strategies, monitor plans, conditions, execution inputs,
  observations, artifacts and execution results, with the refinements the zod schemas put
  on them as bool-valued predicates; and the errors the worker throws.
\<close>

section \<open>Errors\<close>

text \<open>
  What code outside the sources may throw: an \<open>Error\<close> with a message, or another value,
  of which the program only ever uses \<open>String(value)\<close>.
\<close>

datatype thrown = ExtError jsstr | ExtValue jsstr

datatype reason = IdentityDrift | AmbiguousValue

datatype exn =
    ValidationError jsstr reason
  | SafetyError jsstr
  | StaleActionError jsstr
  | PlainError jsstr
  | External thrown

text \<open>\<open>error instanceof Error ? error.message : String(error)\<close>.\<close>

fun errorMessage :: "exn \<Rightarrow> jsstr" where
  "errorMessage (ValidationError m r) = m"
| "errorMessage (SafetyError m) = m"
| "errorMessage (StaleActionError m) = m"
| "errorMessage (PlainError m) = m"
| "errorMessage (External (ExtError m)) = m"
| "errorMessage (External (ExtValue m)) = m"

section \<open>Currencies, actions, strategies\<close>

datatype SupportedCurrency = USD | CAD | EUR | GBP | AUD

fun currency_code :: "SupportedCurrency \<Rightarrow> jsstr" where
  "currency_code USD = js ''USD''"
| "currency_code CAD = js ''CAD''"
| "currency_code EUR = js ''EUR''"
| "currency_code GBP = js ''GBP''"
| "currency_code AUD = js ''AUD''"

definition all_currencies :: "SupportedCurrency list" where
  "all_currencies = [USD, CAD, EUR, GBP, AUD]"

lemma set_all_currencies [simp]: "set all_currencies = UNIV"
  by (auto simp: all_currencies_def intro: SupportedCurrency.exhaust)

text \<open>\<open>supportedCurrencySchema\<close> on a string, and membership in \<open>supportedCurrencies\<close>.\<close>

definition currency_of_code :: "jsstr \<Rightarrow> SupportedCurrency option" where
  "currency_of_code s = find (\<lambda>c. currency_code c = s) all_currencies"

lemma currency_code_inject [simp]: "currency_code a = currency_code b \<longleftrightarrow> a = b"
  by (cases a; cases b) (simp_all add: js_def)

lemma currency_of_code_code [simp]: "currency_of_code (currency_code c) = Some c"
  by (cases c) (simp_all add: currency_of_code_def all_currencies_def js_def)

lemma currency_of_code_Some [simp]: "currency_of_code s = Some c \<longleftrightarrow> s = currency_code c"
proof
  assume "currency_of_code s = Some c"
  then show "s = currency_code c"
    by (auto simp: currency_of_code_def find_Some_iff)
qed simp

record CachedAction =
  act_selector :: jsstr
  act_description :: jsstr
  act_method :: "jsstr option"
  act_arguments :: "jsstr list option"

definition actionSchema :: "CachedAction \<Rightarrow> bool" where
  "actionSchema a \<longleftrightarrow> act_selector a \<noteq> [] \<and> act_description a \<noteq> []"

datatype ld_field = FTitle | FSku | FPrice | FCurrency | FAvailability

fun ld_field_name :: "ld_field \<Rightarrow> jsstr" where
  "ld_field_name FTitle = js ''title''"
| "ld_field_name FSku = js ''sku''"
| "ld_field_name FPrice = js ''price''"
| "ld_field_name FCurrency = js ''currency''"
| "ld_field_name FAvailability = js ''availability''"

datatype ExtractionStrategy =
    XpathText jsstr "jsstr option"
  | InputValue jsstr "jsstr option"
  | JsonLd ld_field

fun extractionStrategySchema :: "ExtractionStrategy \<Rightarrow> bool" where
  "extractionStrategySchema (XpathText sel a) = starts_with sel (js ''xpath='')"
| "extractionStrategySchema (InputValue sel a) = starts_with sel (js ''xpath='')"
| "extractionStrategySchema (JsonLd f) = True"

text \<open>\<open>"attribute" in strategy ? strategy.attribute : undefined\<close>.\<close>

fun strategy_attribute :: "ExtractionStrategy \<Rightarrow> jsstr option" where
  "strategy_attribute (XpathText sel a) = a"
| "strategy_attribute (InputValue sel a) = a"
| "strategy_attribute (JsonLd f) = None"

definition strategyList :: "ExtractionStrategy list \<Rightarrow> bool" where
  "strategyList ss \<longleftrightarrow> ss \<noteq> [] \<and> list_all extractionStrategySchema ss"

section \<open>Monitor plans\<close>

record plan_identity =
  id_title :: jsstr
  id_brand :: "jsstr option"
  id_sku :: "jsstr option"
  id_fingerprint :: jsstr
  id_requestedVariant :: "jsstr dict"

datatype purpose = Consent | Variant | Expand

record prep_step =
  step_purpose :: purpose
  step_instruction :: jsstr
  step_action :: CachedAction

record plan_extractors =
  ex_title :: "ExtractionStrategy list"
  ex_price :: "ExtractionStrategy list"
  ex_currency :: "ExtractionStrategy list option"
  ex_availability :: "ExtractionStrategy list"
  ex_selectedVariant :: "ExtractionStrategy list"
  ex_sku :: "ExtractionStrategy list option"

record MonitorPlanV1 =
  plan_schemaVersion :: int
  plan_stagehandVersion :: jsstr
  plan_canonicalUrl :: jsstr
  plan_ident :: plan_identity
  plan_preparationSteps :: "prep_step list"
  plan_extractors :: plan_extractors
  plan_expectedCurrency :: SupportedCurrency
  plan_validatorVersion :: int

text \<open>
  \<open>monitorPlanV1Schema\<close> on typed data: the refinements beyond the types. \<open>is_url\<close> stands
  for zod's check of \<open>z.string().url()\<close>.
\<close>

definition optional_list :: "ExtractionStrategy list option \<Rightarrow> bool" where
  "optional_list ss \<longleftrightarrow> (case ss of None \<Rightarrow> True | Some xs \<Rightarrow> strategyList xs)"

definition monitorPlanV1Schema :: "(jsstr \<Rightarrow> bool) \<Rightarrow> MonitorPlanV1 \<Rightarrow> bool" where
  "monitorPlanV1Schema is_url p \<longleftrightarrow>
    plan_schemaVersion p = 1 \<and>
    plan_stagehandVersion p = js ''3.7.0'' \<and>
    is_url (plan_canonicalUrl p) \<and>
    id_title (plan_ident p) \<noteq> [] \<and>
    8 \<le> length (id_fingerprint (plan_ident p)) \<and>
    list_all (\<lambda>st. step_instruction st \<noteq> [] \<and> actionSchema (step_action st)) (plan_preparationSteps p) \<and>
    strategyList (ex_title (plan_extractors p)) \<and>
    strategyList (ex_price (plan_extractors p)) \<and>
    optional_list (ex_currency (plan_extractors p)) \<and>
    strategyList (ex_availability (plan_extractors p)) \<and>
    list_all extractionStrategySchema (ex_selectedVariant (plan_extractors p)) \<and>
    optional_list (ex_sku (plan_extractors p)) \<and>
    plan_validatorVersion p = 1"

section \<open>Execution inputs\<close>

record MonitorCondition =
  cond_maxPriceMinor :: "int option"
  cond_priceBelowMinor :: "int option"
  cond_currency :: "SupportedCurrency option"
  cond_requireInStock :: bool
  cond_requestedVariant :: "jsstr dict"

definition monitorConditionSchema :: "MonitorCondition \<Rightarrow> bool" where
  "monitorConditionSchema c \<longleftrightarrow>
    (case cond_maxPriceMinor c of None \<Rightarrow> True | Some n \<Rightarrow> 0 < n) \<and>
    (case cond_priceBelowMinor c of None \<Rightarrow> True | Some n \<Rightarrow> 0 < n)"

datatype execution_kind = Compile | Check | Repair

datatype execution_state = Queued | Running | Succeeded | Failed | Blocked | NeedsReview

datatype compiler_mode = Auto | Scripted | Live

record execution_job =
  job_id :: jsstr
  job_kind :: execution_kind
  job_state :: execution_state
  job_attempt :: int
  job_failedGeneration :: "int option"

record monitor_ref =
  mon_id :: jsstr
  mon_url :: jsstr
  mon_intent :: jsstr
  mon_condition :: "MonitorCondition option"

record revision_ref =
  rev_id :: "jsstr option"
  rev_generation :: int
  rev_plan :: MonitorPlanV1

record ExecutionInput =
  in_execution :: execution_job
  in_monitor :: monitor_ref
  in_revision :: "revision_ref option"
  in_compilerMode :: compiler_mode

definition executionInputSchema :: "(jsstr \<Rightarrow> bool) \<Rightarrow> ExecutionInput \<Rightarrow> bool" where
  "executionInputSchema is_url i \<longleftrightarrow>
    job_id (in_execution i) \<noteq> [] \<and>
    0 < job_attempt (in_execution i) \<and>
    (case job_failedGeneration (in_execution i) of None \<Rightarrow> True | Some n \<Rightarrow> 0 \<le> n) \<and>
    mon_id (in_monitor i) \<noteq> [] \<and>
    is_url (mon_url (in_monitor i)) \<and>
    mon_intent (in_monitor i) \<noteq> [] \<and>
    (case mon_condition (in_monitor i) of None \<Rightarrow> True | Some c \<Rightarrow> monitorConditionSchema c) \<and>
    (case in_revision i of None \<Rightarrow> True
     | Some r \<Rightarrow> 0 \<le> rev_generation r \<and> monitorPlanV1Schema is_url (rev_plan r))"

section \<open>Observations and results\<close>

record Observation =
  obs_title :: jsstr
  obs_sku :: "jsstr option"
  obs_priceMinor :: dbl
  obs_currency :: SupportedCurrency
  obs_inStock :: bool
  obs_availabilityRaw :: jsstr
  obs_selectedVariant :: "jsstr dict"
  obs_rawPrice :: jsstr
  obs_identityFingerprint :: jsstr

datatype artifact_kind = Screenshot | Snapshot

datatype content_type = ImagePng | TextPlain

record ArtifactRef =
  art_kind :: artifact_kind
  art_storageKey :: jsstr
  art_contentType :: content_type
  art_sizeBytes :: nat
  art_sha256 :: jsstr

datatype FailureClassification =
    transient_infrastructure
  | blocked
  | rate_limited
  | stale_action
  | stale_extractor
  | identity_drift
  | ambiguous_value
  | invalid_input

datatype result_status = RSucceeded | RFailed | RNeedsReview

datatype browser_provider = LOCAL | BROWSERBASE

datatype cache_status = HIT | MISS

datatype repair_source = ScriptedSource | StagehandSource

record failure =
  fail_classification :: FailureClassification
  fail_message :: jsstr

text \<open>\<open>timingsMs\<close> is a dictionary of rounded milliseconds.\<close>

record ExecutionResult =
  res_status :: result_status
  res_kind :: execution_kind
  res_executionId :: jsstr
  res_monitorId :: jsstr
  res_generation :: "int option"
  res_candidatePlan :: "MonitorPlanV1 option"
  res_observation :: "Observation option"
  res_artifacts :: "ArtifactRef list"
  res_modelCallCount :: int
  res_browserProvider :: browser_provider
  res_browserbaseSessionId :: "jsstr option"
  res_traceId :: "jsstr option"
  res_cacheStatus :: "cache_status option"
  res_repairSource :: "repair_source option"
  res_requiresConfirmation :: "bool option"
  res_failure :: "failure option"
  res_timingsMs :: "dbl dict"

end
