(* ===== verification/Json.thy ===== *)
theory Json
  imports JsObject
begin

text \<open>
  JSON values, \<open>JSON.parse\<close> and the conversions to strings that the sources apply to parsed
  values: \<open>String(value)\<close>, with the shortest decimal of a number that reads back as it.
\<close>

section \<open>Values\<close>

datatype json =
    JNull
  | JBool bool
  | JNum dbl
  | JStr jsstr
  | JArr "json list"
  | JObj "(jsstr \<times> json) list"

section \<open>JSON.parse\<close>

fun skip_ws :: "jsstr \<Rightarrow> jsstr" where
  "skip_ws s = dropWhile (\<lambda>c. c = 32 \<or> c = 9 \<or> c = 10 \<or> c = 13) s"

fun hex4 :: "jsstr \<Rightarrow> int option" where
  "hex4 [a, b, c, d] = based_val 16 0 [a, b, c, d]"
| "hex4 _ = None"

definition simple_escape :: "code_unit \<Rightarrow> code_unit option" where
  "simple_escape c =
     (if c = 34 \<or> c = 92 \<or> c = 47 then Some c
      else if c = 98 then Some 8 else if c = 102 then Some 12 else if c = 110 then Some 10
      else if c = 114 then Some 13 else if c = 116 then Some 9 else None)"

text \<open>The body of a string after its opening quote.\<close>

fun json_string :: "jsstr \<Rightarrow> (jsstr \<times> jsstr) option" where
  "json_string [] = None"
| "json_string (c # s) =
    (if c = 34 then Some ([], s)
     else if c = 92 then
       (case s of
          [] \<Rightarrow> None
        | e # r \<Rightarrow>
            if e = 117 then
              (case hex4 (take 4 r) of
                 None \<Rightarrow> None
               | Some u \<Rightarrow>
                   (case json_string (drop 4 r) of None \<Rightarrow> None | Some (t, q) \<Rightarrow> Some (u # t, q)))
            else
              (case simple_escape e of
                 None \<Rightarrow> None
               | Some u \<Rightarrow>
                   (case json_string r of None \<Rightarrow> None | Some (t, q) \<Rightarrow> Some (u # t, q))))
     else if c < 32 then None
     else (case json_string s of None \<Rightarrow> None | Some (t, q) \<Rightarrow> Some (c # t, q)))"

text \<open>The longest prefix that is a JSON number, as its sign, digits, fraction and exponent.\<close>

definition json_frac :: "jsstr \<Rightarrow> (jsstr \<times> jsstr) option" where
  "json_frac s = (case s of
      c # r \<Rightarrow>
        if c = 46 then
          (if takeWhile is_digit r = [] then None else Some (46 # takeWhile is_digit r, dropWhile is_digit r))
        else Some ([], s)
    | [] \<Rightarrow> Some ([], []))"

definition json_exp :: "jsstr \<Rightarrow> (jsstr \<times> jsstr) option" where
  "json_exp s = (case s of
      c # r \<Rightarrow>
        if c = 101 \<or> c = 69 then
          (let sg = (case r of d # _ \<Rightarrow> if d = 43 \<or> d = 45 then [d] else [] | [] \<Rightarrow> []);
               q = drop (length sg) r
           in if takeWhile is_digit q = [] then None
              else Some (c # sg @ takeWhile is_digit q, dropWhile is_digit q))
        else Some ([], s)
    | [] \<Rightarrow> Some ([], []))"

definition json_number :: "jsstr \<Rightarrow> (json \<times> jsstr) option" where
  "json_number s =
    (let sg = (case s of c # _ \<Rightarrow> if c = 45 then [c] else [] | [] \<Rightarrow> []);
         r = drop (length sg) s;
         ds = (case r of c # _ \<Rightarrow> if c = 48 then [c] else takeWhile is_digit r | [] \<Rightarrow> [])
     in if ds = [] then None
        else Option.bind (json_frac (drop (length ds) r)) (\<lambda>(f, r1).
             Option.bind (json_exp r1) (\<lambda>(e, r2).
             Some (JNum (js_number (sg @ ds @ f @ e)), r2))))"

text \<open>
  Values, the elements of an array after \<open>[\<close> and the members of an object after \<open>{\<close>. Each
  value takes at least one unit; the tests of the lengths say so to the termination check
  and are never false.
\<close>

fun json_value :: "jsstr \<Rightarrow> (json \<times> jsstr) option"
  and json_elems :: "jsstr \<Rightarrow> (json list \<times> jsstr) option"
  and json_members :: "json dict \<Rightarrow> jsstr \<Rightarrow> (json dict \<times> jsstr) option" where
  "json_value s0 =
    (case skip_ws s0 of
       [] \<Rightarrow> None
     | c # s \<Rightarrow>
        if length s \<ge> length s0 then None
        else if c = 34 then map_option (\<lambda>(t, r). (JStr t, r)) (json_string s)
        else if c = 91 then
          (case skip_ws s of
             d # r \<Rightarrow> if d = 93 then Some (JArr [], r)
                       else map_option (\<lambda>(vs, q). (JArr vs, q)) (json_elems s)
           | [] \<Rightarrow> None)
        else if c = 123 then
          (case skip_ws s of
             d # r \<Rightarrow> if d = 125 then Some (JObj [], r)
                       else map_option (\<lambda>(d, q). (JObj d, q)) (json_members [] s)
           | [] \<Rightarrow> None)
        else if starts_with (c # s) (js ''null'') then Some (JNull, drop 3 s)
        else if starts_with (c # s) (js ''true'') then Some (JBool True, drop 3 s)
        else if starts_with (c # s) (js ''false'') then Some (JBool False, drop 4 s)
        else json_number (c # s))"
| "json_elems s =
    (case json_value s of
       None \<Rightarrow> None
     | Some (v, r) \<Rightarrow>
        (case skip_ws r of
           c # q \<Rightarrow>
             if c = 93 then Some ([v], q)
             else if c = 44 \<and> length q < length s then
               map_option (\<lambda>(vs, q'). (v # vs, q')) (json_elems q)
             else None
         | [] \<Rightarrow> None))"
| "json_members d s =
    (case skip_ws s of
       c # s1 \<Rightarrow>
         if c \<noteq> 34 then None
         else
          (case json_string s1 of
             None \<Rightarrow> None
           | Some (k, s2) \<Rightarrow>
              (case skip_ws s2 of
                 c2 # s3 \<Rightarrow>
                   if c2 \<noteq> 58 \<or> length s3 \<ge> length s then None
                   else
                    (case json_value s3 of
                       None \<Rightarrow> None
                     | Some (v, r) \<Rightarrow>
                        (case skip_ws r of
                           c4 # q \<Rightarrow>
                             if c4 = 125 then Some (obj_set k v d, q)
                             else if c4 = 44 \<and> length q < length s then json_members (obj_set k v d) q
                             else None
                         | [] \<Rightarrow> None))
               | [] \<Rightarrow> None))
     | [] \<Rightarrow> None)"

definition json_parse :: "jsstr \<Rightarrow> json option" where
  "json_parse s =
    (case json_value s of Some (v, r) \<Rightarrow> if skip_ws r = [] then Some v else None | None \<Rightarrow> None)"

section \<open>Number to string\<close>

text \<open>Decimal digits of a non-negative integer.\<close>

function show_int :: "int \<Rightarrow> jsstr" where
  "show_int n = (if n < 10 then [48 + n] else show_int (n div 10) @ [48 + n mod 10])"
  by pat_completeness auto
termination
  by (relation "measure nat") auto

declare show_int.simps [simp del]

lemma show_int_nat: "show_int (int n) = show_nat n"
proof (induction n rule: show_nat.induct)
  case (1 n)
  show ?case
  proof (cases "n < 10")
    case True
    then show ?thesis by (simp add: show_int.simps [of "int n"] show_nat.simps [of n])
  next
    case False
    then show ?thesis
      using 1 by (simp add: show_int.simps [of "int n"] show_nat.simps [of n] zdiv_int zmod_int)
  qed
qed

text \<open>Decimal digits of an integer in a template literal.\<close>

definition show_number :: "int \<Rightarrow> jsstr" where
  "show_number n = (if n < 0 then 45 # show_int (- n) else show_int n)"

text \<open>The \<open>n\<close> with \<open>10 ^ (n - 1) \<le> x < 10 ^ n\<close>, for a positive \<open>x\<close> of the double range.\<close>

definition dec_exponent :: "rat \<Rightarrow> int" where
  "dec_exponent x =
     (if 1 \<le> x then int (length (show_int \<lfloor>x\<rfloor>))
      else case find (\<lambda>m. 1 \<le> x * 10 ^ Suc m) [0..<330] of Some m \<Rightarrow> - int m | None \<Rightarrow> - 330)"

text \<open>
  The shortest decimal that rounds to \<open>x\<close>: its digits and the position of its point. For each
  number of digits the two neighbours of \<open>x\<close> are tried, nearest first; a number just below a
  power of ten may be written as that power.
\<close>

definition decimal_candidate :: "rat \<Rightarrow> int \<Rightarrow> nat \<Rightarrow> (int \<times> int) option" where
  "decimal_candidate x n k =
    (let q = x / 10 powi (n - int k); lo = \<lfloor>q\<rfloor>; hi = lo + 1;
         order = (if q - of_int lo \<le> of_int hi - q then [lo, hi] else [hi, lo])
     in map_option (\<lambda>s. (s, n))
       (find (\<lambda>s. 10 ^ (k - 1) \<le> s \<and> s < 10 ^ k \<and> fl (of_int s * 10 powi (n - int k)) = Fin x) order))"

fun shortest_from :: "rat \<Rightarrow> int \<Rightarrow> nat list \<Rightarrow> jsstr \<times> int" where
  "shortest_from x n [] = ([], n)"
| "shortest_from x n (k # ks) =
     (case decimal_candidate x n k of
        Some (s, m) \<Rightarrow> (show_int s, m)
      | None \<Rightarrow>
         (case decimal_candidate x (n + 1) k of
            Some (s, m) \<Rightarrow> (show_int s, m)
          | None \<Rightarrow> shortest_from x n ks))"

definition show_exponent :: "int \<Rightarrow> jsstr" where
  "show_exponent e = 101 # (if e < 0 then 45 else 43) # show_int \<bar>e\<bar>"

definition show_pos :: "rat \<Rightarrow> jsstr" where
  "show_pos x =
    (let (ds, n) = shortest_from x (dec_exponent x) [1..<18]; k = int (length ds)
     in if k \<le> n \<and> n \<le> 21 then ds @ replicate (nat (n - k)) 48
        else if 0 < n \<and> n \<le> 21 then take (nat n) ds @ 46 # drop (nat n) ds
        else if - 6 < n \<and> n \<le> 0 then 48 # 46 # replicate (nat (- n)) 48 @ ds
        else if k = 1 then ds @ show_exponent (n - 1)
        else take 1 ds @ 46 # drop 1 ds @ show_exponent (n - 1))"

fun show_dbl :: "dbl \<Rightarrow> jsstr" where
  "show_dbl NaN = js ''NaN''"
| "show_dbl (Inf s) = (if s then js ''-Infinity'' else js ''Infinity'')"
| "show_dbl (Fin x) = (if x = 0 then js ''0'' else if x < 0 then 45 # show_pos (- x) else show_pos x)"

text \<open>\<open>String(value)\<close>.\<close>

fun json_to_string :: "json \<Rightarrow> jsstr" where
  "json_to_string JNull = js ''null''"
| "json_to_string (JBool b) = (if b then js ''true'' else js ''false'')"
| "json_to_string (JNum x) = show_dbl x"
| "json_to_string (JStr s) = s"
| "json_to_string (JArr vs) =
     join [44] (map (\<lambda>v. if v = JNull then [] else json_to_string v) vs)"
| "json_to_string (JObj d) = js ''[object Object]''"

text \<open>
  Whether a parsed value has a string at all: an object with a member of its own called
  \<open>toString\<close> has not, and the conversion throws \<open>no_primitive\<close>.
\<close>

fun has_string :: "json \<Rightarrow> bool" where
  "has_string (JArr vs) = list_all has_string vs"
| "has_string (JObj d) = (map_of d (js ''toString'') = None)"
| "has_string JNull = True"
| "has_string (JBool b) = True"
| "has_string (JNum x) = True"
| "has_string (JStr s) = True"

definition no_primitive :: jsstr where
  "no_primitive = js ''Cannot convert object to primitive value''"

lemma json_examples:
  "json_parse (js ''{\"a\": [1, true, null], \"b\":\"x\"}'') =
     Some (JObj [(js ''a'', JArr [JNum (Fin 1), JBool True, JNull]), (js ''b'', JStr (js ''x''))])"
  "json_parse (js ''[1,]'') = None"
  "json_to_string (JArr [JNull, JNum (Fin 12), JStr (js ''b'')]) = js '',12,b''"
  by code_simp+

end
