(* ===== verification/Effects.thy ===== *)
theory Effects
  imports Contracts Json
begin

text \<open>
  The interactions of the worker with the outside: DNS, the browser session behind
  Stagehand, the language model, the file system, the clock and the abort signal. A
  program is a function from a world to a result and a world, where the world records the
  calls made so far and the timings the job has measured. What the outside answers is a
  record of functions of that record of calls (\<open>env\<close>), so every possible behaviour of the
  environment, failures included, is some \<open>env\<close>; theorems quantify over it. Also part of it
  are HTTP requests to the control plane, the settlement of a queue message and the NATS
  consumer manager, and, of libraries, the check of \<open>z.string().url()\<close> and the messages of the
  errors that zod and \<open>JSON.parse\<close> throw.

  Between two calls nothing outside is consulted and no other job of the event loop runs,
  so a synchronous reading (the abort flag) depends on the calls alone, as in the
  single-threaded runtime.

  \<open>emits Q m\<close> says that \<open>m\<close> only adds calls satisfying \<open>Q\<close>; its rules give frame and safety
  properties of composed programs.
\<close>

section \<open>Calls and answers\<close>

datatype session = MainRun | ValidatorRun

text \<open>The result object of \<open>stagehand.act\<close>.\<close>

record act_result =
  ar_success :: bool
  ar_message :: jsstr
  ar_actions :: "CachedAction list"

text \<open>What \<open>page.snapshot()\<close> returns.\<close>

record page_snapshot =
  snap_formattedTree :: jsstr
  snap_xpathMap :: "jsstr dict"

text \<open>What \<open>stagehand.extract\<close> returns for the schema of the live compiler.\<close>

record semantic_product =
  sem_title :: jsstr
  sem_currentPriceText :: jsstr
  sem_currency :: jsstr
  sem_availability :: jsstr
  sem_sku :: "jsstr option"

text \<open>The objects the language model returns for its two prompts.\<close>

record intent_rule =
  ir_requestedVariant :: "jsstr dict"
  ir_currency :: "SupportedCurrency option"

record node_selection =
  ns_titleNodeId :: jsstr
  ns_currentPriceNodeId :: jsstr
  ns_availabilityNodeId :: jsstr
  ns_currencyNodeId :: "jsstr option"
  ns_skuNodeId :: "jsstr option"
  ns_variantNodeIds :: "jsstr dict"

text \<open>HTTP: a request, and a response whose body may fail to arrive.\<close>

record http_request =
  rq_method :: jsstr
  rq_url :: jsstr
  rq_headers :: "jsstr dict"
  rq_body :: "jsstr option"

record http_response =
  rs_status :: int
  rs_body :: "thrown + jsstr"

text \<open>The consumer of the work stream, and an error of its manager: \<open>code\<close> and \<open>String(error)\<close>.\<close>

record consumer_config =
  cc_ack_wait :: int
  cc_max_deliver :: int
  cc_max_ack_pending :: int

record consumer_spec =
  cs_durable_name :: jsstr
  cs_name :: jsstr
  cs_filter_subject :: jsstr
  cs_ack_policy :: jsstr
  cs_deliver_policy :: jsstr
  cs_replay_policy :: jsstr
  cs_config :: consumer_config

record consumer_error =
  ce_code :: jsstr
  ce_text :: jsstr
  ce_thrown :: thrown

datatype call =
    CLookup jsstr
  | CLaunch session bool bool
  | CInit session
  | CDomainPolicy session "jsstr list"
  | CNewPage session
  | CGoto session jsstr
  | CCount session jsstr
  | CInnerText session jsstr
  | CInnerHtml session jsstr
  | CInputValue session jsstr
  | CLdCount session
  | CLdText session nat
  | CAct session CachedAction
  | CObserve session jsstr
  | CExtract session
  | CIntent jsstr
  | CNodes "jsstr dict"
  | CSnapshot session
  | CScreenshot session
  | CMkdir jsstr
  | CWrite jsstr
  | CClose session
  | CRemove jsstr
  | CClock
  | CFetch http_request
  | CAck
  | CNak int
  | CTerm jsstr
  | CManager
  | CConsumerInfo jsstr jsstr
  | CConsumerUpdate jsstr jsstr consumer_config
  | CConsumerAdd jsstr consumer_spec

record env =
  env_lookup :: "call list \<Rightarrow> jsstr \<Rightarrow> thrown + jsstr list"
  env_launch :: "call list \<Rightarrow> session \<Rightarrow> thrown + unit"
  env_init :: "call list \<Rightarrow> session \<Rightarrow> thrown + unit"
  env_policy :: "call list \<Rightarrow> session \<Rightarrow> thrown + unit"
  env_has_page :: "call list \<Rightarrow> session \<Rightarrow> bool"
  env_new_page :: "call list \<Rightarrow> session \<Rightarrow> thrown + unit"
  env_goto :: "call list \<Rightarrow> session \<Rightarrow> jsstr \<Rightarrow> thrown + unit"
  env_url :: "call list \<Rightarrow> session \<Rightarrow> jsstr"
  env_count :: "call list \<Rightarrow> session \<Rightarrow> jsstr \<Rightarrow> thrown + nat"
  env_innerText :: "call list \<Rightarrow> session \<Rightarrow> jsstr \<Rightarrow> thrown + jsstr"
  env_innerHtml :: "call list \<Rightarrow> session \<Rightarrow> jsstr \<Rightarrow> thrown + jsstr"
  env_inputValue :: "call list \<Rightarrow> session \<Rightarrow> jsstr \<Rightarrow> thrown + jsstr"
  env_ld_count :: "call list \<Rightarrow> session \<Rightarrow> thrown + nat"
  env_ld_text :: "call list \<Rightarrow> session \<Rightarrow> nat \<Rightarrow> thrown + jsstr option"
  env_act :: "call list \<Rightarrow> session \<Rightarrow> CachedAction \<Rightarrow> thrown + act_result"
  env_observe :: "call list \<Rightarrow> session \<Rightarrow> jsstr \<Rightarrow> thrown + CachedAction list"
  env_extract :: "call list \<Rightarrow> session \<Rightarrow> thrown + semantic_product"
  env_intent :: "call list \<Rightarrow> jsstr \<Rightarrow> thrown + intent_rule"
  env_nodes :: "call list \<Rightarrow> jsstr dict \<Rightarrow> thrown + node_selection"
  env_snapshot :: "call list \<Rightarrow> session \<Rightarrow> thrown + page_snapshot"
  env_screenshot :: "call list \<Rightarrow> session \<Rightarrow> thrown + int list"
  env_mkdir :: "call list \<Rightarrow> jsstr \<Rightarrow> thrown + unit"
  env_write :: "call list \<Rightarrow> jsstr \<Rightarrow> int list \<Rightarrow> thrown + unit"
  env_aborted :: "call list \<Rightarrow> thrown option"
  env_clock :: "call list \<Rightarrow> rat"
  env_session_id :: "call list \<Rightarrow> session \<Rightarrow> jsstr option"
  env_heal_count :: "call list \<Rightarrow> session \<Rightarrow> int option"
  env_is_url :: "jsstr \<Rightarrow> bool"
  env_zod_currency :: "jsstr \<Rightarrow> jsstr"
  env_zod_plan :: "MonitorPlanV1 \<Rightarrow> jsstr"
  env_fetch :: "call list \<Rightarrow> http_request \<Rightarrow> thrown + http_response"
  env_message :: "call list \<Rightarrow> call \<Rightarrow> thrown + unit"
  env_manager :: "call list \<Rightarrow> thrown + unit"
  env_consumer :: "call list \<Rightarrow> call \<Rightarrow> consumer_error + unit"
  env_deadline :: "call list \<Rightarrow> bool"
  env_json_error :: "jsstr \<Rightarrow> jsstr"
  env_zod_input :: "json \<Rightarrow> jsstr"

text \<open>An environment in which every call fails but the settlement of a message: the base of concrete ones.\<close>

definition idle_env :: env where
  "idle_env = (let no = ExtError (js ''unavailable'') in
    \<lparr>env_lookup = \<lambda>_ _. Inl no, env_launch = \<lambda>_ _. Inl no, env_init = \<lambda>_ _. Inl no,
     env_policy = \<lambda>_ _. Inl no, env_has_page = \<lambda>_ _. False, env_new_page = \<lambda>_ _. Inl no,
     env_goto = \<lambda>_ _ _. Inl no, env_url = \<lambda>_ _. [], env_count = \<lambda>_ _ _. Inl no,
     env_innerText = \<lambda>_ _ _. Inl no, env_innerHtml = \<lambda>_ _ _. Inl no,
     env_inputValue = \<lambda>_ _ _. Inl no, env_ld_count = \<lambda>_ _. Inl no,
     env_ld_text = \<lambda>_ _ _. Inl no, env_act = \<lambda>_ _ _. Inl no, env_observe = \<lambda>_ _ _. Inl no,
     env_extract = \<lambda>_ _. Inl no, env_intent = \<lambda>_ _. Inl no, env_nodes = \<lambda>_ _. Inl no,
     env_snapshot = \<lambda>_ _. Inl no, env_screenshot = \<lambda>_ _. Inl no, env_mkdir = \<lambda>_ _. Inl no,
     env_write = \<lambda>_ _ _. Inl no, env_aborted = \<lambda>_. None, env_clock = \<lambda>_. 0,
     env_session_id = \<lambda>_ _. None, env_heal_count = \<lambda>_ _. None,
     env_is_url = \<lambda>_. True, env_zod_currency = \<lambda>_. js ''invalid'', env_zod_plan = \<lambda>_. js ''invalid'',
     env_fetch = \<lambda>_ _. Inl no, env_message = \<lambda>_ _. Inr (), env_manager = \<lambda>_. Inl no,
     env_consumer = \<lambda>_ _. Inl \<lparr>ce_code = [], ce_text = js ''unavailable'', ce_thrown = no\<rparr>,
     env_deadline = \<lambda>_. False, env_json_error = \<lambda>_. js ''bad JSON'', env_zod_input = \<lambda>_. js ''invalid''\<rparr>)"

section \<open>Programs\<close>

record world =
  w_calls :: "call list"
  w_timings :: "dbl dict"

type_synonym 'a io = "world \<Rightarrow> (exn + 'a) \<times> world"

definition io_ret :: "'a \<Rightarrow> 'a io" where
  [io_simps]: "io_ret x = (\<lambda>w. (Inr x, w))"

definition io_throw :: "exn \<Rightarrow> 'a io" where
  [io_simps]: "io_throw e = (\<lambda>w. (Inl e, w))"

definition io_bind :: "'a io \<Rightarrow> ('a \<Rightarrow> 'b io) \<Rightarrow> 'b io" where
  [io_simps]: "io_bind m f = (\<lambda>w. case m w of (Inl e, w') \<Rightarrow> (Inl e, w') | (Inr x, w') \<Rightarrow> f x w')"

text \<open>\<open>try { m } catch (e) { f(e) }\<close>\<close>

definition io_catch :: "'a io \<Rightarrow> (exn \<Rightarrow> 'a io) \<Rightarrow> 'a io" where
  [io_simps]: "io_catch m f = (\<lambda>w. case m w of (Inl e, w') \<Rightarrow> f e w' | (Inr x, w') \<Rightarrow> (Inr x, w'))"

text \<open>A program whose failure is kept as a value, as a promise that has not been awaited.\<close>

definition io_attempt :: "'a io \<Rightarrow> (exn + 'a) io" where
  [io_simps]: "io_attempt m = (\<lambda>w. case m w of (r, w') \<Rightarrow> (Inr r, w'))"

text \<open>\<open>try { m } finally { f }\<close> for a finaliser that does not throw.\<close>

definition io_finally :: "'a io \<Rightarrow> (world \<Rightarrow> world) \<Rightarrow> 'a io" where
  [io_simps]: "io_finally m f = (\<lambda>w. case m w of (r, w') \<Rightarrow> (r, f w'))"

definition io_lift :: "exn + 'a \<Rightarrow> 'a io" where
  [io_simps]: "io_lift r = (\<lambda>w. (r, w))"

text \<open>A synchronous reading of the outside.\<close>

definition io_read :: "(call list \<Rightarrow> 'a) \<Rightarrow> 'a io" where
  [io_simps]: "io_read f = (\<lambda>w. (Inr (f (w_calls w)), w))"

text \<open>A call: recorded, and answered from the calls before it.\<close>

definition record_call :: "call \<Rightarrow> world \<Rightarrow> world" where
  "record_call c w = w\<lparr>w_calls := w_calls w @ [c]\<rparr>"

definition io_call :: "call \<Rightarrow> (call list \<Rightarrow> thrown + 'a) \<Rightarrow> 'a io" where
  [io_simps]: "io_call c f = (\<lambda>w.
     (case f (w_calls w) of Inl t \<Rightarrow> Inl (External t) | Inr x \<Rightarrow> Inr x, record_call c w))"

fun io_each :: "('a \<Rightarrow> unit io) \<Rightarrow> 'a list \<Rightarrow> unit io" where
  "io_each f [] = io_ret ()"
| "io_each f (x # xs) = io_bind (f x) (\<lambda>_. io_each f xs)"

section \<open>What a program adds to the record of calls\<close>

definition extends :: "(call \<Rightarrow> bool) \<Rightarrow> world \<Rightarrow> world \<Rightarrow> bool" where
  "extends Q w w' \<longleftrightarrow> (\<exists>new. w_calls w' = w_calls w @ new \<and> list_all Q new)"

lemma extends_refl [simp, intro]: "extends Q w w"
  by (simp add: extends_def)

lemma extends_trans: "extends Q a b \<Longrightarrow> extends Q b c \<Longrightarrow> extends Q a c"
  unfolding extends_def by (metis append.assoc list_all_append)

lemma extends_call: "Q c \<Longrightarrow> extends Q w (record_call c w)"
  by (simp add: extends_def record_call_def)

definition emits :: "(call \<Rightarrow> bool) \<Rightarrow> 'a io \<Rightarrow> bool" where
  "emits Q m \<longleftrightarrow> (\<forall>w. extends Q w (snd (m w)))"

lemma emitsD: "emits Q m \<Longrightarrow> m w = (r, w') \<Longrightarrow> extends Q w w'"
  by (metis emits_def snd_conv)

lemma emits_weaken: "emits Q m \<Longrightarrow> (\<And>c. Q c \<Longrightarrow> R c) \<Longrightarrow> emits R m"
  unfolding emits_def extends_def by (metis list.pred_mono_strong)

lemma emits_ret [emits_intro]: "emits Q (io_ret x)"
  and emits_throw [emits_intro]: "emits Q (io_throw e)"
  and emits_lift [emits_intro]: "emits Q (io_lift r)"
  and emits_read [emits_intro]: "emits Q (io_read f)"
  by (auto simp: emits_def io_simps)

lemma emits_call [emits_intro]: "Q c \<Longrightarrow> emits Q (io_call c f)"
  by (auto simp: emits_def io_simps extends_call)

text \<open>The continuation matters only on the values the first program can return.\<close>

lemma emits_bind_dep:
  assumes m: "emits Q m" and f: "\<And>w x w'. m w = (Inr x, w') \<Longrightarrow> emits Q (f x)"
  shows "emits Q (io_bind m f)"
  unfolding emits_def
proof
  fix w
  obtain r w1 where m1: "m w = (r, w1)" by fastforce
  then have "extends Q w w1" by (rule emitsD [OF m])
  then show "extends Q w (snd (io_bind m f w))"
    using m1 f by (cases r) (auto simp: io_bind_def emits_def intro: extends_trans)
qed

lemma emits_bind [emits_intro]:
  "emits Q m \<Longrightarrow> (\<And>x. emits Q (f x)) \<Longrightarrow> emits Q (io_bind m f)"
  by (rule emits_bind_dep)

lemma emits_bind_lift:
  "(\<And>x. r = Inr x \<Longrightarrow> emits Q (f x)) \<Longrightarrow> emits Q (io_bind (io_lift r) f)"
  by (rule emits_bind_dep [OF emits_lift]) (auto simp: io_lift_def)

lemma emits_catch [emits_intro]:
  assumes m: "emits Q m" and f: "\<And>e. emits Q (f e)"
  shows "emits Q (io_catch m f)"
  unfolding emits_def
proof
  fix w
  obtain r w1 where m1: "m w = (r, w1)" by fastforce
  then have "extends Q w w1" by (rule emitsD [OF m])
  then show "extends Q w (snd (io_catch m f w))"
    using m1 f by (cases r) (auto simp: io_catch_def emits_def intro: extends_trans)
qed

lemma emits_finally [emits_intro]:
  "emits Q m \<Longrightarrow> (\<And>w. extends Q w (f w)) \<Longrightarrow> emits Q (io_finally m f)"
  by (auto simp: emits_def io_finally_def split: prod.splits intro: extends_trans)

lemma emits_attempt [emits_intro]: "emits Q m \<Longrightarrow> emits Q (io_attempt m)"
  unfolding emits_def io_attempt_def by (metis (no_types, lifting) case_prod_beta snd_conv)

lemma emits_if [emits_intro]:
  "(b \<Longrightarrow> emits Q m) \<Longrightarrow> (\<not> b \<Longrightarrow> emits Q n) \<Longrightarrow> emits Q (if b then m else n)"
  by simp

lemma emits_option [emits_intro]:
  "(x = None \<Longrightarrow> emits Q m) \<Longrightarrow> (\<And>y. x = Some y \<Longrightarrow> emits Q (f y)) \<Longrightarrow>
   emits Q (case x of None \<Rightarrow> m | Some y \<Rightarrow> f y)"
  by (cases x) auto

lemma emits_sum [emits_intro]:
  "(\<And>e. x = Inl e \<Longrightarrow> emits Q (g e)) \<Longrightarrow> (\<And>y. x = Inr y \<Longrightarrow> emits Q (f y)) \<Longrightarrow>
   emits Q (case x of Inl e \<Rightarrow> g e | Inr y \<Rightarrow> f y)"
  by (cases x) auto

lemma emits_prod [emits_intro]:
  "(\<And>a b. x = (a, b) \<Longrightarrow> emits Q (f a b)) \<Longrightarrow> emits Q (case x of (a, b) \<Rightarrow> f a b)"
  by (cases x) auto

lemma emits_each [emits_intro]:
  "(\<And>x. x \<in> set xs \<Longrightarrow> emits Q (f x)) \<Longrightarrow> emits Q (io_each f xs)"
  by (induction xs) (auto intro: emits_intro)

section \<open>What a program returns\<close>

text \<open>\<open>returns R m\<close>: whenever \<open>m\<close> returns a value, the value satisfies \<open>R\<close>.\<close>

definition returns :: "('a \<Rightarrow> bool) \<Rightarrow> 'a io \<Rightarrow> bool" where
  "returns R m \<longleftrightarrow> (\<forall>w x w'. m w = (Inr x, w') \<longrightarrow> R x)"

lemma returnsD: "returns R m \<Longrightarrow> m w = (Inr x, w') \<Longrightarrow> R x"
  by (auto simp: returns_def)

lemma returns_ret [returns_intro]: "R x \<Longrightarrow> returns R (io_ret x)"
  and returns_throw [returns_intro]: "returns R (io_throw e)"
  by (auto simp: returns_def io_simps)

lemma returns_lift [returns_intro]: "(\<And>x. r = Inr x \<Longrightarrow> R x) \<Longrightarrow> returns R (io_lift r)"
  by (auto simp: returns_def io_lift_def)

lemma returns_bind_dep:
  assumes "\<And>w x w'. m w = (Inr x, w') \<Longrightarrow> returns R (f x)"
  shows "returns R (io_bind m f)"
  using assms by (fastforce simp: returns_def io_bind_def split: prod.splits sum.splits)

lemma returns_bind [returns_intro]: "(\<And>x. returns R (f x)) \<Longrightarrow> returns R (io_bind m f)"
  by (rule returns_bind_dep)

lemma returns_catch [returns_intro]:
  "returns R m \<Longrightarrow> (\<And>e. returns R (f e)) \<Longrightarrow> returns R (io_catch m f)"
  unfolding returns_def io_catch_def by (fastforce split: prod.splits sum.splits)

lemma returns_if [returns_intro]:
  "(b \<Longrightarrow> returns R m) \<Longrightarrow> (\<not> b \<Longrightarrow> returns R n) \<Longrightarrow> returns R (if b then m else n)"
  by simp

lemma returns_option [returns_intro]:
  "(x = None \<Longrightarrow> returns R m) \<Longrightarrow> (\<And>y. x = Some y \<Longrightarrow> returns R (f y)) \<Longrightarrow>
   returns R (case x of None \<Rightarrow> m | Some y \<Rightarrow> f y)"
  by (cases x) auto

lemma returns_finally [returns_intro]: "returns R m \<Longrightarrow> returns R (io_finally m f)"
  unfolding returns_def io_finally_def by (auto split: prod.splits)

lemma returns_sum [returns_intro]:
  "(\<And>e. x = Inl e \<Longrightarrow> returns R (g e)) \<Longrightarrow> (\<And>y. x = Inr y \<Longrightarrow> returns R (f y)) \<Longrightarrow>
   returns R (case x of Inl e \<Rightarrow> g e | Inr y \<Rightarrow> f y)"
  by (cases x) auto

lemma returns_prod [returns_intro]:
  "(\<And>a b. x = (a, b) \<Longrightarrow> returns R (f a b)) \<Longrightarrow> returns R (case x of (a, b) \<Rightarrow> f a b)"
  by (cases x) auto

text \<open>\<open>settles m\<close>: \<open>m\<close> never throws.\<close>

definition settles :: "'a io \<Rightarrow> bool" where
  "settles m \<longleftrightarrow> (\<forall>w. \<exists>x w'. m w = (Inr x, w'))"

lemma settlesD: "settles m \<Longrightarrow> \<exists>x w'. m w = (Inr x, w')"
  by (simp add: settles_def)

lemma settles_ret [settles_intro]: "settles (io_ret x)"
  and settles_read [settles_intro]: "settles (io_read f)"
  and settles_attempt [settles_intro]: "settles (io_attempt n)"
  by (auto simp: settles_def io_simps split: prod.splits)

lemma settles_bind [settles_intro]:
  assumes m: "settles m" and f: "\<And>x. settles (f x)"
  shows "settles (io_bind m f)"
  unfolding settles_def
proof
  fix w
  obtain x w1 where "m w = (Inr x, w1)" using settlesD [OF m] by blast
  moreover obtain y w2 where "f x w1 = (Inr y, w2)" using settlesD [OF f] by blast
  ultimately show "\<exists>z w'. io_bind m f w = (Inr z, w')" by (simp add: io_bind_def)
qed

lemma settles_catch [settles_intro]:
  assumes f: "\<And>e. settles (f e)"
  shows "settles (io_catch m f)"
  unfolding settles_def
proof
  fix w
  obtain r w1 where m: "m w = (r, w1)" by fastforce
  show "\<exists>z w'. io_catch m f w = (Inr z, w')"
  proof (cases r)
    case (Inl e)
    obtain y w2 where "f e w1 = (Inr y, w2)" using settlesD [OF f] by blast
    then show ?thesis using m Inl by (simp add: io_catch_def)
  qed (use m in \<open>simp add: io_catch_def\<close>)
qed

lemma settles_finally [settles_intro]:
  assumes m: "settles m"
  shows "settles (io_finally m f)"
  unfolding settles_def
proof
  fix w
  obtain x w1 where "m w = (Inr x, w1)" using settlesD [OF m] by blast
  then show "\<exists>z w'. io_finally m f w = (Inr z, w')" by (simp add: io_finally_def)
qed

lemma settles_if [settles_intro]: "settles m \<Longrightarrow> settles n \<Longrightarrow> settles (if b then m else n)"
  by simp

lemma settles_option [settles_intro]:
  "settles m \<Longrightarrow> (\<And>y. settles (f y)) \<Longrightarrow> settles (case x of None \<Rightarrow> m | Some y \<Rightarrow> f y)"
  by (cases x) auto

lemma settles_sum [settles_intro]:
  "(\<And>e. settles (g e)) \<Longrightarrow> (\<And>y. settles (f y)) \<Longrightarrow> settles (case x of Inl e \<Rightarrow> g e | Inr y \<Rightarrow> f y)"
  by (cases x) auto

lemma settles_prod [settles_intro]:
  "(\<And>a b. settles (f a b)) \<Longrightarrow> settles (case x of (a, b) \<Rightarrow> f a b)"
  by (cases x) auto

section \<open>Evaluation\<close>

text \<open>
  \<open>yields m v\<close>: from every world, \<open>m\<close> returns \<open>v\<close>. For an environment whose answers do not
  depend on the history this evaluates a program rule by rule.
\<close>

definition yields :: "'a io \<Rightarrow> 'a \<Rightarrow> bool" where
  "yields m v \<longleftrightarrow> (\<forall>w. fst (m w) = Inr v)"

lemma yieldsD: "yields m v \<Longrightarrow> \<exists>w'. m w = (Inr v, w')"
  unfolding yields_def by (metis prod.collapse)

lemma yields_ret [yields_intro]: "yields (io_ret x) x"
  and yields_lift [yields_intro]: "r = Inr x \<Longrightarrow> yields (io_lift r) x"
  and yields_read [yields_intro]: "(\<And>h. f h = x) \<Longrightarrow> yields (io_read f) x"
  and yields_call [yields_intro]: "(\<And>h. g h = Inr x) \<Longrightarrow> yields (io_call c g) x"
  by (auto simp: yields_def io_simps)

lemma yields_bind [yields_intro]: "yields m x \<Longrightarrow> yields (f x) y \<Longrightarrow> yields (io_bind m f) y"
  unfolding yields_def io_bind_def by (auto split: prod.splits sum.splits) (metis Inr_inject fst_conv sum.distinct(1))+

lemma yields_catch [yields_intro]: "yields m x \<Longrightarrow> yields (io_catch m f) x"
  unfolding yields_def io_catch_def by (auto split: prod.splits sum.splits) (metis Inr_inject fst_conv sum.distinct(1))+

lemma yields_attempt [yields_intro]: "yields m x \<Longrightarrow> yields (io_attempt m) (Inr x)"
  unfolding yields_def io_attempt_def by (metis (no_types, lifting) case_prod_beta fst_conv)

lemma yields_finally [yields_intro]: "yields m x \<Longrightarrow> yields (io_finally m f) x"
  unfolding yields_def io_finally_def by (metis (no_types, lifting) case_prod_beta fst_conv)

lemma yields_each [yields_intro]: "(\<And>x. x \<in> set xs \<Longrightarrow> yields (f x) ()) \<Longrightarrow> yields (io_each f xs) ()"
  by (induction xs) (auto intro: yields_intro)

lemma yields_let: "yields (f x) y \<Longrightarrow> yields (let z = x in f z) y"
  by simp

section \<open>Laws of sequencing\<close>

lemma io_bind_Inr:
  "io_bind m f w = (Inr y, w2) \<longleftrightarrow> (\<exists>x w1. m w = (Inr x, w1) \<and> f x w1 = (Inr y, w2))"
  by (auto simp: io_bind_def split: prod.splits sum.splits)

lemma io_bind_Inl:
  "io_bind m f w = (Inl e, w2) \<longleftrightarrow>
   m w = (Inl e, w2) \<or> (\<exists>x w1. m w = (Inr x, w1) \<and> f x w1 = (Inl e, w2))"
  by (auto simp: io_bind_def split: prod.splits sum.splits)

lemma io_ret_Inr [simp]: "io_ret x w = (Inr y, w') \<longleftrightarrow> y = x \<and> w' = w"
  and io_ret_Inl [simp]: "io_ret x w = (Inl e, w') \<longleftrightarrow> False"
  and io_throw_Inr [simp]: "io_throw e w = (Inr y, w') \<longleftrightarrow> False"
  and io_throw_Inl [simp]: "io_throw e w = (Inl e', w') \<longleftrightarrow> e' = e \<and> w' = w"
  and io_lift_Inr [simp]: "io_lift r w = (Inr y, w') \<longleftrightarrow> r = Inr y \<and> w' = w"
  and io_lift_Inl [simp]: "io_lift r w = (Inl e, w') \<longleftrightarrow> r = Inl e \<and> w' = w"
  and io_read_Inr [simp]: "io_read f w = (Inr z, w') \<longleftrightarrow> z = f (w_calls w) \<and> w' = w"
  and io_read_Inl [simp]: "io_read f w = (Inl e, w') \<longleftrightarrow> False"
  by (auto simp: io_simps)

lemma io_call_Inr:
  "io_call c f w = (Inr x, w') \<longleftrightarrow> f (w_calls w) = Inr x \<and> w' = record_call c w"
  by (auto simp: io_call_def split: sum.splits)

lemma io_call_Inl:
  "io_call c f w = (Inl e, w') \<longleftrightarrow> (\<exists>t. f (w_calls w) = Inl t \<and> e = External t) \<and> w' = record_call c w"
  by (auto simp: io_call_def split: sum.splits)

end
