(* ===== verification/Moments.thy ===== *)
theory Moments
  imports Effects "HOL-Library.Sublist"
begin

text \<open>
  Moments of a run. A program only adds to the record of calls, so the record at every point
  of its run is a prefix of the record at the end; \<open>continues w w'\<close> says that \<open>w'\<close> is such a
  later point. \<open>called w h c w'\<close> says that between the two the call \<open>c\<close> was made when the
  record was \<open>h\<close>, which is what the environment answered it from.
\<close>

definition continues :: "world \<Rightarrow> world \<Rightarrow> bool" where
  "continues w w' \<longleftrightarrow> prefix (w_calls w) (w_calls w')"

definition called :: "world \<Rightarrow> call list \<Rightarrow> call \<Rightarrow> world \<Rightarrow> bool" where
  "called w h c w' \<longleftrightarrow> prefix (w_calls w) h \<and> prefix (h @ [c]) (w_calls w')"

lemma continues_refl [simp, intro]: "continues w w"
  by (simp add: continues_def)

lemma continues_trans: "continues a b \<Longrightarrow> continues b c \<Longrightarrow> continues a c"
  unfolding continues_def by (rule prefix_order.trans)

lemma extends_continues: "extends Q w w' \<Longrightarrow> continues w w'"
  by (auto simp: extends_def continues_def)

lemma continues_record [simp, intro]: "continues w (record_call c w)"
  by (simp add: continues_def record_call_def)

lemma continues_run: "emits Q m \<Longrightarrow> m w = (r, w') \<Longrightarrow> continues w w'"
  by (blast intro: extends_continues emitsD)

lemma called_record [simp, intro]: "called w (w_calls w) c (record_call c w)"
  by (simp add: called_def record_call_def)

lemma called_wider: "called w h c w' \<Longrightarrow> continues v w \<Longrightarrow> continues w' v' \<Longrightarrow> called v h c v'"
  unfolding called_def continues_def by (blast intro: prefix_order.trans)

section \<open>Settlements\<close>

text \<open>The calls that settle a queue message, and all others.\<close>

fun settlement :: "call \<Rightarrow> bool" where
  "settlement CAck = True"
| "settlement (CNak n) = True"
| "settlement (CTerm s) = True"
| "settlement _ = False"

abbreviation work :: "call \<Rightarrow> bool" where
  "work c \<equiv> \<not> settlement c"

end
