(* ===== verification/JsRegex.thy ===== *)
theory JsRegex
  imports JsString
begin

text \<open>
  The regular expressions of ECMAScript, as far as the sources use them: a syntax tree
  and the standard's backtracking matcher, which tries alternatives in order and
  repetitions greedily. A matcher state is the code unit before the position, the
  remaining input and the text of the capturing group (no pattern of the program reads
  more than one group). \<open>matches\<close> lists the states a pattern can end in, in the order
  in which backtracking reaches them, so its head is the match the engine returns.
  \<open>mt\<close> is the declarative meaning of a pattern; \<open>set_matches\<close> shows that the matcher
  finds exactly those ends, and \<open>re_test_iff\<close> lifts this to searching a whole string.
\<close>

section \<open>Syntax and the matcher\<close>

datatype re =
    Cls "(int \<times> int) list"
  | NotCls "(int \<times> int) list"
  | Eps
  | Seq re re
  | Alt re re
  | Star re
  | Rep nat nat re
  | WordB
  | Bol
  | Eol
  | NotAhead re
  | Grp re

text \<open>\<open>Rep m k r\<close> is \<open>r{m,m+k}\<close>.\<close>

type_synonym rstate = "code_unit option \<times> jsstr \<times> jsstr option"

abbreviation rest_of :: "rstate \<Rightarrow> jsstr" where
  "rest_of st \<equiv> fst (snd st)"

text \<open>
  Under the \<open>i\<close> flag a unit matches a class when a unit with the same canonical form is in
  it. Canonicalisation never takes a non-ASCII unit to an ASCII one, and the classes the
  sources use with that flag hold ASCII units and units without case, so folding ASCII
  case is the whole effect of the flag on them.
\<close>

definition cls_has :: "bool \<Rightarrow> (int \<times> int) list \<Rightarrow> code_unit \<Rightarrow> bool" where
  [js_eval]: "cls_has ic rs c \<longleftrightarrow>
    in_ranges rs c \<or> (ic \<and> (in_ranges rs (lower_unit c) \<or> in_ranges rs (upper_unit c)))"

fun eat :: "(code_unit \<Rightarrow> bool) \<Rightarrow> rstate \<Rightarrow> rstate list" where
  "eat P (p, [], k) = []"
| "eat P (p, c # s, k) = (if P c then [(Some c, s, k)] else [])"

text \<open>IsWordChar at the two sides of a position.\<close>

fun at_word_boundary :: "rstate \<Rightarrow> bool" where
  "at_word_boundary (p, s, k) =
     ((case p of None \<Rightarrow> False | Some c \<Rightarrow> is_word c) \<noteq>
      (case s of [] \<Rightarrow> False | c # _ \<Rightarrow> is_word c))"

text \<open>
  Greedy repetition of a matcher. An optional iteration that consumes nothing is
  rejected, as the standard says, so the number of iterations is bounded by the length of
  the input left: \<open>n\<close> starts there.
\<close>

fun star_m :: "(rstate \<Rightarrow> rstate list) \<Rightarrow> nat \<Rightarrow> rstate \<Rightarrow> rstate list" where
  "star_m f 0 st = [st]"
| "star_m f (Suc n) st =
     concat (map (\<lambda>st'. if length (rest_of st') < length (rest_of st) then star_m f n st' else [])
       (f st)) @ [st]"

fun rep_m :: "(rstate \<Rightarrow> rstate list) \<Rightarrow> nat \<Rightarrow> nat \<Rightarrow> rstate \<Rightarrow> rstate list" where
  "rep_m f (Suc m) k st = concat (map (rep_m f m k) (f st))"
| "rep_m f 0 0 st = [st]"
| "rep_m f 0 (Suc k) st =
     concat (map (\<lambda>st'. if length (rest_of st') < length (rest_of st) then rep_m f 0 k st' else [])
       (f st)) @ [st]"

definition capture :: "rstate \<Rightarrow> rstate \<Rightarrow> rstate" where
  [js_eval]: "capture st st' =
    (fst st', rest_of st', Some (take (length (rest_of st) - length (rest_of st')) (rest_of st)))"

primrec matches :: "bool \<Rightarrow> re \<Rightarrow> rstate \<Rightarrow> rstate list" where
  "matches ic (Cls rs) = eat (cls_has ic rs)"
| "matches ic (NotCls rs) = eat (\<lambda>c. \<not> cls_has ic rs c)"
| "matches ic Eps = (\<lambda>st. [st])"
| "matches ic (Seq r1 r2) = (\<lambda>st. concat (map (matches ic r2) (matches ic r1 st)))"
| "matches ic (Alt r1 r2) = (\<lambda>st. matches ic r1 st @ matches ic r2 st)"
| "matches ic (Star r) = (\<lambda>st. star_m (matches ic r) (length (rest_of st)) st)"
| "matches ic (Rep m k r) = rep_m (matches ic r) m k"
| "matches ic WordB = (\<lambda>st. if at_word_boundary st then [st] else [])"
| "matches ic Bol = (\<lambda>st. if fst st = None then [st] else [])"
| "matches ic Eol = (\<lambda>st. if rest_of st = [] then [st] else [])"
| "matches ic (NotAhead r) = (\<lambda>st. if matches ic r st = [] then [st] else [])"
| "matches ic (Grp r) = (\<lambda>st. map (capture st) (matches ic r st))"

section \<open>Abbreviated patterns\<close>

definition ch :: "code_unit \<Rightarrow> re" where
  [js_eval]: "ch c = Cls [(c, c)]"

fun lit :: "jsstr \<Rightarrow> re" where
  "lit [] = Eps"
| "lit (c # s) = Seq (ch c) (lit s)"

definition str :: "string \<Rightarrow> re" where
  [js_eval]: "str s = lit (js s)"

fun alts :: "re list \<Rightarrow> re" where
  "alts [] = Cls []"
| "alts [r] = r"
| "alts (r # s # rs) = Alt r (alts (s # rs))"

fun seqs :: "re list \<Rightarrow> re" where
  "seqs [] = Eps"
| "seqs [r] = r"
| "seqs (r # s # rs) = Seq r (seqs (s # rs))"

definition plus_re :: "re \<Rightarrow> re" where
  [js_eval]: "plus_re r = Seq r (Star r)"

definition opt_re :: "re \<Rightarrow> re" where
  [js_eval]: "opt_re r = Rep 0 1 r"

definition digit_re :: re where
  [js_eval]: "digit_re = Cls [(48, 57)]"

definition space_re :: re where
  [js_eval]: "space_re = Cls space_ranges"

text \<open>\<open>.\<close>: anything but a line terminator.\<close>

definition any_re :: re where
  [js_eval]: "any_re = NotCls [(10, 10), (13, 13), (8232, 8233)]"

section \<open>Searching, matchAll and replace\<close>

text \<open>
  \<open>RegExp.prototype.exec\<close> without a sticky flag: the first position with a match. The
  result is the index, the state at the start and the state at the end.
\<close>

fun find_from :: "bool \<Rightarrow> re \<Rightarrow> code_unit option \<Rightarrow> jsstr \<Rightarrow> nat \<Rightarrow> (nat \<times> rstate \<times> rstate) option" where
  "find_from ic r p [] i =
     (case matches ic r (p, [], None) of
        [] \<Rightarrow> None
      | st # _ \<Rightarrow> Some (i, (p, [], None), st))"
| "find_from ic r p (c # s) i =
     (case matches ic r (p, c # s, None) of
        [] \<Rightarrow> find_from ic r (Some c) s (Suc i)
      | st # _ \<Rightarrow> Some (i, (p, c # s, None), st))"

definition re_test :: "bool \<Rightarrow> re \<Rightarrow> jsstr \<Rightarrow> bool" where
  [js_eval]: "re_test ic r s \<longleftrightarrow> find_from ic r None s 0 \<noteq> None"

text \<open>\<open>s.match(r)?.[1]\<close>: the text of the group of the first match.\<close>

definition re_group :: "bool \<Rightarrow> re \<Rightarrow> jsstr \<Rightarrow> jsstr option" where
  [js_eval]: "re_group ic r s =
    (case find_from ic r None s 0 of None \<Rightarrow> None | Some (i, st, st') \<Rightarrow> snd (snd st'))"

definition matched :: "rstate \<Rightarrow> rstate \<Rightarrow> jsstr" where
  [js_eval]: "matched st st' = take (length (rest_of st) - length (rest_of st')) (rest_of st)"

text \<open>
  The global loop of \<open>matchAll\<close> and of \<open>replace\<close> with the \<open>g\<close> flag: successive matches, each
  search starting where the last match ended (one further after an empty match). Every
  round moves forward by at least one unit, so \<open>Suc (length s)\<close> rounds are enough.
\<close>

fun match_loop :: "bool \<Rightarrow> re \<Rightarrow> nat \<Rightarrow> code_unit option \<Rightarrow> jsstr \<Rightarrow> nat \<Rightarrow> (nat \<times> jsstr) list" where
  "match_loop ic r 0 p s i = []"
| "match_loop ic r (Suc n) p s i =
     (case find_from ic r p s i of
        None \<Rightarrow> []
      | Some (j, st, st') \<Rightarrow>
          (j, matched st st') #
          (if length (rest_of st') < length (rest_of st)
           then match_loop ic r n (fst st') (rest_of st') (j + length (matched st st'))
           else case rest_of st' of
                  [] \<Rightarrow> []
                | c # s' \<Rightarrow> match_loop ic r n (Some c) s' (Suc j)))"

definition match_all :: "bool \<Rightarrow> re \<Rightarrow> jsstr \<Rightarrow> (nat \<times> jsstr) list" where
  [js_eval]: "match_all ic r s = match_loop ic r (Suc (length s)) None s 0"

text \<open>\<open>replace\<close> with the \<open>g\<close> flag and a function of the matched text.\<close>

fun replace_at :: "nat \<Rightarrow> (nat \<times> jsstr) list \<Rightarrow> (jsstr \<Rightarrow> jsstr) \<Rightarrow> jsstr \<Rightarrow> jsstr" where
  "replace_at i [] f s = s"
| "replace_at i ((j, w) # ms) f s =
     take (j - i) s @ f w @ replace_at (j + length w) ms f (drop (j - i + length w) s)"

definition replace_all :: "bool \<Rightarrow> re \<Rightarrow> (jsstr \<Rightarrow> jsstr) \<Rightarrow> jsstr \<Rightarrow> jsstr" where
  [js_eval]: "replace_all ic r f s = replace_at 0 (match_all ic r s) f s"

text \<open>\<open>replace\<close> without the \<open>g\<close> flag: the first match only.\<close>

definition replace_one :: "bool \<Rightarrow> re \<Rightarrow> (jsstr \<Rightarrow> jsstr) \<Rightarrow> jsstr \<Rightarrow> jsstr" where
  [js_eval]: "replace_one ic r f s =
    (case find_from ic r None s 0 of
       None \<Rightarrow> s
     | Some (i, st, st') \<Rightarrow> replace_at 0 [(i, matched st st')] f s)"

section \<open>The declarative meaning of a pattern\<close>

definition progress :: "(rstate \<Rightarrow> rstate \<Rightarrow> bool) \<Rightarrow> rstate \<Rightarrow> rstate \<Rightarrow> bool" where
  "progress R st st' \<longleftrightarrow> R st st' \<and> length (rest_of st') < length (rest_of st)"

primrec mt :: "bool \<Rightarrow> re \<Rightarrow> rstate \<Rightarrow> rstate \<Rightarrow> bool" where
  "mt ic (Cls rs) = (\<lambda>st st'. \<exists>c s. rest_of st = c # s \<and> cls_has ic rs c \<and> st' = (Some c, s, snd (snd st)))"
| "mt ic (NotCls rs) = (\<lambda>st st'. \<exists>c s. rest_of st = c # s \<and> \<not> cls_has ic rs c \<and> st' = (Some c, s, snd (snd st)))"
| "mt ic Eps = (=)"
| "mt ic (Seq r1 r2) = mt ic r1 OO mt ic r2"
| "mt ic (Alt r1 r2) = (\<lambda>st st'. mt ic r1 st st' \<or> mt ic r2 st st')"
| "mt ic (Star r) = (progress (mt ic r))\<^sup>*\<^sup>*"
| "mt ic (Rep m k r) = (\<lambda>st st'. \<exists>j \<le> k. ((mt ic r ^^ m) OO (progress (mt ic r) ^^ j)) st st')"
| "mt ic WordB = (\<lambda>st st'. st' = st \<and> at_word_boundary st)"
| "mt ic Bol = (\<lambda>st st'. st' = st \<and> fst st = None)"
| "mt ic Eol = (\<lambda>st st'. st' = st \<and> rest_of st = [])"
| "mt ic (NotAhead r) = (\<lambda>st st'. st' = st \<and> (\<forall>st''. \<not> mt ic r st st''))"
| "mt ic (Grp r) = (\<lambda>st st'. \<exists>st''. mt ic r st st'' \<and> st' = capture st st'')"

lemma set_eat:
  "set (eat P st) = {st'. \<exists>c s. rest_of st = c # s \<and> P c \<and> st' = (Some c, s, snd (snd st))}"
  by (cases st; cases "rest_of st") auto

lemma rtranclp_progress_unfold:
  "(progress R)\<^sup>*\<^sup>* st st' \<longleftrightarrow> st' = st \<or> (\<exists>st''. progress R st st'' \<and> (progress R)\<^sup>*\<^sup>* st'' st')"
  by (metis converse_rtranclpE converse_rtranclp_into_rtranclp rtranclp.rtrancl_refl)

lemma set_star_m:
  assumes "\<And>st. set (f st) = {st'. R st st'}" and "length (rest_of st) \<le> n"
  shows "set (star_m f n st) = {st'. (progress R)\<^sup>*\<^sup>* st st'}"
  using assms(2)
proof (induction n arbitrary: st)
  case 0
  then have "\<not> progress R st st'" for st'
    by (simp add: progress_def)
  then have "(progress R)\<^sup>*\<^sup>* st st' \<longleftrightarrow> st' = st" for st'
    using rtranclp_progress_unfold by metis
  then show ?case by simp
next
  case (Suc n)
  have IH: "set (star_m f n st'') = {st'. (progress R)\<^sup>*\<^sup>* st'' st'}" if "progress R st st''" for st''
    using that Suc.prems by (intro Suc.IH) (simp add: progress_def)
  have "set (star_m f (Suc n) st) =
    insert st (\<Union>st'' \<in> {st''. progress R st st''}. set (star_m f n st''))"
    by (auto simp: assms(1) progress_def)
  also have "\<dots> = insert st (\<Union>st'' \<in> {st''. progress R st st''}. {st'. (progress R)\<^sup>*\<^sup>* st'' st'})"
    using IH by simp
  also have "\<dots> = {st'. (progress R)\<^sup>*\<^sup>* st st'}"
    using rtranclp_progress_unfold [of R st] by auto
  finally show ?case .
qed

lemma relpowp_bounded_unfold:
  "(\<exists>j \<le> Suc k. (R ^^ j) a c) \<longleftrightarrow> a = c \<or> (\<exists>b. R a b \<and> (\<exists>j \<le> k. (R ^^ j) b c))"
proof
  assume "\<exists>j \<le> Suc k. (R ^^ j) a c"
  then obtain j where j: "j \<le> Suc k" "(R ^^ j) a c" by blast
  then show "a = c \<or> (\<exists>b. R a b \<and> (\<exists>j \<le> k. (R ^^ j) b c))"
  proof (cases j)
    case (Suc i)
    with j(2) obtain b where "R a b" "(R ^^ i) b c"
      by (metis relpowp_Suc_D2)
    with j(1) Suc show ?thesis by auto
  qed simp
next
  assume "a = c \<or> (\<exists>b. R a b \<and> (\<exists>j \<le> k. (R ^^ j) b c))"
  then show "\<exists>j \<le> Suc k. (R ^^ j) a c"
    by (metis Suc_le_mono le0 relpowp_0_I relpowp_Suc_I2)
qed

lemma set_rep_m_0:
  assumes f: "\<And>st. set (f st) = {st'. R st st'}"
  shows "set (rep_m f 0 k st) = {st'. \<exists>j \<le> k. (progress R ^^ j) st st'}"
proof (induction k arbitrary: st)
  case (Suc k)
  have "set (rep_m f 0 (Suc k) st) =
    insert st (\<Union>st'' \<in> {st''. progress R st st''}. set (rep_m f 0 k st''))"
    by (auto simp: f progress_def)
  also have "\<dots> = {st'. \<exists>j \<le> Suc k. (progress R ^^ j) st st'}"
    by (auto simp: Suc relpowp_bounded_unfold simp del: relpowp.simps)
  finally show ?case .
qed auto

lemma set_rep_m:
  assumes f: "\<And>st. set (f st) = {st'. R st st'}"
  shows "set (rep_m f m k st) = {st'. \<exists>j \<le> k. ((R ^^ m) OO (progress R ^^ j)) st st'}"
proof (induction m arbitrary: st)
  case 0
  then show ?case using set_rep_m_0 [of f R, OF f] by (auto simp: OO_def)
next
  case (Suc m)
  have "set (rep_m f (Suc m) k st) =
    {st'. \<exists>st''. R st st'' \<and> (\<exists>j \<le> k. ((R ^^ m) OO (progress R ^^ j)) st'' st')}"
    by (simp add: f Suc set_eq_iff Bex_def del: relcompp_apply split_paired_Ex split_paired_All)
  also have "\<dots> = {st'. \<exists>j \<le> k. ((R ^^ Suc m) OO (progress R ^^ j)) st st'}"
    unfolding OO_def by (fastforce intro: relpowp_Suc_I2 dest: relpowp_Suc_D2)
  finally show ?case .
qed

text \<open>The matcher reaches exactly the ends the declarative meaning allows.\<close>

theorem set_matches: "set (matches ic r st) = {st'. mt ic r st st'}"
proof (induction r arbitrary: st)
  case (Star r)
  then show ?case
    using set_star_m [of "matches ic r" "mt ic r", OF Star.IH] by simp
next
  case (Rep m k r)
  then show ?case
    using set_rep_m [of "matches ic r" "mt ic r", OF Rep.IH] by simp
next
  case (NotAhead r)
  have "matches ic r st = [] \<longleftrightarrow> (\<forall>st'. \<not> mt ic r st st')"
    using NotAhead.IH [of st] by (metis empty_Collect_eq set_empty)
  then show ?case by auto
qed (auto simp: set_eat)

lemma matches_Nil_iff: "matches ic r st = [] \<longleftrightarrow> (\<forall>st'. \<not> mt ic r st st')"
  using set_matches [of ic r st] by (metis empty_Collect_eq set_empty)

section \<open>A match consumes a prefix of what is left\<close>

definition moves :: "rstate \<Rightarrow> rstate \<Rightarrow> bool" where
  "moves st st' \<longleftrightarrow> (\<exists>w. rest_of st = w @ rest_of st' \<and> fst st' = (if w = [] then fst st else last_opt w))"

lemma moves_refl [simp]: "moves st st"
  by (simp add: moves_def)

lemma moves_trans: "moves a b \<Longrightarrow> moves b c \<Longrightarrow> moves a c"
proof -
  assume "moves a b" "moves b c"
  then obtain v w where
    "rest_of a = v @ rest_of b" "fst b = (if v = [] then fst a else last_opt v)"
    "rest_of b = w @ rest_of c" "fst c = (if w = [] then fst b else last_opt w)"
    by (auto simp: moves_def)
  then have "rest_of a = (v @ w) @ rest_of c"
    "fst c = (if v @ w = [] then fst a else last_opt (v @ w))"
    by (auto simp: last_opt_append)
  then show "moves a c" unfolding moves_def by blast
qed

lemma rtranclp_moves: "R\<^sup>*\<^sup>* a b \<Longrightarrow> (\<And>x y. R x y \<Longrightarrow> moves x y) \<Longrightarrow> moves a b"
  by (induction rule: rtranclp.induct) (auto intro: moves_trans)

lemma relpowp_moves: "(R ^^ n) a b \<Longrightarrow> (\<And>x y. R x y \<Longrightarrow> moves x y) \<Longrightarrow> moves a b"
  by (meson relpowp_imp_rtranclp rtranclp_moves)

lemma moves_step: "rest_of st = c # s \<Longrightarrow> moves st (Some c, s, k)"
  unfolding moves_def by (rule exI [of _ "[c]"]) simp

lemma mt_moves: "mt ic r st st' \<Longrightarrow> moves st st'"
proof (induction r arbitrary: st st')
  case (Cls rs)
  then show ?case by (auto intro: moves_step)
next
  case (NotCls rs)
  then show ?case by (auto intro: moves_step)
next
  case (Seq r1 r2)
  from Seq.prems obtain b where "mt ic r1 st b" "mt ic r2 b st'"
    by (simp only: mt.simps) (erule relcomppE)
  then show ?case by (blast intro: moves_trans Seq.IH)
next
  case (Star r)
  then show ?case by (auto simp: progress_def elim!: rtranclp_moves)
next
  case (Rep m k r)
  then obtain j b where "(mt ic r ^^ m) st b" "(progress (mt ic r) ^^ j) b st'"
    by (auto simp: OO_def)
  then have "moves st b" "moves b st'"
    using Rep.IH relpowp_moves [of m "mt ic r"] relpowp_moves [of j "progress (mt ic r)"]
    by (auto simp: progress_def)
  then show ?case by (rule moves_trans)
next
  case (Grp r)
  from Grp.prems obtain st'' where "mt ic r st st''" "st' = capture st st''"
    by (simp only: mt.simps) blast
  then show ?case using Grp.IH [of st st''] by (auto simp: moves_def capture_def)
qed auto

lemma mt_rest_le: "mt ic r st st' \<Longrightarrow> length (rest_of st') \<le> length (rest_of st)"
  by (drule mt_moves) (auto simp: moves_def)

section \<open>Searching\<close>

lemma find_from_Some:
  "find_from ic r p s i = Some (j, st, st') \<Longrightarrow>
   \<exists>pre suf. s = pre @ suf \<and> j = i + length pre \<and>
     st = (if pre = [] then p else last_opt pre, suf, None) \<and>
     (\<exists>sts. matches ic r st = st' # sts) \<and>
     (\<forall>pre' suf'. s = pre' @ suf' \<and> length pre' < length pre \<longrightarrow>
        matches ic r (if pre' = [] then p else last_opt pre', suf', None) = [])"
proof (induction ic r p s i rule: find_from.induct)
  case (1 ic r p i)
  then show ?case by (auto split: list.splits)
next
  case (2 ic r p c s i)
  show ?case
  proof (cases "matches ic r (p, c # s, None)")
    case (Cons st'' sts)
    with "2.prems" have "j = i" "st = (p, c # s, None)" "st' = st''" by auto
    with Cons show ?thesis by (intro exI [of _ "[]"] exI [of _ "c # s"]) simp
  next
    case Nil
    with "2.prems" "2.IH" obtain pre suf where *: "s = pre @ suf" "j = Suc i + length pre"
      "st = (if pre = [] then Some c else last_opt pre, suf, None)"
      "\<exists>sts. matches ic r st = st' # sts"
      and **: "\<And>pre' suf'. s = pre' @ suf' \<Longrightarrow> length pre' < length pre \<Longrightarrow>
        matches ic r (if pre' = [] then Some c else last_opt pre', suf', None) = []"
      by force
    have "matches ic r (if pre' = [] then p else last_opt pre', suf', None) = []"
      if "c # s = pre' @ suf'" "length pre' < length (c # pre)" for pre' suf'
    proof (cases pre')
      case Nil
      with that(1) \<open>matches ic r (p, c # s, None) = []\<close> show ?thesis by simp
    next
      case (Cons d qre)
      with that have "s = qre @ suf'" "length qre < length pre" "d = c" by auto
      then show ?thesis using ** [of qre suf'] Cons by (auto simp: last_opt_Cons split: if_splits)
    qed
    with * show ?thesis
      by (intro exI [of _ "c # pre"] exI [of _ suf]) (auto simp: last_opt_Cons)
  qed
qed

lemma find_from_None:
  "find_from ic r p s i = None \<longleftrightarrow>
   (\<forall>pre suf. s = pre @ suf \<longrightarrow> matches ic r (if pre = [] then p else last_opt pre, suf, None) = [])"
proof (induction ic r p s i rule: find_from.induct)
  case (1 ic r p i)
  then show ?case by (auto split: list.splits)
next
  case (2 ic r p c s i)
  show ?case
  proof (cases "matches ic r (p, c # s, None)")
    case (Cons st sts)
    then show ?thesis by auto
  next
    case Nil
    have "(\<forall>pre suf. c # s = pre @ suf \<longrightarrow>
        matches ic r (if pre = [] then p else last_opt pre, suf, None) = []) \<longleftrightarrow>
      (\<forall>pre suf. s = pre @ suf \<longrightarrow>
        matches ic r (if pre = [] then Some c else last_opt pre, suf, None) = [])" (is "?L \<longleftrightarrow> ?R")
    proof
      assume L: ?L
      show ?R
      proof (intro allI impI)
        fix pre suf assume "s = pre @ suf"
        then have "c # s = (c # pre) @ suf" by simp
        then have "matches ic r (if c # pre = [] then p else last_opt (c # pre), suf, None) = []"
          by (rule L [rule_format])
        then show "matches ic r (if pre = [] then Some c else last_opt pre, suf, None) = []"
          by (auto simp: last_opt_Cons split: if_splits)
      qed
    next
      assume R: ?R
      show ?L
      proof (intro allI impI)
        fix pre suf assume *: "c # s = pre @ suf"
        show "matches ic r (if pre = [] then p else last_opt pre, suf, None) = []"
        proof (cases pre)
          case (Cons d qre)
          with * have "s = qre @ suf" "d = c" by auto
          with R Cons show ?thesis by (auto simp: last_opt_Cons)
        qed (use * Nil in simp)
      qed
    qed
    with 2 Nil show ?thesis by simp
  qed
qed

text \<open>
  \<open>test\<close> on a string: true exactly when the pattern matches somewhere, with the unit
  before the match and the units after it as context.
\<close>

theorem re_test_iff:
  "re_test ic r s \<longleftrightarrow> (\<exists>pre suf st'. s = pre @ suf \<and> mt ic r (last_opt pre, suf, None) st')"
proof -
  have "(if pre = [] then None else last_opt pre) = last_opt pre" for pre :: jsstr
    by simp
  then show ?thesis
    unfolding re_test_def find_from_None matches_Nil_iff by (simp only:) blast
qed

section \<open>Literal patterns\<close>

definition same_unit :: "bool \<Rightarrow> code_unit \<Rightarrow> code_unit \<Rightarrow> bool" where
  [js_eval]: "same_unit ic c d \<longleftrightarrow> d = c \<or> (ic \<and> (lower_unit d = c \<or> upper_unit d = c))"

lemma cls_has_single [simp]: "cls_has ic [(c, c)] d \<longleftrightarrow> same_unit ic c d"
  by (auto simp: cls_has_def in_ranges_def same_unit_def)

lemma mt_ch:
  "mt ic (ch c) st st' \<longleftrightarrow>
   (\<exists>d s. rest_of st = d # s \<and> same_unit ic c d \<and> st' = (Some d, s, snd (snd st)))"
  by (simp add: ch_def)

lemma mt_lit:
  "mt ic (lit w) st st' \<longleftrightarrow>
   (\<exists>v s. rest_of st = v @ s \<and> list_all2 (same_unit ic) w v \<and>
      st' = (if v = [] then fst st else last_opt v, s, snd (snd st)))"
proof (induction w arbitrary: st)
  case Nil
  then show ?case by (cases st) auto
next
  case (Cons c w)
  show ?case
  proof
    assume "mt ic (lit (c # w)) st st'"
    then obtain d s v s' where "rest_of st = d # s" "same_unit ic c d" "s = v @ s'"
      "list_all2 (same_unit ic) w v"
      "st' = (if v = [] then Some d else last_opt v, s', snd (snd st))"
      by (auto simp: mt_ch Cons OO_def)
    then show "\<exists>v s. rest_of st = v @ s \<and> list_all2 (same_unit ic) (c # w) v \<and>
        st' = (if v = [] then fst st else last_opt v, s, snd (snd st))"
      by (intro exI [of _ "d # v"] exI [of _ s']) (auto simp: last_opt_Cons)
  next
    assume "\<exists>v s. rest_of st = v @ s \<and> list_all2 (same_unit ic) (c # w) v \<and>
        st' = (if v = [] then fst st else last_opt v, s, snd (snd st))"
    then obtain d v s where *: "rest_of st = d # v @ s" "same_unit ic c d"
      "list_all2 (same_unit ic) w v" "st' = (last_opt (d # v), s, snd (snd st))"
      by (auto simp: list_all2_Cons1)
    then have "mt ic (ch c) st (Some d, v @ s, snd (snd st))" by (simp add: mt_ch)
    moreover have "mt ic (lit w) (Some d, v @ s, snd (snd st)) st'"
      unfolding Cons.IH using * by (intro exI [of _ v] exI [of _ s]) (auto simp: last_opt_Cons)
    ultimately show "mt ic (lit (c # w)) st st'" by auto
  qed
qed

lemma mt_alts: "mt ic (alts rs) st st' \<longleftrightarrow> (\<exists>r \<in> set rs. mt ic r st st')"
  by (induction rs rule: alts.induct) (auto simp: cls_has_def in_ranges_def)

text \<open>Ignoring case, a literal of lower-case and caseless units matches its ASCII foldings.\<close>

lemma same_unit_lower:
  "lower_unit c = c \<Longrightarrow> same_unit True c d \<longleftrightarrow> lower_unit d = c"
  by (auto simp: same_unit_def upper_unit_def lower_unit_def is_ascii_upper_def is_ascii_lower_def)

lemma list_all2_same_unit_lower:
  "map lower_unit w = w \<Longrightarrow> list_all2 (same_unit True) w v \<longleftrightarrow> map lower_unit v = w"
  by (induction w arbitrary: v) (auto simp: list_all2_Cons1 same_unit_lower Cons_eq_map_conv)

lemma list_all2_same_unit_exact: "list_all2 (same_unit False) w v \<longleftrightarrow> v = w"
  by (induction w arbitrary: v) (auto simp: list_all2_Cons1 same_unit_def)

end
