(* ===== verification/Validation.thy ===== *)
theory Validation
  imports Contracts JsRegex
begin

text \<open>
  Price parsing and identity validation (\<open>worker/src/validation.ts\<close>): \<open>parsePrice\<close> with its
  regular expressions, \<open>fingerprint\<close>, \<open>titleSimilarity\<close>, \<open>validateObservation\<close> and
  \<open>normalize\<close>.
\<close>

section \<open>parsePrice\<close>

text \<open>\<open>/\b(from|starting at|per month|monthly|installment|finance)\b|\/\s*mo(?:nth)?\b/i\<close>\<close>

definition ambiguous_re :: re where
  "ambiguous_re = Alt
     (seqs [WordB, alts [str ''from'', str ''starting at'', str ''per month'', str ''monthly'',
        str ''installment'', str ''finance''], WordB])
     (seqs [ch 47, Star space_re, str ''mo'', opt_re (str ''nth''), WordB])"

text \<open>The eleven currency signs the code refuses, in the order of the source's class.\<close>

definition unsupported_sign_re :: re where
  "unsupported_sign_re = Cls [(165, 165), (8377, 8377), (8381, 8381), (8361, 8361), (8378, 8378),
     (8363, 8363), (3647, 3647), (8369, 8369), (8358, 8358), (8372, 8372), (8362, 8362)]"

definition jpy_re :: re where
  "jpy_re = seqs [WordB, str ''JPY'', WordB]"

text \<open>\<open>/US\$|C\$|A\$|\$|[euro]|[pound]/gi\<close>\<close>

definition symbol_re :: re where
  "symbol_re = alts [str ''US$'', str ''C$'', str ''A$'', str ''$'', ch 8364, ch 163]"

definition code_re :: re where
  "code_re = seqs [WordB, alts [str ''USD'', str ''CAD'', str ''EUR'', str ''GBP'', str ''AUD''], WordB]"

definition fraction_re :: re where
  "fraction_re = opt_re (Seq (Cls [(46, 46), (44, 44)]) (Rep 1 1 digit_re))"

text \<open>
  \<open>(?:\d{1,3}(?: \d{3})+(?:[.,]\d{1,2})?|(?:\d{1,3}(?:[,.]\d{3})+|\d+)(?:[.,]\d{1,2})?)\<close>
\<close>

definition numeric_re :: re where
  "numeric_re = Alt
     (Seq (Rep 1 2 digit_re) (Seq (plus_re (Seq (ch 32) (Rep 3 0 digit_re))) fraction_re))
     (Seq (Alt (Seq (Rep 1 2 digit_re) (plus_re (Seq (Cls [(44, 44), (46, 46)]) (Rep 3 0 digit_re))))
               (plus_re digit_re))
          fraction_re)"

definition currencySymbols :: "SupportedCurrency dict" where
  "currencySymbols = [(js ''US$'', USD), (js ''C$'', CAD), (js ''A$'', AUD), (js ''$'', USD),
     ([8364], EUR), ([163], GBP)]"

text \<open>The case normalisation of a matched sign by three anchored replacements.\<close>

definition canonical_symbol :: "jsstr \<Rightarrow> jsstr" where
  "canonical_symbol m =
     replace_one True (Seq Bol (str ''a$'')) (\<lambda>_. js ''A$'')
       (replace_one True (Seq Bol (str ''c$'')) (\<lambda>_. js ''C$'')
         (replace_one True (Seq Bol (str ''us$'')) (\<lambda>_. js ''US$'') m))"

text \<open>
  The set \<open>detectedCurrencies\<close> in insertion order. What \<open>code_re\<close> matches is ASCII, where
  \<open>toUpperCase\<close> is \<open>upper_unit\<close> on each unit.
\<close>

definition detect_symbol :: "nat \<times> jsstr \<Rightarrow> SupportedCurrency list \<Rightarrow> SupportedCurrency list" where
  "detect_symbol m acc =
     (case obj_get currencySymbols (canonical_symbol (snd m)) of
        None \<Rightarrow> acc
      | Some c \<Rightarrow> set_add c acc)"

definition detect_code :: "nat \<times> jsstr \<Rightarrow> SupportedCurrency list \<Rightarrow> SupportedCurrency list" where
  "detect_code m acc =
     (case currency_of_code (map upper_unit (snd m)) of
        None \<Rightarrow> acc
      | Some c \<Rightarrow> set_add c acc)"

definition detectedCurrencies :: "jsstr \<Rightarrow> SupportedCurrency list" where
  "detectedCurrencies s =
     fold detect_code (match_all True code_re s) (fold detect_symbol (match_all True symbol_re s) [])"

text \<open>The three-letter codes next to the number.\<close>

definition upper3_re :: re where
  "upper3_re = Grp (Rep 3 0 (Cls [(65, 90)]))"

definition before_code_re :: re where
  "before_code_re = seqs [WordB, upper3_re, WordB, Star space_re, Eol]"

definition after_code_re :: re where
  "after_code_re = seqs [Bol, upper3_re, WordB]"

definition adjacentCodes :: "jsstr \<Rightarrow> jsstr \<Rightarrow> jsstr list" where
  "adjacentCodes before after =
     filter (\<lambda>c. c \<noteq> []) (List.map_filter id
       [re_group False before_code_re before, re_group False after_code_re after])"

text \<open>A single kind of separator: three digits after the last one make it a grouping mark.\<close>

definition strip_separator :: "code_unit \<Rightarrow> nat \<Rightarrow> jsstr \<Rightarrow> jsstr" where
  "strip_separator sep i numeric =
     (if length numeric - i - 1 = 3 then remove_unit sep numeric
      else remove_unit sep (take i numeric) @ [46] @ drop (Suc i) numeric)"

text \<open>The decimal text of a number whose separators are still those of the page.\<close>

definition plain_decimal :: "jsstr \<Rightarrow> jsstr" where
  "plain_decimal numeric0 =
    (let numeric = remove_unit 32 numeric0;
         lastComma = last_index_of 44 numeric;
         lastDot = last_index_of 46 numeric
     in case (lastComma, lastDot) of
          (Some lc, Some ld) \<Rightarrow>
            if ld < lc then replace_first 44 46 (remove_unit 46 numeric)
            else remove_unit 44 numeric
        | (Some lc, None) \<Rightarrow> strip_separator 44 lc numeric
        | (None, Some ld) \<Rightarrow> strip_separator 46 ld numeric
        | (None, None) \<Rightarrow> numeric)"

definition ambiguous :: "jsstr \<Rightarrow> exn" where
  "ambiguous m = ValidationError m AmbiguousValue"

text \<open>
  \<open>parsePrice\<close>: the price in minor units and the currency the text names. The price is a
  double because that is what \<open>Math.round(value * 100)\<close> returns.
\<close>

definition parsePrice :: "jsstr \<Rightarrow> exn + dbl \<times> SupportedCurrency option" where
  "parsePrice raw =
    (let compact = trim (map (\<lambda>c. if c = 160 \<or> c = 8239 then 32 else c) raw) in
     if re_test True ambiguous_re compact then
       Inl (ambiguous (js ''Ambiguous non-total price: '' @ compact))
     else if re_test False unsupported_sign_re compact \<or> re_test True jpy_re compact then
       Inl (ambiguous (js ''This currency is not supported in price monitor v1''))
     else let detected = detectedCurrencies compact in
     if length detected > 1 then
       Inl (ambiguous (js ''Price text contains conflicting currencies''))
     else let numericMatches = match_all False numeric_re compact in
     case numericMatches of
       [(start, m)] \<Rightarrow>
        (let before = trim_end (take start compact);
             after = trim_start (drop (start + length m) compact)
         in case find (\<lambda>c. currency_of_code c = None) (adjacentCodes before after) of
              Some code \<Rightarrow>
                Inl (ambiguous (js ''Currency '' @ code @ js '' is not supported in price monitor v1''))
            | None \<Rightarrow>
               (let value = js_number (plain_decimal m) in
                if \<not> is_finite value \<or> dle value (Fin 0) then
                  Inl (ambiguous (js ''Price must be a positive finite number''))
                else Inr (math_round (dmul value 100),
                          case detected of [] \<Rightarrow> None | c # _ \<Rightarrow> Some c)))
     | _ \<Rightarrow>
        Inl (ambiguous (js ''Expected one current price, found '' @ show_nat (length numericMatches))))"

section \<open>Identity\<close>

text \<open>\<open>normalize\<close>: lower case, compatibility form, runs of other characters to one space.\<close>

definition not_alnum_re :: re where
  "not_alnum_re = plus_re (NotCls [(97, 122), (48, 57)])"

definition normalize :: "platform \<Rightarrow> jsstr \<Rightarrow> jsstr" where
  "normalize P input = trim (replace_all False not_alnum_re (\<lambda>_. [32]) (nfkc P (to_lower P input)))"

definition fingerprint :: "platform \<Rightarrow> jsstr \<Rightarrow> jsstr option \<Rightarrow> jsstr" where
  "fingerprint P title sku =
     sha256_hex P (utf8_encode
       (normalize P title @ [0] @ normalize P (case sku of None \<Rightarrow> [] | Some s \<Rightarrow> s)))"

definition title_tokens :: "platform \<Rightarrow> jsstr \<Rightarrow> jsstr list" where
  "title_tokens P s = set_of (filter (\<lambda>w. w \<noteq> []) (split_on 32 (normalize P s)))"

definition titleSimilarity :: "platform \<Rightarrow> jsstr \<Rightarrow> jsstr \<Rightarrow> dbl" where
  "titleSimilarity P left right =
    (let a = title_tokens P left; b = title_tokens P right in
     if a = [] \<or> b = [] then Fin 0
     else ddiv_nat (length (filter (\<lambda>t. t \<in> set b) a)) (length (set_of (a @ b))))"

text \<open>\<open>a && b\<close> on two optional strings: both present and non-empty.\<close>

definition both_skus :: "jsstr option \<Rightarrow> jsstr option \<Rightarrow> (jsstr \<times> jsstr) option" where
  "both_skus a b = (case (a, b) of
      (Some x, Some y) \<Rightarrow> if x \<noteq> [] \<and> y \<noteq> [] then Some (x, y) else None
    | _ \<Rightarrow> None)"

definition check_variant :: "platform \<Rightarrow> Observation \<Rightarrow> jsstr \<times> jsstr \<Rightarrow> exn + unit" where
  "check_variant P obs = (\<lambda>(attribute, expected).
     throw_if
       (normalize P (case obj_get (obs_selectedVariant obs) attribute of None \<Rightarrow> [] | Some v \<Rightarrow> v)
         \<noteq> normalize P expected)
       (ValidationError (js ''Requested '' @ attribute @ js '' variant is no longer selected'')
         IdentityDrift))"

definition validateObservation :: "platform \<Rightarrow> Observation \<Rightarrow> MonitorPlanV1 \<Rightarrow> exn + unit" where
  "validateObservation P obs plan =
     rbind (throw_if (obs_currency obs \<noteq> plan_expectedCurrency plan)
        (ambiguous (js ''Expected '' @ currency_code (plan_expectedCurrency plan) @
           js '', observed '' @ currency_code (obs_currency obs))))
     (\<lambda>_. rbind
       (case both_skus (id_sku (plan_ident plan)) (obs_sku obs) of
          Some (x, y) \<Rightarrow>
            throw_if (normalize P x \<noteq> normalize P y)
              (ValidationError (js ''Product SKU changed'') IdentityDrift)
        | None \<Rightarrow>
            throw_if (dless (titleSimilarity P (id_title (plan_ident plan)) (obs_title obs)) (fl (8 / 10)))
              (ValidationError (js ''Product title no longer matches the compiled identity'')
                IdentityDrift))
     (\<lambda>_. for_each (check_variant P obs) (id_requestedVariant (plan_ident plan))))"

end
