(* ===== verification/JsValue.thy ===== *)
theory JsValue
  imports Json
begin

text \<open>
  Operations on parsed values that several parts of the program use: reading a property, \<open>??\<close> and
  \<open>?.\<close>, truth, \<open>encodeURIComponent\<close> and \<open>JSON.stringify\<close>.
\<close>

section \<open>Properties\<close>

text \<open>Reading a property of an object; \<open>None\<close> is \<open>undefined\<close>.\<close>

fun json_get :: "json \<Rightarrow> string \<Rightarrow> json option" where
  "json_get (JObj d) k = map_of d (js k)"
| "json_get _ k = None"

definition nullish :: "json option \<Rightarrow> bool" where
  "nullish v \<longleftrightarrow> v = None \<or> v = Some JNull"

text \<open>\<open>a?.b\<close>, and the truth of a value.\<close>

definition opt_get :: "json option \<Rightarrow> string \<Rightarrow> json option" where
  "opt_get v k = Option.bind v (\<lambda>j. json_get j k)"

fun truthy :: "json option \<Rightarrow> bool" where
  "truthy None = False"
| "truthy (Some JNull) = False"
| "truthy (Some (JBool b)) = b"
| "truthy (Some (JNum x)) = (x \<noteq> Fin 0 \<and> x \<noteq> NaN)"
| "truthy (Some (JStr s)) = (s \<noteq> [])"
| "truthy (Some (JArr vs)) = True"
| "truthy (Some (JObj d)) = True"

definition coalesce :: "json option \<Rightarrow> json option \<Rightarrow> json option" where
  "coalesce a b = (if nullish a then b else a)"

section \<open>encodeURIComponent and JSON.stringify\<close>

definition uri_unreserved :: "code_unit \<Rightarrow> bool" where
  "uri_unreserved c \<longleftrightarrow> is_digit c \<or> is_ascii_lower c \<or> is_ascii_upper c \<or> c \<in> set (js ''-_.!~*()'') \<or> c = 39"

definition hex_upper :: "int \<Rightarrow> code_unit" where
  "hex_upper n = (if n < 10 then 48 + n else 55 + n)"

definition percent :: "int list \<Rightarrow> jsstr" where
  "percent bytes = concat (map (\<lambda>b. [37, hex_upper (b div 16), hex_upper (b mod 16)]) bytes)"

text \<open>\<open>None\<close>: a lone surrogate, for which \<open>encodeURIComponent\<close> throws a \<open>URIError\<close>.\<close>

fun encode_component :: "jsstr \<Rightarrow> jsstr option" where
  "encode_component [] = Some []"
| "encode_component (c # s) =
    (if uri_unreserved c then map_option ((#) c) (encode_component s)
     else if is_high c then
       (case s of
          d # r \<Rightarrow>
            if is_low d then
              map_option ((@) (percent (utf8_units (65536 + (c - 55296) * 1024 + (d - 56320))))) (encode_component r)
            else None
        | [] \<Rightarrow> None)
     else if is_low c then None
     else map_option ((@) (percent (utf8_units c))) (encode_component s))"

definition hex_lower :: "int \<Rightarrow> code_unit" where
  "hex_lower n = (if n < 10 then 48 + n else 87 + n)"

definition unicode_escape :: "code_unit \<Rightarrow> jsstr" where
  "unicode_escape c = [92, 117] @ map hex_lower [c div 4096 mod 16, c div 256 mod 16, c div 16 mod 16, c mod 16]"

fun quote_units :: "jsstr \<Rightarrow> jsstr" where
  "quote_units [] = []"
| "quote_units (c # s) =
    (if c = 34 \<or> c = 92 then 92 # c # quote_units s
     else if c = 8 then 92 # 98 # quote_units s
     else if c = 12 then 92 # 102 # quote_units s
     else if c = 10 then 92 # 110 # quote_units s
     else if c = 13 then 92 # 114 # quote_units s
     else if c = 9 then 92 # 116 # quote_units s
     else if c < 32 then unicode_escape c @ quote_units s
     else if is_high c then
       (case s of
          d # r \<Rightarrow> if is_low d then c # d # quote_units r else unicode_escape c @ quote_units s
        | [] \<Rightarrow> unicode_escape c)
     else if is_low c then unicode_escape c @ quote_units s
     else c # quote_units s)"

definition quote :: "jsstr \<Rightarrow> jsstr" where
  "quote s = [34] @ quote_units s @ [34]"

fun json_stringify :: "json \<Rightarrow> jsstr" where
  "json_stringify JNull = js ''null''"
| "json_stringify (JBool b) = (if b then js ''true'' else js ''false'')"
| "json_stringify (JNum x) = (if is_finite x then show_dbl x else js ''null'')"
| "json_stringify (JStr s) = quote s"
| "json_stringify (JArr vs) = [91] @ join [44] (map json_stringify vs) @ [93]"
| "json_stringify (JObj d) =
     [123] @ join [44] (map (\<lambda>(k, v). quote k @ [58] @ json_stringify v) d) @ [125]"

text \<open>An encoded component has no unit that separates the parts of a URL.\<close>

lemma hex_upper_unreserved: "0 \<le> n \<Longrightarrow> n < 16 \<Longrightarrow> uri_unreserved (hex_upper n)"
  by (auto simp: hex_upper_def uri_unreserved_def is_digit_def is_ascii_upper_def)

lemma percent_units: "list_all (\<lambda>b. 0 \<le> b \<and> b < 256) bs \<Longrightarrow> c \<in> set (percent bs) \<Longrightarrow> uri_unreserved c \<or> c = 37"
  by (auto simp: percent_def list_all_iff intro!: hex_upper_unreserved split: if_splits)

lemma utf8_units_bytes: "0 \<le> c \<Longrightarrow> c < 1114112 \<Longrightarrow> list_all (\<lambda>b. 0 \<le> b \<and> b < 256) (utf8_units c)"
  by (auto simp: utf8_units_def)

definition unit_list :: "jsstr \<Rightarrow> bool" where
  "unit_list s \<longleftrightarrow> list_all (\<lambda>c. 0 \<le> c \<and> c < 65536) s"

lemma encode_component_units:
  "encode_component s = Some t \<Longrightarrow> unit_list s \<Longrightarrow> c \<in> set t \<Longrightarrow> uri_unreserved c \<or> c = 37"
proof (induction s arbitrary: t rule: encode_component.induct)
  case (2 a s)
  have p: "uri_unreserved c" if "c \<in> set (percent (utf8_units n))" "c \<noteq> 37" "0 \<le> n" "n < 1114112" for n
    using percent_units [OF utf8_units_bytes that(1)] that by blast
  show ?case
    using 2 by (auto simp: unit_list_def is_high_def is_low_def split: if_splits list.splits dest!: p)
qed simp

end
