(* ===== verification/JsRegexLaws.thy ===== *)
theory JsRegexLaws
  imports JsRegex
begin

text \<open>
  Reasoning about the match the engine returns. \<open>first r st st'\<close> says that \<open>st'\<close> is the
  first end backtracking reaches; the rules compute it through sequences, alternatives
  and greedy repetitions. \<open>cannot\<close> is a syntactic test that a pattern has no match in text
  over a given alphabet.
\<close>

section \<open>The first match\<close>

definition first :: "bool \<Rightarrow> re \<Rightarrow> rstate \<Rightarrow> rstate \<Rightarrow> bool" where
  "first ic r st st' \<longleftrightarrow> (\<exists>sts. matches ic r st = st' # sts)"

lemma first_Seq: "first ic r st a \<Longrightarrow> first ic s a b \<Longrightarrow> first ic (Seq r s) st b"
  by (auto simp: first_def)

lemma first_AltL: "first ic r st a \<Longrightarrow> first ic (Alt r s) st a"
  by (auto simp: first_def)

lemma first_AltR: "matches ic r st = [] \<Longrightarrow> first ic s st a \<Longrightarrow> first ic (Alt r s) st a"
  by (auto simp: first_def)

lemma first_Cls: "cls_has ic rs c \<Longrightarrow> first ic (Cls rs) (p, c # s, k) (Some c, s, k)"
  by (auto simp: first_def)

lemma Seq_fail: "(\<And>a. a \<in> set (matches ic r st) \<Longrightarrow> matches ic s a = []) \<Longrightarrow> matches ic (Seq r s) st = []"
  by simp

lemma plus_fail: "matches ic r st = [] \<Longrightarrow> matches ic (plus_re r) st = []"
  by (simp add: plus_re_def)

lemma first_mt: "first ic r st st' \<Longrightarrow> mt ic r st st'"
  by (metis first_def list.set_intros(1) mem_Collect_eq set_matches)

lemma first_matched: "first ic r st st' \<Longrightarrow> rest_of st = matched st st' @ rest_of st'"
  by (drule first_mt, drule mt_moves) (auto simp: moves_def matched_def)

lemma star_m_Suc_stop: "f st = [] \<Longrightarrow> star_m f n st = [st]"
  by (cases n) auto

lemma star_m_step:
  assumes "f st = a # as" "length (rest_of a) < length (rest_of st)" "0 < n"
    and "\<exists>sts. star_m f (n - 1) a = b # sts"
  shows "\<exists>sts. star_m f n st = b # sts"
  using assms by (cases n) auto

lemma first_Star_stop: "matches ic r st = [] \<Longrightarrow> first ic (Star r) st st"
  by (simp add: first_def star_m_Suc_stop)

text \<open>
  A greedy run: \<open>w\<close> is consumed piece by piece, each piece being the first match of the body,
  and after it the body does not match.
\<close>

inductive star_run :: "bool \<Rightarrow> re \<Rightarrow> rstate \<Rightarrow> rstate \<Rightarrow> bool" for ic r where
  run_stop: "matches ic r st = [] \<Longrightarrow> star_run ic r st st"
| run_step: "first ic r st a \<Longrightarrow> length (rest_of a) < length (rest_of st) \<Longrightarrow> star_run ic r a b \<Longrightarrow>
    star_run ic r st b"

lemma run_star_m:
  "star_run ic r st b \<Longrightarrow> length (rest_of st) \<le> n \<Longrightarrow> \<exists>sts. star_m (matches ic r) n st = b # sts"
proof (induction arbitrary: n rule: star_run.induct)
  case (run_stop st)
  then show ?case by (simp add: star_m_Suc_stop)
next
  case (run_step st a b)
  then obtain as where "matches ic r st = a # as" by (auto simp: first_def)
  moreover have "\<exists>sts. star_m (matches ic r) (n - 1) a = b # sts"
    using run_step.hyps(2) run_step.prems by (intro run_step.IH) linarith
  moreover have "0 < n" using run_step.hyps(2) run_step.prems by linarith
  ultimately show ?case using run_step.hyps(2) star_m_step by blast
qed

lemma first_Star: "star_run ic r st b \<Longrightarrow> first ic (Star r) st b"
  by (simp add: first_def run_star_m)

lemma first_plus: "first ic r st a \<Longrightarrow> star_run ic r a b \<Longrightarrow> first ic (plus_re r) st b"
  unfolding plus_re_def by (rule first_Seq) (auto intro: first_Star)

lemma first_opt:
  "first ic r st a \<Longrightarrow> length (rest_of a) < length (rest_of st) \<Longrightarrow> first ic (opt_re r) st a"
  by (auto simp: first_def opt_re_def)

lemma first_Rep_Suc:
  "first ic r st a \<Longrightarrow> first ic (Rep m k r) a b \<Longrightarrow> first ic (Rep (Suc m) k r) st b"
  by (auto simp: first_def)

lemma first_Rep_0: "first ic (Rep 0 0 r) st st"
  by (auto simp: first_def)

lemma first_Rep_more:
  "first ic r st a \<Longrightarrow> length (rest_of a) < length (rest_of st) \<Longrightarrow> first ic (Rep 0 k r) a b \<Longrightarrow>
   first ic (Rep 0 (Suc k) r) st b"
  by (auto simp: first_def)

lemma first_Rep_stop: "matches ic r st = [] \<Longrightarrow> first ic (Rep 0 k r) st st"
  by (cases k) (auto simp: first_def)

section \<open>Digits\<close>

lemma cls_has_digit [simp]: "cls_has False [(48, 57)] c \<longleftrightarrow> is_digit c"
  by (simp add: cls_has_def in_ranges_def is_digit_def)

lemma first_digit: "is_digit c \<Longrightarrow> first False digit_re (p, c # s, k) (Some c, s, k)"
  unfolding digit_re_def by (rule first_Cls) simp

lemma no_digit: "s = [] \<or> \<not> is_digit (hd s) \<Longrightarrow> matches False digit_re (p, s, k) = []"
  by (cases s) (auto simp: digit_re_def)

lemma run_digits:
  assumes "list_all is_digit w" "s = [] \<or> \<not> is_digit (hd s)"
  shows "star_run False digit_re (p, w @ s, k) (if w = [] then p else last_opt w, s, k)"
  using assms(1)
proof (induction w arbitrary: p)
  case Nil
  then show ?case using assms(2) by (auto intro: run_stop no_digit)
next
  case (Cons c w)
  have "star_run False digit_re (Some c, w @ s, k) (if w = [] then Some c else last_opt w, s, k)"
    using Cons by simp
  then have "star_run False digit_re (p, c # w @ s, k) (if w = [] then Some c else last_opt w, s, k)"
    using Cons.prems by (intro run_step [OF first_digit]) auto
  then show ?case by (simp add: last_opt_Cons)
qed

lemma first_digits:
  assumes "list_all is_digit w" "w \<noteq> []" "s = [] \<or> \<not> is_digit (hd s)"
  shows "first False (plus_re digit_re) (p, w @ s, k) (last_opt w, s, k)"
proof -
  obtain c v where w: "w = c # v" using assms(2) by (cases w) auto
  have "first False digit_re (p, w @ s, k) (Some c, v @ s, k)"
    using assms(1) w by (auto intro: first_digit)
  moreover have "star_run False digit_re (Some c, v @ s, k) (if v = [] then Some c else last_opt v, s, k)"
    using assms w by (intro run_digits) auto
  ultimately show ?thesis using w by (auto intro: first_plus simp: last_opt_Cons split: if_splits)
qed

text \<open>\<open>\d{m,m+k}\<close> on a run of between \<open>m\<close> and \<open>m + k\<close> digits takes them all.\<close>

lemma first_Rep_digits:
  assumes "list_all is_digit w" "s = [] \<or> \<not> is_digit (hd s)" "m \<le> length w" "length w \<le> m + j"
  shows "first False (Rep m j digit_re) (p, w @ s, k) (if w = [] then p else last_opt w, s, k)"
  using assms(1,3,4)
proof (induction w arbitrary: m j p)
  case Nil
  then show ?case using assms(2) by (auto intro: first_Rep_stop no_digit)
next
  case (Cons c w)
  have d: "first False digit_re (p, c # w @ s, k) (Some c, w @ s, k)"
    using Cons.prems by (auto intro: first_digit)
  show ?case
  proof (cases m)
    case 0
    with Cons.prems obtain i where j: "j = Suc i" by (cases j) auto
    have "first False (Rep 0 i digit_re) (Some c, w @ s, k) (if w = [] then Some c else last_opt w, s, k)"
      using Cons.prems 0 j by (intro Cons.IH) auto
    then show ?thesis using d 0 j by (auto intro: first_Rep_more simp: last_opt_Cons split: if_splits)
  next
    case (Suc n)
    have "first False (Rep n j digit_re) (Some c, w @ s, k) (if w = [] then Some c else last_opt w, s, k)"
      using Cons.prems Suc by (intro Cons.IH) auto
    then show ?thesis using d Suc by (auto intro: first_Rep_Suc simp: last_opt_Cons split: if_splits)
  qed
qed

text \<open>A mandatory run of \<open>m\<close> digits fails on fewer.\<close>

lemma Rep_digits_fail:
  assumes "list_all is_digit w" "s = [] \<or> \<not> is_digit (hd s)" "length w < m"
  shows "matches False (Rep m j digit_re) (p, w @ s, k) = []"
  using assms(1,3)
proof (induction w arbitrary: m p)
  case Nil
  then show ?case using assms(2) no_digit [of s p k] by (cases m) auto
next
  case (Cons c w)
  then obtain n where m: "m = Suc n" by (cases m) auto
  have "matches False digit_re (p, c # w @ s, k) = [(Some c, w @ s, k)]"
    using Cons.prems by (simp add: digit_re_def)
  then show ?case using Cons m by simp
qed

section \<open>Text over an alphabet a pattern does not match\<close>

primrec cannot :: "(code_unit \<Rightarrow> bool) \<Rightarrow> bool \<Rightarrow> re \<Rightarrow> bool" where
  "cannot A ic (Cls rs) = (\<forall>c. A c \<longrightarrow> \<not> cls_has ic rs c)"
| "cannot A ic (NotCls rs) = (\<forall>c. A c \<longrightarrow> cls_has ic rs c)"
| "cannot A ic Eps = False"
| "cannot A ic (Seq r s) = (cannot A ic r \<or> cannot A ic s)"
| "cannot A ic (Alt r s) = (cannot A ic r \<and> cannot A ic s)"
| "cannot A ic (Star r) = False"
| "cannot A ic (Rep m k r) = (0 < m \<and> cannot A ic r)"
| "cannot A ic WordB = False"
| "cannot A ic Bol = False"
| "cannot A ic Eol = False"
| "cannot A ic (NotAhead r) = False"
| "cannot A ic (Grp r) = cannot A ic r"

lemma moves_list_all: "moves st st' \<Longrightarrow> list_all A (rest_of st) \<Longrightarrow> list_all A (rest_of st')"
  by (auto simp: moves_def)

lemma cannot_mt: "cannot A ic r \<Longrightarrow> list_all A (rest_of st) \<Longrightarrow> \<not> mt ic r st st'"
proof (induction r arbitrary: st st')
  case (Seq r s)
  show ?case
  proof
    assume "mt ic (Seq r s) st st'"
    then obtain a where a: "mt ic r st a" "mt ic s a st'"
      by (simp only: mt.simps) (erule relcomppE)
    then have "list_all A (rest_of a)" using Seq.prems(2) by (blast intro: moves_list_all mt_moves)
    then show False using a Seq.IH Seq.prems by (metis cannot.simps(4))
  qed
next
  case (Rep m k r)
  show ?case
  proof
    assume "mt ic (Rep m k r) st st'"
    then obtain a where "(mt ic r ^^ m) st a"
      by (simp only: mt.simps) (elim exE conjE relcomppE)
    moreover obtain n where "m = Suc n" using Rep.prems(1) by (cases m) auto
    ultimately obtain b where "mt ic r st b" by (metis relpowp_Suc_D2)
    then show False using Rep by auto
  qed
next
  case (Grp r)
  then show ?case by (simp only: mt.simps cannot.simps) blast
qed auto

lemma cannot_matches: "cannot A ic r \<Longrightarrow> list_all A s \<Longrightarrow> matches ic r (p, s, k) = []"
  by (simp add: matches_Nil_iff cannot_mt)

lemma cannot_find: "cannot A ic r \<Longrightarrow> list_all A s \<Longrightarrow> find_from ic r p s i = None"
  unfolding find_from_None by (auto intro: cannot_matches)

lemma cannot_test: "cannot A ic r \<Longrightarrow> list_all A s \<Longrightarrow> \<not> re_test ic r s"
  by (simp add: re_test_def cannot_find)

lemma cannot_match_all: "cannot A ic r \<Longrightarrow> list_all A s \<Longrightarrow> match_all ic r s = []"
  by (simp add: match_all_def cannot_find)

lemma cannot_lit_Cons: "(\<forall>d. A d \<longrightarrow> \<not> same_unit ic c d) \<Longrightarrow> cannot A ic (lit (c # w))"
  by (simp add: ch_def)

lemma find_from_skip:
  "matches ic r (p, c # s, None) = [] \<Longrightarrow> find_from ic r p (c # s) i = find_from ic r (Some c) s (Suc i)"
  by simp

lemma find_from_hit:
  "first ic r (p, s, None) st' \<Longrightarrow> find_from ic r p s i = Some (i, (p, s, None), st')"
  by (cases s) (auto simp: first_def)

section \<open>Patterns that denote a set of words\<close>

text \<open>The state after consuming \<open>v\<close> with \<open>s\<close> left.\<close>

definition after :: "rstate \<Rightarrow> jsstr \<Rightarrow> jsstr \<Rightarrow> rstate" where
  "after st v s = (if v = [] then fst st else last_opt v, s, snd (snd st))"

lemma rest_of_after [simp]: "rest_of (after st v s) = s"
  by (simp add: after_def)

lemma after_after [simp]: "after (after st v t) w s = after st (v @ w) s"
  by (simp add: after_def last_opt_append)

lemma after_Nil [simp]: "after st [] (rest_of st) = st"
  by (simp add: after_def)

text \<open>
  \<open>denotes r L\<close>: ignoring case, \<open>r\<close> consumes exactly the foldings of the words of \<open>L\<close>,
  whatever surrounds them.
\<close>

definition denotes :: "re \<Rightarrow> jsstr set \<Rightarrow> bool" where
  "denotes r L \<longleftrightarrow> (\<forall>st st'. mt True r st st' \<longleftrightarrow>
     (\<exists>v s. rest_of st = v @ s \<and> map lower_unit v \<in> L \<and> st' = after st v s))"

lemma denotes_mt:
  "denotes r L \<Longrightarrow> mt True r st st' \<longleftrightarrow>
   (\<exists>v s. rest_of st = v @ s \<and> map lower_unit v \<in> L \<and> st' = after st v s)"
  unfolding denotes_def by blast

lemma denotes_lit: "map lower_unit w = w \<Longrightarrow> denotes (lit w) {w}"
  by (simp add: denotes_def mt_lit list_all2_same_unit_lower after_def)

lemma denotes_str: "map lower_unit (js s) = js s \<Longrightarrow> denotes (str s) {js s}"
  unfolding str_def by (rule denotes_lit)

lemma denotes_Alt: "denotes r A \<Longrightarrow> denotes q B \<Longrightarrow> denotes (Alt r q) (A \<union> B)"
  unfolding denotes_def mt.simps by blast

lemma denotes_Seq:
  assumes r: "denotes r A" and q: "denotes q B"
  shows "denotes (Seq r q) {a @ b | a b. a \<in> A \<and> b \<in> B}"
  unfolding denotes_def
proof (intro allI iffI)
  fix st st' assume "mt True (Seq r q) st st'"
  then obtain m where "mt True r st m" "mt True q m st'"
    by (simp only: mt.simps) (erule relcomppE)
  then obtain v s v' s' where
    v: "rest_of st = v @ s" "map lower_unit v \<in> A" "m = after st v s" and
    v': "rest_of m = v' @ s'" "map lower_unit v' \<in> B" "st' = after m v' s'"
    unfolding denotes_mt [OF r] denotes_mt [OF q] by blast
  have "rest_of st = (v @ v') @ s'" "st' = after st (v @ v') s'" using v v' by auto
  moreover have "map lower_unit (v @ v') \<in> {a @ b | a b. a \<in> A \<and> b \<in> B}" using v v' by auto
  ultimately show "\<exists>v s. rest_of st = v @ s \<and> map lower_unit v \<in> {a @ b | a b. a \<in> A \<and> b \<in> B} \<and>
      st' = after st v s" by blast
next
  fix st st'
  assume "\<exists>v s. rest_of st = v @ s \<and> map lower_unit v \<in> {a @ b | a b. a \<in> A \<and> b \<in> B} \<and>
      st' = after st v s"
  then obtain v s a b where *: "rest_of st = v @ s" "map lower_unit v = a @ b" "a \<in> A" "b \<in> B"
    "st' = after st v s" by blast
  then obtain x y where xy: "v = x @ y" "map lower_unit x = a" "map lower_unit y = b"
    by (auto simp: map_eq_append_conv)
  have "mt True r st (after st x (y @ s))"
    unfolding denotes_mt [OF r] using * xy by (intro exI [of _ x] exI [of _ "y @ s"]) simp
  moreover have "mt True q (after st x (y @ s)) st'"
    unfolding denotes_mt [OF q] using * xy by (intro exI [of _ y] exI [of _ s]) simp
  ultimately show "mt True (Seq r q) st st'" by (simp only: mt.simps) (rule relcomppI)
qed

lemma mt_opt: "mt ic (opt_re r) st st' \<longleftrightarrow> st = st' \<or> progress (mt ic r) st st'"
proof -
  have "(\<exists>j \<le> Suc 0. (R ^^ j) st st') \<longleftrightarrow> st = st' \<or> R st st'" for R :: "rstate \<Rightarrow> rstate \<Rightarrow> bool"
    using relpowp_bounded_unfold [of 0 R st st'] by (simp del: split_paired_Ex)
  from this [of "progress (mt ic r)"] show ?thesis
    by (simp only: opt_re_def mt.simps relpowp.simps eq_OO One_nat_def)
qed

lemma denotes_opt:
  assumes r: "denotes r A" and "[] \<notin> A"
  shows "denotes (opt_re r) (insert [] A)"
  unfolding denotes_def mt_opt
proof (intro allI)
  fix st st' :: rstate
  have "progress (mt True r) st st' \<longleftrightarrow> mt True r st st'"
    unfolding progress_def denotes_mt [OF r] using assms(2) by fastforce
  moreover have "st = st' \<longleftrightarrow> (\<exists>v s. rest_of st = v @ s \<and> map lower_unit v = [] \<and> st' = after st v s)"
    using after_Nil [of st] by auto
  ultimately show "(st = st' \<or> progress (mt True r) st st') \<longleftrightarrow>
    (\<exists>v s. rest_of st = v @ s \<and> map lower_unit v \<in> insert [] A \<and> st' = after st v s)"
    unfolding denotes_mt [OF r] insert_iff by blast
qed

text \<open>\<open>/\b(?:...)\b/i\<close>: a word of the set between two word boundaries.\<close>

definition word_edge :: "jsstr \<Rightarrow> jsstr \<Rightarrow> bool" where
  "word_edge l r \<longleftrightarrow> (l \<noteq> [] \<and> is_word (last l)) \<noteq> (r \<noteq> [] \<and> is_word (hd r))"

lemma at_word_boundary_edge: "at_word_boundary (last_opt l, r, k) = word_edge l r"
  by (cases r) (auto simp: word_edge_def last_opt_def)

lemma after_start: "after (last_opt pre, suf, k) v s = (last_opt (pre @ v), s, k)"
  by (simp add: after_def last_opt_append)

lemma mt_words:
  assumes r: "denotes r L"
  shows "mt True (seqs [WordB, r, WordB]) (last_opt pre, suf, None) st' \<longleftrightarrow>
    (\<exists>v post. suf = v @ post \<and> map lower_unit v \<in> L \<and> word_edge pre suf \<and>
       word_edge (pre @ v) post \<and> st' = (last_opt (pre @ v), post, None))"
proof -
  have e: "mt True (seqs [WordB, r, WordB]) st st' \<longleftrightarrow>
    at_word_boundary st \<and> mt True r st st' \<and> at_word_boundary st'" for st
    unfolding seqs.simps mt.simps OO_def by blast
  show ?thesis
    unfolding e denotes_mt [OF r] after_start fst_conv snd_conv at_word_boundary_edge
    by (auto simp: at_word_boundary_edge simp del: at_word_boundary.simps)
qed

lemma re_test_words:
  "denotes r L \<Longrightarrow> re_test True (seqs [WordB, r, WordB]) s \<longleftrightarrow>
    (\<exists>pre v post. s = pre @ v @ post \<and> map lower_unit v \<in> L \<and>
       word_edge pre (v @ post) \<and> word_edge (pre @ v) post)"
  unfolding re_test_iff mt_words by blast

section \<open>Groups and anchors\<close>

lemma first_Grp: "first ic r st st' \<Longrightarrow> first ic (Grp r) st (capture st st')"
  by (auto simp: first_def)

lemma first_Bol: "first ic Bol (None, s, k) (None, s, k)"
  by (simp add: first_def)

lemma first_Eol: "first ic Eol (p, [], k) (p, [], k)"
  by (simp add: first_def)

lemma first_ch: "first False (ch c) (p, c # s, k) (Some c, s, k)"
  unfolding ch_def by (rule first_Cls) (simp add: same_unit_def)

lemma first_lit: "first False (lit w) (p, w @ s, k) (if w = [] then p else last_opt w, s, k)"
proof (induction w arbitrary: p)
  case (Cons c w)
  have "first False (Seq (ch c) (lit w)) (p, c # w @ s, k)
      (if w = [] then Some c else last_opt w, s, k)"
    by (rule first_Seq [OF first_ch Cons.IH])
  then show ?case by (simp add: last_opt_Cons)
qed (simp add: first_def)

end
