(* ===== verification/Extract.thy ===== *)
theory Extract
  imports Moments Validation JsValue JsRegexLaws
begin

text \<open>
  Reading an observation off a page (\<open>worker/src/extract.ts\<close>) and the choice of strategies
  for a compiled plan (\<open>worker/src/extractorPolicy.ts\<close>): \<open>readStrategy\<close>, the search for a
  product in JSON-LD, \<open>parseAvailability\<close>, \<open>normalizeCurrency\<close>, \<open>extractObservation\<close> and
  \<open>buildLiveExtractors\<close>.
\<close>

section \<open>Extractor policy\<close>

record LiveExtractorInputs =
  lx_requestedVariant :: "jsstr dict"
  lx_title :: ExtractionStrategy
  lx_sku :: "ExtractionStrategy option"
  lx_price :: ExtractionStrategy
  lx_currency :: "ExtractionStrategy option"
  lx_availability :: ExtractionStrategy
  lx_selectedVariant :: "ExtractionStrategy list"

definition buildLiveExtractors :: "LiveExtractorInputs \<Rightarrow> plan_extractors" where
  "buildLiveExtractors input =
    (let variantBound = (length (lx_requestedVariant input) > 0) in
     \<lparr>ex_title = [lx_title input, JsonLd FTitle],
      ex_price = (if variantBound then [lx_price input] else [lx_price input, JsonLd FPrice]),
      ex_currency = (case lx_currency input of
          Some c \<Rightarrow> Some [c, JsonLd FCurrency]
        | None \<Rightarrow> Some [JsonLd FCurrency]),
      ex_availability = (if variantBound then [lx_availability input]
        else [lx_availability input, JsonLd FAvailability]),
      ex_selectedVariant = lx_selectedVariant input,
      ex_sku = (case lx_sku input of
          None \<Rightarrow> if variantBound then None else Some [JsonLd FSku]
        | Some s \<Rightarrow> if variantBound then Some [s] else Some [s, JsonLd FSku])\<rparr>)"

section \<open>JSON-LD\<close>

lemma size_map_of: "map_of d k = Some v \<Longrightarrow> size v < size_list (size_prod (\<lambda>_. 0) size) d"
  by (induction d) (auto split: if_splits)

definition is_product_type :: "json option \<Rightarrow> bool" where
  "is_product_type t =
    (case t of
       Some (JStr s) \<Rightarrow> s = js ''Product''
     | Some (JArr ts) \<Rightarrow> JStr (js ''Product'') \<in> set ts
     | _ \<Rightarrow> False)"

function findProduct :: "json \<Rightarrow> json option"
  and find_in_list :: "json list \<Rightarrow> json option" where
  "findProduct (JArr items) = find_in_list items"
| "findProduct (JObj d) =
     (if is_product_type (map_of d (js ''@type'')) then Some (JObj d)
      else case map_of d (js ''@graph'') of None \<Rightarrow> None | Some g \<Rightarrow> findProduct g)"
| "findProduct JNull = None"
| "findProduct (JBool b) = None"
| "findProduct (JNum x) = None"
| "findProduct (JStr s) = None"
| "find_in_list [] = None"
| "find_in_list (item # items) =
     (case findProduct item of Some p \<Rightarrow> Some p | None \<Rightarrow> find_in_list items)"
  by pat_completeness auto
termination
  by (relation "measure (case_sum size (size_list size))") (auto dest: size_map_of)

text \<open>
  \<open>jsonLdField\<close>. \<open>offer.price ?? offer.lowPrice\<close> falls through a \<open>null\<close> price; an offer that
  is an array has none of the properties.
\<close>

definition first_offer :: "json \<Rightarrow> json option" where
  "first_offer product =
    (case json_get product ''offers'' of
       Some (JArr []) \<Rightarrow> None
     | Some (JArr (v # vs)) \<Rightarrow> Some v
     | v \<Rightarrow> v)"

definition offer_get :: "json \<Rightarrow> string \<Rightarrow> json option" where
  "offer_get product k = (case first_offer product of Some v \<Rightarrow> json_get v k | None \<Rightarrow> None)"

fun ld_value :: "json \<Rightarrow> ld_field \<Rightarrow> json option" where
  "ld_value product FTitle = json_get product ''name''"
| "ld_value product FSku = json_get product ''sku''"
| "ld_value product FPrice =
     (if nullish (offer_get product ''price'') then offer_get product ''lowPrice''
      else offer_get product ''price'')"
| "ld_value product FCurrency = offer_get product ''priceCurrency''"
| "ld_value product FAvailability = offer_get product ''availability''"

definition jsonLdField :: "json \<Rightarrow> ld_field \<Rightarrow> exn + jsstr" where
  "jsonLdField product field =
    (case ld_value product field of
       Some v \<Rightarrow> if v = JNull then Inl (PlainError (js ''JSON-LD has no '' @ ld_field_name field))
                 else if has_string v then Inr (json_to_string v)
                 else Inl (PlainError no_primitive)
     | None \<Rightarrow> Inl (PlainError (js ''JSON-LD has no '' @ ld_field_name field)))"

text \<open>One script element: its text, if it parses to something that holds a product.\<close>

definition script_product :: "jsstr option \<Rightarrow> json option" where
  "script_product raw =
    (case raw of
       None \<Rightarrow> None
     | Some t \<Rightarrow>
        if t = [] \<or> length t > 1000000 then None
        else case json_parse t of None \<Rightarrow> None | Some v \<Rightarrow> findProduct v)"

fun read_scripts :: "env \<Rightarrow> session \<Rightarrow> nat list \<Rightarrow> json option io" where
  "read_scripts E s [] = io_ret None"
| "read_scripts E s (i # is) =
     io_bind (io_catch (io_call (CLdText s i) (\<lambda>h. env_ld_text E h s i)) (\<lambda>_. io_ret (Some []))) (\<lambda>raw.
     case script_product raw of
       Some p \<Rightarrow> io_ret (Some p)
     | None \<Rightarrow> read_scripts E s is)"

definition readProductJsonLd :: "env \<Rightarrow> session \<Rightarrow> json option io" where
  "readProductJsonLd E s =
     io_bind (io_call (CLdCount s) (\<lambda>h. env_ld_count E h s)) (\<lambda>n. read_scripts E s [0..<min n 20])"

section \<open>Strategies\<close>

text \<open>
  \<open>readStrategy\<close>, with the product \<open>loadJsonLd\<close> has cached before and after. A failure is kept
  as a value because the cache outlives it.
\<close>

definition loadJsonLd :: "env \<Rightarrow> session \<Rightarrow> json option \<Rightarrow> json option io" where
  "loadJsonLd E s cache =
     (case cache of Some p \<Rightarrow> io_ret (Some p) | None \<Rightarrow> readProductJsonLd E s)"

fun readStrategy :: "env \<Rightarrow> session \<Rightarrow> ExtractionStrategy \<Rightarrow> json option \<Rightarrow> ((exn + jsstr) \<times> json option) io" where
  "readStrategy E s (XpathText sel a) cache =
     io_bind (io_attempt (io_call (CInnerText s sel) (\<lambda>h. env_innerText E h s sel))) (\<lambda>r. io_ret (r, cache))"
| "readStrategy E s (InputValue sel a) cache =
     io_bind (io_attempt (io_call (CInputValue s sel) (\<lambda>h. env_inputValue E h s sel))) (\<lambda>r. io_ret (r, cache))"
| "readStrategy E s (JsonLd field) cache =
     io_bind (io_attempt (loadJsonLd E s cache)) (\<lambda>r.
     case r of
       Inl e \<Rightarrow> io_ret (Inl e, cache)
     | Inr product \<Rightarrow>
        (case product of
           None \<Rightarrow> io_ret (Inl (PlainError (js ''No Product JSON-LD was found'')), None)
         | Some p \<Rightarrow> io_ret (jsonLdField p field, Some p)))"

fun read_loop :: "env \<Rightarrow> session \<Rightarrow> jsstr \<Rightarrow> ExtractionStrategy list \<Rightarrow> jsstr list \<Rightarrow> json option
    \<Rightarrow> (jsstr option \<times> json option) io" where
  "read_loop E s field [] errors cache =
     io_throw (PlainError (js ''No '' @ field @ js '' extractor succeeded: '' @ join (js ''; '') errors))"
| "read_loop E s field (strategy # rest) errors cache =
     io_bind (readStrategy E s strategy cache) (\<lambda>(r, cache').
     case r of
       Inl e \<Rightarrow> read_loop E s field rest (errors @ [errorMessage e]) cache'
     | Inr value \<Rightarrow>
         if trim value \<noteq> [] then io_ret (Some (trim value), cache')
         else read_loop E s field rest errors cache')"

definition readFirst :: "env \<Rightarrow> session \<Rightarrow> ExtractionStrategy list option \<Rightarrow> string \<Rightarrow> json option
    \<Rightarrow> (jsstr option \<times> json option) io" where
  "readFirst E s strategies field cache =
    (case strategies of
       None \<Rightarrow> io_ret (None, cache)
     | Some ss \<Rightarrow> if ss = [] then io_ret (None, cache) else read_loop E s (js field) ss [] cache)"

text \<open>The loop over \<open>selectedVariant\<close>.\<close>

fun read_variants :: "env \<Rightarrow> session \<Rightarrow> ExtractionStrategy list \<Rightarrow> jsstr dict \<Rightarrow> json option \<Rightarrow> jsstr dict io" where
  "read_variants E s [] selected cache = io_ret selected"
| "read_variants E s (strategy # rest) selected cache =
    (case strategy_attribute strategy of
       None \<Rightarrow> read_variants E s rest selected cache
     | Some attribute \<Rightarrow>
        if attribute = [] then read_variants E s rest selected cache
        else
          io_bind (readStrategy E s strategy cache) (\<lambda>(r, cache').
          case r of
            Inl e \<Rightarrow> read_variants E s rest selected cache'
          | Inr value \<Rightarrow>
              read_variants E s rest
                (if trim value \<noteq> [] then obj_set attribute (trim value) selected else selected) cache'))"

section \<open>Availability and currency\<close>

definition unavailable_re :: re where
  "unavailable_re = alts [str ''outofstock'', str ''soldout'', str ''unavailable'', str ''preorder'',
     str ''backorder'']"

definition available_re :: re where
  "available_re = alts [str ''instock'', str ''available'', str ''addtocart'']"

definition parseAvailability :: "platform \<Rightarrow> jsstr \<Rightarrow> exn + bool" where
  "parseAvailability P raw =
    (let value = filter is_ascii_lower (to_lower P raw) in
     if re_test False unavailable_re value then Inr False
     else if re_test False available_re value then Inr True
     else Inl (PlainError (js ''Unrecognized availability value: '' @ raw)))"

definition aliases :: "SupportedCurrency dict" where
  "aliases = [(js ''$'', USD), (js ''US$'', USD), ([8364], EUR), ([163], GBP), (js ''C$'', CAD),
     (js ''A$'', AUD)]"

definition only_code_re :: re where
  "only_code_re = seqs [Bol, Grp (Rep 3 0 (Cls [(65, 90)])), Eol]"

definition normalizeCurrency :: "platform \<Rightarrow> jsstr \<Rightarrow> exn + SupportedCurrency" where
  "normalizeCurrency P raw =
    (let value = to_upper P (trim raw);
         code = re_group False only_code_re value
     in case map_of aliases value of
          Some c \<Rightarrow> Inr c
        | None \<Rightarrow>
           (case Option.bind code currency_of_code of
              Some c \<Rightarrow> Inr c
            | None \<Rightarrow> Inl (PlainError (js ''Unsupported currency: '' @ raw))))"

section \<open>extractObservation\<close>

text \<open>The second half, once the three required texts are read.\<close>

definition currency_text :: "MonitorPlanV1 \<Rightarrow> jsstr option \<Rightarrow> SupportedCurrency option \<Rightarrow> jsstr" where
  "currency_text plan currencyRaw priceCurrency =
    (case currencyRaw of
       Some r \<Rightarrow> r
     | None \<Rightarrow> (case priceCurrency of
         Some c \<Rightarrow> currency_code c
       | None \<Rightarrow> currency_code (plan_expectedCurrency plan)))"

definition finish_observation ::
    "platform \<Rightarrow> env \<Rightarrow> session \<Rightarrow> MonitorPlanV1 \<Rightarrow> jsstr \<Rightarrow> jsstr \<Rightarrow> jsstr \<Rightarrow> json option \<Rightarrow> Observation io" where
  "finish_observation P E s plan title rawPrice availabilityRaw c3 =
     io_bind (readFirst E s (ex_sku (plan_extractors plan)) ''sku'' c3) (\<lambda>(sku, c4).
     io_bind (readFirst E s (ex_currency (plan_extractors plan)) ''currency'' c4) (\<lambda>(currencyRaw, c5).
     io_bind (io_lift (parsePrice rawPrice)) (\<lambda>(priceMinor, priceCurrency).
     io_bind (io_lift (normalizeCurrency P (currency_text plan currencyRaw priceCurrency))) (\<lambda>currency.
     io_bind (read_variants E s (ex_selectedVariant (plan_extractors plan)) [] c5) (\<lambda>selectedVariant.
     io_bind (io_lift (parseAvailability P availabilityRaw)) (\<lambda>inStock.
     io_ret \<lparr>obs_title = title, obs_sku = sku, obs_priceMinor = priceMinor, obs_currency = currency,
       obs_inStock = inStock, obs_availabilityRaw = availabilityRaw,
       obs_selectedVariant = selectedVariant, obs_rawPrice = rawPrice,
       obs_identityFingerprint = fingerprint P title sku\<rparr>))))))"

definition extractObservation :: "platform \<Rightarrow> env \<Rightarrow> session \<Rightarrow> MonitorPlanV1 \<Rightarrow> Observation io" where
  "extractObservation P E s plan =
     io_bind (readFirst E s (Some (ex_title (plan_extractors plan))) ''title'' None) (\<lambda>(title0, c1).
     io_bind (readFirst E s (Some (ex_price (plan_extractors plan))) ''price'' c1) (\<lambda>(price0, c2).
     io_bind (readFirst E s (Some (ex_availability (plan_extractors plan))) ''availability'' c2) (\<lambda>(avail0, c3).
     case (title0, price0, avail0) of
       (Some title, Some rawPrice, Some availabilityRaw) \<Rightarrow>
         finish_observation P E s plan title rawPrice availabilityRaw c3
     | _ \<Rightarrow> io_throw (PlainError (js ''Required extraction returned no value'')))))"

section \<open>What extraction does and returns\<close>

text \<open>Extraction only reads the page.\<close>

definition reads_page :: "session \<Rightarrow> call \<Rightarrow> bool" where
  "reads_page s c \<longleftrightarrow> (\<exists>x i. c \<in> {CInnerText s x, CInputValue s x, CLdCount s, CLdText s i})"

lemma emits_read_scripts [emits_intro]: "emits (reads_page s) (read_scripts E s is)"
  by (induction "is") (auto intro!: emits_intro simp: reads_page_def)

lemma emits_loadJsonLd [emits_intro]: "emits (reads_page s) (loadJsonLd E s cache)"
  unfolding loadJsonLd_def readProductJsonLd_def
  by (intro emits_intro) (auto simp: reads_page_def)

lemma emits_readStrategy [emits_intro]: "emits (reads_page s) (readStrategy E s st cache)"
  by (cases st) (auto intro!: emits_intro simp: reads_page_def)

lemma emits_read_loop [emits_intro]: "emits (reads_page s) (read_loop E s f ss errors cache)"
  by (induction ss arbitrary: errors cache) (auto intro!: emits_intro split: sum.splits)

lemma emits_readFirst [emits_intro]: "emits (reads_page s) (readFirst E s ss f cache)"
  unfolding readFirst_def by (intro emits_intro)

lemma emits_read_variants [emits_intro]: "emits (reads_page s) (read_variants E s ss sel cache)"
  by (induction ss arbitrary: sel cache) (auto intro!: emits_intro split: sum.splits option.splits)

lemma emits_finish_observation [emits_intro]:
  "emits (reads_page s) (finish_observation P E s plan t p a c)"
  unfolding finish_observation_def by (intro emits_intro)

lemma emits_extractObservation [emits_intro]: "emits (reads_page s) (extractObservation P E s plan)"
  unfolding extractObservation_def by (intro emits_intro)

text \<open>
  Where a value a strategy returns comes from, between two moments of the run: the text of an
  element or the value of an input, as the page answered the reading of it, or the field of a
  product that was found in one of the page's first twenty JSON-LD scripts. The product may be
  one \<open>loadJsonLd\<close> has cached, so the reading of the script may be an earlier one.
\<close>

definition page_product :: "env \<Rightarrow> session \<Rightarrow> world \<Rightarrow> world \<Rightarrow> json \<Rightarrow> bool" where
  "page_product E s w w' p \<longleftrightarrow>
    (\<exists>h i raw. i < 20 \<and> called w h (CLdText s i) w' \<and> env_ld_text E h s i = Inr raw \<and> script_product raw = Some p)"

fun page_shows :: "env \<Rightarrow> session \<Rightarrow> world \<Rightarrow> world \<Rightarrow> ExtractionStrategy \<Rightarrow> jsstr \<Rightarrow> bool" where
  "page_shows E s w w' (XpathText sel a) v =
     (\<exists>h. called w h (CInnerText s sel) w' \<and> env_innerText E h s sel = Inr v)"
| "page_shows E s w w' (InputValue sel a) v =
     (\<exists>h. called w h (CInputValue s sel) w' \<and> env_inputValue E h s sel = Inr v)"
| "page_shows E s w w' (JsonLd f) v = (\<exists>p. page_product E s w w' p \<and> jsonLdField p f = Inr v)"

text \<open>A text that one of the strategies showed, trimmed; and a field that may be left out.\<close>

definition shown_text :: "env \<Rightarrow> session \<Rightarrow> world \<Rightarrow> world \<Rightarrow> ExtractionStrategy list \<Rightarrow> jsstr \<Rightarrow> bool" where
  "shown_text E s w w' strategies v \<longleftrightarrow>
    v \<noteq> [] \<and> (\<exists>st \<in> set strategies. \<exists>t. page_shows E s w w' st t \<and> v = trim t)"

definition shown_optional ::
    "env \<Rightarrow> session \<Rightarrow> world \<Rightarrow> world \<Rightarrow> ExtractionStrategy list option \<Rightarrow> jsstr option \<Rightarrow> bool" where
  "shown_optional E s w w' strategies v \<longleftrightarrow>
    (case v of
       None \<Rightarrow> strategies \<in> {None, Some []}
     | Some t \<Rightarrow> (\<exists>ss. strategies = Some ss \<and> shown_text E s w w' ss t))"

lemma page_product_wider:
  "page_product E s w w' p \<Longrightarrow> continues v w \<Longrightarrow> continues w' v' \<Longrightarrow> page_product E s v v' p"
  unfolding page_product_def by (blast intro: called_wider)

lemma page_shows_wider:
  "page_shows E s w w' st t \<Longrightarrow> continues v w \<Longrightarrow> continues w' v' \<Longrightarrow> page_shows E s v v' st t"
  by (cases st) (auto intro: called_wider page_product_wider)

lemma shown_text_wider:
  "shown_text E s w w' ss t \<Longrightarrow> continues v w \<Longrightarrow> continues w' v' \<Longrightarrow> shown_text E s v v' ss t"
  unfolding shown_text_def by (blast intro: page_shows_wider)

lemma shown_optional_wider:
  "shown_optional E s w w' ss t \<Longrightarrow> continues v w \<Longrightarrow> continues w' v' \<Longrightarrow> shown_optional E s v v' ss t"
  unfolding shown_optional_def by (auto split: option.splits intro: shown_text_wider)

text \<open>The product that is cached was read from the page since the extraction began.\<close>

definition cache_grounded :: "env \<Rightarrow> session \<Rightarrow> world \<Rightarrow> world \<Rightarrow> json option \<Rightarrow> bool" where
  "cache_grounded E s w w' cache \<longleftrightarrow> (\<forall>p. cache = Some p \<longrightarrow> page_product E s w w' p)"

lemma cache_grounded_None [simp, intro]: "cache_grounded E s w w' None"
  by (simp add: cache_grounded_def)

lemma cache_grounded_later: "cache_grounded E s v w c \<Longrightarrow> continues w w' \<Longrightarrow> cache_grounded E s v w' c"
  unfolding cache_grounded_def by (blast intro: page_product_wider)

lemma read_scripts_product:
  assumes "read_scripts E s is w = (Inr (Some p), w')" and "set is \<subseteq> {..<20}"
  shows "page_product E s w w' p"
  using assms
proof (induction "is" arbitrary: w)
  case Nil
  then show ?case by (simp add: io_ret_def)
next
  case (Cons i "is")
  let ?w1 = "record_call (CLdText s i) w"
  define raw where "raw = (case env_ld_text E (w_calls w) s i of Inl _ \<Rightarrow> Some [] | Inr r \<Rightarrow> r)"
  have step: "read_scripts E s (i # is) w =
      (case script_product raw of Some q \<Rightarrow> (Inr (Some q), ?w1) | None \<Rightarrow> read_scripts E s is ?w1)"
    by (simp add: io_simps raw_def split: sum.splits option.splits)
  show ?case
  proof (cases "script_product raw")
    case None
    then have "page_product E s ?w1 w' p" using Cons step by simp
    then show ?thesis by (rule page_product_wider) auto
  next
    case (Some q)
    then have w': "q = p" "w' = ?w1" using Cons.prems(1) step by auto
    have "env_ld_text E (w_calls w) s i = Inr raw"
      using Some by (auto simp: raw_def script_product_def split: sum.splits if_splits)
    then show ?thesis
      using Some w' Cons.prems(2) unfolding page_product_def by (auto intro!: exI [of _ "w_calls w"] exI [of _ i])
  qed
qed

lemma loadJsonLd_grounded:
  assumes r: "loadJsonLd E s cache w = (Inr c, w')" and g: "cache_grounded E s v w cache" and v: "continues v w"
  shows "cache_grounded E s v w' c"
proof (cases cache)
  case None
  then have "\<exists>n w1. continues w w1 \<and> read_scripts E s [0..<min n 20] w1 = (Inr c, w')"
    using r by (auto simp: loadJsonLd_def readProductJsonLd_def io_bind_Inr io_call_def split: sum.splits)
  then obtain n w1 where w1: "continues w w1" "read_scripts E s [0..<min n 20] w1 = (Inr c, w')" by blast
  show ?thesis
    unfolding cache_grounded_def
  proof (intro allI impI)
    fix p assume "c = Some p"
    then have "page_product E s w1 w' p" using read_scripts_product w1(2) by force
    then show "page_product E s v w' p" by (rule page_product_wider) (use v w1(1) continues_trans in blast)+
  qed
next
  case (Some p)
  then show ?thesis using r g by (simp add: loadJsonLd_def io_ret_def)
qed

lemma readStrategy_page:
  assumes r: "readStrategy E s st cache w = (Inr (r, cache'), w')"
    and g: "cache_grounded E s v w cache" and v: "continues v w"
  shows "cache_grounded E s v w' cache' \<and> continues w w' \<and> (\<forall>t. r = Inr t \<longrightarrow> page_shows E s v w' st t)"
proof -
  have c: "continues w w'" by (rule continues_run [OF emits_readStrategy r])
  have "cache_grounded E s v w' cache' \<and> (\<forall>t. r = Inr t \<longrightarrow> page_shows E s v w' st t)"
  proof (cases st)
    case (JsonLd f)
    obtain q w1 where q: "loadJsonLd E s cache w = (q, w1)" by fastforce
    show ?thesis
    proof (cases q)
      case (Inl e)
      then show ?thesis using r JsonLd q cache_grounded_later [OF g c] by (auto simp: io_simps)
    next
      case (Inr p)
      then have "cache_grounded E s v w1 p" using loadJsonLd_grounded g v q by blast
      then show ?thesis using r JsonLd q Inr
        by (auto simp: io_simps cache_grounded_def split: option.splits)
    qed
  qed (use r cache_grounded_later [OF g c] v in
      \<open>auto simp: io_simps split: sum.splits intro!: called_wider [OF called_record]\<close>)
  with c show ?thesis by blast
qed

lemma read_loop_page:
  assumes "read_loop E s f ss errors cache w = (Inr (r, cache'), w')"
    and "cache_grounded E s v w cache" and "continues v w"
  shows "cache_grounded E s v w' cache' \<and> (\<exists>t. r = Some t \<and> shown_text E s v w' ss t)"
  using assms
proof (induction ss arbitrary: errors cache w)
  case Nil
  then show ?case by (simp add: io_throw_def)
next
  case (Cons st ss)
  then obtain q c1 w1 where q: "readStrategy E s st cache w = (Inr (q, c1), w1)"
    by (auto simp: io_bind_Inr)
  note page = readStrategy_page [OF q Cons.prems(2,3)]
  then have g: "cache_grounded E s v w1 c1" "continues v w1" using Cons.prems(3) continues_trans by blast+
  have again: "read_loop E s f ss es c1 w1 = (Inr (r, cache'), w') \<Longrightarrow> ?case" for es
    using Cons.IH [OF _ g, of es] by (fastforce simp: shown_text_def)
  show ?case
  proof (cases q)
    case (Inl e)
    then show ?thesis using again Cons.prems(1) q by (auto simp: io_bind_Inr)
  next
    case (Inr t)
    show ?thesis
    proof (cases "trim t = []")
      case True
      then show ?thesis using again Cons.prems(1) q Inr by (auto simp: io_bind_Inr)
    next
      case False
      then have "r = Some (trim t)" "cache' = c1" "w' = w1"
        using Cons.prems(1) q Inr by (auto simp: io_bind_Inr io_ret_def)
      then show ?thesis using g page Inr False by (auto simp: shown_text_def)
    qed
  qed
qed

lemma readFirst_page:
  assumes "readFirst E s ss f cache w = (Inr (r, cache'), w')"
    and "cache_grounded E s v w cache" and "continues v w"
  shows "cache_grounded E s v w' cache' \<and> continues v w' \<and> shown_optional E s v w' ss r"
proof -
  have "continues v w'" using continues_run [OF emits_readFirst assms(1)] assms(3) continues_trans by blast
  moreover have "cache_grounded E s v w' cache' \<and> shown_optional E s v w' ss r"
    using assms read_loop_page [of E s _ _ _ cache w r cache' w' v] unfolding readFirst_def shown_optional_def
    by (fastforce simp: io_ret_def split: option.splits if_splits)
  ultimately show ?thesis by blast
qed

lemma obj_set_mem: "x \<in> set (obj_set k v d) \<Longrightarrow> x = (k, v) \<or> x \<in> set d"
  by (auto simp: obj_set_def split: if_splits)

text \<open>Every entry of the observed variant was shown by a strategy for its attribute.\<close>

definition shown_variant :: "env \<Rightarrow> session \<Rightarrow> world \<Rightarrow> world \<Rightarrow> ExtractionStrategy list \<Rightarrow> jsstr dict \<Rightarrow> bool" where
  "shown_variant E s w w' strategies d \<longleftrightarrow>
    (\<forall>(a, v) \<in> set d. v \<noteq> [] \<and>
       (\<exists>st \<in> set strategies. strategy_attribute st = Some a \<and> (\<exists>t. page_shows E s w w' st t \<and> v = trim t)))"

lemma shown_variant_wider:
  "shown_variant E s w w' ss d \<Longrightarrow> continues v w \<Longrightarrow> continues w' v' \<Longrightarrow> shown_variant E s v v' ss d"
  unfolding shown_variant_def by (fast intro: page_shows_wider)

lemma shown_variant_set:
  assumes "shown_variant E s v w ss d" "st \<in> set ss" "strategy_attribute st = Some a"
    and "page_shows E s v w st t" "trim t \<noteq> []"
  shows "shown_variant E s v w ss (obj_set a (trim t) d)"
  unfolding shown_variant_def
proof (clarify)
  fix b x assume "(b, x) \<in> set (obj_set a (trim t) d)"
  then have "(b, x) = (a, trim t) \<or> (b, x) \<in> set d" by (rule obj_set_mem)
  then show "x \<noteq> [] \<and> (\<exists>st \<in> set ss. strategy_attribute st = Some b \<and> (\<exists>t. page_shows E s v w st t \<and> x = trim t))"
    using assms unfolding shown_variant_def by auto
qed

lemma read_variants_page:
  assumes "read_variants E s ss d cache w = (Inr d', w')"
    and "cache_grounded E s v w cache" and "continues v w"
    and "shown_variant E s v w all d" and "set ss \<subseteq> set all"
  shows "shown_variant E s v w' all d'"
  using assms
proof (induction ss arbitrary: d cache w)
  case Nil
  then show ?case by (simp add: io_ret_def)
next
  case (Cons st ss)
  show ?case
  proof (cases "strategy_attribute st = None \<or> strategy_attribute st = Some []")
    case True
    then show ?thesis using Cons by auto
  next
    case False
    then obtain a where a: "strategy_attribute st = Some a" "a \<noteq> []" by auto
    then obtain q c1 w1 where q: "readStrategy E s st cache w = (Inr (q, c1), w1)"
      using Cons.prems(1) by (auto simp: io_bind_Inr)
    note page = readStrategy_page [OF q Cons.prems(2,3)]
    then have g: "cache_grounded E s v w1 c1" "continues v w1" using Cons.prems(3) continues_trans by blast+
    have d: "shown_variant E s v w1 all d" using shown_variant_wider [OF Cons.prems(4)] page by blast
    have again: "read_variants E s ss e c1 w1 = (Inr d', w') \<Longrightarrow> shown_variant E s v w1 all e \<Longrightarrow> ?thesis" for e
      using Cons.IH [OF _ g] Cons.prems(5) by auto
    show ?thesis
    proof (cases q)
      case (Inl e)
      then show ?thesis using again [OF _ d] Cons.prems(1) q a by (simp add: io_bind_def)
    next
      case (Inr t)
      have "trim t \<noteq> [] \<Longrightarrow> shown_variant E s v w1 all (obj_set a (trim t) d)"
        using shown_variant_set [OF d _ a(1)] page Inr Cons.prems(5) by auto
      then show ?thesis using again d Cons.prems(1) q a Inr by (auto simp: io_bind_def split: if_splits)
    qed
  qed
qed

lemma finish_observation_Inr:
  assumes "finish_observation P E s plan t p a c w = (Inr obs, w')"
  shows "obs_title obs = t \<and> obs_rawPrice obs = p \<and> obs_availabilityRaw obs = a \<and>
    parseAvailability P a = Inr (obs_inStock obs) \<and>
    obs_identityFingerprint obs = fingerprint P t (obs_sku obs) \<and>
    (\<exists>c4 w4 cur c5 w5 pc.
      readFirst E s (ex_sku (plan_extractors plan)) ''sku'' c w = (Inr (obs_sku obs, c4), w4) \<and>
      readFirst E s (ex_currency (plan_extractors plan)) ''currency'' c4 w4 = (Inr (cur, c5), w5) \<and>
      parsePrice p = Inr (obs_priceMinor obs, pc) \<and>
      normalizeCurrency P (currency_text plan cur pc) = Inr (obs_currency obs) \<and>
      read_variants E s (ex_selectedVariant (plan_extractors plan)) [] c5 w5 = (Inr (obs_selectedVariant obs), w'))"
  using assms unfolding finish_observation_def by (clarsimp simp: io_bind_Inr)

lemma extractObservation_Inr:
  assumes "extractObservation P E s plan w = (Inr obs, w')"
  shows "\<exists>c1 c2 c3 w1 w2 w3.
    readFirst E s (Some (ex_title (plan_extractors plan))) ''title'' None w = (Inr (Some (obs_title obs), c1), w1) \<and>
    readFirst E s (Some (ex_price (plan_extractors plan))) ''price'' c1 w1 = (Inr (Some (obs_rawPrice obs), c2), w2) \<and>
    readFirst E s (Some (ex_availability (plan_extractors plan))) ''availability'' c2 w2 =
      (Inr (Some (obs_availabilityRaw obs), c3), w3) \<and>
    finish_observation P E s plan (obs_title obs) (obs_rawPrice obs) (obs_availabilityRaw obs) c3 w3 = (Inr obs, w')"
proof -
  obtain t p a c1 c2 c3 w1 w2 w3 where
    "readFirst E s (Some (ex_title (plan_extractors plan))) ''title'' None w = (Inr (Some t, c1), w1)"
    "readFirst E s (Some (ex_price (plan_extractors plan))) ''price'' c1 w1 = (Inr (Some p, c2), w2)"
    "readFirst E s (Some (ex_availability (plan_extractors plan))) ''availability'' c2 w2 = (Inr (Some a, c3), w3)"
    and f: "finish_observation P E s plan t p a c3 w3 = (Inr obs, w')"
    using assms unfolding extractObservation_def
    by (clarsimp simp: io_bind_Inr) (auto split: option.split_asm)
  with finish_observation_Inr [OF f] show ?thesis by blast
qed

lemma extractObservation_shown:
  assumes "extractObservation P E s plan w = (Inr obs, w')"
  shows "shown_text E s w w' (ex_title (plan_extractors plan)) (obs_title obs) \<and>
    shown_text E s w w' (ex_price (plan_extractors plan)) (obs_rawPrice obs) \<and>
    shown_text E s w w' (ex_availability (plan_extractors plan)) (obs_availabilityRaw obs) \<and>
    shown_optional E s w w' (ex_sku (plan_extractors plan)) (obs_sku obs) \<and>
    shown_variant E s w w' (ex_selectedVariant (plan_extractors plan)) (obs_selectedVariant obs) \<and>
    (\<exists>c cur. parsePrice (obs_rawPrice obs) = Inr (obs_priceMinor obs, c) \<and>
       normalizeCurrency P (currency_text plan cur c) = Inr (obs_currency obs) \<and>
       shown_optional E s w w' (ex_currency (plan_extractors plan)) cur) \<and>
    parseAvailability P (obs_availabilityRaw obs) = Inr (obs_inStock obs) \<and>
    obs_identityFingerprint obs = fingerprint P (obs_title obs) (obs_sku obs)"
proof -
  obtain c1 c2 c3 w1 w2 w3 where
    t: "readFirst E s (Some (ex_title (plan_extractors plan))) ''title'' None w = (Inr (Some (obs_title obs), c1), w1)" and
    p: "readFirst E s (Some (ex_price (plan_extractors plan))) ''price'' c1 w1 = (Inr (Some (obs_rawPrice obs), c2), w2)" and
    a: "readFirst E s (Some (ex_availability (plan_extractors plan))) ''availability'' c2 w2 =
      (Inr (Some (obs_availabilityRaw obs), c3), w3)" and
    f: "finish_observation P E s plan (obs_title obs) (obs_rawPrice obs) (obs_availabilityRaw obs) c3 w3 = (Inr obs, w')"
    using extractObservation_Inr [OF assms] by blast
  obtain c4 w4 cur c5 w5 pc where
    k: "readFirst E s (ex_sku (plan_extractors plan)) ''sku'' c3 w3 = (Inr (obs_sku obs, c4), w4)" and
    u: "readFirst E s (ex_currency (plan_extractors plan)) ''currency'' c4 w4 = (Inr (cur, c5), w5)" and
    v: "read_variants E s (ex_selectedVariant (plan_extractors plan)) [] c5 w5 = (Inr (obs_selectedVariant obs), w')" and
    x: "parsePrice (obs_rawPrice obs) = Inr (obs_priceMinor obs, pc)"
      "normalizeCurrency P (currency_text plan cur pc) = Inr (obs_currency obs)"
      "parseAvailability P (obs_availabilityRaw obs) = Inr (obs_inStock obs)"
      "obs_identityFingerprint obs = fingerprint P (obs_title obs) (obs_sku obs)"
    using finish_observation_Inr [OF f] by blast
  note t' = readFirst_page [OF t cache_grounded_None continues_refl]
  note p' = readFirst_page [OF p conjunct1 [OF t'] conjunct1 [OF conjunct2 [OF t']]]
  note a' = readFirst_page [OF a conjunct1 [OF p'] conjunct1 [OF conjunct2 [OF p']]]
  note k' = readFirst_page [OF k conjunct1 [OF a'] conjunct1 [OF conjunct2 [OF a']]]
  note u' = readFirst_page [OF u conjunct1 [OF k'] conjunct1 [OF conjunct2 [OF k']]]
  have "shown_variant E s w w' (ex_selectedVariant (plan_extractors plan)) (obs_selectedVariant obs)"
    by (rule read_variants_page [OF v conjunct1 [OF u'] conjunct1 [OF conjunct2 [OF u']]])
      (simp_all add: shown_variant_def)
  moreover have c: "continues w5 w'" by (rule continues_run [OF emits_read_variants v])
  moreover have "continues w4 w'" by (rule continues_trans [OF continues_run [OF emits_readFirst u] c])
  moreover from continues_trans [OF continues_run [OF emits_readFirst k] this] have c3: "continues w3 w'" .
  moreover from continues_trans [OF continues_run [OF emits_readFirst a] this] have c2: "continues w2 w'" .
  moreover from continues_trans [OF continues_run [OF emits_readFirst p] this] have "continues w1 w'" .
  ultimately show ?thesis
    using x t' p' a' k' u' unfolding shown_optional_def [of _ _ _ _ "Some _"]
    by (auto intro: shown_text_wider [OF _ continues_refl] shown_optional_wider [OF _ continues_refl])
qed

lemma extractObservation_title:
  assumes "extractObservation P E s plan w = (Inr obs, w')"
  shows "obs_title obs \<noteq> [] \<and> obs_identityFingerprint obs = fingerprint P (obs_title obs) (obs_sku obs)"
  using extractObservation_shown [OF assms] by (simp add: shown_text_def)

section \<open>Availability words\<close>

lemma re_test_words_exact: "re_test False (alts (map str ws)) s \<longleftrightarrow> list_ex (\<lambda>w. str_includes s (js w)) ws"
proof -
  have "(\<exists>st'. mt False (str w) (p, suf, None) st') \<longleftrightarrow> (\<exists>post. suf = js w @ post)" for w p suf
    unfolding str_def mt_lit list_all2_same_unit_exact by auto
  then show ?thesis
    unfolding re_test_iff mt_alts list_ex_iff str_includes_iff by (simp only: set_map bex_simps) blast
qed

lemma parseAvailability_cases:
  "parseAvailability P raw =
    (let letters = filter is_ascii_lower (to_lower P raw) in
     if list_ex (\<lambda>w. str_includes letters (js w)) [''outofstock'', ''soldout'', ''unavailable'', ''preorder'', ''backorder'']
     then Inr False
     else if list_ex (\<lambda>w. str_includes letters (js w)) [''instock'', ''available'', ''addtocart'']
     then Inr True
     else Inl (PlainError (js ''Unrecognized availability value: '' @ raw)))"
proof -
  have e: "unavailable_re = alts (map str [''outofstock'', ''soldout'', ''unavailable'', ''preorder'', ''backorder''])"
    "available_re = alts (map str [''instock'', ''available'', ''addtocart''])"
    by (simp_all add: unavailable_re_def available_re_def)
  show ?thesis unfolding parseAvailability_def e re_test_words_exact by (rule refl)
qed

section \<open>Properties\<close>

text \<open>
  C30. An observation that \<open>extractObservation\<close> returns is grounded in what the page answered
  during this very extraction. Its title, raw price and raw availability are non-empty trimmed
  texts that one of the plan's strategies for them showed: the text of the element, the value of
  the input, or the field of a product found in one of the page's first twenty JSON-LD scripts.
  Its SKU is such a text of a SKU strategy, or absent because the plan has none; its currency is
  what \<open>normalizeCurrency\<close> reads from such a text of a currency strategy or, where the plan has
  none, from the currency of the price or the one the plan expects; every entry of its variant
  is such a text of a strategy for that attribute. Its price is what \<open>parsePrice\<close> reads from the
  raw price, its stock flag what \<open>parseAvailability\<close> reads from the raw availability, and its
  fingerprint that of its title and SKU. Getting there made no call but readings of the page.
\<close>

theorem observation_grounded:
  assumes "extractObservation P E s plan w = (Inr obs, w')"
  shows "shown_text E s w w' (ex_title (plan_extractors plan)) (obs_title obs) \<and>
    shown_text E s w w' (ex_price (plan_extractors plan)) (obs_rawPrice obs) \<and>
    shown_text E s w w' (ex_availability (plan_extractors plan)) (obs_availabilityRaw obs) \<and>
    shown_optional E s w w' (ex_sku (plan_extractors plan)) (obs_sku obs) \<and>
    shown_variant E s w w' (ex_selectedVariant (plan_extractors plan)) (obs_selectedVariant obs) \<and>
    (\<exists>c cur. parsePrice (obs_rawPrice obs) = Inr (obs_priceMinor obs, c) \<and>
       shown_optional E s w w' (ex_currency (plan_extractors plan)) cur \<and>
       normalizeCurrency P (currency_text plan cur c) = Inr (obs_currency obs)) \<and>
    parseAvailability P (obs_availabilityRaw obs) = Inr (obs_inStock obs) \<and>
    obs_identityFingerprint obs = fingerprint P (obs_title obs) (obs_sku obs) \<and>
    extends (reads_page s) w w'"
proof -
  have "extends (reads_page s) w w'" by (rule emitsD [OF emits_extractObservation assms])
  with extractObservation_shown [OF assms] show ?thesis by blast
qed

text \<open>A page with three texts and the extraction from it.\<close>

definition shelf_env :: env where
  "shelf_env = idle_env\<lparr>env_innerText := (\<lambda>_ _ sel.
     if sel = js ''xpath=t'' then Inr (js '' Lamp '')
     else if sel = js ''xpath=p'' then Inr (js ''$5'')
     else if sel = js ''xpath=a'' then Inr (js ''In stock'')
     else Inl (ExtError (js ''timeout'')))\<rparr>"

definition shelf_plan :: MonitorPlanV1 where
  "shelf_plan = \<lparr>plan_schemaVersion = 1, plan_stagehandVersion = js ''3.7.0'',
     plan_canonicalUrl = js ''http://a/p'',
     plan_ident = \<lparr>id_title = js ''Lamp'', id_brand = None, id_sku = None,
       id_fingerprint = js ''12345678'', id_requestedVariant = []\<rparr>,
     plan_preparationSteps = [],
     plan_extractors = \<lparr>ex_title = [XpathText (js ''xpath=t'') None], ex_price = [XpathText (js ''xpath=p'') None],
       ex_currency = None, ex_availability = [XpathText (js ''xpath=a'') None],
       ex_selectedVariant = [], ex_sku = None\<rparr>,
     plan_expectedCurrency = USD, plan_validatorVersion = 1\<rparr>"

lemma shelf_reads:
  "readFirst shelf_env s (Some [XpathText (js ''xpath=t'') None]) f c w =
     (Inr (Some (js ''Lamp''), c), record_call (CInnerText s (js ''xpath=t'')) w)"
  "readFirst shelf_env s (Some [XpathText (js ''xpath=p'') None]) f c w =
     (Inr (Some (js ''$5''), c), record_call (CInnerText s (js ''xpath=p'')) w)"
  "readFirst shelf_env s (Some [XpathText (js ''xpath=a'') None]) f c w =
     (Inr (Some (js ''In stock''), c), record_call (CInnerText s (js ''xpath=a'')) w)"
  by (simp_all add: readFirst_def io_simps shelf_env_def js_eval)

lemma shelf_values:
  "parsePrice (js ''$5'') = Inr (Fin 500, Some USD)"
  "normalizeCurrency ascii_platform (js ''USD'') = Inr USD"
  "parseAvailability ascii_platform (js ''In stock'') = Inr True"
  by code_simp+

lemma shelf_observation:
  "\<exists>obs w'. extractObservation ascii_platform shelf_env s shelf_plan w = (Inr obs, w') \<and>
     obs_priceMinor obs = Fin 500 \<and> obs_rawPrice obs = js ''$5''"
  by (simp add: extractObservation_def finish_observation_def io_bind_def shelf_plan_def shelf_reads
      readFirst_def [of _ _ None] io_ret_def io_lift_def shelf_values currency_text_def)

theorem observation_grounded_witness:
  "\<exists>obs w'. extractObservation ascii_platform shelf_env MainRun shelf_plan \<lparr>w_calls = [], w_timings = []\<rparr> = (Inr obs, w') \<and>
     (\<exists>c. parsePrice (js ''$5'') = Inr (Fin 500, c)) \<and> CInnerText MainRun (js ''xpath=p'') \<in> set (w_calls w') \<and>
     list_all (reads_page MainRun) (w_calls w')"
proof -
  obtain obs w' where o: "extractObservation ascii_platform shelf_env MainRun shelf_plan
      \<lparr>w_calls = [], w_timings = []\<rparr> = (Inr obs, w')" "obs_priceMinor obs = Fin 500" "obs_rawPrice obs = js ''$5''"
    using shelf_observation by blast
  note g = observation_grounded [OF o(1)]
  from g have "CInnerText MainRun (js ''xpath=p'') \<in> set (w_calls w')"
    by (auto simp: shown_text_def shelf_plan_def called_def dest!: set_mono_prefix)
  with g o show ?thesis by (auto simp: extends_def)
qed

text \<open>
  C31. A plan for a requested variant never takes its price or availability from JSON-LD:
  with the strategies \<open>buildLiveExtractors\<close> chooses for a non-empty variant and page texts for
  price and availability, the raw price and availability of every observation are the
  trimmed texts of exactly those elements.
\<close>

theorem variant_price_from_page:
  assumes "plan_extractors plan = buildLiveExtractors i" "lx_requestedVariant i \<noteq> []"
    and "lx_price i = XpathText price_sel None" "lx_availability i = XpathText avail_sel None"
    and "extractObservation P E s plan w = (Inr obs, w')"
  shows "(\<exists>h t. env_innerText E h s price_sel = Inr t \<and> obs_rawPrice obs = trim t) \<and>
    (\<exists>h t. env_innerText E h s avail_sel = Inr t \<and> obs_availabilityRaw obs = trim t)"
proof -
  have "ex_price (plan_extractors plan) = [XpathText price_sel None]"
    "ex_availability (plan_extractors plan) = [XpathText avail_sel None]"
    using assms(1-4) by (simp_all add: buildLiveExtractors_def)
  then show ?thesis
    using extractObservation_shown [OF assms(5)] by (auto simp: shown_text_def)
qed

definition shelf_inputs :: LiveExtractorInputs where
  "shelf_inputs = \<lparr>lx_requestedVariant = [(js ''color'', js ''Red'')], lx_title = XpathText (js ''xpath=t'') None,
     lx_sku = None, lx_price = XpathText (js ''xpath=p'') None,
     lx_currency = None, lx_availability = XpathText (js ''xpath=a'') None, lx_selectedVariant = []\<rparr>"

text \<open>The page of the example with a product in JSON-LD whose currency is given.\<close>

definition ld_text :: jsstr where
  "ld_text = js ''{\"@type\":\"Product\",\"offers\":{\"price\":9,\"priceCurrency\":\"USD\"}}''"

definition ld_product :: json where
  "ld_product = JObj [(js ''@type'', JStr (js ''Product'')),
     (js ''offers'', JObj [(js ''price'', JNum (Fin 9)), (js ''priceCurrency'', JStr (js ''USD''))])]"

lemma ld_product:
  "script_product (Some ld_text) = Some ld_product"
  "jsonLdField ld_product FCurrency = Inr (js ''USD'')"
proof -
  have "json_parse ld_text = Some ld_product" "findProduct ld_product = Some ld_product" by code_simp+
  then show "script_product (Some ld_text) = Some ld_product"
    by (simp add: script_product_def) (simp add: ld_text_def js_def)
  show "jsonLdField ld_product FCurrency = Inr (js ''USD'')" by code_simp
qed

definition ld_env :: env where
  "ld_env = shelf_env\<lparr>env_ld_count := (\<lambda>_ _. Inr 1), env_ld_text := (\<lambda>_ _ _. Inr (Some ld_text))\<rparr>"

lemma ld_reads:
  "readFirst ld_env s (Some (XpathText (js ''xpath=t'') None # ss)) f c w =
     (Inr (Some (js ''Lamp''), c), record_call (CInnerText s (js ''xpath=t'')) w)"
  "readFirst ld_env s (Some [XpathText (js ''xpath=p'') None]) f c w =
     (Inr (Some (js ''$5''), c), record_call (CInnerText s (js ''xpath=p'')) w)"
  "readFirst ld_env s (Some [XpathText (js ''xpath=a'') None]) f c w =
     (Inr (Some (js ''In stock''), c), record_call (CInnerText s (js ''xpath=a'')) w)"
  "\<exists>c' w'. readFirst ld_env s (Some [JsonLd FCurrency]) f None w = (Inr (Some (js ''USD''), c'), w')"
  by (simp_all add: readFirst_def loadJsonLd_def readProductJsonLd_def io_simps ld_env_def ld_product)
    (simp_all add: shelf_env_def js_eval)

lemma ld_observation:
  "\<exists>obs w'. extractObservation ascii_platform ld_env s
     (shelf_plan\<lparr>plan_extractors := buildLiveExtractors shelf_inputs\<rparr>) w = (Inr obs, w') \<and>
     obs_rawPrice obs = js ''$5''"
proof -
  obtain c' w' where "readFirst ld_env s (Some [JsonLd FCurrency]) ''currency'' None
      (record_call (CInnerText s (js ''xpath=a'')) (record_call (CInnerText s (js ''xpath=p''))
        (record_call (CInnerText s (js ''xpath=t'')) w))) = (Inr (Some (js ''USD''), c'), w')"
    using ld_reads(4) by blast
  then show ?thesis
    by (simp add: extractObservation_def finish_observation_def io_bind_def buildLiveExtractors_def
        shelf_inputs_def ld_reads(1-3) readFirst_def [of _ _ None] io_ret_def io_lift_def shelf_values
        currency_text_def)
qed

theorem variant_price_from_page_witness:
  "\<exists>h t. env_innerText ld_env h MainRun (js ''xpath=p'') = Inr t \<and> js ''$5'' = trim t"
proof -
  let ?plan = "shelf_plan\<lparr>plan_extractors := buildLiveExtractors shelf_inputs\<rparr>"
  obtain obs w' where o: "extractObservation ascii_platform ld_env MainRun ?plan \<lparr>w_calls = [], w_timings = []\<rparr> = (Inr obs, w')"
      "obs_rawPrice obs = js ''$5''"
    using ld_observation by blast
  have "plan_extractors ?plan = buildLiveExtractors shelf_inputs" by simp
  from variant_price_from_page [OF this _ _ _ o(1)] o(2) show ?thesis
    by (auto simp: shelf_inputs_def)
qed

lemma readFirst_jsonLd_fails:
  assumes "\<And>h. env_ld_count E h s = Inr 0"
  shows "readFirst E s (Some [JsonLd f]) n None w \<noteq> (Inr x, w')"
  using assms
  by (simp add: readFirst_def loadJsonLd_def readProductJsonLd_def io_simps)

lemma readStrategy_no_cache:
  assumes "\<And>h. env_ld_count E h s = Inr 0" "readStrategy E s st None w = (Inr (r, c), w')"
  shows "c = None"
  using assms
  by (cases st) (auto simp: loadJsonLd_def readProductJsonLd_def io_simps)

lemma read_loop_no_cache:
  assumes "\<And>h. env_ld_count E h s = Inr 0" "read_loop E s f ss errors None w = (Inr (v, c), w')"
  shows "c = None"
  using assms(2)
proof (induction ss arbitrary: errors w)
  case (Cons st ss)
  then obtain r c1 w1 where r: "readStrategy E s st None w = (Inr (r, c1), w1)"
    by (auto simp: io_bind_Inr)
  with readStrategy_no_cache [OF assms(1) r] Cons show ?case
    by (auto simp: io_bind_Inr split: sum.splits if_splits)
qed simp

lemma readFirst_no_cache:
  assumes "\<And>h. env_ld_count E h s = Inr 0" "readFirst E s ss n None w = (Inr (v, c), w')"
  shows "c = None"
  using assms(2) read_loop_no_cache [OF assms(1)]
  unfolding readFirst_def by (fastforce split: option.splits if_splits)

text \<open>
  A page without JSON-LD product data needs a currency label of its own: a plan of the live
  compiler without a currency node never yields an observation there, whatever the price says,
  although the price text and the expected currency are meant as fallbacks.
\<close>

theorem currency_label_required:
  assumes "plan_extractors plan = buildLiveExtractors i" "lx_currency i = None" "\<And>h. env_ld_count E h s = Inr 0"
  shows "extractObservation P E s plan w \<noteq> (Inr obs, w')"
proof
  assume "extractObservation P E s plan w = (Inr obs, w')"
  then obtain t1 c1 w1 t2 c2 w2 t3 c3 w3 a b c where
    r: "readFirst E s (Some (ex_title (plan_extractors plan))) ''title'' None w = (Inr (t1, c1), w1)"
      "readFirst E s (Some (ex_price (plan_extractors plan))) ''price'' c1 w1 = (Inr (t2, c2), w2)"
      "readFirst E s (Some (ex_availability (plan_extractors plan))) ''availability'' c2 w2 = (Inr (t3, c3), w3)"
    and f: "finish_observation P E s plan a b c c3 w3 = (Inr obs, w')"
    unfolding extractObservation_def by (clarsimp simp: io_bind_Inr) (auto split: option.split_asm)
  have c3: "c3 = None" using r readFirst_no_cache [OF assms(3)] by metis
  from f obtain sku c4 w4 v c5 w5 where
    "readFirst E s (ex_sku (plan_extractors plan)) ''sku'' c3 w3 = (Inr (sku, c4), w4)"
    "readFirst E s (ex_currency (plan_extractors plan)) ''currency'' c4 w4 = (Inr (v, c5), w5)"
    unfolding finish_observation_def by (auto simp: io_bind_Inr)
  moreover have "ex_currency (plan_extractors plan) = Some [JsonLd FCurrency]"
    using assms(1,2) by (simp add: buildLiveExtractors_def Let_def)
  ultimately show False using readFirst_no_cache [OF assms(3)] readFirst_jsonLd_fails [OF assms(3)] c3 by metis
qed

theorem currency_label_required_witness:
  "(\<nexists>obs w'. extractObservation ascii_platform (shelf_env\<lparr>env_ld_count := (\<lambda>_ _. Inr 0)\<rparr>) MainRun
     (shelf_plan\<lparr>plan_extractors := buildLiveExtractors shelf_inputs\<rparr>) \<lparr>w_calls = [], w_timings = []\<rparr> = (Inr obs, w'))
   \<and> parsePrice (js ''$5'') = Inr (Fin 500, Some USD)"
proof -
  have "plan_extractors (shelf_plan\<lparr>plan_extractors := buildLiveExtractors shelf_inputs\<rparr>) = buildLiveExtractors shelf_inputs"
    "lx_currency shelf_inputs = None" by (simp_all add: shelf_inputs_def)
  from currency_label_required [OF this, of "shelf_env\<lparr>env_ld_count := (\<lambda>_ _. Inr 0)\<rparr>" MainRun ascii_platform]
  show ?thesis using shelf_values(1) by auto
qed

text \<open>
  \<open>parseAvailability\<close> takes two negative statements for stock: a page that says
  \<open>Not available\<close> or \<open>Not in stock\<close> is read as in stock.
\<close>

theorem negated_availability:
  "parseAvailability ascii_platform (js ''Not available'') = Inr True \<and>
   parseAvailability ascii_platform (js ''Not in stock'') = Inr True"
  by code_simp

end
