(* ===== verification/Decode.thy ===== *)
theory Decode
  imports Extract
begin

text \<open>
  The zod schemas of \<open>worker/src/contracts.ts\<close> as parsers of JSON values, and the JSON values of
  plans. Where theory \<open>Contracts\<close> states the refinements on typed data, \<open>parse_plan\<close> and
  \<open>parse_input\<close> also check the types: an absent member is \<open>undefined\<close>, \<open>optional\<close> accepts only
  an absent one, \<open>default\<close> replaces it, unknown members are dropped, and \<open>int()\<close> accepts safe
  integers.
\<close>

section \<open>Primitive schemas\<close>

fun dec_string :: "json \<Rightarrow> jsstr option" where
  "dec_string (JStr s) = Some s"
| "dec_string _ = None"

definition dec_min :: "nat \<Rightarrow> json \<Rightarrow> jsstr option" where
  "dec_min n j = Option.bind (dec_string j) (\<lambda>s. if n \<le> length s then Some s else None)"

definition dec_where :: "('a \<Rightarrow> bool) \<Rightarrow> (json \<Rightarrow> 'a option) \<Rightarrow> json \<Rightarrow> 'a option" where
  "dec_where ok f j = Option.bind (f j) (\<lambda>x. if ok x then Some x else None)"

fun dec_bool :: "json \<Rightarrow> bool option" where
  "dec_bool (JBool b) = Some b"
| "dec_bool _ = None"

definition max_safe :: int where
  "max_safe = 9007199254740991"

fun dec_int :: "json \<Rightarrow> int option" where
  "dec_int (JNum (Fin x)) = (if of_int \<lfloor>x\<rfloor> = x \<and> \<bar>\<lfloor>x\<rfloor>\<bar> \<le> max_safe then Some \<lfloor>x\<rfloor> else None)"
| "dec_int _ = None"

definition json_int :: "int \<Rightarrow> json" where
  "json_int n = JNum (Fin (of_int n))"

lemma dec_int_json_int [simp]: "dec_int (json_int n) = (if \<bar>n\<bar> \<le> max_safe then Some n else None)"
  by (simp add: json_int_def)

fun all_some :: "('a \<Rightarrow> 'b option) \<Rightarrow> 'a list \<Rightarrow> 'b list option" where
  "all_some f [] = Some []"
| "all_some f (x # xs) = Option.bind (f x) (\<lambda>y. map_option ((#) y) (all_some f xs))"

fun dec_list :: "(json \<Rightarrow> 'a option) \<Rightarrow> json \<Rightarrow> 'a list option" where
  "dec_list f (JArr vs) = all_some f vs"
| "dec_list f _ = None"

text \<open>\<open>z.record(z.string(), z.string())\<close>\<close>

fun dec_dict :: "json \<Rightarrow> jsstr dict option" where
  "dec_dict (JObj d) = all_some (\<lambda>(k, v). map_option (Pair k) (dec_string v)) d"
| "dec_dict _ = None"

text \<open>\<open>z.enum\<close> of the listed literals.\<close>

definition dec_enum :: "(string \<times> 'a) list \<Rightarrow> json \<Rightarrow> 'a option" where
  "dec_enum cases j = Option.bind (dec_string j) (\<lambda>s. map_of (map (\<lambda>(k, v). (js k, v)) cases) s)"

fun dec_optional :: "(json \<Rightarrow> 'a option) \<Rightarrow> json option \<Rightarrow> 'a option option" where
  "dec_optional f None = Some None"
| "dec_optional f (Some j) = map_option Some (f j)"

fun dec_default :: "'a \<Rightarrow> (json \<Rightarrow> 'a option) \<Rightarrow> json option \<Rightarrow> 'a option" where
  "dec_default x f None = Some x"
| "dec_default x f (Some j) = f j"

fun is_obj :: "json \<Rightarrow> bool" where
  "is_obj (JObj d) = True"
| "is_obj _ = False"

text \<open>A required member.\<close>

definition req :: "json \<Rightarrow> string \<Rightarrow> (json \<Rightarrow> 'a option) \<Rightarrow> 'a option" where
  "req j k f = Option.bind (json_get j k) f"

section \<open>The schemas\<close>

definition parse_currency :: "json \<Rightarrow> SupportedCurrency option" where
  "parse_currency j = Option.bind (dec_string j) currency_of_code"

definition parse_action :: "json \<Rightarrow> CachedAction option" where
  "parse_action j =
     Option.bind (req j ''selector'' (dec_min 1)) (\<lambda>selector.
     Option.bind (req j ''description'' (dec_min 1)) (\<lambda>description.
     Option.bind (dec_optional dec_string (json_get j ''method'')) (\<lambda>method.
     Option.bind (dec_optional (dec_list dec_string) (json_get j ''arguments'')) (\<lambda>args.
     Some \<lparr>act_selector = selector, act_description = description, act_method = method,
       act_arguments = args\<rparr>))))"

definition xpath_selector :: "json \<Rightarrow> jsstr option" where
  "xpath_selector = dec_where (\<lambda>s. starts_with s (js ''xpath='')) dec_string"

definition parse_field :: "json \<Rightarrow> ld_field option" where
  "parse_field = dec_enum [(''title'', FTitle), (''sku'', FSku), (''price'', FPrice),
     (''currency'', FCurrency), (''availability'', FAvailability)]"

definition parse_strategy :: "json \<Rightarrow> ExtractionStrategy option" where
  "parse_strategy j =
     Option.bind (req j ''kind'' dec_string) (\<lambda>kind.
     if kind = js ''jsonLd'' then map_option JsonLd (req j ''field'' parse_field)
     else if kind = js ''xpathText'' \<or> kind = js ''inputValue'' then
       Option.bind (req j ''selector'' xpath_selector) (\<lambda>selector.
       Option.bind (dec_optional dec_string (json_get j ''attribute'')) (\<lambda>a.
       Some (if kind = js ''xpathText'' then XpathText selector a else InputValue selector a)))
     else None)"

definition parse_strategyList :: "json \<Rightarrow> ExtractionStrategy list option" where
  "parse_strategyList = dec_where (\<lambda>ss. ss \<noteq> []) (dec_list parse_strategy)"

definition parse_identity :: "json \<Rightarrow> plan_identity option" where
  "parse_identity j =
     Option.bind (req j ''title'' (dec_min 1)) (\<lambda>title.
     Option.bind (dec_optional dec_string (json_get j ''brand'')) (\<lambda>brand.
     Option.bind (dec_optional dec_string (json_get j ''sku'')) (\<lambda>sku.
     Option.bind (req j ''fingerprint'' (dec_min 8)) (\<lambda>fp.
     Option.bind (req j ''requestedVariant'' dec_dict) (\<lambda>variant.
     Some \<lparr>id_title = title, id_brand = brand, id_sku = sku, id_fingerprint = fp,
       id_requestedVariant = variant\<rparr>)))))"

definition parse_purpose :: "json \<Rightarrow> purpose option" where
  "parse_purpose = dec_enum [(''consent'', Consent), (''variant'', Variant), (''expand'', Expand)]"

definition parse_step :: "json \<Rightarrow> prep_step option" where
  "parse_step j =
     Option.bind (req j ''purpose'' parse_purpose) (\<lambda>purpose.
     Option.bind (req j ''instruction'' (dec_min 1)) (\<lambda>instruction.
     Option.bind (req j ''action'' parse_action) (\<lambda>action.
     Some \<lparr>step_purpose = purpose, step_instruction = instruction, step_action = action\<rparr>)))"

definition parse_extractors :: "json \<Rightarrow> plan_extractors option" where
  "parse_extractors j =
     Option.bind (req j ''title'' parse_strategyList) (\<lambda>title.
     Option.bind (req j ''price'' parse_strategyList) (\<lambda>price.
     Option.bind (dec_optional parse_strategyList (json_get j ''currency'')) (\<lambda>currency.
     Option.bind (req j ''availability'' parse_strategyList) (\<lambda>availability.
     Option.bind (req j ''selectedVariant'' (dec_list parse_strategy)) (\<lambda>variant.
     Option.bind (dec_optional parse_strategyList (json_get j ''sku'')) (\<lambda>sku.
     Some \<lparr>ex_title = title, ex_price = price, ex_currency = currency, ex_availability = availability,
       ex_selectedVariant = variant, ex_sku = sku\<rparr>))))))"

definition parse_plan :: "(jsstr \<Rightarrow> bool) \<Rightarrow> json \<Rightarrow> MonitorPlanV1 option" where
  "parse_plan is_url j =
     Option.bind (req j ''schemaVersion'' (dec_where (\<lambda>n. n = 1) dec_int)) (\<lambda>version.
     Option.bind (req j ''stagehandVersion'' (dec_where (\<lambda>s. s = js ''3.7.0'') dec_string)) (\<lambda>stagehand.
     Option.bind (req j ''canonicalUrl'' (dec_where is_url dec_string)) (\<lambda>address.
     Option.bind (req j ''identity'' parse_identity) (\<lambda>ident.
     Option.bind (req j ''preparationSteps'' (dec_list parse_step)) (\<lambda>steps.
     Option.bind (req j ''extractors'' parse_extractors) (\<lambda>extractors.
     Option.bind (req j ''expectedCurrency'' parse_currency) (\<lambda>currency.
     Option.bind (req j ''validatorVersion'' (dec_where (\<lambda>n. n = 1) dec_int)) (\<lambda>validator.
     Some \<lparr>plan_schemaVersion = version, plan_stagehandVersion = stagehand, plan_canonicalUrl = address,
       plan_ident = ident, plan_preparationSteps = steps, plan_extractors = extractors,
       plan_expectedCurrency = currency, plan_validatorVersion = validator\<rparr>))))))))"

definition positive :: "json \<Rightarrow> int option" where
  "positive = dec_where (\<lambda>n. 0 < n) dec_int"

definition nonnegative :: "json \<Rightarrow> int option" where
  "nonnegative = dec_where (\<lambda>n. 0 \<le> n) dec_int"

definition parse_condition :: "json \<Rightarrow> MonitorCondition option" where
  "parse_condition j =
    (if \<not> is_obj j then None else
     Option.bind (dec_optional positive (json_get j ''maxPriceMinor'')) (\<lambda>maxPrice.
     Option.bind (dec_optional positive (json_get j ''priceBelowMinor'')) (\<lambda>below.
     Option.bind (dec_optional parse_currency (json_get j ''currency'')) (\<lambda>currency.
     Option.bind (dec_default True dec_bool (json_get j ''requireInStock'')) (\<lambda>stock.
     Option.bind (dec_default [] dec_dict (json_get j ''requestedVariant'')) (\<lambda>variant.
     Some \<lparr>cond_maxPriceMinor = maxPrice, cond_priceBelowMinor = below, cond_currency = currency,
       cond_requireInStock = stock, cond_requestedVariant = variant\<rparr>))))))"

definition parse_kind :: "json \<Rightarrow> execution_kind option" where
  "parse_kind = dec_enum [(''compile'', Compile), (''check'', Check), (''repair'', Repair)]"

definition state_names :: "(string \<times> execution_state) list" where
  "state_names = [(''queued'', Queued), (''running'', Running), (''succeeded'', Succeeded), (''failed'', Failed),
     (''blocked'', Blocked), (''needs_review'', NeedsReview)]"

definition parse_execution :: "json \<Rightarrow> execution_job option" where
  "parse_execution j =
     Option.bind (req j ''id'' (dec_min 1)) (\<lambda>i.
     Option.bind (req j ''kind'' parse_kind) (\<lambda>kind.
     Option.bind (dec_default Running (dec_enum state_names) (json_get j ''state'')) (\<lambda>state.
     Option.bind (dec_default 1 positive (json_get j ''attempt'')) (\<lambda>attempt.
     Option.bind (dec_optional nonnegative (json_get j ''failedGeneration'')) (\<lambda>failed.
     Some \<lparr>job_id = i, job_kind = kind, job_state = state, job_attempt = attempt,
       job_failedGeneration = failed\<rparr>)))))"

definition parse_monitor :: "(jsstr \<Rightarrow> bool) \<Rightarrow> json \<Rightarrow> monitor_ref option" where
  "parse_monitor is_url j =
     Option.bind (req j ''id'' (dec_min 1)) (\<lambda>i.
     Option.bind (req j ''url'' (dec_where is_url dec_string)) (\<lambda>address.
     Option.bind (req j ''intent'' (dec_min 1)) (\<lambda>intent.
     Option.bind (dec_optional parse_condition (json_get j ''condition'')) (\<lambda>condition.
     Some \<lparr>mon_id = i, mon_url = address, mon_intent = intent, mon_condition = condition\<rparr>))))"

definition parse_revision :: "(jsstr \<Rightarrow> bool) \<Rightarrow> json \<Rightarrow> revision_ref option" where
  "parse_revision is_url j =
     Option.bind (dec_optional dec_string (json_get j ''id'')) (\<lambda>i.
     Option.bind (req j ''generation'' nonnegative) (\<lambda>generation.
     Option.bind (req j ''plan'' (parse_plan is_url)) (\<lambda>plan.
     Some \<lparr>rev_id = i, rev_generation = generation, rev_plan = plan\<rparr>)))"

definition parse_mode :: "json \<Rightarrow> compiler_mode option" where
  "parse_mode = dec_enum [(''auto'', Auto), (''scripted'', Scripted), (''live'', Live)]"

definition parse_input :: "(jsstr \<Rightarrow> bool) \<Rightarrow> json \<Rightarrow> ExecutionInput option" where
  "parse_input is_url j =
     Option.bind (req j ''execution'' parse_execution) (\<lambda>execution.
     Option.bind (req j ''monitor'' (parse_monitor is_url)) (\<lambda>monitor.
     Option.bind (dec_optional (parse_revision is_url) (json_get j ''revision'')) (\<lambda>revision.
     Option.bind (dec_default Auto parse_mode (json_get j ''compilerMode'')) (\<lambda>mode.
     Some \<lparr>in_execution = execution, in_monitor = monitor, in_revision = revision,
       in_compilerMode = mode\<rparr>))))"

record queue_job =
  qj_executionId :: jsstr
  qj_traceparent :: "jsstr option"

definition queueJobSchema :: "json \<Rightarrow> queue_job option" where
  "queueJobSchema j =
     Option.bind (req j ''executionId'' (dec_min 1)) (\<lambda>i.
     Option.bind (dec_optional (dec_where (\<lambda>s. length s \<le> 512) dec_string) (json_get j ''traceparent'')) (\<lambda>t.
     Some \<lparr>qj_executionId = i, qj_traceparent = t\<rparr>))"

section \<open>Plans as JSON\<close>

text \<open>An object whose absent members are left out; the order of members carries no meaning here.\<close>

definition js_obj :: "(string \<times> json option) list \<Rightarrow> json" where
  "js_obj fs = JObj (concat (map (\<lambda>(k, v). case v of None \<Rightarrow> [] | Some j \<Rightarrow> [(js k, j)]) fs))"

definition json_strings :: "jsstr list \<Rightarrow> json" where
  "json_strings ss = JArr (map JStr ss)"

definition json_dict :: "jsstr dict \<Rightarrow> json" where
  "json_dict d = JObj (map (\<lambda>(k, v). (k, JStr v)) d)"

definition action_json :: "CachedAction \<Rightarrow> json" where
  "action_json a = js_obj [(''selector'', Some (JStr (act_selector a))),
     (''description'', Some (JStr (act_description a))), (''method'', map_option JStr (act_method a)),
     (''arguments'', map_option json_strings (act_arguments a))]"

fun strategy_json :: "ExtractionStrategy \<Rightarrow> json" where
  "strategy_json (XpathText sel a) =
     js_obj [(''kind'', Some (JStr (js ''xpathText''))), (''selector'', Some (JStr sel)), (''attribute'', map_option JStr a)]"
| "strategy_json (InputValue sel a) =
     js_obj [(''kind'', Some (JStr (js ''inputValue''))), (''selector'', Some (JStr sel)), (''attribute'', map_option JStr a)]"
| "strategy_json (JsonLd f) =
     js_obj [(''kind'', Some (JStr (js ''jsonLd''))), (''field'', Some (JStr (ld_field_name f)))]"

definition strategies_json :: "ExtractionStrategy list \<Rightarrow> json" where
  "strategies_json ss = JArr (map strategy_json ss)"

fun purpose_name :: "purpose \<Rightarrow> jsstr" where
  "purpose_name Consent = js ''consent''"
| "purpose_name Variant = js ''variant''"
| "purpose_name Expand = js ''expand''"

definition identity_json :: "plan_identity \<Rightarrow> json" where
  "identity_json i = js_obj [(''title'', Some (JStr (id_title i))), (''brand'', map_option JStr (id_brand i)),
     (''sku'', map_option JStr (id_sku i)), (''fingerprint'', Some (JStr (id_fingerprint i))),
     (''requestedVariant'', Some (json_dict (id_requestedVariant i)))]"

definition step_json :: "prep_step \<Rightarrow> json" where
  "step_json st = js_obj [(''purpose'', Some (JStr (purpose_name (step_purpose st)))),
     (''instruction'', Some (JStr (step_instruction st))), (''action'', Some (action_json (step_action st)))]"

definition extractors_json :: "plan_extractors \<Rightarrow> json" where
  "extractors_json ex = js_obj [(''title'', Some (strategies_json (ex_title ex))),
     (''price'', Some (strategies_json (ex_price ex))),
     (''currency'', map_option strategies_json (ex_currency ex)),
     (''availability'', Some (strategies_json (ex_availability ex))),
     (''selectedVariant'', Some (strategies_json (ex_selectedVariant ex))),
     (''sku'', map_option strategies_json (ex_sku ex))]"

definition plan_json :: "MonitorPlanV1 \<Rightarrow> json" where
  "plan_json p = js_obj [(''schemaVersion'', Some (json_int (plan_schemaVersion p))),
     (''stagehandVersion'', Some (JStr (plan_stagehandVersion p))),
     (''canonicalUrl'', Some (JStr (plan_canonicalUrl p))),
     (''identity'', Some (identity_json (plan_ident p))),
     (''preparationSteps'', Some (JArr (map step_json (plan_preparationSteps p)))),
     (''extractors'', Some (extractors_json (plan_extractors p))),
     (''expectedCurrency'', Some (JStr (currency_code (plan_expectedCurrency p)))),
     (''validatorVersion'', Some (json_int (plan_validatorVersion p)))]"

section \<open>What a parsed value satisfies\<close>

lemma all_some_Some: "all_some f xs = Some ys \<longleftrightarrow> list_all2 (\<lambda>x y. f x = Some y) xs ys"
  by (induction xs arbitrary: ys) (auto simp: Option.bind_eq_Some_conv list_all2_Cons1)

lemma all_some_map: "(\<And>x. x \<in> set xs \<Longrightarrow> f (g x) = Some x) \<Longrightarrow> all_some f (map g xs) = Some xs"
  by (induction xs) auto

lemma all_some_all:
  assumes "all_some f xs = Some ys" "\<And>x y. f x = Some y \<Longrightarrow> Q y"
  shows "list_all Q ys"
  using assms unfolding all_some_Some by (induction rule: list_all2_induct) auto

lemma dec_list_all: "dec_list f j = Some ys \<Longrightarrow> (\<And>x y. f x = Some y \<Longrightarrow> Q y) \<Longrightarrow> list_all Q ys"
  by (cases j) (auto intro: all_some_all)

lemma dec_min_Some [simp]: "dec_min n j = Some s \<longleftrightarrow> j = JStr s \<and> n \<le> length s"
  by (cases j) (auto simp: dec_min_def)

lemma dec_where_Some [simp]: "dec_where ok f j = Some x \<longleftrightarrow> f j = Some x \<and> ok x"
  by (auto simp: dec_where_def Option.bind_eq_Some_conv)

lemma dec_optional_Some: "dec_optional f x = Some (Some y) \<longleftrightarrow> (\<exists>j. x = Some j \<and> f j = Some y)"
  by (cases x) auto

lemma req_Some [simp]: "req j k f = Some x \<longleftrightarrow> (\<exists>v. json_get j k = Some v \<and> f v = Some x)"
  by (auto simp: req_def Option.bind_eq_Some_conv)

lemma parse_strategy_ok: "parse_strategy j = Some st \<Longrightarrow> extractionStrategySchema st"
  by (auto simp: parse_strategy_def xpath_selector_def Option.bind_eq_Some_conv split: if_splits)

lemma parse_strategyList_ok: "parse_strategyList j = Some ss \<Longrightarrow> strategyList ss"
  by (auto simp: parse_strategyList_def strategyList_def intro: dec_list_all parse_strategy_ok)

lemma parse_optional_ok: "dec_optional parse_strategyList x = Some ss \<Longrightarrow> optional_list ss"
  by (cases ss) (auto simp: optional_list_def dec_optional_Some intro: parse_strategyList_ok)

lemma parse_extractors_ok:
  assumes "parse_extractors j = Some ex"
  shows "strategyList (ex_title ex) \<and> strategyList (ex_price ex) \<and> optional_list (ex_currency ex) \<and>
    strategyList (ex_availability ex) \<and> list_all extractionStrategySchema (ex_selectedVariant ex) \<and>
    optional_list (ex_sku ex)"
  using assms unfolding parse_extractors_def
  by (auto simp: Option.bind_eq_Some_conv intro: parse_strategyList_ok parse_optional_ok
      dec_list_all parse_strategy_ok)

lemma parse_action_ok: "parse_action j = Some a \<Longrightarrow> actionSchema a"
  by (auto simp: parse_action_def actionSchema_def Option.bind_eq_Some_conv)

lemma parse_step_ok: "parse_step j = Some st \<Longrightarrow> step_instruction st \<noteq> [] \<and> actionSchema (step_action st)"
  by (auto simp: parse_step_def Option.bind_eq_Some_conv intro: parse_action_ok)

lemma parse_identity_ok:
  "parse_identity j = Some i \<Longrightarrow> id_title i \<noteq> [] \<and> 8 \<le> length (id_fingerprint i)"
  by (auto simp: parse_identity_def Option.bind_eq_Some_conv)

lemma parse_plan_ok:
  assumes "parse_plan is_url j = Some p"
  shows "monitorPlanV1Schema is_url p"
  using assms unfolding parse_plan_def monitorPlanV1Schema_def
  by (auto simp: Option.bind_eq_Some_conv dest: parse_identity_ok parse_extractors_ok
      dec_list_all [OF _ parse_step_ok])

lemma parse_condition_ok: "parse_condition j = Some c \<Longrightarrow> monitorConditionSchema c"
  by (auto simp: parse_condition_def monitorConditionSchema_def Option.bind_eq_Some_conv positive_def
      dec_optional_Some split: if_splits option.splits)

lemma dec_default_positive: "dec_default 1 positive x = Some n \<Longrightarrow> 0 < n"
  by (cases x) (auto simp: positive_def)

lemma parse_execution_ok:
  "parse_execution v = Some e \<Longrightarrow>
   job_id e \<noteq> [] \<and> 0 < job_attempt e \<and> (case job_failedGeneration e of None \<Rightarrow> True | Some n \<Rightarrow> 0 \<le> n)"
  by (auto simp: parse_execution_def Option.bind_eq_Some_conv nonnegative_def dec_optional_Some
      dest: dec_default_positive split: option.splits)

lemma parse_monitor_ok:
  "parse_monitor is_url v = Some m \<Longrightarrow> mon_id m \<noteq> [] \<and> is_url (mon_url m) \<and> mon_intent m \<noteq> [] \<and>
     (case mon_condition m of None \<Rightarrow> True | Some c \<Rightarrow> monitorConditionSchema c)"
  by (auto simp: parse_monitor_def Option.bind_eq_Some_conv dec_optional_Some
      dest: parse_condition_ok split: option.splits)

lemma parse_revision_ok:
  "parse_revision is_url v = Some r \<Longrightarrow> 0 \<le> rev_generation r \<and> monitorPlanV1Schema is_url (rev_plan r)"
  by (auto simp: parse_revision_def Option.bind_eq_Some_conv nonnegative_def dest: parse_plan_ok)

lemma parse_input_ok:
  assumes "parse_input is_url j = Some i"
  shows "executionInputSchema is_url i"
proof -
  obtain v u where "parse_execution v = Some (in_execution i)" "parse_monitor is_url u = Some (in_monitor i)"
    and r: "dec_optional (parse_revision is_url) (json_get j ''revision'') = Some (in_revision i)"
    using assms unfolding parse_input_def by (auto simp: Option.bind_eq_Some_conv)
  moreover have "case in_revision i of None \<Rightarrow> True
      | Some r \<Rightarrow> 0 \<le> rev_generation r \<and> monitorPlanV1Schema is_url (rev_plan r)"
    using r by (cases "in_revision i") (auto simp: dec_optional_Some dest: parse_revision_ok)
  ultimately show ?thesis
    using parse_execution_ok parse_monitor_ok unfolding executionInputSchema_def by metis
qed

section \<open>Plans survive JSON\<close>

lemma json_get_js_obj [simp]:
  "json_get (js_obj []) k = None"
  "json_get (js_obj ((k', v) # fs)) k = (if k = k' \<and> v \<noteq> None then v else json_get (js_obj fs) k)"
  by (simp add: js_obj_def) (cases v; simp add: js_obj_def)

lemma if_not_None [simp]: "(if v \<noteq> None then v else None) = v" "(if v = None then None else v) = v"
  by auto

lemma is_obj_js_obj [simp]: "is_obj (js_obj fs)"
  by (simp add: js_obj_def)

lemma dec_dict_json_dict [simp]: "dec_dict (json_dict d) = Some d"
  by (induction d) (auto simp: json_dict_def)

lemma dec_strings [simp]: "dec_list dec_string (json_strings ss) = Some ss"
  by (simp add: json_strings_def all_some_map)

lemma parse_field_name [simp]: "parse_field (JStr (ld_field_name f)) = Some f"
  by (cases f) (simp_all add: parse_field_def dec_enum_def)

lemma parse_purpose_name [simp]: "parse_purpose (JStr (purpose_name p)) = Some p"
  by (cases p) (simp_all add: parse_purpose_def dec_enum_def)

lemma parse_strategy_json: "extractionStrategySchema st \<Longrightarrow> parse_strategy (strategy_json st) = Some st"
  by (cases st; cases "strategy_attribute st") (simp_all add: parse_strategy_def req_def xpath_selector_def dec_where_def)

lemma parse_strategies: "list_all extractionStrategySchema ss \<Longrightarrow> dec_list parse_strategy (strategies_json ss) = Some ss"
  by (simp add: strategies_json_def list_all_iff all_some_map parse_strategy_json)

lemma parse_strategyList_json: "strategyList ss \<Longrightarrow> parse_strategyList (strategies_json ss) = Some ss"
  by (simp add: strategyList_def parse_strategyList_def parse_strategies)

lemma parse_optional_json:
  "optional_list ss \<Longrightarrow> dec_optional parse_strategyList (map_option strategies_json ss) = Some ss"
  by (cases ss) (simp_all add: optional_list_def parse_strategyList_json)

lemma parse_action_json: "actionSchema a \<Longrightarrow> parse_action (action_json a) = Some a"
  by (cases "act_method a"; cases "act_arguments a")
    (auto simp: actionSchema_def parse_action_def action_json_def Option.bind_eq_Some_conv Suc_le_eq)

lemma parse_step_json:
  "step_instruction st \<noteq> [] \<Longrightarrow> actionSchema (step_action st) \<Longrightarrow> parse_step (step_json st) = Some st"
  by (auto simp: parse_step_def step_json_def Option.bind_eq_Some_conv Suc_le_eq parse_action_json)

lemma parse_identity_json:
  "id_title i \<noteq> [] \<Longrightarrow> 8 \<le> length (id_fingerprint i) \<Longrightarrow> parse_identity (identity_json i) = Some i"
  by (cases "id_brand i"; cases "id_sku i")
    (auto simp: parse_identity_def identity_json_def Option.bind_eq_Some_conv Suc_le_eq)

lemma parse_extractors_json:
  assumes "strategyList (ex_title ex)" "strategyList (ex_price ex)" "optional_list (ex_currency ex)"
    "strategyList (ex_availability ex)" "list_all extractionStrategySchema (ex_selectedVariant ex)"
    "optional_list (ex_sku ex)"
  shows "parse_extractors (extractors_json ex) = Some ex"
  using assms parse_optional_json [OF assms(3)] parse_optional_json [OF assms(6)]
  by (cases "ex_currency ex"; cases "ex_sku ex")
    (auto simp: parse_extractors_def extractors_json_def Option.bind_eq_Some_conv parse_strategyList_json
      parse_strategies)

lemma parse_plan_json:
  assumes "monitorPlanV1Schema is_url p"
  shows "parse_plan is_url (plan_json p) = Some p"
proof -
  have "dec_list parse_step (JArr (map step_json (plan_preparationSteps p))) = Some (plan_preparationSteps p)"
    using assms by (simp add: monitorPlanV1Schema_def list_all_iff all_some_map parse_step_json)
  moreover have "parse_identity (identity_json (plan_ident p)) = Some (plan_ident p)"
    "parse_extractors (extractors_json (plan_extractors p)) = Some (plan_extractors p)"
    using assms by (auto simp: monitorPlanV1Schema_def intro: parse_identity_json parse_extractors_json)
  ultimately show ?thesis
    using assms unfolding parse_plan_def plan_json_def monitorPlanV1Schema_def
    by (simp add: Option.bind_eq_Some_conv parse_currency_def max_safe_def)
qed

end
