(* ===== verification/Config.thy ===== *)
theory Config
  imports Contracts
begin

text \<open>
  The worker's configuration (\<open>worker/src/config.ts\<close>): the environment schema with its
  defaults and coercions, and \<open>loadConfig\<close>. The environment is a dictionary of strings;
  \<open>None\<close> is the thrown \<open>ZodError\<close>. \<open>is_url\<close> is zod's check of \<open>z.string().url()\<close>.
\<close>

record WorkerConfig =
  cfg_NATS_URL :: jsstr
  cfg_INTERNAL_API_URL :: jsstr
  cfg_WORKER_TOKEN :: jsstr
  cfg_WORKER_QUEUE :: jsstr
  cfg_WORKER_MAX_IN_FLIGHT :: int
  cfg_INFERENCE_MODE :: compiler_mode
  cfg_BROWSER_PROVIDER :: browser_provider
  cfg_BROWSERBASE_API_KEY :: "jsstr option"
  cfg_BROWSERBASE_PROJECT_ID :: "jsstr option"
  cfg_MODEL_NAME :: jsstr
  cfg_MODEL_API_KEY :: "jsstr option"
  cfg_CHROME_EXECUTABLE_PATH :: "jsstr option"
  cfg_ARTIFACT_DIR :: jsstr
  cfg_FIXTURE_ORIGIN :: jsstr
  cfg_ALLOWED_PRIVATE_HOSTS :: jsstr
  cfg_NAVIGATION_TIMEOUT_MS :: int
  cfg_CONTROL_PLANE_TIMEOUT_MS :: int
  cfg_JOB_TIMEOUT_MS :: int
  cfg_allowedPrivateHosts :: "jsstr list"

section \<open>Schema combinators\<close>

text \<open>
  \<open>z.string().default(d)\<close> refined by \<open>ok\<close>: the default replaces a missing variable only, and
  is returned without being checked.
\<close>

definition env_string :: "jsstr dict \<Rightarrow> string \<Rightarrow> string \<Rightarrow> (jsstr \<Rightarrow> bool) \<Rightarrow> jsstr option" where
  "env_string env name dflt ok =
    (case obj_get env (js name) of
       None \<Rightarrow> Some (js dflt)
     | Some v \<Rightarrow> if ok v then Some v else None)"

text \<open>
  \<open>z.coerce.number().int()\<close> with bounds: \<open>Number\<close> of the string must be an integer of the
  safe range that satisfies \<open>ok\<close>.
\<close>

definition env_int :: "jsstr dict \<Rightarrow> string \<Rightarrow> int \<Rightarrow> (int \<Rightarrow> bool) \<Rightarrow> int option" where
  "env_int env name dflt ok =
    (case obj_get env (js name) of
       None \<Rightarrow> Some dflt
     | Some v \<Rightarrow>
        (case js_number v of
           Fin x \<Rightarrow>
             if x = of_int \<lfloor>x\<rfloor> \<and> \<bar>\<lfloor>x\<rfloor>\<bar> \<le> 2 ^ 53 - 1 \<and> ok \<lfloor>x\<rfloor> then Some \<lfloor>x\<rfloor> else None
         | _ \<Rightarrow> None))"

definition env_enum :: "jsstr dict \<Rightarrow> string \<Rightarrow> (string \<times> 'a) list \<Rightarrow> 'a \<Rightarrow> 'a option" where
  "env_enum env name vals dflt =
    (case obj_get env (js name) of
       None \<Rightarrow> Some dflt
     | Some v \<Rightarrow> map_option snd (find (\<lambda>(n, x). js n = v) vals))"

definition host_set :: "platform \<Rightarrow> jsstr \<Rightarrow> jsstr list" where
  "host_set P hosts =
     set_of (filter (\<lambda>h. h \<noteq> []) (map (\<lambda>h. to_lower P (trim h)) (split_on 44 hosts)))"

section \<open>loadConfig\<close>

definition loadConfig :: "platform \<Rightarrow> (jsstr \<Rightarrow> bool) \<Rightarrow> jsstr dict \<Rightarrow> WorkerConfig option" where
  "loadConfig P is_url env =
     Option.bind (env_string env ''NATS_URL'' ''nats://nats:4222'' (\<lambda>_. True)) (\<lambda>nats.
     Option.bind (env_string env ''INTERNAL_API_URL'' ''http://api:8080'' is_url) (\<lambda>api.
     Option.bind (env_string env ''WORKER_TOKEN'' ''development-worker-token'' (\<lambda>v. v \<noteq> [])) (\<lambda>token.
     Option.bind (env_string env ''WORKER_QUEUE'' ''price-scout-workers'' (\<lambda>v. v \<noteq> [])) (\<lambda>queue.
     Option.bind (env_int env ''WORKER_MAX_IN_FLIGHT'' 64 (\<lambda>n. 1 \<le> n \<and> n \<le> 1024)) (\<lambda>inflight.
     Option.bind (env_enum env ''INFERENCE_MODE''
       [(''auto'', Auto), (''scripted'', Scripted), (''live'', Live)] Auto) (\<lambda>mode.
     Option.bind (env_enum env ''BROWSER_PROVIDER''
       [(''LOCAL'', LOCAL), (''BROWSERBASE'', BROWSERBASE)] LOCAL) (\<lambda>provider.
     Option.bind (env_string env ''MODEL_NAME'' ''openai/gpt-5-mini'' (\<lambda>_. True)) (\<lambda>model.
     Option.bind (env_string env ''ARTIFACT_DIR'' ''/data/artifacts'' (\<lambda>_. True)) (\<lambda>dir.
     Option.bind (env_string env ''FIXTURE_ORIGIN'' ''http://fixture:4173'' is_url) (\<lambda>fixture.
     Option.bind (env_string env ''ALLOWED_PRIVATE_HOSTS'' ''fixture,localhost,127.0.0.1'' (\<lambda>_. True)) (\<lambda>hosts.
     Option.bind (env_int env ''NAVIGATION_TIMEOUT_MS'' 30000 (\<lambda>n. 0 < n)) (\<lambda>nav.
     Option.bind (env_int env ''CONTROL_PLANE_TIMEOUT_MS'' 15000 (\<lambda>n. 0 < n)) (\<lambda>cpt.
     Option.bind (env_int env ''JOB_TIMEOUT_MS'' 120000 (\<lambda>n. 0 < n)) (\<lambda>job.
     Some \<lparr>cfg_NATS_URL = nats, cfg_INTERNAL_API_URL = api, cfg_WORKER_TOKEN = token,
       cfg_WORKER_QUEUE = queue, cfg_WORKER_MAX_IN_FLIGHT = inflight, cfg_INFERENCE_MODE = mode,
       cfg_BROWSER_PROVIDER = provider,
       cfg_BROWSERBASE_API_KEY = obj_get env (js ''BROWSERBASE_API_KEY''),
       cfg_BROWSERBASE_PROJECT_ID = obj_get env (js ''BROWSERBASE_PROJECT_ID''),
       cfg_MODEL_NAME = model, cfg_MODEL_API_KEY = obj_get env (js ''MODEL_API_KEY''),
       cfg_CHROME_EXECUTABLE_PATH = obj_get env (js ''CHROME_EXECUTABLE_PATH''),
       cfg_ARTIFACT_DIR = dir, cfg_FIXTURE_ORIGIN = fixture, cfg_ALLOWED_PRIVATE_HOSTS = hosts,
       cfg_NAVIGATION_TIMEOUT_MS = nav, cfg_CONTROL_PLANE_TIMEOUT_MS = cpt, cfg_JOB_TIMEOUT_MS = job,
       cfg_allowedPrivateHosts = host_set P hosts\<rparr>))))))))))))))"

text \<open>The configuration of an empty environment.\<close>

definition default_config :: WorkerConfig where
  "default_config = the (loadConfig ascii_platform (\<lambda>_. True) [])"

section \<open>What a loaded configuration satisfies\<close>

definition config_ok :: "(jsstr \<Rightarrow> bool) \<Rightarrow> WorkerConfig \<Rightarrow> bool" where
  "config_ok is_url c \<longleftrightarrow>
    is_url (cfg_INTERNAL_API_URL c) \<and> is_url (cfg_FIXTURE_ORIGIN c) \<and>
    cfg_WORKER_TOKEN c \<noteq> [] \<and> cfg_WORKER_QUEUE c \<noteq> [] \<and>
    1 \<le> cfg_WORKER_MAX_IN_FLIGHT c \<and> cfg_WORKER_MAX_IN_FLIGHT c \<le> 1024 \<and>
    0 < cfg_NAVIGATION_TIMEOUT_MS c \<and> 0 < cfg_CONTROL_PLANE_TIMEOUT_MS c \<and> 0 < cfg_JOB_TIMEOUT_MS c \<and>
    [] \<notin> set (cfg_allowedPrivateHosts c)"

lemma env_string_ok: "env_string env n d ok = Some v \<Longrightarrow> ok (js d) \<Longrightarrow> ok v"
  by (auto simp: env_string_def split: if_splits option.splits)

lemma env_int_ok: "env_int env n d ok = Some v \<Longrightarrow> ok d \<Longrightarrow> ok v"
  by (auto simp: env_int_def split: option.splits dbl.splits if_splits)

lemma host_set_nonempty: "[] \<notin> set (host_set P hosts)"
  by (simp add: host_set_def)

lemma loadConfig_ok:
  assumes "loadConfig P is_url env = Some c"
    and "is_url (js ''http://api:8080'')" "is_url (js ''http://fixture:4173'')"
  shows "config_ok is_url c"
  using assms(1) unfolding loadConfig_def bind_eq_Some_conv
proof (elim exE conjE)
  fix nats api token queue inflight mode provider model dir fixture hosts nav cpt job
  assume "env_string env ''INTERNAL_API_URL'' ''http://api:8080'' is_url = Some api"
    and "env_string env ''WORKER_TOKEN'' ''development-worker-token'' (\<lambda>v. v \<noteq> []) = Some token"
    and "env_string env ''WORKER_QUEUE'' ''price-scout-workers'' (\<lambda>v. v \<noteq> []) = Some queue"
    and "env_int env ''WORKER_MAX_IN_FLIGHT'' 64 (\<lambda>n. 1 \<le> n \<and> n \<le> 1024) = Some inflight"
    and "env_string env ''FIXTURE_ORIGIN'' ''http://fixture:4173'' is_url = Some fixture"
    and "env_int env ''NAVIGATION_TIMEOUT_MS'' 30000 (\<lambda>n. 0 < n) = Some nav"
    and "env_int env ''CONTROL_PLANE_TIMEOUT_MS'' 15000 (\<lambda>n. 0 < n) = Some cpt"
    and "env_int env ''JOB_TIMEOUT_MS'' 120000 (\<lambda>n. 0 < n) = Some job"
  note checked = this(1,2,3,5) [THEN env_string_ok] this(4,6,7,8) [THEN env_int_ok]
  assume "Some \<lparr>cfg_NATS_URL = nats, cfg_INTERNAL_API_URL = api, cfg_WORKER_TOKEN = token,
       cfg_WORKER_QUEUE = queue, cfg_WORKER_MAX_IN_FLIGHT = inflight, cfg_INFERENCE_MODE = mode,
       cfg_BROWSER_PROVIDER = provider,
       cfg_BROWSERBASE_API_KEY = obj_get env (js ''BROWSERBASE_API_KEY''),
       cfg_BROWSERBASE_PROJECT_ID = obj_get env (js ''BROWSERBASE_PROJECT_ID''),
       cfg_MODEL_NAME = model, cfg_MODEL_API_KEY = obj_get env (js ''MODEL_API_KEY''),
       cfg_CHROME_EXECUTABLE_PATH = obj_get env (js ''CHROME_EXECUTABLE_PATH''),
       cfg_ARTIFACT_DIR = dir, cfg_FIXTURE_ORIGIN = fixture, cfg_ALLOWED_PRIVATE_HOSTS = hosts,
       cfg_NAVIGATION_TIMEOUT_MS = nav, cfg_CONTROL_PLANE_TIMEOUT_MS = cpt, cfg_JOB_TIMEOUT_MS = job,
       cfg_allowedPrivateHosts = host_set P hosts\<rparr> = Some c"
  then show ?thesis
    using assms(2,3) checked by (auto simp: config_ok_def host_set_nonempty)
qed

section \<open>Properties\<close>

text \<open>
  A configuration that \<open>loadConfig\<close> returns satisfies every bound of the schema, whether
  its values come from the environment or from the defaults (which zod returns unchecked):
  URLs are URLs, token and queue are not empty, at most 1024 and at least one job in
  flight, positive timeouts, and no empty host in the private exemptions.
\<close>

theorem loaded_config_ok:
  assumes "loadConfig P is_url env = Some c"
    and "is_url (js ''http://api:8080'')" "is_url (js ''http://fixture:4173'')"
  shows "config_ok is_url c"
  using assms by (rule loadConfig_ok)

theorem loaded_config_ok_witness: "config_ok (\<lambda>_. True) default_config"
proof -
  have "loadConfig ascii_platform (\<lambda>_. True) [] = Some default_config"
    unfolding default_config_def by (simp add: loadConfig_def env_string_def env_int_def env_enum_def)
  then show ?thesis by (rule loaded_config_ok) simp_all
qed

end
