(* ===== verification/Browser.thy ===== *)
theory Browser
  imports Effects Config JsRegex
begin

text \<open>
  One browser session (\<open>worker/src/browser.ts\<close>): construction of a \<open>BrowserRun\<close>, \<open>init\<close> with
  its domain policy, \<open>replay\<close> and \<open>close\<close> as the sequential job code uses them, and the
  life cycle of a run when \<open>close\<close> is called while \<open>init\<close> is still waiting for the browser
  (the abort listener of a job does that) as a step relation.
\<close>

section \<open>Construction\<close>

text \<open>\<open>value.replace(/[^a-zA-Z0-9_-]/g, "_").slice(0, 80)\<close>: each other unit becomes one underscore.\<close>

definition safe_unit :: "code_unit \<Rightarrow> bool" where
  "safe_unit c \<longleftrightarrow> is_ascii_lower c \<or> is_ascii_upper c \<or> is_digit c \<or> c = 95 \<or> c = 45"

definition safe_units :: "jsstr \<Rightarrow> jsstr" where
  "safe_units s = map (\<lambda>c. if safe_unit c then c else 95) s"

definition safeSegment :: "jsstr \<Rightarrow> jsstr" where
  "safeSegment v = take 80 (safe_units v)"

record BrowserRunOptions =
  opt_selfHeal :: bool
  opt_needsModel :: bool
  opt_executionId :: jsstr

text \<open>
  A run: the configuration, the options it was built with (\<open>selfHeal\<close>; whether a model or
  the client that refuses every model call is installed) and its cache directory.
\<close>

record browser_run =
  run_session :: session
  run_config :: WorkerConfig
  run_selfHeal :: bool
  run_model :: bool
  run_cacheDir :: jsstr

definition nonempty_opt :: "jsstr option \<Rightarrow> bool" where
  "nonempty_opt x \<longleftrightarrow> (case x of None \<Rightarrow> False | Some s \<Rightarrow> s \<noteq> [])"

definition newBrowserRun :: "env \<Rightarrow> session \<Rightarrow> WorkerConfig \<Rightarrow> BrowserRunOptions \<Rightarrow> browser_run io" where
  "newBrowserRun E s config options =
     io_bind (io_lift (throw_if (opt_needsModel options \<and> \<not> nonempty_opt (cfg_MODEL_API_KEY config))
        (PlainError (js ''MODEL_API_KEY is required for live compile and repair jobs''))))
     (\<lambda>_. io_bind (io_call (CLaunch s (opt_selfHeal options) (opt_needsModel options)) (\<lambda>h. env_launch E h s))
     (\<lambda>_. io_ret \<lparr>run_session = s, run_config = config, run_selfHeal = opt_selfHeal options,
       run_model = opt_needsModel options,
       run_cacheDir = js ''/tmp/price-scout-cache/'' @ safeSegment (opt_executionId options)\<rparr>))"

section \<open>init and replay\<close>

definition initialize :: "env \<Rightarrow> browser_run \<Rightarrow> jsstr \<Rightarrow> unit io" where
  "initialize E run allowedHost =
    (let s = run_session run in
     io_bind (io_call (CInit s) (\<lambda>h. env_init E h s)) (\<lambda>_.
     io_bind (if 46 \<in> set allowedHost
              then io_call (CDomainPolicy s [allowedHost, js ''*.'' @ allowedHost]) (\<lambda>h. env_policy E h s)
              else io_ret ()) (\<lambda>_.
     io_bind (io_read (\<lambda>h. env_has_page E h s)) (\<lambda>existing.
     if existing then io_ret () else io_call (CNewPage s) (\<lambda>h. env_new_page E h s)))))"

text \<open>The action handed to Stagehand: empty methods are left out.\<close>

definition publicAction :: "CachedAction \<Rightarrow> CachedAction" where
  "publicAction a = a\<lparr>act_method := (if nonempty_opt (act_method a) then act_method a else None)\<rparr>"

definition replay :: "env \<Rightarrow> browser_run \<Rightarrow> CachedAction \<Rightarrow> CachedAction list io" where
  "replay E run action =
     io_bind (io_call (CAct (run_session run) (publicAction action))
        (\<lambda>h. env_act E h (run_session run) (publicAction action))) (\<lambda>result.
     if ar_success result then io_ret (ar_actions result)
     else io_throw (PlainError
       (if ar_message result \<noteq> [] then ar_message result else js ''Cached action failed'')))"

definition provider :: "browser_run \<Rightarrow> browser_provider" where
  "provider run = cfg_BROWSER_PROVIDER (run_config run)"

definition sessionId :: "env \<Rightarrow> browser_run \<Rightarrow> jsstr option io" where
  "sessionId E run = io_read (\<lambda>h. env_session_id E h (run_session run))"

text \<open>
  \<open>close()\<close> after the job: both closes of the session when it was initialised, then the
  removal of the cache directory; failures of each are swallowed. \<open>initialized\<close> is set at
  the start of \<open>init\<close>, before anything is awaited.
\<close>

definition run_close :: "browser_run \<Rightarrow> bool \<Rightarrow> world \<Rightarrow> world" where
  "run_close run initialized w =
     record_call (CRemove (run_cacheDir run))
       (if initialized
        then record_call (CClose (run_session run)) (record_call (CClose (run_session run)) w)
        else w)"

section \<open>Closing while initialising\<close>

text \<open>
  The flags of a run and what is outstanding. \<open>lc_browser\<close> is whether the session's browser
  is up. \<open>lc_init\<close> is the progress of \<open>initialize\<close>: before the call, waiting for
  \<open>stagehand.init()\<close> (the launcher may still bring the browser up), resumed after it, waiting
  for its own \<open>stagehand.close()\<close> because it saw the run closing, waiting for
  \<open>setDomainPolicy\<close> or \<open>newPage\<close> because it did not, or settled. \<open>lc_close\<close> is the progress
  of \<open>closeOnce\<close>.
\<close>

datatype init_stage =
    InitIdle | InitLaunching | InitLaunched | InitAborting | InitPolicy | InitDone | InitFailed

datatype close_stage = CloseIdle | CloseFirst | CloseAwaitInit | CloseSecond | CloseRemove | CloseDone

record lifecycle =
  lc_initialized :: bool
  lc_closing :: bool
  lc_init :: init_stage
  lc_close :: close_stage
  lc_browser :: bool

definition lc_start :: lifecycle where
  "lc_start = \<lparr>lc_initialized = False, lc_closing = False, lc_init = InitIdle,
     lc_close = CloseIdle, lc_browser = False\<rparr>"

definition init_settled :: "lifecycle \<Rightarrow> bool" where
  "init_settled s \<longleftrightarrow> lc_init s \<in> {InitIdle, InitDone, InitFailed}"

text \<open>
  \<open>reliable\<close> says that \<open>stagehand.close()\<close> brings the session's browser down whenever it is
  called; without it a close may fail, and the code goes on. The job code calls \<open>init\<close> once.
  A launcher that fails may leave a browser behind. The check of \<open>closing\<close> is made once, when
  \<open>stagehand.init()\<close> has returned: a \<open>close\<close> that arrives later, while the policy is set or
  the page opened, finds the initialisation going on and settling as it would have.
\<close>

inductive lc_step :: "bool \<Rightarrow> lifecycle \<Rightarrow> lifecycle \<Rightarrow> bool" for reliable where
  init_call: "lc_init s = InitIdle \<Longrightarrow> \<not> lc_closing s \<Longrightarrow>
    lc_step reliable s (s\<lparr>lc_initialized := True, lc_init := InitLaunching\<rparr>)"
| launcher_up: "lc_init s = InitLaunching \<Longrightarrow>
    lc_step reliable s (s\<lparr>lc_browser := True, lc_init := InitLaunched\<rparr>)"
| launcher_error: "lc_init s = InitLaunching \<Longrightarrow>
    lc_step reliable s (s\<lparr>lc_browser := up, lc_init := InitFailed\<rparr>)"
| check_open: "lc_init s = InitLaunched \<Longrightarrow> \<not> lc_closing s \<Longrightarrow> lc_step reliable s (s\<lparr>lc_init := InitPolicy\<rparr>)"
| check_closing: "lc_init s = InitLaunched \<Longrightarrow> lc_closing s \<Longrightarrow> lc_step reliable s (s\<lparr>lc_init := InitAborting\<rparr>)"
| init_aborted: "lc_init s = InitAborting \<Longrightarrow> (reliable \<longrightarrow> ok) \<Longrightarrow>
    lc_step reliable s (s\<lparr>lc_browser := lc_browser s \<and> \<not> ok, lc_init := InitFailed\<rparr>)"
| init_ok: "lc_init s = InitPolicy \<Longrightarrow> lc_step reliable s (s\<lparr>lc_init := InitDone\<rparr>)"
| init_error: "lc_init s = InitPolicy \<Longrightarrow> lc_step reliable s (s\<lparr>lc_init := InitFailed\<rparr>)"
| close_call: "lc_close s = CloseIdle \<Longrightarrow>
    lc_step reliable s (s\<lparr>lc_closing := True,
      lc_close := (if lc_initialized s then CloseFirst else CloseRemove)\<rparr>)"
| close_first: "lc_close s = CloseFirst \<Longrightarrow> (reliable \<longrightarrow> ok) \<Longrightarrow>
    lc_step reliable s (s\<lparr>lc_browser := lc_browser s \<and> \<not> ok, lc_close := CloseAwaitInit\<rparr>)"
| close_await: "lc_close s = CloseAwaitInit \<Longrightarrow> init_settled s \<Longrightarrow> lc_step reliable s (s\<lparr>lc_close := CloseSecond\<rparr>)"
| close_second: "lc_close s = CloseSecond \<Longrightarrow> (reliable \<longrightarrow> ok) \<Longrightarrow>
    lc_step reliable s (s\<lparr>lc_browser := lc_browser s \<and> \<not> ok, lc_close := CloseRemove\<rparr>)"
| close_remove: "lc_close s = CloseRemove \<Longrightarrow> lc_step reliable s (s\<lparr>lc_close := CloseDone\<rparr>)"

inductive lc_reachable :: "bool \<Rightarrow> lifecycle \<Rightarrow> bool" for reliable where
  lc_init_state: "lc_reachable reliable lc_start"
| lc_next: "lc_reachable reliable s \<Longrightarrow> lc_step reliable s t \<Longrightarrow> lc_reachable reliable t"

text \<open>What the flags say about each other and about the browser.\<close>

definition lc_inv :: "bool \<Rightarrow> lifecycle \<Rightarrow> bool" where
  "lc_inv reliable s \<longleftrightarrow>
    (lc_closing s \<longleftrightarrow> lc_close s \<noteq> CloseIdle) \<and>
    (lc_initialized s \<longleftrightarrow> lc_init s \<noteq> InitIdle) \<and>
    (lc_init s = InitIdle \<longrightarrow> \<not> lc_browser s) \<and>
    (lc_init s = InitAborting \<longrightarrow> lc_closing s) \<and>
    (lc_close s = CloseSecond \<longrightarrow> init_settled s) \<and>
    (lc_close s \<in> {CloseRemove, CloseDone} \<longrightarrow> init_settled s \<and> (reliable \<longrightarrow> \<not> lc_browser s))"

lemma lc_inv_start: "lc_inv reliable lc_start"
  by (simp add: lc_inv_def lc_start_def init_settled_def)

lemma lc_inv_step: "lc_step reliable s t \<Longrightarrow> lc_inv reliable s \<Longrightarrow> lc_inv reliable t"
  by (induction rule: lc_step.induct) (auto simp: lc_inv_def init_settled_def)

lemma lc_reachable_inv: "lc_reachable reliable s \<Longrightarrow> lc_inv reliable s"
  by (induction rule: lc_reachable.induct) (auto intro: lc_inv_start lc_inv_step)

text \<open>No step leaves a finished close.\<close>

inductive_cases lc_stepE: "lc_step reliable s t"

lemma closed_forever:
  "lc_step reliable s t \<Longrightarrow> lc_close s = CloseDone \<Longrightarrow> lc_close t = CloseDone"
  by (erule lc_stepE) auto

text \<open>A measure that every step of a closing run decreases.\<close>

fun init_left :: "init_stage \<Rightarrow> nat" where
  "init_left InitIdle = 4"
| "init_left InitLaunching = 3"
| "init_left InitLaunched = 2"
| "init_left InitAborting = 1"
| "init_left InitPolicy = 1"
| "init_left InitDone = 0"
| "init_left InitFailed = 0"

fun close_left :: "close_stage \<Rightarrow> nat" where
  "close_left CloseIdle = 5"
| "close_left CloseFirst = 4"
| "close_left CloseAwaitInit = 3"
| "close_left CloseSecond = 2"
| "close_left CloseRemove = 1"
| "close_left CloseDone = 0"

definition lc_left :: "lifecycle \<Rightarrow> nat" where
  "lc_left s = init_left (lc_init s) + close_left (lc_close s)"

lemma lc_step_decreases: "lc_step reliable s t \<Longrightarrow> lc_left t < lc_left s"
  by (induction rule: lc_step.induct) (auto simp: lc_left_def)

text \<open>A closing run that is not done can always take a step.\<close>

lemma lc_progress:
  assumes "lc_closing s" "lc_inv reliable s" "lc_close s \<noteq> CloseDone"
  shows "\<exists>t. lc_step reliable s t"
proof (cases "lc_close s")
  case CloseIdle
  then show ?thesis using assms by (simp add: lc_inv_def)
next
  case CloseAwaitInit
  show ?thesis
  proof (cases "init_settled s")
    case True
    then show ?thesis using CloseAwaitInit by (blast intro: close_await)
  next
    case False
    then show ?thesis using assms(1)
      by (cases "lc_init s") (auto simp: init_settled_def intro: launcher_error check_closing init_aborted init_ok)
  qed
qed (use assms in \<open>blast intro: lc_step.intros\<close>)+

lemma lc_chain_bound: "(lc_step reliable ^^ n) s t \<Longrightarrow> n + lc_left t \<le> lc_left s"
proof (induction n arbitrary: t)
  case (Suc n)
  then obtain u where "(lc_step reliable ^^ n) s u" "lc_step reliable u t" by auto
  then show ?case using Suc.IH [of u] lc_step_decreases [of reliable u t] by linarith
qed simp

lemma lc_chain_inv:
  "(lc_step reliable ^^ n) s t \<Longrightarrow> lc_inv reliable s \<Longrightarrow> lc_closing s \<Longrightarrow>
   lc_inv reliable t \<and> lc_closing t"
proof (induction n arbitrary: t)
  case (Suc n)
  then obtain u where u: "(lc_step reliable ^^ n) s u" "lc_step reliable u t" by auto
  then have "lc_inv reliable u" "lc_closing u" using Suc by auto
  moreover have "lc_closing u \<Longrightarrow> lc_closing t" using u(2) by (rule lc_stepE) auto
  ultimately show ?case using u(2) lc_inv_step by blast
qed simp

section \<open>Properties\<close>

text \<open>
  C37. No browser survives a finished close. In every reachable state of a run, under any
  interleaving of \<open>init\<close>, the browser launcher and \<open>close\<close> (the abort listener may call it
  while \<open>init\<close> waits for the launcher, for the domain policy or for the page), once \<open>close\<close> has finished the initialisation has settled and, if
  \<open>stagehand.close\<close> brings a browser down when asked, the session has no browser.
\<close>

theorem close_leaves_no_browser:
  assumes "lc_reachable reliable s" "lc_close s = CloseDone"
  shows "init_settled s \<and> (reliable \<longrightarrow> \<not> lc_browser s)"
  using lc_reachable_inv [OF assms(1)] assms(2) by (simp add: lc_inv_def)

text \<open>A run closed while the launcher is busy; the browser comes up in between.\<close>

definition lc_late :: lifecycle where
  "lc_late = \<lparr>lc_initialized = True, lc_closing = True, lc_init = InitFailed,
     lc_close = CloseDone, lc_browser = False\<rparr>"

lemma lc_late_reachable: "lc_reachable True lc_late"
proof -
  define s1 where "s1 = lc_start\<lparr>lc_initialized := True, lc_init := InitLaunching\<rparr>"
  define s2 where "s2 = s1\<lparr>lc_closing := True, lc_close := CloseFirst\<rparr>"
  define s3 where "s3 = s2\<lparr>lc_close := CloseAwaitInit\<rparr>"
  define s4 where "s4 = s3\<lparr>lc_browser := True, lc_init := InitLaunched\<rparr>"
  define s4' where "s4' = s4\<lparr>lc_init := InitAborting\<rparr>"
  define s5 where "s5 = s4'\<lparr>lc_browser := False, lc_init := InitFailed\<rparr>"
  define s6 where "s6 = s5\<lparr>lc_close := CloseSecond\<rparr>"
  define s7 where "s7 = s6\<lparr>lc_close := CloseRemove\<rparr>"
  note defs = s1_def s2_def s3_def s4_def s4'_def s5_def s6_def s7_def lc_start_def
  have "lc_step True lc_start s1" unfolding s1_def by (rule init_call) (simp_all add: defs)
  moreover have "lc_step True s1 s2" using close_call [of s1 True] by (simp add: defs)
  moreover have "lc_step True s2 s3" using close_first [of s2 True True] by (simp add: defs)
  moreover have "lc_step True s3 s4" unfolding s4_def by (rule launcher_up) (simp add: defs)
  moreover have "lc_step True s4 s4'" unfolding s4'_def by (rule check_closing) (simp_all add: defs)
  moreover have "lc_step True s4' s5" using init_aborted [of s4' True True] by (simp add: defs)
  moreover have "lc_step True s5 s6" unfolding s6_def
    by (rule close_await) (simp_all add: defs init_settled_def)
  moreover have "lc_step True s6 s7" using close_second [of s6 True True] by (simp add: defs)
  moreover have "lc_step True s7 lc_late" using close_remove [of s7 True] by (simp add: defs lc_late_def)
  ultimately show ?thesis by (meson lc_init_state lc_next)
qed

theorem close_leaves_no_browser_witness: "\<not> lc_browser lc_late"
  using close_leaves_no_browser [OF lc_late_reachable] by (simp add: lc_late_def)

text \<open>
  Closing ends. From every reachable state in which \<open>close\<close> was called, at most eight
  steps are possible, and where no step is left \<open>close\<close> has finished: it cannot get stuck
  waiting for the initialisation.
\<close>

theorem close_terminates:
  assumes "lc_reachable reliable s" "lc_closing s" "(lc_step reliable ^^ n) s t"
  shows "n \<le> 8 \<and> ((\<nexists>u. lc_step reliable t u) \<longrightarrow> lc_close t = CloseDone)"
proof
  have "init_left i \<le> 4" for i by (cases i) simp_all
  moreover have "c \<noteq> CloseIdle \<Longrightarrow> close_left c \<le> 4" for c by (cases c) simp_all
  moreover have "lc_close s \<noteq> CloseIdle"
    using lc_reachable_inv [OF assms(1)] assms(2) by (simp add: lc_inv_def)
  ultimately have "lc_left s \<le> 4 + 4" unfolding lc_left_def by (intro add_mono) auto
  then show "n \<le> 8" using lc_chain_bound [OF assms(3)] by linarith
  show "(\<nexists>u. lc_step reliable t u) \<longrightarrow> lc_close t = CloseDone"
    using lc_chain_inv [OF assms(3) lc_reachable_inv [OF assms(1)] assms(2)] lc_progress by blast
qed

theorem close_terminates_witness:
  "\<not> (\<exists>t. (lc_step True ^^ 9) lc_late t)"
  using close_terminates [OF lc_late_reachable, of 9] by (auto simp: lc_late_def)

end
