(* ===== verification/UrlPath.thy ===== *)
theory UrlPath
  imports JsValue
begin

text \<open>
  The path of a URL as \<open>fetch\<close> and the router see it. \<open>fetch\<close> parses its argument by the URL
  standard: the path is split at the slashes, a segment \<open>.\<close> is dropped, a segment \<open>..\<close> takes the
  one before it away, also where a dot is written \<open>%2e\<close>, and one of either at the end leaves an
  empty segment. \<open>encodeURIComponent\<close> leaves dots alone, so an identifier \<open>.\<close> or \<open>..\<close> changes the
  path it is put into; every other identifier that is not empty is one segment of it.
\<close>

section \<open>Segments\<close>

definition here_segment :: "jsstr \<Rightarrow> bool" where
  "here_segment s \<longleftrightarrow> map lower_unit s \<in> set (map js [''.'', ''%2e''])"

definition up_segment :: "jsstr \<Rightarrow> bool" where
  "up_segment s \<longleftrightarrow> map lower_unit s \<in> set (map js [''..'', ''.%2e'', ''%2e.'', ''%2e%2e''])"

fun resolve_dots :: "jsstr list \<Rightarrow> jsstr list \<Rightarrow> jsstr list" where
  "resolve_dots st [] = st"
| "resolve_dots st (s # ss) =
     resolve_dots (if up_segment s then butlast st else if here_segment s then st else st @ [s]) ss"

definition fetched_segments :: "jsstr list \<Rightarrow> jsstr list" where
  "fetched_segments segs =
     resolve_dots [] segs @ (if segs \<noteq> [] \<and> (up_segment (last segs) \<or> here_segment (last segs)) then [[]] else [])"

text \<open>Segments written as a path: \<open>/a/b\<close>.\<close>

definition slashed :: "jsstr list \<Rightarrow> jsstr" where
  "slashed segs = concat (map (\<lambda>s. 47 # s) segs)"

lemma slashed_simps [simp]: "slashed [] = []" "slashed (s # ss) = 47 # s @ slashed ss"
  by (simp_all add: slashed_def)

text \<open>
  One segment and nothing else: not empty, no dot segment, and without a unit that ends a
  segment or the path (slash, backslash, question mark, number sign).
\<close>

definition plain_segment :: "jsstr \<Rightarrow> bool" where
  "plain_segment s \<longleftrightarrow> s \<noteq> [] \<and> \<not> up_segment s \<and> \<not> here_segment s \<and> list_all (\<lambda>u. u \<notin> {47, 92, 63, 35}) s"

lemma resolve_dots_plain: "list_all plain_segment segs \<Longrightarrow> resolve_dots st segs = st @ segs"
  by (induction segs arbitrary: st) (auto simp: plain_segment_def)

lemma resolve_dots_append: "resolve_dots st (xs @ ys) = resolve_dots (resolve_dots st xs) ys"
  by (induction xs arbitrary: st) auto

text \<open>Plain segments stay where they are, below whatever the address before them resolves to.\<close>

lemma fetched_plain:
  assumes "list_all plain_segment segs" "segs \<noteq> []"
  shows "fetched_segments (address @ segs) = resolve_dots [] address @ segs"
proof -
  have "plain_segment (last segs)" using assms by (simp add: list_all_iff)
  then show ?thesis
    using assms by (simp add: fetched_segments_def resolve_dots_append resolve_dots_plain plain_segment_def)
qed

section \<open>Encoded identifiers\<close>

definition path_id :: "jsstr \<Rightarrow> bool" where
  "path_id i \<longleftrightarrow> unit_list i \<and> i \<noteq> [] \<and> i \<noteq> js ''.'' \<and> i \<noteq> js ''..''"

lemma percent_head:
  assumes "0 \<le> n" "n < 1114112" "n \<noteq> 46"
  shows "\<exists>b rest. percent (utf8_units n) @ t = 37 # hex_upper (b div 16) # hex_upper (b mod 16) # rest \<and>
    0 \<le> b \<and> b < 256 \<and> b \<noteq> 46"
proof -
  have "utf8_units n \<noteq> []" "hd (utf8_units n) \<noteq> 46" using assms by (auto simp: utf8_units_def)
  then obtain b bs where b: "utf8_units n = b # bs" "b \<noteq> 46" by (cases "utf8_units n") auto
  moreover have "0 \<le> b \<and> b < 256" using utf8_units_bytes [OF assms(1,2)] b by simp
  ultimately show ?thesis by (intro exI [of _ b] exI [of _ "percent bs @ t"]) (simp add: percent_def)
qed

lemma hex_upper_byte:
  assumes "0 \<le> b" "b < 256" "b \<noteq> 46"
  shows "\<not> (hex_upper (b div 16) = 50 \<and> hex_upper (b mod 16) \<in> {69, 101})"
proof
  assume h: "hex_upper (b div 16) = 50 \<and> hex_upper (b mod 16) \<in> {69, 101}"
  have "b mod 16 < 16" "b div 16 < 16" using assms(1,2) by auto
  then have "b div 16 = 2" "b mod 16 = 14" using h by (auto simp: hex_upper_def split: if_splits)
  then have "b = 46" using div_mult_mod_eq [of b 16] by simp
  with assms(3) show False ..
qed

lemma encode_head:
  assumes "encode_component (c # s) = Some t" "unit_list (c # s)"
  shows "uri_unreserved c \<and> (\<exists>t'. t = c # t' \<and> encode_component s = Some t') \<or>
    (\<exists>b rest. t = 37 # hex_upper (b div 16) # hex_upper (b mod 16) # rest \<and> 0 \<le> b \<and> b < 256 \<and> b \<noteq> 46)"
proof (cases "uri_unreserved c")
  case True
  then show ?thesis using assms by auto
next
  case False
  then have "c \<noteq> 46" by (auto simp: uri_unreserved_def js_eval)
  have c: "0 \<le> c" "c < 65536" using assms(2) by (simp_all add: unit_list_def)
  show ?thesis
  proof (cases "is_high c")
    case True
    then obtain d r t' where d: "s = d # r" "is_low d"
      "t = percent (utf8_units (65536 + (c - 55296) * 1024 + (d - 56320))) @ t'"
      using assms False by (auto split: list.splits if_splits)
    have "0 \<le> 65536 + (c - 55296) * 1024 + (d - 56320)" "65536 + (c - 55296) * 1024 + (d - 56320) < 1114112"
      "65536 + (c - 55296) * 1024 + (d - 56320) \<noteq> 46"
      using True d(2) by (auto simp: is_high_def is_low_def)
    from percent_head [OF this, of t'] show ?thesis unfolding d(3) by blast
  next
    case low: False
    then obtain t' where t: "t = percent (utf8_units c) @ t'" using assms False by (auto split: if_splits)
    have "c < 1114112" using c by simp
    from percent_head [OF c(1) this \<open>c \<noteq> 46\<close>, of t'] show ?thesis unfolding t by blast
  qed
qed

lemma encode_empty: "encode_component s = Some [] \<Longrightarrow> unit_list s \<Longrightarrow> s = []"
  using encode_head [of "hd s" "tl s" "[]"] by (cases s) auto

lemma lower_unit_cases:
  "lower_unit u = 37 \<Longrightarrow> u = 37" "lower_unit u = 46 \<Longrightarrow> u = 46" "lower_unit u = 50 \<Longrightarrow> u = 50"
  "lower_unit u = 101 \<Longrightarrow> u = 69 \<or> u = 101"
  by (auto simp: lower_unit_def is_ascii_upper_def split: if_splits)

lemma lower_units [simp]: "lower_unit 37 = 37" "lower_unit 46 = 46" "lower_unit 50 = 50" "lower_unit 69 = 101" "lower_unit 101 = 101"
  by (simp_all add: lower_unit_def is_ascii_upper_def)

lemma encoded_not_escaped_dot:
  assumes "encode_component s = Some t" "unit_list s"
  shows "\<nexists>x y rest. t = 37 # x # y # rest \<and> lower_unit x = 50 \<and> lower_unit y = 101"
proof
  assume "\<exists>x y rest. t = 37 # x # y # rest \<and> lower_unit x = 50 \<and> lower_unit y = 101"
  then obtain x y rest where t: "t = 37 # x # y # rest" "x = 50" "y = 69 \<or> y = 101"
    using lower_unit_cases by blast
  obtain c s' where s: "s = c # s'" using assms(1) t by (cases s) auto
  have "\<not> uri_unreserved 37" by code_simp
  with encode_head [OF assms(1) [unfolded s] assms(2) [unfolded s]] t(1) obtain b where
    "x = hex_upper (b div 16)" "y = hex_upper (b mod 16)" "0 \<le> b" "b < 256" "b \<noteq> 46" by auto
  then show False using t(2,3) hex_upper_byte by auto
qed

lemma encoded_dot_head:
  assumes "encode_component s = Some (46 # t)" "unit_list s"
  shows "\<exists>s'. s = 46 # s' \<and> encode_component s' = Some t"
proof -
  obtain c s' where s: "s = c # s'" using assms(1) by (cases s) auto
  from encode_head [OF assms(1) [unfolded s] assms(2) [unfolded s]] show ?thesis using s by auto
qed

lemma dot_segments:
  "here_segment t \<longleftrightarrow> map lower_unit t \<in> {[46], [37, 50, 101]}"
  "up_segment t \<longleftrightarrow> map lower_unit t \<in> {[46, 46], [46, 37, 50, 101], [37, 50, 101, 46], [37, 50, 101, 37, 50, 101]}"
  by (simp_all add: here_segment_def up_segment_def js_def)

lemma encoded_dots:
  assumes e: "encode_component i = Some t" and i: "path_id i"
  shows "\<not> here_segment t" "\<not> up_segment t"
proof -
  have u: "unit_list i" using i by (simp add: path_id_def)
  have pct: "t \<noteq> 37 # 50 # 69 # r" "t \<noteq> 37 # 50 # 101 # r" for r
    using encoded_not_escaped_dot [OF e u] by force+
  have dot: "t \<noteq> 46 # r" if r: "r = [] \<or> r = [46] \<or> (\<exists>x y z. r = 37 # x # y # z \<and> lower_unit x = 50 \<and> lower_unit y = 101)" for r
  proof
    assume "t = 46 # r"
    then obtain s where s: "i = 46 # s" "encode_component s = Some r" using encoded_dot_head [OF _ u] e by blast
    have us: "unit_list s" using u s(1) by (simp add: unit_list_def)
    consider "r = []" | "r = [46]" using r encoded_not_escaped_dot [OF s(2) us] by blast
    then show False
    proof cases
      case 1
      then have "s = []" using encode_empty s(2) us by blast
      then show False using i s(1) by (simp add: path_id_def js_eval)
    next
      case 2
      then obtain s' where s': "s = 46 # s'" "encode_component s' = Some []" using encoded_dot_head [OF _ us] s(2) by blast
      then have "s' = []" using encode_empty us by (auto simp: unit_list_def)
      then show False using i s(1) s'(1) by (simp add: path_id_def js_eval)
    qed
  qed
  show "\<not> here_segment t"
    using pct dot [of "[]"] by (auto simp: dot_segments map_eq_Cons_conv dest!: lower_unit_cases)
  show "\<not> up_segment t"
    using pct dot [of "[46]"] dot [of "[37, 50, 69]"] dot [of "[37, 50, 101]"] by (auto simp: dot_segments map_eq_Cons_conv dest!: lower_unit_cases)
qed

lemma encoded_plain:
  assumes "encode_component i = Some t" "path_id i"
  shows "plain_segment t"
proof -
  have u: "unit_list i" and n: "i \<noteq> []" using assms(2) by (simp_all add: path_id_def)
  have "\<not> uri_unreserved 47" "\<not> uri_unreserved 63" "\<not> uri_unreserved 35" "\<not> uri_unreserved 92" by code_simp+
  moreover have "uri_unreserved c \<or> c = 37" if "c \<in> set t" for c
    using encode_component_units [OF assms(1) u that] .
  ultimately have "c \<notin> {47, 92, 63, 35}" if "c \<in> set t" for c using that by fastforce
  then show ?thesis
    using encoded_dots [OF assms] encode_empty assms(1) u n by (auto simp: plain_segment_def list_all_iff)
qed

text \<open>Identifiers made of letters and digits are themselves plain segments, and what \<open>..\<close> does.\<close>

lemma dots_encoded: "encode_component (js ''..'') = Some (js ''..'')" "encode_component (js ''.'') = Some (js ''.'')"
  by code_simp+

end
