(* ===== verification/Api.thy ===== *)
theory Api
  imports Decode Browser UrlPath
begin

text \<open>
  The client of the control plane (\<open>worker/src/api.ts\<close>): \<open>ControlPlaneClient.input\<close>, which
  fetches an execution and normalises the answer before parsing it with
  \<open>executionInputSchema\<close>, and \<open>ControlPlaneClient.result\<close>, which posts a result. A request
  that times out or is refused by the network is a \<open>fetch\<close> that throws.
\<close>

section \<open>Requests\<close>

definition headers :: "WorkerConfig \<Rightarrow> jsstr dict" where
  "headers config = [(js ''X-Worker-Token'', cfg_WORKER_TOKEN config)]"

text \<open>
  The string handed to \<open>fetch\<close>, which parses it and removes dot segments from its path
  (\<open>fetched_segments\<close> of theory \<open>UrlPath\<close>).
\<close>

definition execution_url :: "WorkerConfig \<Rightarrow> jsstr \<Rightarrow> string \<Rightarrow> exn + jsstr" where
  "execution_url config executionId leaf =
    (case encode_component executionId of
       None \<Rightarrow> Inl (External (ExtError (js ''URI malformed'')))
     | Some segment \<Rightarrow>
         Inr (cfg_INTERNAL_API_URL config @ js ''/internal/v1/executions/'' @ segment @ js ''/'' @ js leaf))"

definition http_fetch :: "env \<Rightarrow> http_request \<Rightarrow> http_response io" where
  "http_fetch E rq = io_call (CFetch rq) (\<lambda>h. env_fetch E h rq)"

definition response_ok :: "http_response \<Rightarrow> bool" where
  "response_ok r \<longleftrightarrow> 200 \<le> rs_status r \<and> rs_status r \<le> 299"

definition response_text :: "http_response \<Rightarrow> jsstr io" where
  "response_text r = io_lift (case rs_body r of Inl t \<Rightarrow> Inl (External t) | Inr s \<Rightarrow> Inr s)"

definition response_json :: "env \<Rightarrow> http_response \<Rightarrow> json io" where
  "response_json E r = io_bind (response_text r) (\<lambda>s.
     io_lift (case json_parse s of
       None \<Rightarrow> Inl (External (ExtError (env_json_error E s)))
     | Some j \<Rightarrow> Inr j))"

definition refuse :: "string \<Rightarrow> http_response \<Rightarrow> 'a io" where
  "refuse what r = io_bind (response_text r) (\<lambda>t.
     io_throw (PlainError (js ''Control plane '' @ js what @ js '' failed ('' @ show_int (rs_status r) @ js ''): '' @ t)))"

section \<open>ControlPlaneClient.input\<close>

definition terminal_names :: "jsstr list" where
  "terminal_names = map js [''succeeded'', ''failed'', ''blocked'', ''needs_review'']"

definition raw_terminal :: "json \<Rightarrow> bool" where
  "raw_terminal raw =
    (case opt_get (json_get raw ''execution'') ''state'' of
       Some (JStr s) \<Rightarrow> s \<in> set terminal_names
     | _ \<Rightarrow> False)"

fun is_object_type :: "json option \<Rightarrow> bool" where
  "is_object_type (Some (JObj d)) = True"
| "is_object_type (Some (JArr vs)) = True"
| "is_object_type (Some JNull) = True"
| "is_object_type _ = False"

fun mode_name :: "compiler_mode \<Rightarrow> jsstr" where
  "mode_name Auto = js ''auto''"
| "mode_name Scripted = js ''scripted''"
| "mode_name Live = js ''live''"

definition raw_revision :: "json \<Rightarrow> json option" where
  "raw_revision raw =
    (let revision = json_get raw ''revision'' in
     if truthy revision \<and> \<not> raw_terminal raw then
       Some (js_obj [(''id'', opt_get revision ''id''), (''generation'', opt_get revision ''generation''),
         (''plan'', coalesce (json_get raw ''plan'') (opt_get revision ''plan''))])
     else None)"

definition normalize_input :: "WorkerConfig \<Rightarrow> json \<Rightarrow> json" where
  "normalize_input config raw =
    (let execution = json_get raw ''execution''; monitor = json_get raw ''monitor'';
         condition = opt_get monitor ''condition''; requested = opt_get execution ''requestedGeneration'';
         attempt = opt_get execution ''attempt''
     in js_obj [
       (''execution'', Some (js_obj [
         (''id'', opt_get execution ''id''),
         (''kind'', opt_get execution ''kind''),
         (''state'', coalesce (opt_get execution ''state'') (Some (JStr (js ''running'')))),
         (''attempt'', if truthy attempt then attempt else Some (json_int 1)),
         (''failedGeneration'', coalesce requested None)])),
       (''monitor'', Some (js_obj [
         (''id'', opt_get monitor ''id''),
         (''url'', opt_get monitor ''url''),
         (''intent'', opt_get monitor ''intent''),
         (''condition'', if \<not> raw_terminal raw \<and> truthy condition \<and> is_object_type condition
           then condition else None)])),
       (''revision'', raw_revision raw),
       (''compilerMode'', coalesce (json_get raw ''compilerMode'') (Some (JStr (mode_name (cfg_INFERENCE_MODE config)))))])"

definition api_input :: "env \<Rightarrow> WorkerConfig \<Rightarrow> jsstr \<Rightarrow> ExecutionInput io" where
  "api_input E config executionId =
     io_bind (io_lift (execution_url config executionId ''input'')) (\<lambda>address.
     io_bind (http_fetch E \<lparr>rq_method = js ''GET'', rq_url = address, rq_headers = headers config,
       rq_body = None\<rparr>) (\<lambda>response.
     if \<not> response_ok response then refuse ''input'' response
     else
       io_bind (response_json E response) (\<lambda>raw.
       if raw = JNull then
         io_throw (External (ExtError (js ''Cannot read properties of null (reading '' @ [39] @ js ''execution'' @ [39, 41])))
       else
         (case parse_input (env_is_url E) (normalize_input config raw) of
            None \<Rightarrow> io_throw (External (ExtError (env_zod_input E (normalize_input config raw))))
          | Some input \<Rightarrow> io_ret input))))"

section \<open>ControlPlaneClient.result\<close>

fun status_name :: "result_status \<Rightarrow> jsstr" where
  "status_name RSucceeded = js ''succeeded''"
| "status_name RFailed = js ''failed''"
| "status_name RNeedsReview = js ''needs_review''"

fun class_name :: "FailureClassification \<Rightarrow> jsstr" where
  "class_name transient_infrastructure = js ''transient_infrastructure''"
| "class_name blocked = js ''blocked''"
| "class_name rate_limited = js ''rate_limited''"
| "class_name stale_action = js ''stale_action''"
| "class_name stale_extractor = js ''stale_extractor''"
| "class_name identity_drift = js ''identity_drift''"
| "class_name ambiguous_value = js ''ambiguous_value''"
| "class_name invalid_input = js ''invalid_input''"

fun provider_name :: "browser_provider \<Rightarrow> jsstr" where
  "provider_name LOCAL = js ''local''"
| "provider_name BROWSERBASE = js ''browserbase''"

fun cache_name :: "cache_status \<Rightarrow> jsstr" where
  "cache_name HIT = js ''HIT''"
| "cache_name MISS = js ''MISS''"

fun source_name :: "repair_source \<Rightarrow> jsstr" where
  "source_name ScriptedSource = js ''scripted''"
| "source_name StagehandSource = js ''stagehand''"

definition artifact_json :: "ArtifactRef \<Rightarrow> json" where
  "artifact_json a = js_obj [
     (''kind'', Some (JStr (case art_kind a of Screenshot \<Rightarrow> js ''screenshot'' | Snapshot \<Rightarrow> js ''snapshot''))),
     (''storageKey'', Some (JStr (art_storageKey a))),
     (''contentType'', Some (JStr (case art_contentType a of ImagePng \<Rightarrow> js ''image/png'' | TextPlain \<Rightarrow> js ''text/plain''))),
     (''sizeBytes'', Some (json_int (int (art_sizeBytes a)))),
     (''sha256'', Some (JStr (art_sha256 a)))]"

definition observation_json :: "result_status \<Rightarrow> Observation \<Rightarrow> json" where
  "observation_json status obs = js_obj [
     (''priceMinor'', Some (JNum (obs_priceMinor obs))),
     (''currency'', Some (JStr (currency_code (obs_currency obs)))),
     (''inStock'', Some (JBool (obs_inStock obs))),
     (''title'', Some (JStr (obs_title obs))),
     (''rawText'', Some (JStr (obs_rawPrice obs))),
     (''identity'', Some (js_obj [
        (''fingerprint'', Some (JStr (obs_identityFingerprint obs))),
        (''sku'', map_option JStr (obs_sku obs)),
        (''selectedVariant'', Some (json_dict (obs_selectedVariant obs)))])),
     (''verificationState'',
        Some (JStr (if status = RNeedsReview then js ''review_required'' else js ''verified'')))]"

definition result_body :: "ExecutionResult \<Rightarrow> json" where
  "result_body r = js_obj [
     (''status'', Some (JStr (status_name (res_status r)))),
     (''failureClassification'', map_option (\<lambda>f. JStr (class_name (fail_classification f))) (res_failure r)),
     (''error'', map_option (\<lambda>f. JStr (fail_message f)) (res_failure r)),
     (''provider'', Some (JStr (provider_name (res_browserProvider r)))),
     (''traceId'', if nonempty_opt (res_traceId r) then map_option JStr (res_traceId r) else None),
     (''browserSessionUrl'',
        if nonempty_opt (res_browserbaseSessionId r)
        then map_option (\<lambda>s. JStr (js ''https://www.browserbase.com/sessions/'' @ s)) (res_browserbaseSessionId r)
        else None),
     (''plan'', map_option plan_json (res_candidatePlan r)),
     (''observation'', map_option (observation_json (res_status r)) (res_observation r)),
     (''artifacts'', Some (JArr (map artifact_json (res_artifacts r)))),
     (''autoPromote'', Some (JBool (res_kind r = Repair \<and> res_status r = RSucceeded))),
     (''diagnostics'', Some (js_obj [
        (''modelCallCount'', Some (json_int (res_modelCallCount r))),
        (''cacheStatus'', map_option (\<lambda>c. JStr (cache_name c)) (res_cacheStatus r)),
        (''repairSource'', map_option (\<lambda>c. JStr (source_name c)) (res_repairSource r)),
        (''timingsMs'', Some (JObj (map (\<lambda>(k, v). (k, JNum v)) (res_timingsMs r))))]))]"

definition result_request :: "WorkerConfig \<Rightarrow> jsstr \<Rightarrow> jsstr \<Rightarrow> ExecutionResult \<Rightarrow> http_request" where
  "result_request config executionId address r =
     \<lparr>rq_method = js ''POST'', rq_url = address,
      rq_headers = headers config @ [(js ''Content-Type'', js ''application/json''), (js ''Idempotency-Key'', executionId)],
      rq_body = Some (json_stringify (result_body r))\<rparr>"

definition api_result :: "env \<Rightarrow> WorkerConfig \<Rightarrow> jsstr \<Rightarrow> ExecutionResult \<Rightarrow> unit io" where
  "api_result E config executionId r =
     io_bind (io_lift (execution_url config executionId ''result'')) (\<lambda>address.
     io_bind (http_fetch E (result_request config executionId address r)) (\<lambda>response.
     if \<not> response_ok response then refuse ''result'' response else io_ret ()))"

section \<open>Laws\<close>

text \<open>The client only makes requests, each with the worker's token and the execution's URL.\<close>

definition requests :: "WorkerConfig \<Rightarrow> jsstr \<Rightarrow> call \<Rightarrow> bool" where
  "requests config executionId c \<longleftrightarrow> (\<exists>rq leaf. c = CFetch rq \<and>
     execution_url config executionId leaf = Inr (rq_url rq) \<and>
     (js ''X-Worker-Token'', cfg_WORKER_TOKEN config) \<in> set (rq_headers rq))"

lemma emits_refuse [emits_intro]: "emits Q (refuse what r)"
  unfolding refuse_def response_text_def by (intro emits_intro)

lemma emits_response_json [emits_intro]: "emits Q (response_json E r)"
  unfolding response_json_def response_text_def by (intro emits_intro)

lemma emits_api_input: "emits (requests config i) (api_input E config i)"
  unfolding api_input_def http_fetch_def
  by (intro emits_bind_lift emits_intro) (auto simp: requests_def headers_def)

lemma emits_api_result: "emits (requests config i) (api_result E config i r)"
  unfolding api_result_def http_fetch_def
  by (intro emits_bind_lift emits_intro) (auto simp: requests_def headers_def result_request_def)

lemma refuse_throws [simp]: "refuse what r w = (Inr x, w') \<longleftrightarrow> False"
  by (auto simp: refuse_def io_bind_Inr)

text \<open>When \<open>result\<close> returns, the control plane has answered the post with a success.\<close>

lemma api_result_Inr:
  assumes "api_result E config i r w = (Inr u, w')"
  shows "\<exists>address response. execution_url config i ''result'' = Inr address \<and>
    w' = record_call (CFetch (result_request config i address r)) w \<and>
    env_fetch E (w_calls w) (result_request config i address r) = Inr response \<and> response_ok response"
  using assms unfolding api_result_def http_fetch_def
  by (auto simp: io_bind_Inr io_call_Inr split: if_splits)

lemma api_input_Inr:
  assumes "api_input E config i w = (Inr input, w')"
  shows "\<exists>raw. parse_input (env_is_url E) (normalize_input config raw) = Some input"
  using assms unfolding api_input_def http_fetch_def
  by (auto simp: io_bind_Inr split: if_splits option.splits)

section \<open>Properties\<close>

text \<open>
  C25. A published plan comes back unchanged: when the result of a job is posted with a plan that
  satisfies the plan schema and the control plane later hands that JSON value out as the plan of
  an execution, in whatever envelope, the input the client parses from it has exactly that plan,
  every optional field, list and variant included.
\<close>

theorem published_plan_comes_back:
  assumes "res_candidatePlan r = Some p" "monitorPlanV1Schema is_url p"
    and "json_get raw ''plan'' = json_get (result_body r) ''plan''"
    and "parse_input is_url (normalize_input config raw) = Some input" "in_revision input = Some revision"
  shows "rev_plan revision = p"
proof -
  have plan: "json_get raw ''plan'' = Some (plan_json p)"
    using assms(1,3) by (simp add: result_body_def)
  have "json_get (normalize_input config raw) ''revision'' = raw_revision raw"
    by (simp add: normalize_input_def Let_def)
  then have r: "dec_optional (parse_revision is_url) (raw_revision raw) = Some (Some revision)"
    using assms(4,5) unfolding parse_input_def by (auto simp: Option.bind_eq_Some_conv)
  then obtain v where v: "raw_revision raw = Some v" "parse_revision is_url v = Some revision"
    by (auto simp: dec_optional_Some)
  have "coalesce (json_get raw ''plan'') x = Some (plan_json p)" for x
    by (simp add: coalesce_def nullish_def plan) (simp add: plan_json_def js_obj_def)
  then have "json_get v ''plan'' = Some (plan_json p)"
    using v(1) by (auto simp: raw_revision_def Let_def split: if_splits)
  with v(2) show ?thesis
    by (auto simp: parse_revision_def Option.bind_eq_Some_conv parse_plan_json [OF assms(2)])
qed

definition lamp_result :: ExecutionResult where
  "lamp_result = \<lparr>res_status = RSucceeded, res_kind = Compile, res_executionId = js ''e'', res_monitorId = js ''m'',
     res_generation = None, res_candidatePlan = Some shelf_plan, res_observation = None, res_artifacts = [],
     res_modelCallCount = 0, res_browserProvider = LOCAL, res_browserbaseSessionId = None, res_traceId = None,
     res_cacheStatus = None, res_repairSource = None, res_requiresConfirmation = None, res_failure = None,
     res_timingsMs = []\<rparr>"

definition lamp_raw :: "string \<Rightarrow> json \<Rightarrow> json" where
  "lamp_raw state plan = js_obj [
     (''execution'', Some (js_obj [(''id'', Some (JStr (js ''e''))), (''kind'', Some (JStr (js ''check''))),
        (''state'', Some (JStr (js state)))])),
     (''monitor'', Some (js_obj [(''id'', Some (JStr (js ''m''))), (''url'', Some (JStr (js ''http://a/p''))),
        (''intent'', Some (JStr (js ''lamp'')))])),
     (''revision'', Some (js_obj [(''generation'', Some (json_int 2))])),
     (''plan'', Some plan)]"

definition lamp_input :: "execution_state \<Rightarrow> revision_ref option \<Rightarrow> ExecutionInput" where
  "lamp_input state revision = \<lparr>in_execution = \<lparr>job_id = js ''e'', job_kind = Check, job_state = state, job_attempt = 1,
       job_failedGeneration = None\<rparr>,
     in_monitor = \<lparr>mon_id = js ''m'', mon_url = js ''http://a/p'', mon_intent = js ''lamp'', mon_condition = None\<rparr>,
     in_revision = revision, in_compilerMode = Auto\<rparr>"

lemma shelf_plan_schema: "monitorPlanV1Schema (\<lambda>_. True) shelf_plan"
  by code_simp

lemmas lamp_simps = lamp_raw_def normalize_input_def Let_def opt_get_def coalesce_def nullish_def raw_terminal_def
  terminal_names_def raw_revision_def parse_input_def parse_execution_def parse_monitor_def parse_revision_def
  req_def dec_min_def dec_where_def parse_kind_def dec_enum_def state_names_def positive_def nonnegative_def
  parse_mode_def max_safe_def lamp_input_def

lemma truthy_js_obj [simp]: "truthy (Some (js_obj fs))"
  by (simp add: js_obj_def)

lemma plan_json_not_null [simp]: "plan_json p \<noteq> JNull"
  by (simp add: plan_json_def js_obj_def)

lemma default_mode [simp]: "cfg_INFERENCE_MODE default_config = Auto"
  by code_simp

lemma lamp_parse:
  "parse_input (\<lambda>_. True) (normalize_input default_config (lamp_raw ''running'' (plan_json shelf_plan))) =
     Some (lamp_input Running (Some \<lparr>rev_id = None, rev_generation = 2, rev_plan = shelf_plan\<rparr>))"
  by (simp add: lamp_simps parse_plan_json [OF shelf_plan_schema]) (simp add: js_def)

theorem published_plan_comes_back_witness:
  "\<exists>input revision. parse_input (\<lambda>_. True) (normalize_input default_config (lamp_raw ''running'' (plan_json shelf_plan))) = Some input \<and>
     in_revision input = Some revision \<and> rev_plan revision = shelf_plan"
proof -
  have j: "json_get (lamp_raw ''running'' (plan_json shelf_plan)) ''plan'' = json_get (result_body lamp_result) ''plan''"
    by (simp add: lamp_raw_def result_body_def lamp_result_def nonempty_opt_def)
  have r: "in_revision (lamp_input Running (Some \<lparr>rev_id = None, rev_generation = 2, rev_plan = shelf_plan\<rparr>)) =
      Some \<lparr>rev_id = None, rev_generation = 2, rev_plan = shelf_plan\<rparr>"
    by (simp add: lamp_input_def)
  have "res_candidatePlan lamp_result = Some shelf_plan" by (simp add: lamp_result_def)
  from published_plan_comes_back [OF this shelf_plan_schema j lamp_parse r] show ?thesis
    using lamp_parse r by blast
qed

text \<open>
  Obsolete data cannot block the acknowledgement of a finished execution: for an execution in
  a terminal state, what the client parses does not depend on the revision, the plan or the
  condition of the answer, which may satisfy no schema, and the parsed input has neither.
\<close>

theorem obsolete_plan_ignored:
  assumes "raw_terminal raw" "json_get raw' ''execution'' = json_get raw ''execution''"
    and "json_get raw' ''compilerMode'' = json_get raw ''compilerMode''"
    and "\<And>k. k \<in> {''id'', ''url'', ''intent''} \<Longrightarrow>
      opt_get (json_get raw' ''monitor'') k = opt_get (json_get raw ''monitor'') k"
  shows "normalize_input config raw' = normalize_input config raw \<and>
    (\<forall>input. parse_input is_url (normalize_input config raw) = Some input \<longrightarrow>
       in_revision input = None \<and> mon_condition (in_monitor input) = None)"
proof
  have t: "raw_terminal raw'" using assms(1,2) by (simp add: raw_terminal_def)
  then show "normalize_input config raw' = normalize_input config raw"
    using assms by (simp add: normalize_input_def raw_revision_def Let_def)
  show "\<forall>input. parse_input is_url (normalize_input config raw) = Some input \<longrightarrow>
       in_revision input = None \<and> mon_condition (in_monitor input) = None"
    using assms(1)
    by (auto simp: parse_input_def parse_monitor_def normalize_input_def raw_revision_def Let_def
        Option.bind_eq_Some_conv)
qed

theorem obsolete_plan_ignored_witness:
  "normalize_input default_config (lamp_raw ''succeeded'' (JNum (Fin 0))) =
     normalize_input default_config (lamp_raw ''succeeded'' (plan_json shelf_plan)) \<and>
   parse_input (\<lambda>_. True) (normalize_input default_config (lamp_raw ''succeeded'' (JNum (Fin 0)))) =
     Some (lamp_input Succeeded None)"
proof
  have "raw_terminal (lamp_raw ''succeeded'' (plan_json shelf_plan))"
    by (simp add: raw_terminal_def lamp_raw_def opt_get_def terminal_names_def)
  from obsolete_plan_ignored [OF this, of "lamp_raw ''succeeded'' (JNum (Fin 0))" default_config]
  show "normalize_input default_config (lamp_raw ''succeeded'' (JNum (Fin 0))) =
     normalize_input default_config (lamp_raw ''succeeded'' (plan_json shelf_plan))"
    by (simp add: lamp_raw_def)
  show "parse_input (\<lambda>_. True) (normalize_input default_config (lamp_raw ''succeeded'' (JNum (Fin 0)))) =
     Some (lamp_input Succeeded None)"
    by (simp add: lamp_simps) (simp add: js_def)
qed

text \<open>A program that fetches once and then only looks at the answer.\<close>

lemma io_bind_lift: "io_bind (io_lift (Inr x)) f = f x"
  by (simp add: io_bind_def io_lift_def)

lemma one_fetch:
  assumes "io_bind (http_fetch E rq) f w = (r, w')" "\<And>x. emits (\<lambda>_. False) (f x)"
  shows "w_calls w' = w_calls w @ [CFetch rq]"
proof -
  have "w_calls (snd (f x v)) = w_calls v" for x v
  proof -
    obtain new where "w_calls (snd (f x v)) = w_calls v @ new" "list_all (\<lambda>_. False) new"
      using assms(2) [of x] unfolding emits_def extends_def by blast
    then show ?thesis by (cases new) auto
  qed
  note silent = this
  show ?thesis
  proof (cases "env_fetch E (w_calls w) rq")
    case (Inl t)
    then show ?thesis using assms(1) by (auto simp: http_fetch_def io_bind_def io_call_def record_call_def)
  next
    case (Inr x)
    then have "f x (record_call (CFetch rq) w) = (r, w')"
      using assms(1) by (simp add: http_fetch_def io_bind_def io_call_def)
    then show ?thesis using silent [of x "record_call (CFetch rq) w"] by (simp add: record_call_def)
  qed
qed

text \<open>The path of an execution's endpoint, and that \<open>fetch\<close> keeps it.\<close>

definition execution_segments :: "jsstr \<Rightarrow> string \<Rightarrow> jsstr list" where
  "execution_segments segment leaf = [js ''internal'', js ''v1'', js ''executions'', segment, js leaf]"

lemma execution_url_segments:
  "execution_url config i leaf =
    (case encode_component i of
       None \<Rightarrow> Inl (External (ExtError (js ''URI malformed'')))
     | Some segment \<Rightarrow> Inr (cfg_INTERNAL_API_URL config @ slashed (execution_segments segment leaf)))"
  by (simp add: execution_url_def execution_segments_def js_def split: option.splits)

lemma endpoint_words: "list_all plain_segment (map js [''internal'', ''v1'', ''executions'', ''input'', ''result''])"
  by code_simp

lemma execution_segments_kept:
  assumes "encode_component i = Some segment" "path_id i" "leaf \<in> {''input'', ''result''}"
  shows "fetched_segments (address @ execution_segments segment leaf) =
    resolve_dots [] address @ execution_segments segment leaf"
  by (rule fetched_plain)
    (use encoded_plain [OF assms(1,2)] endpoint_words assms(3) in \<open>auto simp: execution_segments_def\<close>)

text \<open>
  C29. The client stays on its endpoints, for every identifier but the empty one, \<open>.\<close> and \<open>..\<close>:
  reading the input and posting the result of an execution are exactly one request each, a GET
  of \<open>/internal/v1/executions/<id>/input\<close> and a POST to \<open>/internal/v1/executions/<id>/result\<close>
  below the configured address, where \<open><id>\<close> is the encoding of the identifier given, with the
  worker's token, and the post with the result as its body and the identifier as its idempotency
  key. The path is what \<open>fetch\<close> requests: its removal of dot segments leaves these segments as
  they are, whatever address they follow. An identifier with a lone surrogate sends nothing.
\<close>

theorem requests_contained:
  assumes "path_id i" "api_input E config i w = (a, w1)" "api_result E config i r w1 = (b, w2)"
  shows "case encode_component i of
      None \<Rightarrow> w_calls w2 = w_calls w
    | Some segment \<Rightarrow> \<exists>get post. w_calls w2 = w_calls w @ [CFetch get, CFetch post] \<and>
        get = \<lparr>rq_method = js ''GET'',
          rq_url = cfg_INTERNAL_API_URL config @ slashed (execution_segments segment ''input''),
          rq_headers = [(js ''X-Worker-Token'', cfg_WORKER_TOKEN config)], rq_body = None\<rparr> \<and>
        post = \<lparr>rq_method = js ''POST'',
          rq_url = cfg_INTERNAL_API_URL config @ slashed (execution_segments segment ''result''),
          rq_headers = [(js ''X-Worker-Token'', cfg_WORKER_TOKEN config),
            (js ''Content-Type'', js ''application/json''), (js ''Idempotency-Key'', i)],
          rq_body = Some (json_stringify (result_body r))\<rparr> \<and>
        (\<forall>address.
          fetched_segments (address @ execution_segments segment ''input'') =
            resolve_dots [] address @ execution_segments segment ''input'' \<and>
          fetched_segments (address @ execution_segments segment ''result'') =
            resolve_dots [] address @ execution_segments segment ''result'')"
proof (cases "encode_component i")
  case None
  then show ?thesis
    using assms(2,3) by (simp add: api_input_def api_result_def execution_url_segments io_simps)
next
  case (Some segment)
  let ?get = "\<lparr>rq_method = js ''GET'', rq_url = cfg_INTERNAL_API_URL config @ slashed (execution_segments segment ''input''),
    rq_headers = headers config, rq_body = None\<rparr>"
  let ?post = "result_request config i (cfg_INTERNAL_API_URL config @ slashed (execution_segments segment ''result'')) r"
  have "w_calls w1 = w_calls w @ [CFetch ?get]"
    using one_fetch [OF assms(2) [unfolded api_input_def execution_url_segments Some option.case io_bind_lift]]
    by (simp add: emits_intro)
  moreover have "w_calls w2 = w_calls w1 @ [CFetch ?post]"
    using one_fetch [OF assms(3) [unfolded api_result_def execution_url_segments Some option.case io_bind_lift]]
    by (simp add: emits_intro)
  ultimately show ?thesis
    using Some execution_segments_kept [OF Some assms(1)] by (simp add: result_request_def headers_def)
qed

theorem requests_contained_witness:
  "\<exists>new. w_calls (snd (api_result idle_env default_config (js ''a/b'') lamp_result
       (snd (api_input idle_env default_config (js ''a/b'') \<lparr>w_calls = [], w_timings = []\<rparr>)))) = new \<and>
     execution_url default_config (js ''a/b'') ''input'' =
       Inr (cfg_INTERNAL_API_URL default_config @ js ''/internal/v1/executions/a%2Fb/input'') \<and> length new = 2"
proof -
  have "path_id (js ''a/b'')" "encode_component (js ''a/b'') = Some (js ''a%2Fb'')" by code_simp+
  note c = requests_contained [OF this(1) prod.collapse [symmetric] prod.collapse [symmetric],
      of idle_env default_config lamp_result "\<lparr>w_calls = [], w_timings = []\<rparr>", unfolded this(2) option.case]
  have "execution_url default_config (js ''a/b'') ''input'' =
      Inr (cfg_INTERNAL_API_URL default_config @ js ''/internal/v1/executions/a%2Fb/input'')"
    by code_simp
  with c show ?thesis by auto
qed

text \<open>
  The identifier \<open>..\<close>, which \<open>queueJobSchema\<close> lets through, leads out of the executions: the input
  requested is that of the parent path.
\<close>

theorem parent_id_escapes:
  "execution_url config (js ''..'') ''input'' =
     Inr (cfg_INTERNAL_API_URL config @ slashed (execution_segments (js ''..'') ''input'')) \<and>
   fetched_segments (execution_segments (js ''..'') ''input'') = [js ''internal'', js ''v1'', js ''input'']"
proof
  show "execution_url config (js ''..'') ''input'' =
     Inr (cfg_INTERNAL_API_URL config @ slashed (execution_segments (js ''..'') ''input''))"
    by (simp add: execution_url_segments dots_encoded)
  show "fetched_segments (execution_segments (js ''..'') ''input'') = [js ''internal'', js ''v1'', js ''input'']"
    by code_simp
qed

end
