(* ===== verification/Safety.thy ===== *)
theory Safety
  imports Browser JsRegexLaws
begin

text \<open>
  Target and action safety (\<open>worker/src/safety.ts\<close>): which URLs a job may open
  (\<open>validateTargetUrl\<close>, \<open>isPrivateAddress\<close>), which cached or healed actions may run
  (\<open>assertSafeAction\<close>, \<open>assertSafeActionTarget\<close>, \<open>replaySafeAction\<close>) and the same-origin
  check. The interface \<open>ActionReplayer\<close> of the source is a locale, interpreted on
  \<open>BrowserRun.replay\<close>.
\<close>

section \<open>Addresses\<close>

text \<open>\<open>/^::ffff:(\d+\.\d+\.\d+\.\d+)$/\<close>\<close>

definition dotted_re :: re where
  "dotted_re = seqs [plus_re digit_re, ch 46, plus_re digit_re, ch 46, plus_re digit_re, ch 46,
     plus_re digit_re]"

definition mapped_re :: re where
  "mapped_re = seqs [Bol, str ''::ffff:'', Grp dotted_re, Eol]"

text \<open>The textual IPv6 prefixes the code refuses.\<close>

definition private_v6 :: "jsstr \<Rightarrow> bool" where
  "private_v6 v \<longleftrightarrow>
    v = js ''::1'' \<or> v = js ''::'' \<or> starts_with v (js ''fe80:'') \<or> starts_with v (js ''fc'') \<or>
    starts_with v (js ''fd'') \<or> starts_with v (js ''ff'') \<or> v = js ''2001:db8::'' \<or>
    starts_with v (js ''2001:db8:'')"

text \<open>The ranges of dotted quads the code refuses, on the numbers of the four parts.\<close>

definition octets_private :: "dbl \<Rightarrow> dbl \<Rightarrow> dbl \<Rightarrow> bool" where
  "octets_private a b c \<longleftrightarrow>
    a = Fin 0 \<or> a = Fin 10 \<or> a = Fin 127 \<or>
    (a = Fin 169 \<and> b = Fin 254) \<or>
    (a = Fin 172 \<and> dle (Fin 16) b \<and> dle b (Fin 31)) \<or>
    (a = Fin 192 \<and> b = Fin 168) \<or>
    (a = Fin 192 \<and> b = Fin 0 \<and> (c = Fin 0 \<or> c = Fin 2)) \<or>
    (a = Fin 198 \<and> (b = Fin 18 \<or> b = Fin 19)) \<or>
    (a = Fin 198 \<and> b = Fin 51 \<and> c = Fin 100) \<or>
    (a = Fin 203 \<and> b = Fin 0 \<and> c = Fin 113) \<or>
    (a = Fin 100 \<and> dle (Fin 64) b \<and> dle b (Fin 127)) \<or>
    dle (Fin 224) a"

definition private_v4 :: "jsstr \<Rightarrow> bool" where
  "private_v4 v =
    (case map js_number (split_on 46 v) of
       [a, b, c, d] \<Rightarrow> if NaN \<in> set [a, b, c, d] then False else octets_private a b c
     | _ \<Rightarrow> False)"

text \<open>
  \<open>isPrivateAddress\<close>. The recursive call is on the text of the group, which is shorter than
  the address because the prefix \<open>::ffff:\<close> is not part of it.
\<close>

lemma mt_Grp_length:
  assumes "mt ic (Grp r) st st'"
  shows "\<exists>w. snd (snd st') = Some w \<and> length w \<le> length (rest_of st)"
proof -
  obtain st'' where "mt ic r st st''" "st' = capture st st''"
    using assms by (simp only: mt.simps) blast
  then show ?thesis by (auto simp: capture_def)
qed

lemma mapped_shorter:
  assumes "re_group False mapped_re v = Some w"
  shows "length w < length v"
proof -
  obtain i st st' where f: "find_from False mapped_re None v 0 = Some (i, st, st')"
    and w: "snd (snd st') = Some w"
    using assms by (auto simp: re_group_def split: option.splits)
  obtain pre suf sts where pre: "v = pre @ suf"
      "st = (if pre = [] then None else last_opt pre, suf, None)"
    and m: "matches False mapped_re st = st' # sts"
    using find_from_Some [OF f] by blast
  have "mt False mapped_re st st'"
    using m by (intro first_mt) (auto simp: first_def)
  then obtain a b where a: "mt False (str ''::ffff:'') st a" and b: "mt False (Grp dotted_re) a b"
    and c: "st' = b"
    by (simp only: mapped_re_def seqs.simps mt.simps) (elim relcomppE conjE, blast)
  from a have "\<exists>t. rest_of st = js ''::ffff:'' @ t \<and> rest_of a = t"
    unfolding str_def mt_lit list_all2_same_unit_exact by auto
  then have "length (rest_of a) < length (rest_of st)" by (auto simp: js_def)
  moreover have "length w \<le> length (rest_of a)"
    using mt_Grp_length [OF b] c w by auto
  moreover have "length (rest_of st) \<le> length v" using pre by simp
  ultimately show ?thesis by linarith
qed

function private_text :: "jsstr \<Rightarrow> bool" where
  "private_text v =
    (if private_v6 v then True
     else case re_group False mapped_re v of
            Some w \<Rightarrow> private_text w
          | None \<Rightarrow> private_v4 v)"
  by pat_completeness auto
termination
  by (relation "measure length") (auto dest: mapped_shorter)

declare private_text.simps [simp del]

text \<open>
  The source lower-cases the address at each call; lower-casing the digits and dots of the
  recursive call changes nothing, so it is done once.
\<close>

definition isPrivateAddress :: "platform \<Rightarrow> jsstr \<Rightarrow> bool" where
  "isPrivateAddress P address = private_text (to_lower P address)"

section \<open>Target URLs\<close>

definition unsafePorts :: "jsstr list" where
  "unsafePorts = map js [''21'', ''22'', ''23'', ''25'', ''53'', ''2375'', ''2376'', ''3306'',
     ''5432'', ''6379'', ''11211'']"

definition validateTargetUrl :: "platform \<Rightarrow> env \<Rightarrow> jsstr \<Rightarrow> jsstr list \<Rightarrow> url io" where
  "validateTargetUrl P E input allowedPrivateHosts =
    (case url_parse P input of
       None \<Rightarrow> io_throw (SafetyError (js ''Target URL is invalid''))
     | Some u \<Rightarrow>
        if url_protocol u \<noteq> js ''http:'' \<and> url_protocol u \<noteq> js ''https:'' then
          io_throw (SafetyError (js ''Only HTTP and HTTPS product URLs are supported''))
        else if url_username u \<noteq> [] \<or> url_password u \<noteq> [] then
          io_throw (SafetyError (js ''Credentials in product URLs are not allowed''))
        else if url_port u \<noteq> [] \<and> url_port u \<in> set unsafePorts then
          io_throw (SafetyError (js ''Port '' @ url_port u @ js '' is not allowed''))
        else
         (let hostname = to_lower P (url_hostname u);
              privateException = (hostname \<in> set allowedPrivateHosts)
          in io_bind
            (if is_ip P hostname \<noteq> 0 then
               (if \<not> privateException
                then io_throw (SafetyError (js ''IP-literal product URLs are not allowed''))
                else io_ret ())
             else
               io_bind
                 (io_catch (io_call (CLookup hostname) (\<lambda>h. env_lookup E h hostname))
                   (\<lambda>_. io_throw (SafetyError (js ''Unable to resolve target host '' @ hostname))))
                 (\<lambda>addresses.
                   if addresses = [] then
                     io_throw (SafetyError (js ''Target host '' @ hostname @ js '' has no addresses''))
                   else if \<not> privateException \<and> list_ex (isPrivateAddress P) addresses then
                     io_throw (SafetyError (js ''Target resolves to a private or special-use address''))
                   else io_ret ()))
            (\<lambda>_. io_ret (u\<lparr>url_fragment := None\<rparr>))))"

section \<open>Actions\<close>

text \<open>The source's pattern of interactions that are never permitted, with the \<open>i\<close> flag.\<close>

definition forbiddenInteraction :: re where
  "forbiddenInteraction = seqs [WordB,
     alts [Seq (str ''add to '') (alts [str ''cart'', str ''bag'', str ''basket'']),
       Seq (str ''buy'') (opt_re (str '' now'')), str ''purchase'', str ''checkout'',
       str ''place order'', str ''submit payment'', str ''pay now'', str ''complete order'',
       str ''confirm order'', str ''order now'', str ''subscribe''],
     WordB]"

definition allowedMethods :: "jsstr list" where
  "allowedMethods = map js [''click'', ''selectoptionfromdropdown'', ''scrollto'']"

definition action_method :: "platform \<Rightarrow> CachedAction \<Rightarrow> jsstr" where
  "action_method P action =
     to_lower P (case act_method action of None \<Rightarrow> js ''click'' | Some m \<Rightarrow> m)"

definition assertSafeAction :: "platform \<Rightarrow> CachedAction \<Rightarrow> exn + unit" where
  "assertSafeAction P action =
     rbind (throw_if (action_method P action \<notin> set allowedMethods)
       (SafetyError (js ''Compiled action method '' @ action_method P action @ js '' is not permitted'')))
     (\<lambda>_. rbind (throw_if (re_test True forbiddenInteraction (act_description action))
       (SafetyError (js ''Purchase and checkout actions are never permitted'')))
     (\<lambda>_. throw_if (\<not> starts_with (act_selector action) (js ''xpath='') \<and>
                     \<not> starts_with (act_selector action) (js ''css=''))
       (SafetyError (js ''Only XPath and CSS selectors are permitted in cached actions''))))"

text \<open>
  The inspection of the located element: \<open>None\<close> for a selector that matches nothing. The two
  readings of \<open>Promise.all\<close> are both issued; the whole fails if either does.
\<close>

definition locate_evidence :: "env \<Rightarrow> session \<Rightarrow> CachedAction \<Rightarrow> jsstr option io" where
  "locate_evidence E s action =
     io_bind (io_call (CCount s (act_selector action)) (\<lambda>h. env_count E h s (act_selector action))) (\<lambda>n.
     if n = 0 then io_ret None
     else
       io_bind (io_attempt (io_call (CInnerText s (act_selector action))
         (\<lambda>h. env_innerText E h s (act_selector action)))) (\<lambda>shown.
       io_bind (io_attempt (io_call (CInnerHtml s (act_selector action))
         (\<lambda>h. env_innerHtml E h s (act_selector action)))) (\<lambda>markup.
       io_bind (io_lift shown) (\<lambda>innerText.
       io_bind (io_lift markup) (\<lambda>innerHtml.
       io_ret (Some (act_description action @ [10] @ innerText @ [10] @ take 20000 innerHtml)))))))"

definition assertSafeActionTarget :: "env \<Rightarrow> session \<Rightarrow> CachedAction \<Rightarrow> bool io" where
  "assertSafeActionTarget E s action =
     io_bind (io_catch (locate_evidence E s action) (\<lambda>_. io_ret None)) (\<lambda>evidence.
     case evidence of
       None \<Rightarrow> io_ret False
     | Some t \<Rightarrow>
         if re_test True forbiddenInteraction t then
           io_throw (SafetyError (js ''The located action target appears to purchase, order, or subscribe''))
         else io_ret True)"

definition assertSameOrigin :: "platform \<Rightarrow> jsstr \<Rightarrow> url \<Rightarrow> exn + unit" where
  "assertSameOrigin P actual expected =
    (case url_parse P actual of
       None \<Rightarrow> Inl (External (ExtError (js ''Invalid URL'')))
     | Some u \<Rightarrow> throw_if (url_origin u \<noteq> url_origin expected)
         (SafetyError (js ''Navigation left the allowed origin ('' @ url_origin u @ js '')'')))"

text \<open>
  \<open>replaySafeAction\<close> for any implementation \<open>rp\<close> of the source's interface
  \<open>ActionReplayer\<close>.
\<close>

definition check_replacement :: "platform \<Rightarrow> env \<Rightarrow> session \<Rightarrow> CachedAction \<Rightarrow> unit io" where
  "check_replacement P E s replacement =
     io_bind (io_lift (assertSafeAction P replacement)) (\<lambda>_.
     io_bind (assertSafeActionTarget E s replacement) (\<lambda>_. io_ret ()))"

definition replaySafeAction ::
    "platform \<Rightarrow> env \<Rightarrow> (CachedAction \<Rightarrow> CachedAction list io) \<Rightarrow> session \<Rightarrow> CachedAction \<Rightarrow> url
     \<Rightarrow> CachedAction list io" where
  "replaySafeAction P E rp s action expectedOrigin =
     io_bind (io_lift (assertSafeAction P action)) (\<lambda>_.
     io_bind (assertSafeActionTarget E s action) (\<lambda>cachedTargetResolved.
     io_bind (io_catch (rp action) (\<lambda>error.
        if \<not> cachedTargetResolved
        then io_throw (StaleActionError
          (js ''Cached action target no longer resolves: '' @ errorMessage error))
        else io_throw error)) (\<lambda>executed.
     io_bind (io_read (\<lambda>h. env_url E h s)) (\<lambda>current.
     io_bind (io_lift (assertSameOrigin P current expectedOrigin)) (\<lambda>_.
     io_bind (io_each (check_replacement P E s) executed) (\<lambda>_.
     io_ret executed))))))"

section \<open>Dotted quads and address blocks\<close>

text \<open>
  The specification of the refused IPv4 ranges: an address as one number, and the blocks of
  the special-purpose registries in CIDR notation.
\<close>

definition dotted :: "nat \<Rightarrow> nat \<Rightarrow> nat \<Rightarrow> nat \<Rightarrow> jsstr" where
  "dotted a b c d = show_nat a @ 46 # show_nat b @ 46 # show_nat c @ 46 # show_nat d"

definition ipv4 :: "nat \<Rightarrow> nat \<Rightarrow> nat \<Rightarrow> nat \<Rightarrow> nat" where
  "ipv4 a b c d = ((a * 256 + b) * 256 + c) * 256 + d"

definition in_block :: "nat \<Rightarrow> nat \<times> nat \<Rightarrow> bool" where
  "in_block addr = (\<lambda>(net, len). addr div 2 ^ (32 - len) = net div 2 ^ (32 - len))"

definition special_blocks :: "(nat \<times> nat) list" where
  "special_blocks = [(ipv4 0 0 0 0, 8), (ipv4 10 0 0 0, 8), (ipv4 127 0 0 0, 8),
     (ipv4 169 254 0 0, 16), (ipv4 172 16 0 0, 12), (ipv4 192 168 0 0, 16), (ipv4 192 0 0 0, 24),
     (ipv4 192 0 2 0, 24), (ipv4 198 18 0 0, 15), (ipv4 198 51 100 0, 24), (ipv4 203 0 113 0, 24),
     (ipv4 100 64 0 0, 10), (ipv4 224 0 0 0, 3)]"

lemma dot_notin_show_nat: "46 \<notin> set (show_nat n)"
  using show_nat_digits [of n] by (auto simp: list_all_iff is_digit_def)

lemma split_dotted: "split_on 46 (dotted a b c d) = [show_nat a, show_nat b, show_nat c, show_nat d]"
  by (simp add: dotted_def split_on_append split_on_no_sep dot_notin_show_nat)

lemma of_nat_rat_eq: "(of_nat n = (numeral k :: rat)) = (n = numeral k)"
  "(of_nat n = (0 :: rat)) = (n = 0)"
  "(of_nat n < (numeral k :: rat)) = (n < numeral k)"
  "((numeral k :: rat) < of_nat n) = (numeral k < n)"
  by (metis of_nat_eq_iff of_nat_numeral, simp, metis of_nat_less_iff of_nat_numeral,
      metis of_nat_less_iff of_nat_numeral)

lemma ipv4_div:
  assumes "b < 256" "c < 256" "d < 256"
  shows "ipv4 a b c d div 16777216 = a"
    "ipv4 a b c d div 65536 = a * 256 + b"
    "ipv4 a b c d div 256 = (a * 256 + b) * 256 + c"
    "ipv4 a b c d div 1048576 = a * 16 + b div 16"
    "ipv4 a b c d div 131072 = a * 128 + b div 2"
    "ipv4 a b c d div 4194304 = a * 4 + b div 64"
    "ipv4 a b c d div 536870912 = a div 32"
  using assms unfolding ipv4_def by simp_all

lemma in_block_simps:
  "in_block x (n, 8) \<longleftrightarrow> x div 16777216 = n div 16777216"
  "in_block x (n, 16) \<longleftrightarrow> x div 65536 = n div 65536"
  "in_block x (n, 24) \<longleftrightarrow> x div 256 = n div 256"
  "in_block x (n, 12) \<longleftrightarrow> x div 1048576 = n div 1048576"
  "in_block x (n, 15) \<longleftrightarrow> x div 131072 = n div 131072"
  "in_block x (n, 10) \<longleftrightarrow> x div 4194304 = n div 4194304"
  "in_block x (n, 3) \<longleftrightarrow> x div 536870912 = n div 536870912"
  by (simp_all add: in_block_def)

lemma base_eq:
  fixes a b k l n :: nat
  assumes "b < n" "l < n"
  shows "a * n + b = k * n + l \<longleftrightarrow> a = k \<and> b = l"
proof
  assume *: "a * n + b = k * n + l"
  have "(a * n + b) div n = a" "(k * n + l) div n = k" using assms by simp_all
  then have "a = k" using * by simp
  then show "a = k \<and> b = l" using * by simp
qed simp

lemma list_ex_Cons_Nil: "list_ex p (x # xs) \<longleftrightarrow> p x \<or> list_ex p xs" "list_ex p [] \<longleftrightarrow> False"
  by simp_all

lemma blocks_octets:
  assumes "a < 256" "b < 256" "c < 256" "d < 256"
  shows "list_ex (in_block (ipv4 a b c d)) special_blocks \<longleftrightarrow>
    a = 0 \<or> a = 10 \<or> a = 127 \<or> (a = 169 \<and> b = 254) \<or> (a = 172 \<and> 16 \<le> b \<and> b \<le> 31) \<or>
    (a = 192 \<and> b = 168) \<or> (a = 192 \<and> b = 0 \<and> (c = 0 \<or> c = 2)) \<or>
    (a = 198 \<and> (b = 18 \<or> b = 19)) \<or> (a = 198 \<and> b = 51 \<and> c = 100) \<or>
    (a = 203 \<and> b = 0 \<and> c = 113) \<or> (a = 100 \<and> 64 \<le> b \<and> b \<le> 127) \<or> 224 \<le> a"
proof -
  note div = ipv4_div [OF assms(2-4), of a]
  have b8: "in_block (ipv4 a b c d) (ipv4 k 0 0 0, 8) \<longleftrightarrow> a = k" for k
    by (simp only: in_block_simps div) (simp add: ipv4_div)
  have b16: "in_block (ipv4 a b c d) (ipv4 k l 0 0, 16) \<longleftrightarrow> a = k \<and> b = l" if "l < 256" for k l
    using that assms by (simp only: in_block_simps div) (simp add: ipv4_div base_eq)
  have b24: "in_block (ipv4 a b c d) (ipv4 k l m 0, 24) \<longleftrightarrow> a = k \<and> b = l \<and> c = m"
    if "l < 256" "m < 256" for k l m
    unfolding in_block_simps div ipv4_div(3) [OF that zero_less_numeral]
    by (simp only: base_eq assms that conj_assoc)
  have low: "b div 16 < 16" "b div 2 < 128" "b div 64 < 4" using assms(2) by simp_all
  have b12: "in_block (ipv4 a b c d) (ipv4 172 16 0 0, 12) \<longleftrightarrow> a = 172 \<and> 16 \<le> b \<and> b \<le> 31"
  proof -
    have "b div 16 = 1 \<longleftrightarrow> 16 \<le> b \<and> b \<le> 31" by arith
    moreover have "ipv4 172 16 0 0 div 1048576 = 172 * 16 + 1" by (simp add: ipv4_def)
    ultimately show ?thesis using low base_eq [of "b div 16" 16 1 a 172] by (simp add: in_block_simps div)
  qed
  have b15: "in_block (ipv4 a b c d) (ipv4 198 18 0 0, 15) \<longleftrightarrow> a = 198 \<and> (b = 18 \<or> b = 19)"
  proof -
    have "b div 2 = 9 \<longleftrightarrow> b = 18 \<or> b = 19" by arith
    moreover have "ipv4 198 18 0 0 div 131072 = 198 * 128 + 9" by (simp add: ipv4_def)
    ultimately show ?thesis using low base_eq [of "b div 2" 128 9 a 198] by (simp add: in_block_simps div)
  qed
  have b10: "in_block (ipv4 a b c d) (ipv4 100 64 0 0, 10) \<longleftrightarrow> a = 100 \<and> 64 \<le> b \<and> b \<le> 127"
  proof -
    have "b div 64 = 1 \<longleftrightarrow> 64 \<le> b \<and> b \<le> 127" by arith
    moreover have "ipv4 100 64 0 0 div 4194304 = 100 * 4 + 1" by (simp add: ipv4_def)
    ultimately show ?thesis using low base_eq [of "b div 64" 4 1 a 100] by (simp add: in_block_simps div)
  qed
  have b3: "in_block (ipv4 a b c d) (ipv4 224 0 0 0, 3) \<longleftrightarrow> 224 \<le> a"
  proof -
    have "a div 32 = 7 \<longleftrightarrow> 224 \<le> a" using assms(1) by arith
    moreover have "ipv4 224 0 0 0 div 536870912 = 7" by (simp add: ipv4_def)
    ultimately show ?thesis by (simp add: in_block_simps div)
  qed
  have l: "(0::nat) < 256" "(2::nat) < 256" "(51::nat) < 256" "(100::nat) < 256" "(113::nat) < 256"
    "(168::nat) < 256" "(254::nat) < 256" by simp_all
  note nets = b16 [OF l(7), of 169] b16 [OF l(6), of 192] b24 [OF l(1) l(1), of 192] b24 [OF l(1) l(2), of 192]
    b24 [OF l(3) l(4), of 198] b24 [OF l(1) l(5), of 203]
  show ?thesis
    unfolding special_blocks_def list_ex_Cons_Nil b8 b12 b15 b10 b3
      nets
    by (simp only: conj_disj_distribL disj_assoc simp_thms)
qed

lemma private_v4_dotted:
  assumes "a < 256" "b < 256" "c < 256" "d < 256"
  shows "private_v4 (dotted a b c d) \<longleftrightarrow> list_ex (in_block (ipv4 a b c d)) special_blocks"
  unfolding blocks_octets [OF assms] using assms
  by (simp add: private_v4_def split_dotted js_number_show_nat octets_private_def dle_def
      of_nat_rat_eq not_less)

text \<open>No textual test and no prefix applies to a dotted quad.\<close>

lemma dotted_hd: "\<exists>x t. dotted a b c d = x # t \<and> is_digit x"
  using show_nat_digits [of a] by (cases "show_nat a") (auto simp: dotted_def)

lemma dotted_units: "list_all (\<lambda>x. is_digit x \<or> x = 46) (dotted a b c d)"
  using show_nat_digits by (auto simp: dotted_def list_all_iff)

lemma not_private_v6_dotted: "\<not> private_v6 (dotted a b c d)"
proof -
  have "58 \<notin> set (dotted a b c d)"
    using dotted_units [of a b c d] by (auto simp: list_all_iff is_digit_def)
  moreover obtain x t where "dotted a b c d = x # t" "is_digit x" using dotted_hd by blast
  ultimately show ?thesis
    by (auto simp: private_v6_def js_def starts_with_iff is_digit_def)
qed

lemma not_mapped_dotted: "re_group False mapped_re (dotted a b c d) = None"
proof -
  have "cannot (\<lambda>x. is_digit x \<or> x = 46) False mapped_re"
    by (simp add: mapped_re_def str_def js_def ch_def same_unit_def is_digit_def)
  from cannot_find [OF this dotted_units] show ?thesis by (simp add: re_group_def)
qed

lemma private_text_dotted:
  "a < 256 \<Longrightarrow> b < 256 \<Longrightarrow> c < 256 \<Longrightarrow> d < 256 \<Longrightarrow>
   private_text (dotted a b c d) \<longleftrightarrow> list_ex (in_block (ipv4 a b c d)) special_blocks"
  by (subst private_text.simps)
    (simp add: not_private_v6_dotted not_mapped_dotted private_v4_dotted)

text \<open>The IPv4-mapped form is read as the quad it holds.\<close>

lemma first_show_nat:
  assumes "s = [] \<or> \<not> is_digit (hd s)"
  shows "first False (plus_re digit_re) (p, show_nat n @ s, k) (last_opt (show_nat n), s, k)"
  using show_nat_digits [of n] assms by (intro first_digits) auto

lemma first_dotted:
  "first False dotted_re (p, dotted a b c d, k) (last_opt (show_nat d), [], k)"
proof -
  have "first False (plus_re digit_re) (q, show_nat d, k) (last_opt (show_nat d), [], k)" for q
    using first_show_nat [of "[]" q d k] by simp
  then show ?thesis
    unfolding dotted_re_def dotted_def seqs.simps
    by (intro first_Seq [OF first_show_nat] first_Seq [OF first_ch]) (auto simp: is_digit_def)
qed

lemma mapped_dotted: "re_group False mapped_re (js ''::ffff:'' @ dotted a b c d) = Some (dotted a b c d)"
proof -
  let ?q = "(last_opt (js ''::ffff:''), dotted a b c d, None) :: rstate"
  let ?e = "(last_opt (show_nat d), [], None) :: rstate"
  have "first False (str ''::ffff:'') (None, js ''::ffff:'' @ dotted a b c d, None) ?q"
    using first_lit [of "js ''::ffff:''" None "dotted a b c d" None] by (simp add: str_def)
  moreover have "capture ?q ?e = (last_opt (show_nat d), [], Some (dotted a b c d))"
    by (simp add: capture_def)
  ultimately have "first False mapped_re (None, js ''::ffff:'' @ dotted a b c d, None)
      (last_opt (show_nat d), [], Some (dotted a b c d))"
    unfolding mapped_re_def seqs.simps
    using first_Grp [OF first_dotted, of "last_opt (js ''::ffff:'')" a b c d None]
    by (intro first_Seq [OF first_Bol] first_Seq [where a = ?q] first_Seq [OF _ first_Eol]) simp_all
  then show ?thesis by (simp add: re_group_def find_from_hit)
qed

lemma not_private_v6_mapped: "\<not> private_v6 (js ''::ffff:'' @ s)"
  by (simp add: private_v6_def js_def starts_with_def)

lemma ascii_dotted: "ascii (dotted a b c d)"
  by (rule list.pred_mono_strong [OF dotted_units]) (auto simp: is_digit_def is_ascii_def)

lemma lower_dotted: "map lower_unit (dotted a b c d) = dotted a b c d"
  by (rule map_idI) (use dotted_units [of a b c d] in
    \<open>auto simp: list_all_iff lower_unit_def is_ascii_upper_def is_digit_def\<close>)

section \<open>What the checks decide\<close>

lemma assertSafeAction_Inr:
  "assertSafeAction P a = Inr u \<longleftrightarrow>
    action_method P a \<in> set allowedMethods \<and>
    \<not> re_test True forbiddenInteraction (act_description a) \<and>
    (starts_with (act_selector a) (js ''xpath='') \<or> starts_with (act_selector a) (js ''css=''))"
  by (auto simp: assertSafeAction_def rbind_Inr_iff)

text \<open>The phrases the pattern stands for.\<close>

definition forbidden_phrases :: "jsstr set" where
  "forbidden_phrases = js ` {''add to cart'', ''add to bag'', ''add to basket'', ''buy'', ''buy now'',
     ''purchase'', ''checkout'', ''place order'', ''submit payment'', ''pay now'', ''complete order'',
     ''confirm order'', ''order now'', ''subscribe''}"

lemma denotes_forbidden:
  "denotes (alts [Seq (str ''add to '') (alts [str ''cart'', str ''bag'', str ''basket'']),
       Seq (str ''buy'') (opt_re (str '' now'')), str ''purchase'', str ''checkout'',
       str ''place order'', str ''submit payment'', str ''pay now'', str ''complete order'',
       str ''confirm order'', str ''order now'', str ''subscribe'']) forbidden_phrases"
    (is "denotes ?r _")
proof -
  have low: "map lower_unit (js s) = js s" if "s \<in> {''add to '', ''cart'', ''bag'', ''basket'', ''buy'',
      '' now'', ''purchase'', ''checkout'', ''place order'', ''submit payment'', ''pay now'',
      ''complete order'', ''confirm order'', ''order now'', ''subscribe''}" for s
    using that by (auto simp: js_eval)
  have add: "denotes (Seq (str ''add to '') (alts [str ''cart'', str ''bag'', str ''basket'']))
      {a @ b | a b. a \<in> {js ''add to ''} \<and> b \<in> {js ''cart''} \<union> ({js ''bag''} \<union> {js ''basket''})}"
    unfolding alts.simps by (intro denotes_Seq denotes_Alt denotes_str low) auto
  have buy: "denotes (Seq (str ''buy'') (opt_re (str '' now'')))
      {a @ b | a b. a \<in> {js ''buy''} \<and> b \<in> insert [] {js '' now''}}"
    by (intro denotes_Seq denotes_opt denotes_str low) auto
  note words = denotes_str [OF low]
  have "denotes ?r
     ({a @ b | a b. a \<in> {js ''add to ''} \<and> b \<in> {js ''cart''} \<union> ({js ''bag''} \<union> {js ''basket''})} \<union>
     ({a @ b | a b. a \<in> {js ''buy''} \<and> b \<in> insert [] {js '' now''}} \<union>
     ({js ''purchase''} \<union> ({js ''checkout''} \<union> ({js ''place order''} \<union> ({js ''submit payment''} \<union>
     ({js ''pay now''} \<union> ({js ''complete order''} \<union> ({js ''confirm order''} \<union>
     ({js ''order now''} \<union> {js ''subscribe''}))))))))))"
    unfolding alts.simps by (intro denotes_Alt add [unfolded alts.simps] buy words) simp_all
  also have "\<dots> = forbidden_phrases"
  proof -
    have "js ''add to cart'' = js ''add to '' @ js ''cart''" "js ''add to bag'' = js ''add to '' @ js ''bag''"
      "js ''add to basket'' = js ''add to '' @ js ''basket''" "js ''buy now'' = js ''buy'' @ js '' now''"
      by (simp_all add: js_def)
    then show ?thesis unfolding forbidden_phrases_def by auto
  qed
  finally show ?thesis .
qed

lemma forbidden_iff:
  "re_test True forbiddenInteraction s \<longleftrightarrow>
    (\<exists>pre v post. s = pre @ v @ post \<and> map lower_unit v \<in> forbidden_phrases \<and>
       word_edge pre (v @ post) \<and> word_edge (pre @ v) post)"
  unfolding forbiddenInteraction_def by (rule re_test_words [OF denotes_forbidden])

text \<open>When a target is let through, and what is returned.\<close>

definition target_allowed :: "platform \<Rightarrow> jsstr list \<Rightarrow> (thrown + jsstr list) \<Rightarrow> url \<Rightarrow> bool" where
  "target_allowed P allowed answer u \<longleftrightarrow>
    url_protocol u \<in> {js ''http:'', js ''https:''} \<and> url_username u = [] \<and> url_password u = [] \<and>
    (url_port u = [] \<or> url_port u \<notin> set unsafePorts) \<and>
    (if is_ip P (to_lower P (url_hostname u)) \<noteq> 0
     then to_lower P (url_hostname u) \<in> set allowed
     else \<exists>addresses. answer = Inr addresses \<and> addresses \<noteq> [] \<and>
       (to_lower P (url_hostname u) \<in> set allowed \<or> list_all (\<lambda>a. \<not> isPrivateAddress P a) addresses))"

lemma validateTargetUrl_Inr:
  "fst (validateTargetUrl P E input allowed w) = Inr v \<longleftrightarrow>
    (\<exists>u. url_parse P input = Some u \<and> v = u\<lparr>url_fragment := None\<rparr> \<and>
       target_allowed P allowed (env_lookup E (w_calls w) (to_lower P (url_hostname u))) u)"
  by (cases "url_parse P input")
    (auto simp: validateTargetUrl_def target_allowed_def Let_def io_simps list_ex_iff list_all_iff
      split: sum.splits if_splits)

lemma validateTargetUrl_Inl:
  "fst (validateTargetUrl P E input allowed w) = Inl e \<Longrightarrow> \<exists>m. e = SafetyError m"
  by (auto simp: validateTargetUrl_def Let_def io_simps split: sum.splits if_splits option.splits)

section \<open>Replaying\<close>

text \<open>
  The contract of \<open>ActionReplayer\<close>: it hands Stagehand the action it was given, on the
  session of the page, and makes no other call. An empty method may be left out.
\<close>

definition same_action :: "CachedAction \<Rightarrow> CachedAction \<Rightarrow> bool" where
  "same_action b a \<longleftrightarrow> act_selector b = act_selector a \<and> act_description b = act_description a \<and>
    act_arguments b = act_arguments a \<and>
    (act_method b = act_method a \<or> act_method a = Some [] \<and> act_method b = None)"

text \<open>No action that the checks refuse is ever handed to the browser.\<close>

definition safe_call :: "platform \<Rightarrow> call \<Rightarrow> bool" where
  "safe_call P c \<longleftrightarrow> (case c of CAct s a \<Rightarrow> assertSafeAction P a = Inr () | _ \<Rightarrow> True)"

lemma safe_call_simps [simp]:
  "safe_call P (CAct s a) \<longleftrightarrow> assertSafeAction P a = Inr ()"
  "safe_call P (CLookup x)" "safe_call P (CLaunch s b c)" "safe_call P (CInit s)"
  "safe_call P (CDomainPolicy s hs)" "safe_call P (CNewPage s)" "safe_call P (CGoto s x)"
  "safe_call P (CCount s x)" "safe_call P (CInnerText s x)" "safe_call P (CInnerHtml s x)"
  "safe_call P (CInputValue s x)" "safe_call P (CLdCount s)" "safe_call P (CLdText s n)"
  "safe_call P (CObserve s x)" "safe_call P (CExtract s)" "safe_call P (CIntent x)"
  "safe_call P (CNodes d)" "safe_call P (CSnapshot s)" "safe_call P (CScreenshot s)"
  "safe_call P (CMkdir x)" "safe_call P (CWrite x)" "safe_call P (CClose s)" "safe_call P (CRemove x)"
  "safe_call P CClock"
  by (simp_all add: safe_call_def)

lemma same_action_safe:
  assumes "unicode_ok P" "same_action b a" "assertSafeAction P a = Inr ()"
  shows "assertSafeAction P b = Inr ()"
proof -
  have "act_method a \<noteq> Some []"
  proof
    assume "act_method a = Some []"
    then have "action_method P a = []"
      using unicode_okD(1) [OF assms(1), of "[]"] by (simp add: action_method_def)
    then show False using assms(3) by (auto simp: assertSafeAction_Inr allowedMethods_def)
  qed
  then have "action_method P b = action_method P a"
    using assms(2) by (simp add: same_action_def action_method_def)
  then show ?thesis using assms(2,3) by (simp add: assertSafeAction_Inr same_action_def)
qed

text \<open>What inspecting an element asks of the page.\<close>

definition inspects :: "session \<Rightarrow> call \<Rightarrow> bool" where
  "inspects s c \<longleftrightarrow> (\<exists>x. c = CCount s x \<or> c = CInnerText s x \<or> c = CInnerHtml s x)"

lemma emits_assertSafeActionTarget: "emits (inspects s) (assertSafeActionTarget E s a)"
  unfolding assertSafeActionTarget_def locate_evidence_def
  by (intro emits_intro) (auto simp: inspects_def)

lemma emits_check_replacement: "emits (inspects s) (check_replacement P E s a)"
  unfolding check_replacement_def by (intro emits_intro emits_assertSafeActionTarget)

lemma io_each_Inr:
  "io_each f xs w = (Inr u, w') \<Longrightarrow> x \<in> set xs \<Longrightarrow> \<exists>w1 w2. f x w1 = (Inr (), w2)"
  by (induction xs arbitrary: w) (auto simp: io_bind_Inr)

locale action_replayer =
  fixes rp :: "CachedAction \<Rightarrow> CachedAction list io" and s :: session
  assumes rp_calls: "emits (\<lambda>c. \<exists>b. c = CAct s b \<and> same_action b a) (rp a)"
begin

lemma replaySafeAction_safe:
  fixes P :: platform
  defines "Q \<equiv> \<lambda>c. inspects s c \<or> (\<exists>b. c = CAct s b \<and> assertSafeAction P b = Inr ())"
  assumes "unicode_ok P"
  shows "emits Q (replaySafeAction P E rp s a origin)"
proof -
  have rp: "emits Q (rp a)" if "assertSafeAction P a = Inr ()"
    using that by (intro emits_weaken [OF rp_calls]) (auto simp: Q_def intro: same_action_safe [OF assms(2)])
  have inspect: "emits Q (assertSafeActionTarget E s a)" "emits Q (check_replacement P E s b)" for b
    by (rule emits_weaken [OF emits_assertSafeActionTarget], simp add: Q_def)
      (rule emits_weaken [OF emits_check_replacement], simp add: Q_def)
  show ?thesis
    unfolding replaySafeAction_def
    by (rule emits_bind_lift, intro emits_intro inspect rp) auto
qed

lemma replaySafeAction_returns:
  assumes "replaySafeAction P E rp s a origin w = (Inr executed, w')"
  shows "assertSafeAction P a = Inr () \<and> list_all (\<lambda>b. assertSafeAction P b = Inr ()) executed"
  using assms unfolding replaySafeAction_def list_all_iff
  by (auto simp: io_bind_Inr check_replacement_def dest!: io_each_Inr)

end

text \<open>\<open>BrowserRun\<close> is an \<open>ActionReplayer\<close>.\<close>

interpretation run_replayer: action_replayer "replay E run" "run_session run" for E run
proof
  fix a
  have "same_action (publicAction a) a"
    by (auto simp: same_action_def publicAction_def nonempty_opt_def split: option.splits)
  then show "emits (\<lambda>c. \<exists>b. c = CAct (run_session run) b \<and> same_action b a) (replay E run a)"
    unfolding replay_def by (intro emits_intro) auto
qed

section \<open>Properties\<close>

text \<open>
  C39. \<open>isPrivateAddress\<close> on IPv4 addresses, plain or IPv4-mapped, is membership in the
  thirteen blocks of \<open>special_blocks\<close> (the unspecified, private, loopback, link-local,
  shared, documentation, benchmarking, multicast and reserved ranges in CIDR notation).
\<close>

theorem private_ipv4_blocks:
  assumes "unicode_ok P" "a < 256" "b < 256" "c < 256" "d < 256"
  shows "(isPrivateAddress P (dotted a b c d) \<longleftrightarrow> list_ex (in_block (ipv4 a b c d)) special_blocks) \<and>
    (isPrivateAddress P (js ''::FFFF:'' @ dotted a b c d) \<longleftrightarrow>
      list_ex (in_block (ipv4 a b c d)) special_blocks)"
proof -
  have "ascii (js ''::FFFF:'')" by (simp add: js_def is_ascii_def)
  then have "to_lower P (js ''::FFFF:'' @ dotted a b c d) = js ''::ffff:'' @ dotted a b c d"
    using unicode_okD(1) [OF assms(1), of "js ''::FFFF:'' @ dotted a b c d"] ascii_dotted
    by (simp add: lower_dotted) (simp add: js_eval)
  moreover have "private_text (js ''::ffff:'' @ dotted a b c d) = private_text (dotted a b c d)"
    by (subst private_text.simps) (simp add: not_private_v6_mapped mapped_dotted)
  moreover have "to_lower P (dotted a b c d) = dotted a b c d"
    using unicode_okD(1) [OF assms(1) ascii_dotted] by (simp add: lower_dotted)
  ultimately show ?thesis
    using assms by (simp add: isPrivateAddress_def private_text_dotted)
qed

theorem private_ipv4_blocks_witness:
  "isPrivateAddress ascii_platform (dotted 172 20 0 9) \<and>
   \<not> isPrivateAddress ascii_platform (js ''::FFFF:'' @ dotted 93 184 216 34)"
  using private_ipv4_blocks [OF unicode_ok_ascii_platform, of 172 20 0 9]
    private_ipv4_blocks [OF unicode_ok_ascii_platform, of 93 184 216 34]
  by (simp add: special_blocks_def in_block_simps ipv4_def)

text \<open>
  C35. A target URL is accepted exactly when it parses, is HTTP or HTTPS, carries no
  credentials, uses no refused port and either names an exempted host or resolves to a
  non-empty list of addresses none of which is private; IP literals pass only when
  exempted. What is returned is the parsed URL without its fragment.
\<close>

theorem validateTargetUrl_accepts:
  "fst (validateTargetUrl P E input allowed w) = Inr v \<longleftrightarrow>
    (\<exists>u. url_parse P input = Some u \<and> v = u\<lparr>url_fragment := None\<rparr> \<and>
       target_allowed P allowed (env_lookup E (w_calls w) (to_lower P (url_hostname u))) u)"
  by (rule validateTargetUrl_Inr)

text \<open>
  C38. An action passes \<open>assertSafeAction\<close> exactly when its lower-cased method (default
  \<open>click\<close>) is one of the three allowed ones, its selector is an XPath or CSS selector, and
  its description contains none of the fourteen purchase phrases between word boundaries,
  ignoring case.
\<close>

theorem assertSafeAction_accepts:
  "assertSafeAction P a = Inr () \<longleftrightarrow>
    action_method P a \<in> set allowedMethods \<and>
    (starts_with (act_selector a) (js ''xpath='') \<or> starts_with (act_selector a) (js ''css='')) \<and>
    \<not> (\<exists>pre v post. act_description a = pre @ v @ post \<and> map lower_unit v \<in> forbidden_phrases \<and>
        word_edge pre (v @ post) \<and> word_edge (pre @ v) post)"
  unfolding assertSafeAction_Inr forbidden_iff by blast

lemma replay_run:
  "replay E run a w =
    (case env_act E (w_calls w) (run_session run) (publicAction a) of
       Inl t \<Rightarrow> Inl (External t)
     | Inr result \<Rightarrow> if ar_success result then Inr (ar_actions result)
         else Inl (PlainError (if ar_message result \<noteq> [] then ar_message result else js ''Cached action failed'')),
     record_call (CAct (run_session run) (publicAction a)) w)"
  by (simp add: replay_def io_simps split: sum.splits)

lemma publicAction_safe:
  assumes "unicode_ok P" "assertSafeAction P a = Inr ()"
  shows "assertSafeAction P (publicAction a) = Inr ()"
  by (rule same_action_safe [OF assms(1) _ assms(2)])
    (auto simp: same_action_def publicAction_def nonempty_opt_def split: option.splits)

text \<open>The two ways a replay goes: refused before Stagehand is asked, or one call of \<open>act\<close>.\<close>

lemma replaySafeAction_run:
  assumes "replaySafeAction P E (replay E run) s a origin w = (r, w')"
  shows "(\<exists>e. r = Inl e) \<and> extends (inspects s) w w' \<or>
    (\<exists>resolved w1. assertSafeAction P a = Inr () \<and> assertSafeActionTarget E s a w = (Inr resolved, w1) \<and>
      extends (inspects s) (record_call (CAct (run_session run) (publicAction a)) w1) w' \<and>
      (\<forall>executed. r = Inr executed \<longrightarrow>
         (\<exists>result. env_act E (w_calls w1) (run_session run) (publicAction a) = Inr result \<and> ar_success result \<and>
            executed = ar_actions result \<and>
            assertSameOrigin P (env_url E (w_calls w1 @ [CAct (run_session run) (publicAction a)]) s) origin = Inr ())))"
proof (cases "assertSafeAction P a")
  case (Inl e)
  then show ?thesis using assms by (auto simp: replaySafeAction_def io_simps)
next
  case safe: (Inr u)
  obtain q w1 where q: "assertSafeActionTarget E s a w = (q, w1)" by fastforce
  then have x: "extends (inspects s) w w1" by (rule emitsD [OF emits_assertSafeActionTarget])
  show ?thesis
  proof (cases q)
    case (Inl e)
    then show ?thesis using assms safe q x by (auto simp: replaySafeAction_def io_simps)
  next
    case (Inr resolved)
    let ?w2 = "record_call (CAct (run_session run) (publicAction a)) w1"
    obtain e w3 where e: "io_each (check_replacement P E s) (case replay E run a w1 of (Inr xs, _) \<Rightarrow> xs | _ \<Rightarrow> []) ?w2 = (e, w3)"
      by fastforce
    have "emits (inspects s) (io_each (check_replacement P E s) xs)" for xs
      by (intro emits_intro emits_check_replacement)
    from emitsD [OF this e] have "extends (inspects s) ?w2 w3" .
    then have "extends (inspects s) ?w2 w' \<and> (\<forall>executed. r = Inr executed \<longrightarrow>
         (\<exists>result. env_act E (w_calls w1) (run_session run) (publicAction a) = Inr result \<and> ar_success result \<and>
            executed = ar_actions result \<and>
            assertSameOrigin P (env_url E (w_calls w1 @ [CAct (run_session run) (publicAction a)]) s) origin = Inr ()))"
      using assms safe q Inr e
      by (auto simp: replaySafeAction_def replay_run io_simps record_call_def split: sum.splits if_splits)
    then show ?thesis using safe q Inr by auto
  qed
qed

text \<open>
  C34. What \<open>replaySafeAction\<close> lets a browser session do, whatever the page, the model and the
  self-healing answer. Either it fails having done nothing but inspect elements, or the action
  it was given passes \<open>assertSafeAction\<close>, its target was inspected without a forbidden phrase
  turning up, and Stagehand was then asked to act exactly once, with that action, all other
  calls being inspections. When it returns, the actions it returns are those Stagehand
  reported, each passes \<open>assertSafeAction\<close>, and the page was on the expected origin. The checks
  cover what is handed to Stagehand and what is returned for a plan: a replacement that
  self-healing chose has been executed by Stagehand before it can be checked, as the source
  says, so an unsafe one can be refused for the plan but not kept from the page.
\<close>

theorem replayed_actions_safe:
  assumes "unicode_ok P"
    and "replaySafeAction P E (replay E run) (run_session run) a origin w = (r, w')"
  shows "(\<exists>e. r = Inl e) \<and> extends (inspects (run_session run)) w w' \<or>
    (\<exists>resolved w1 later result.
      assertSafeAction P a = Inr () \<and> assertSafeAction P (publicAction a) = Inr () \<and>
      assertSafeActionTarget E (run_session run) a w = (Inr resolved, w1) \<and>
      extends (inspects (run_session run)) w w1 \<and>
      env_act E (w_calls w1) (run_session run) (publicAction a) = result \<and>
      w_calls w' = w_calls w1 @ CAct (run_session run) (publicAction a) # later \<and>
      list_all (inspects (run_session run)) later \<and>
      (\<forall>executed. r = Inr executed \<longrightarrow>
         (\<exists>answer. result = Inr answer \<and> ar_success answer \<and> executed = ar_actions answer) \<and>
         assertSameOrigin P (env_url E (w_calls w1 @ [CAct (run_session run) (publicAction a)]) (run_session run)) origin
           = Inr () \<and>
         list_all (\<lambda>b. assertSafeAction P b = Inr ()) executed))"
proof -
  let ?s = "run_session run" and ?act = "CAct (run_session run) (publicAction a)"
  have all: "r = Inr executed \<Longrightarrow> list_all (\<lambda>b. assertSafeAction P b = Inr ()) executed" for executed
    using run_replayer.replaySafeAction_returns [of P E E run a origin w executed w'] assms(2) by simp
  consider "(\<exists>e. r = Inl e) \<and> extends (inspects ?s) w w'"
    | resolved w1 where "assertSafeAction P a = Inr ()" "assertSafeActionTarget E ?s a w = (Inr resolved, w1)"
      "extends (inspects ?s) (record_call ?act w1) w'"
      "\<And>executed. r = Inr executed \<Longrightarrow>
         \<exists>answer. env_act E (w_calls w1) ?s (publicAction a) = Inr answer \<and> ar_success answer \<and>
            executed = ar_actions answer \<and> assertSameOrigin P (env_url E (w_calls w1 @ [?act]) ?s) origin = Inr ()"
    using replaySafeAction_run [OF assms(2)] by blast
  then show ?thesis
  proof cases
    case 1
    then show ?thesis by (rule disjI1)
  next
    case (2 resolved w1)
    obtain later where "w_calls w' = w_calls w1 @ ?act # later" "list_all (inspects ?s) later"
      using 2(3) by (auto simp: extends_def record_call_def)
    moreover have "assertSafeAction P (publicAction a) = Inr ()" by (rule publicAction_safe [OF assms(1) 2(1)])
    moreover have "extends (inspects ?s) w w1" by (rule emitsD [OF emits_assertSafeActionTarget 2(2)])
    ultimately show ?thesis using 2(1,2,4) all by (intro disjI2 exI conjI) (assumption | blast | rule refl)+
  qed
qed

text \<open>A session whose page shows one harmless button and replays it unchanged.\<close>

definition button :: CachedAction where
  "button = \<lparr>act_selector = js ''xpath=//button'', act_description = js ''Red'',
     act_method = Some (js ''click''), act_arguments = None\<rparr>"

definition button_env :: env where
  "button_env = idle_env\<lparr>env_count := (\<lambda>_ _ _. Inr 1), env_innerText := (\<lambda>_ _ _. Inr (js ''Red'')),
     env_innerHtml := (\<lambda>_ _ _. Inr (js ''i'')), env_url := (\<lambda>_ _. js ''http://a/p''),
     env_act := (\<lambda>_ _ a. Inr \<lparr>ar_success = True, ar_message = [], ar_actions = [a]\<rparr>)\<rparr>"

definition button_run :: browser_run where
  "button_run = \<lparr>run_session = MainRun, run_config = default_config, run_selfHeal = False,
     run_model = False, run_cacheDir = []\<rparr>"

lemma button_checks:
  "assertSafeAction ascii_platform button = Inr ()"
  "\<not> re_test True forbiddenInteraction (act_description button @ [10] @ js ''Red'' @ [10] @ js ''i'')"
  "publicAction button = button"
  "assertSameOrigin ascii_platform (js ''http://a/p'') (the (simple_url (js ''http://a/''))) = Inr ()"
  by code_simp+

lemma button_target:
  "assertSafeActionTarget button_env s button w = (Inr True,
     record_call (CInnerHtml s (act_selector button)) (record_call (CInnerText s (act_selector button))
       (record_call (CCount s (act_selector button)) w)))"
  using button_checks(2)
  by (simp add: assertSafeActionTarget_def locate_evidence_def io_simps button_env_def js_def)

lemma button_answers:
  "env_act button_env h s a = Inr \<lparr>ar_success = True, ar_message = [], ar_actions = [a]\<rparr>"
  "env_url button_env h s = js ''http://a/p''"
  by (simp_all add: button_env_def)

lemma replay_button:
  "fst (replaySafeAction ascii_platform button_env (replay button_env button_run) (run_session button_run)
      button (the (simple_url (js ''http://a/''))) w) = Inr [button]"
  by (simp add: replaySafeAction_def check_replacement_def replay_def io_simps button_target
      button_checks button_answers)

theorem replayed_actions_safe_witness:
  "\<exists>w'. replaySafeAction ascii_platform button_env (replay button_env button_run) (run_session button_run)
      button (the (simple_url (js ''http://a/''))) \<lparr>w_calls = [], w_timings = []\<rparr> = (Inr [button], w') \<and>
     CAct MainRun button \<in> set (w_calls w') \<and> assertSafeAction ascii_platform button = Inr ()"
proof -
  obtain w' where r: "replaySafeAction ascii_platform button_env (replay button_env button_run) (run_session button_run)
      button (the (simple_url (js ''http://a/''))) \<lparr>w_calls = [], w_timings = []\<rparr> = (Inr [button], w')"
    using replay_button by (metis prod.collapse)
  have "run_session button_run = MainRun" by (simp add: button_run_def)
  with replayed_actions_safe [OF unicode_ok_ascii_platform r] r button_checks(3) show ?thesis by auto
qed

text \<open>
  \<open>isPrivateAddress\<close> lets link-local IPv6 addresses through: of \<open>fe80::/10\<close> it refuses
  the addresses written \<open>fe80:\<close> only, so that \<open>fe90::1\<close> and \<open>febf::1\<close> count as public.
\<close>

theorem link_local_gap:
  "isPrivateAddress ascii_platform (js ''fe80::1'') \<and>
   \<not> isPrivateAddress ascii_platform (js ''fe90::1'') \<and>
   \<not> isPrivateAddress ascii_platform (js ''febf::1'')"
  by code_simp

end
