(* ===== verification/Compiler.thy ===== *)
theory Compiler
  imports Safety Extract
begin

text \<open>
  Compiling a monitor plan (\<open>worker/src/compiler.ts\<close>): the choice between the scripted
  compiler for the fixture shop and the live compiler that asks the language model, both
  compilers, and the verification of a plan on the page and after a fresh navigation.
\<close>

record CompileOutcome =
  out_plan :: MonitorPlanV1
  out_observation :: Observation
  out_modelCallCount :: int
  out_source :: repair_source

section \<open>Navigation and verification\<close>

definition goto :: "env \<Rightarrow> session \<Rightarrow> jsstr \<Rightarrow> unit io" where
  "goto E s address = io_call (CGoto s address) (\<lambda>h. env_goto E h s address)"

text \<open>\<open>assertSameOrigin(page.url(), target)\<close>\<close>

definition check_origin :: "platform \<Rightarrow> env \<Rightarrow> session \<Rightarrow> url \<Rightarrow> unit io" where
  "check_origin P E s target =
     io_bind (io_read (\<lambda>h. env_url E h s)) (\<lambda>current. io_lift (assertSameOrigin P current target))"

definition replay_step :: "platform \<Rightarrow> env \<Rightarrow> browser_run \<Rightarrow> url \<Rightarrow> prep_step \<Rightarrow> unit io" where
  "replay_step P E run target st =
     io_bind (replaySafeAction P E (replay E run) (run_session run) (step_action st) target) (\<lambda>_. io_ret ())"

definition executeAndVerify :: "platform \<Rightarrow> env \<Rightarrow> browser_run \<Rightarrow> MonitorPlanV1 \<Rightarrow> url \<Rightarrow> Observation io" where
  "executeAndVerify P E run plan target =
     io_bind (io_each (replay_step P E run target) (plan_preparationSteps plan)) (\<lambda>_.
     io_bind (extractObservation P E (run_session run) plan) (\<lambda>observation.
     io_bind (io_lift (validateObservation P observation plan)) (\<lambda>_. io_ret observation)))"

definition verifyFresh :: "platform \<Rightarrow> env \<Rightarrow> browser_run \<Rightarrow> MonitorPlanV1 \<Rightarrow> url \<Rightarrow> unit io" where
  "verifyFresh P E run plan target =
     io_bind (goto E (run_session run) (url_href target)) (\<lambda>_.
     io_bind (check_origin P E (run_session run) target) (\<lambda>_.
     io_bind (executeAndVerify P E run plan target) (\<lambda>_. io_ret ())))"

section \<open>The scripted compiler\<close>

text \<open>The patterns of the intent and of a value that may stand in an XPath literal.\<close>

definition silver_re :: re where
  "silver_re = seqs [WordB, str ''silver'', WordB]"

definition two_tb_re :: re where
  "two_tb_re = seqs [WordB,
     Alt (seqs [str ''2'', Star space_re, str ''tb'']) (seqs [str ''2048'', Star space_re, str ''gb'']), WordB]"

definition requested_variant :: "ExecutionInput \<Rightarrow> jsstr dict" where
  "requested_variant input =
     (case mon_condition (in_monitor input) of None \<Rightarrow> [] | Some c \<Rightarrow> cond_requestedVariant c)"

definition condition_currency :: "ExecutionInput \<Rightarrow> SupportedCurrency option" where
  "condition_currency input = Option.bind (mon_condition (in_monitor input)) cond_currency"

definition fixtureVariants :: "platform \<Rightarrow> ExecutionInput \<Rightarrow> jsstr dict" where
  "fixtureVariants P input =
    (if length (requested_variant input) \<noteq> 0 then requested_variant input
     else let intent = to_lower P (mon_intent (in_monitor input)) in
       [(js ''color'', if re_test False silver_re intent then js ''silver'' else js ''black''),
        (js ''capacity'', if re_test False two_tb_re intent then js ''2tb'' else js ''1tb'')])"

definition xpathLiteralPart :: "jsstr \<Rightarrow> exn + jsstr" where
  "xpathLiteralPart value =
    (if \<not> re_test False (seqs [Bol, plus_re (Cls [(97, 122), (65, 90), (48, 57), (95, 95), (45, 45)]), Eol]) value
     then Inl (PlainError (js ''Fixture variant contains unsupported characters''))
     else Inr value)"

definition fixture_step :: "platform \<Rightarrow> bool \<Rightarrow> jsstr \<times> jsstr \<Rightarrow> exn + prep_step" where
  "fixture_step P v1 = (\<lambda>(attribute, value).
     rbind (xpathLiteralPart value) (\<lambda>part.
     let action = \<lparr>
           act_selector =
             (if v1 then js ''xpath=//*[@id='' @ [39] @ js ''legacy-'' @ attribute @ [45] @ part @ [39] @ js '']''
              else js ''xpath=//*[@data-variant-group='' @ [39] @ attribute @ [39] @ js '']//*[@data-value='' @
                [39] @ part @ [39] @ js '']''),
           act_description = js ''Select '' @ value @ js '' for '' @ attribute,
           act_method = Some (js ''click''),
           act_arguments = Some []\<rparr>
     in rbind (assertSafeAction P action) (\<lambda>_.
        Inr \<lparr>step_purpose = Variant, step_instruction = act_description action, step_action = action\<rparr>)))"

definition quoted :: "string \<Rightarrow> jsstr \<Rightarrow> jsstr" where
  "quoted attr value = js ''xpath=//*[@'' @ js attr @ [61, 39] @ value @ [39] @ js '']''"

definition fixture_path :: "bool \<Rightarrow> string \<Rightarrow> string \<Rightarrow> ExtractionStrategy" where
  "fixture_path v1 v1Id v2Ui =
     XpathText (if v1 then quoted ''id'' (js v1Id) else quoted ''data-ui'' (js v2Ui)) None"

definition fixture_variant_path :: "bool \<Rightarrow> jsstr \<Rightarrow> ExtractionStrategy" where
  "fixture_variant_path v1 attribute =
     XpathText (if v1 then quoted ''id'' (js ''selected-'' @ attribute)
                else quoted ''data-selected-variant'' attribute)
       (if attribute \<noteq> [] then Some attribute else None)"

definition fixture_plan ::
    "platform \<Rightarrow> bool \<Rightarrow> ExecutionInput \<Rightarrow> url \<Rightarrow> jsstr dict \<Rightarrow> prep_step list \<Rightarrow> MonitorPlanV1" where
  "fixture_plan P v1 input target requested steps =
     \<lparr>plan_schemaVersion = 1, plan_stagehandVersion = js ''3.7.0'', plan_canonicalUrl = url_href target,
      plan_ident = \<lparr>id_title = js ''Atlas Studio Headphones'', id_brand = None, id_sku = Some (js ''ASH-100''),
        id_fingerprint = fingerprint P (js ''Atlas Studio Headphones'') (Some (js ''ASH-100'')),
        id_requestedVariant = requested\<rparr>,
      plan_preparationSteps = steps,
      plan_extractors = \<lparr>
        ex_title = [fixture_path v1 ''product-title'' ''product-name''],
        ex_price = [fixture_path v1 ''current-price'' ''offer-price''],
        ex_currency = Some [fixture_path v1 ''price-currency'' ''price-currency''],
        ex_availability = [fixture_path v1 ''stock-status'' ''inventory-status''],
        ex_selectedVariant = map (fixture_variant_path v1) (map fst requested),
        ex_sku = Some [fixture_path v1 ''product-sku'' ''product-sku'']\<rparr>,
      plan_expectedCurrency = (case condition_currency input of Some c \<Rightarrow> c | None \<Rightarrow> USD),
      plan_validatorVersion = 1\<rparr>"

text \<open>\<open>provisional.identity = { ... }\<close> from the observation.\<close>

definition adopt_identity :: "Observation \<Rightarrow> jsstr dict \<Rightarrow> MonitorPlanV1 \<Rightarrow> MonitorPlanV1" where
  "adopt_identity observation requested plan =
     plan\<lparr>plan_ident := \<lparr>id_title = obs_title observation, id_brand = None,
       id_sku = (if nonempty_opt (obs_sku observation) then obs_sku observation else None),
       id_fingerprint = obs_identityFingerprint observation, id_requestedVariant = requested\<rparr>\<rparr>"

definition compileFixture ::
    "platform \<Rightarrow> env \<Rightarrow> browser_run \<Rightarrow> ExecutionInput \<Rightarrow> url \<Rightarrow> CompileOutcome io" where
  "compileFixture P E run input target =
     io_bind (io_call (CCount (run_session run) (js ''#legacy-color-black''))
       (\<lambda>h. env_count E h (run_session run) (js ''#legacy-color-black''))) (\<lambda>n.
     let v1 = (n > 0); requested = fixtureVariants P input in
     io_bind (io_lift (map_throw (fixture_step P v1) requested)) (\<lambda>steps.
     let provisional = fixture_plan P v1 input target requested steps in
     io_bind (executeAndVerify P E run provisional target) (\<lambda>observation.
     let final = adopt_identity observation requested provisional in
     io_bind (io_lift (validateObservation P observation final)) (\<lambda>_.
     io_bind (verifyFresh P E run final target) (\<lambda>_.
     io_ret \<lparr>out_plan = final, out_observation = observation, out_modelCallCount = 0,
       out_source = ScriptedSource\<rparr>)))))"

section \<open>The live compiler\<close>

text \<open>\<open>MODEL_NAME.split("/")\<close> and the check both prompts start with.\<close>

definition model_configured :: "WorkerConfig \<Rightarrow> bool" where
  "model_configured config \<longleftrightarrow>
     (case split_on 47 (cfg_MODEL_NAME config) of
        prov # modelParts \<Rightarrow> prov \<noteq> [] \<and> join [47] modelParts \<noteq> []
      | [] \<Rightarrow> False) \<and> nonempty_opt (cfg_MODEL_API_KEY config)"

definition require_model :: "WorkerConfig \<Rightarrow> unit io" where
  "require_model config = io_lift (throw_if (\<not> model_configured config)
     (PlainError (js ''MODEL_NAME must be provider/model and MODEL_API_KEY must be set'')))"

definition parseIntent :: "env \<Rightarrow> jsstr \<Rightarrow> WorkerConfig \<Rightarrow> intent_rule io" where
  "parseIntent E intent config =
     io_bind (require_model config) (\<lambda>_. io_call (CIntent intent) (\<lambda>h. env_intent E h intent))"

definition known_node :: "page_snapshot \<Rightarrow> jsstr \<Rightarrow> bool" where
  "known_node snapshot nodeId = nonempty_opt (obj_get (snap_xpathMap snapshot) nodeId)"

definition selected_ids :: "node_selection \<Rightarrow> jsstr list" where
  "selected_ids sel =
     [ns_titleNodeId sel, ns_currentPriceNodeId sel, ns_availabilityNodeId sel] @
     (if nonempty_opt (ns_currencyNodeId sel) then [the (ns_currencyNodeId sel)] else []) @
     (if nonempty_opt (ns_skuNodeId sel) then [the (ns_skuNodeId sel)] else []) @
     map snd (ns_variantNodeIds sel)"

definition selectSnapshotNodes ::
    "env \<Rightarrow> page_snapshot \<Rightarrow> jsstr dict \<Rightarrow> WorkerConfig \<Rightarrow> node_selection io" where
  "selectSnapshotNodes E snapshot requested config =
     io_bind (require_model config) (\<lambda>_.
     io_bind (io_call (CNodes requested) (\<lambda>h. env_nodes E h requested)) (\<lambda>selected.
     io_bind (io_lift (throw_if (list_ex (\<lambda>i. \<not> known_node snapshot i) (selected_ids selected))
       (PlainError (js ''Model returned a node ID absent from snapshot.xpathMap'')))) (\<lambda>_.
     io_ret selected)))"

definition strategyFor :: "page_snapshot \<Rightarrow> jsstr \<Rightarrow> jsstr option \<Rightarrow> exn + ExtractionStrategy" where
  "strategyFor snapshot nodeId attribute =
    (if known_node snapshot nodeId
     then Inr (XpathText (js ''xpath='' @ the (obj_get (snap_xpathMap snapshot) nodeId))
       (if nonempty_opt attribute then attribute else None))
     else Inl (PlainError (js ''Model selected unknown snapshot node '' @ nodeId)))"

definition optional_strategy :: "page_snapshot \<Rightarrow> jsstr option \<Rightarrow> exn + ExtractionStrategy option" where
  "optional_strategy snapshot nodeId =
    (if nonempty_opt nodeId then rbind (strategyFor snapshot (the nodeId) None) (\<lambda>st. Inr (Some st))
     else Inr None)"

definition variant_strategy :: "page_snapshot \<Rightarrow> node_selection \<Rightarrow> jsstr \<times> jsstr \<Rightarrow> exn + ExtractionStrategy" where
  "variant_strategy snapshot sel = (\<lambda>(attribute, value).
     let nodeId = obj_get (ns_variantNodeIds sel) attribute in
     if nonempty_opt nodeId then strategyFor snapshot (the nodeId) (Some attribute)
     else Inl (PlainError (js ''Model did not identify the selected '' @ attribute @ js '' node ('' @ value @ js '')'')))"

text \<open>The first loop: one observed action per requested attribute.\<close>

definition observe_prompt :: "jsstr \<times> jsstr \<Rightarrow> jsstr" where
  "observe_prompt = (\<lambda>(attribute, value).
     js ''Select the product '' @ attribute @ js '' option exactly '' @ [34] @ value @ [34] @
     js ''. Do not add to cart, buy, or leave the product page.'')"

definition observe_step :: "platform \<Rightarrow> env \<Rightarrow> session \<Rightarrow> jsstr \<times> jsstr \<Rightarrow> prep_step io" where
  "observe_step P E s entry =
     io_bind (io_call (CObserve s (observe_prompt entry)) (\<lambda>h. env_observe E h s (observe_prompt entry)))
     (\<lambda>candidates.
     case candidates of
       [] \<Rightarrow> io_throw (PlainError (js ''No safe action found for '' @ fst entry @ js ''='' @ snd entry))
     | action # _ \<Rightarrow>
         io_bind (io_lift (assertSafeAction P action)) (\<lambda>_.
         io_ret \<lparr>step_purpose = Variant, step_instruction = act_description action, step_action = action\<rparr>))"

fun observe_steps :: "platform \<Rightarrow> env \<Rightarrow> session \<Rightarrow> (jsstr \<times> jsstr) list \<Rightarrow> prep_step list io" where
  "observe_steps P E s [] = io_ret []"
| "observe_steps P E s (entry # rest) =
     io_bind (observe_step P E s entry) (\<lambda>st.
     io_bind (observe_steps P E s rest) (\<lambda>sts. io_ret (st # sts)))"

definition live_currency :: "platform \<Rightarrow> env \<Rightarrow> ExecutionInput \<Rightarrow> SupportedCurrency option \<Rightarrow> jsstr \<Rightarrow> exn + SupportedCurrency" where
  "live_currency P E input intentCurrency shown =
    (case condition_currency input of
       Some c \<Rightarrow> Inr c
     | None \<Rightarrow>
        (case intentCurrency of
           Some c \<Rightarrow> Inr c
         | None \<Rightarrow>
            (case currency_of_code (to_upper P (trim shown)) of
               Some c \<Rightarrow> Inr c
             | None \<Rightarrow> Inl (External (ExtError (env_zod_currency E (to_upper P (trim shown))))))))"

text \<open>\<open>a !== b\<close> on numbers.\<close>

definition dne :: "dbl \<Rightarrow> dbl \<Rightarrow> bool" where
  "dne a b \<longleftrightarrow> a \<noteq> b \<or> a = NaN"

text \<open>The three cross-checks against the semantic extraction.\<close>

definition check_semantic :: "platform \<Rightarrow> semantic_product \<Rightarrow> Observation \<Rightarrow> exn + unit" where
  "check_semantic P semantic observation =
     rbind (throw_if (trim (sem_title semantic) \<noteq> [] \<and>
         dless (titleSimilarity P (sem_title semantic) (obs_title observation)) (fl (8 / 10)))
       (PlainError (js ''Snapshot extraction conflicts with Stagehand semantic title extraction''))) (\<lambda>_.
     rbind (throw_if (to_upper P (trim (sem_currency semantic)) \<noteq> currency_code (obs_currency observation))
       (PlainError (js ''Snapshot extraction conflicts with Stagehand semantic currency extraction''))) (\<lambda>_.
     rbind (parsePrice (sem_currentPriceText semantic)) (\<lambda>(priceMinor, _).
     throw_if (dne priceMinor (obs_priceMinor observation))
       (PlainError (js ''Snapshot extraction conflicts with Stagehand semantic price extraction'')))))"

definition live_plan ::
    "platform \<Rightarrow> url \<Rightarrow> jsstr dict \<Rightarrow> prep_step list \<Rightarrow> plan_extractors \<Rightarrow> SupportedCurrency \<Rightarrow> MonitorPlanV1" where
  "live_plan P target requested steps extractors expectedCurrency =
     \<lparr>plan_schemaVersion = 1, plan_stagehandVersion = js ''3.7.0'', plan_canonicalUrl = url_href target,
      plan_ident = \<lparr>id_title = js ''pending identity'', id_brand = None, id_sku = None,
        id_fingerprint = fingerprint P (js ''pending identity'') None, id_requestedVariant = requested\<rparr>,
      plan_preparationSteps = steps, plan_extractors = extractors,
      plan_expectedCurrency = expectedCurrency, plan_validatorVersion = 1\<rparr>"

text \<open>What is requested: the condition's variant, or what the model reads from the intent.\<close>

definition live_request ::
    "env \<Rightarrow> ExecutionInput \<Rightarrow> WorkerConfig \<Rightarrow> (jsstr dict \<times> SupportedCurrency option \<times> int) io" where
  "live_request E input config =
    (if length (requested_variant input) = 0 then
       io_bind (parseIntent E (mon_intent (in_monitor input)) config) (\<lambda>rule.
       io_ret (ir_requestedVariant rule, ir_currency rule, 1))
     else io_ret (requested_variant input, None, 0))"

text \<open>The strategies of the selected nodes, in the order the code builds them.\<close>

definition live_strategies ::
    "page_snapshot \<Rightarrow> node_selection \<Rightarrow> jsstr dict \<Rightarrow>
     exn + ExtractionStrategy \<times> ExtractionStrategy \<times> ExtractionStrategy \<times> ExtractionStrategy list" where
  "live_strategies snapshot sel requested =
     rbind (strategyFor snapshot (ns_titleNodeId sel) None) (\<lambda>title.
     rbind (strategyFor snapshot (ns_currentPriceNodeId sel) None) (\<lambda>price.
     rbind (strategyFor snapshot (ns_availabilityNodeId sel) None) (\<lambda>availability.
     rbind (map_throw (variant_strategy snapshot sel) requested) (\<lambda>selectedVariant.
     Inr (title, price, availability, selectedVariant)))))"

text \<open>
  The first half of \<open>compileLive\<close>, up to the provisional plan: what was requested, the plan, the
  semantic extraction it will be compared with, and the count of model calls.
\<close>

definition live_provisional ::
    "platform \<Rightarrow> env \<Rightarrow> browser_run \<Rightarrow> ExecutionInput \<Rightarrow> url \<Rightarrow> WorkerConfig \<Rightarrow>
     (jsstr dict \<times> MonitorPlanV1 \<times> semantic_product \<times> int) io" where
  "live_provisional P E run input target config =
    (let s = run_session run in
     io_bind (live_request E input config) (\<lambda>(requested, intentCurrency, intentCalls).
     io_bind (observe_steps P E s requested) (\<lambda>steps.
     io_bind (io_each (replay_step P E run target) steps) (\<lambda>_.
     io_bind (io_call (CSnapshot s) (\<lambda>h. env_snapshot E h s)) (\<lambda>snapshot.
     io_bind (selectSnapshotNodes E snapshot requested config) (\<lambda>sel.
     io_bind (io_lift (live_strategies snapshot sel requested)) (\<lambda>(title, price, availability, selectedVariant).
     io_bind (io_call (CExtract s) (\<lambda>h. env_extract E h s)) (\<lambda>semantic.
     io_bind (io_lift (live_currency P E input intentCurrency (sem_currency semantic))) (\<lambda>expectedCurrency.
     io_bind (io_lift (optional_strategy snapshot (ns_skuNodeId sel))) (\<lambda>sku.
     io_bind (io_lift (optional_strategy snapshot (ns_currencyNodeId sel))) (\<lambda>currency.
     io_ret (requested,
       live_plan P target requested steps
         (buildLiveExtractors \<lparr>lx_requestedVariant = requested, lx_title = title, lx_sku = sku,
           lx_price = price, lx_currency = currency, lx_availability = availability,
           lx_selectedVariant = selectedVariant\<rparr>) expectedCurrency,
       semantic, intentCalls + int (length requested) + 2))))))))))))"

definition live_finish ::
    "platform \<Rightarrow> env \<Rightarrow> browser_run \<Rightarrow> url \<Rightarrow> jsstr dict \<Rightarrow> MonitorPlanV1 \<Rightarrow> semantic_product \<Rightarrow> int \<Rightarrow>
     CompileOutcome io" where
  "live_finish P E run target requested provisional semantic modelCallCount =
     io_bind (extractObservation P E (run_session run) provisional) (\<lambda>observation.
     io_bind (io_lift (check_semantic P semantic observation)) (\<lambda>_.
     let final = adopt_identity observation requested provisional in
     io_bind (io_lift (validateObservation P observation final)) (\<lambda>_.
     io_bind (verifyFresh P E run final target) (\<lambda>_.
     io_ret \<lparr>out_plan = final, out_observation = observation, out_modelCallCount = modelCallCount,
       out_source = StagehandSource\<rparr>))))"

definition compileLive ::
    "platform \<Rightarrow> env \<Rightarrow> browser_run \<Rightarrow> ExecutionInput \<Rightarrow> url \<Rightarrow> WorkerConfig \<Rightarrow> CompileOutcome io" where
  "compileLive P E run input target config =
     io_bind (live_provisional P E run input target config) (\<lambda>(requested, provisional, semantic, modelCallCount).
     live_finish P E run target requested provisional semantic modelCallCount)"

section \<open>compileMonitor\<close>

text \<open>\<open>new URL(origin).origin\<close>\<close>

definition origin_of :: "platform \<Rightarrow> jsstr \<Rightarrow> exn + jsstr" where
  "origin_of P address =
    (case url_parse P address of
       None \<Rightarrow> Inl (External (ExtError (js ''Invalid URL'')))
     | Some u \<Rightarrow> Inr (url_origin u))"

definition chooseCompiler :: "platform \<Rightarrow> compiler_mode \<Rightarrow> url \<Rightarrow> jsstr \<Rightarrow> exn + compiler_mode" where
  "chooseCompiler P requested target fixtureOrigin =
    (case requested of
       Scripted \<Rightarrow> Inr Scripted
     | Live \<Rightarrow> Inr Live
     | Auto \<Rightarrow> rbind (origin_of P fixtureOrigin) (\<lambda>origin.
         Inr (if url_origin target = origin then Scripted else Live)))"

definition compileMonitor ::
    "platform \<Rightarrow> env \<Rightarrow> browser_run \<Rightarrow> ExecutionInput \<Rightarrow> url \<Rightarrow> jsstr \<Rightarrow> WorkerConfig \<Rightarrow> CompileOutcome io" where
  "compileMonitor P E run input target fixtureOrigin config =
     io_bind (io_lift (chooseCompiler P (in_compilerMode input) target fixtureOrigin)) (\<lambda>mode.
     io_bind (goto E (run_session run) (url_href target)) (\<lambda>_.
     io_bind (check_origin P E (run_session run) target) (\<lambda>_.
     if mode = Scripted then compileFixture P E run input target
     else compileLive P E run input target config)))"

section \<open>What compiling does to the outside\<close>

text \<open>
  Driving a page: navigation, inspection, safe actions and readings, all on one session;
  and what the live compiler asks in addition.
\<close>

definition drives :: "platform \<Rightarrow> session \<Rightarrow> call \<Rightarrow> bool" where
  "drives P s c \<longleftrightarrow> inspects s c \<or> reads_page s c \<or> (\<exists>x. c = CGoto s x) \<or>
     (\<exists>b. c = CAct s b \<and> assertSafeAction P b = Inr ())"

definition asks_model :: "session \<Rightarrow> call \<Rightarrow> bool" where
  "asks_model s c \<longleftrightarrow> c = CSnapshot s \<or> c = CExtract s \<or>
     (\<exists>x. c = CIntent x \<or> c = CObserve s x) \<or> (\<exists>d. c = CNodes d)"

lemma emits_goto: "emits (drives P s) (goto E s x)"
  unfolding goto_def by (rule emits_call) (simp add: drives_def)

lemma emits_check_origin: "emits Q (check_origin P E s target)"
  unfolding check_origin_def by (intro emits_intro)

lemma emits_extract_drives: "emits (drives P s) (extractObservation P E s plan)"
  by (rule emits_weaken [OF emits_extractObservation]) (simp add: drives_def)

lemma emits_replaySafeAction:
  "unicode_ok P \<Longrightarrow> emits (drives P (run_session run))
     (replaySafeAction P E (replay E run) (run_session run) a origin)"
  by (rule emits_weaken [OF run_replayer.replaySafeAction_safe]) (auto simp: drives_def)

lemma emits_replay_step:
  "unicode_ok P \<Longrightarrow> emits (drives P (run_session run)) (replay_step P E run target st)"
  unfolding replay_step_def by (intro emits_intro emits_replaySafeAction)

lemma emits_executeAndVerify:
  "unicode_ok P \<Longrightarrow> emits (drives P (run_session run)) (executeAndVerify P E run plan target)"
  unfolding executeAndVerify_def
  by (intro emits_intro emits_replay_step emits_extract_drives)

lemma emits_verifyFresh:
  "unicode_ok P \<Longrightarrow> emits (drives P (run_session run)) (verifyFresh P E run plan target)"
  unfolding verifyFresh_def
  by (intro emits_intro emits_goto emits_check_origin emits_executeAndVerify)

lemma emits_compileFixture:
  "unicode_ok P \<Longrightarrow> emits (drives P (run_session run)) (compileFixture P E run input target)"
  unfolding compileFixture_def Let_def
  by (intro emits_intro emits_executeAndVerify emits_verifyFresh)
    (auto simp: drives_def inspects_def)

lemma emits_observe_steps: "emits (asks_model s) (observe_steps P E s entries)"
  by (induction entries)
    (auto intro!: emits_intro simp: observe_step_def asks_model_def split: list.splits)

abbreviation live_call :: "platform \<Rightarrow> session \<Rightarrow> call \<Rightarrow> bool" where
  "live_call P s c \<equiv> drives P s c \<or> asks_model s c"

lemma emits_compileLive:
  assumes "unicode_ok P"
  shows "emits (live_call P (run_session run)) (compileLive P E run input target config)"
proof -
  let ?Q = "live_call P (run_session run)"
  have drives: "emits ?Q m" if "emits (drives P (run_session run)) m" for m :: "'a io"
    using that by (rule emits_weaken) simp
  have asks: "emits ?Q m" if "emits (asks_model (run_session run)) m" for m :: "'a io"
    using that by (rule emits_weaken) simp
  have "emits ?Q (live_request E input config)"
    unfolding live_request_def parseIntent_def require_model_def
    by (intro emits_intro) (simp add: asks_model_def)
  moreover have "emits ?Q (selectSnapshotNodes E snapshot requested config)" for snapshot requested
    unfolding selectSnapshotNodes_def require_model_def
    by (intro emits_intro) (simp add: asks_model_def)
  moreover have "emits ?Q (replay_step P E run target st)" for st
    by (intro drives emits_replay_step assms)
  moreover have "emits ?Q (extractObservation P E (run_session run) plan)" for plan
    by (intro drives emits_extract_drives)
  moreover have "emits ?Q (verifyFresh P E run plan target)" for plan
    by (intro drives emits_verifyFresh assms)
  moreover have "emits ?Q (observe_steps P E (run_session run) entries)" for entries
    by (intro asks emits_observe_steps)
  ultimately show ?thesis
    unfolding compileLive_def live_provisional_def live_finish_def Let_def
    by (intro emits_intro) (simp_all add: asks_model_def)
qed

lemma emits_compileMonitor:
  assumes "unicode_ok P"
  shows "emits (live_call P (run_session run)) (compileMonitor P E run input target fo config)"
  unfolding compileMonitor_def
  by (intro emits_intro emits_check_origin emits_compileLive assms
      emits_weaken [OF emits_goto [of P]] emits_weaken [OF emits_compileFixture [OF assms]]) auto

text \<open>Compiling makes calls of its own only, whatever the platform.\<close>

lemma emits_work_page:
  "emits work (extractObservation P E s plan)" "emits work (goto E s x)"
  by (rule emits_weaken [OF emits_extractObservation]) (auto simp: reads_page_def goto_def emits_call)

lemma emits_work_replay: "emits work (replaySafeAction P E (replay E run) s a origin)"
  unfolding replaySafeAction_def check_replacement_def assertSafeActionTarget_def locate_evidence_def replay_def Let_def
  by (intro emits_intro) simp_all

lemma emits_work_step: "emits work (replay_step P E run target st)"
  unfolding replay_step_def by (intro emits_intro emits_work_replay)

lemma emits_work_verify:
  "emits work (executeAndVerify P E run plan target)" "emits work (verifyFresh P E run plan target)"
  unfolding verifyFresh_def executeAndVerify_def
  by (intro emits_intro emits_work_step emits_work_page emits_check_origin)+

lemma emits_work_provisional: "emits work (live_provisional P E run input target config)"
proof -
  have "emits work (observe_steps P E s entries)" for s entries
    by (rule emits_weaken [OF emits_observe_steps]) (auto simp: asks_model_def)
  then show ?thesis
    unfolding live_provisional_def live_request_def parseIntent_def require_model_def selectSnapshotNodes_def Let_def
    by (intro emits_intro emits_work_step) simp_all
qed

lemma emits_work_compile: "emits work (compileMonitor P E run input target fo config)"
  unfolding compileMonitor_def compileFixture_def compileLive_def live_finish_def Let_def
  by (intro emits_intro emits_work_verify emits_work_provisional emits_work_page emits_check_origin) simp_all

lemmas continues_work = continues_run [of work]

section \<open>What compiling returns\<close>

lemma executeAndVerify_returns:
  "executeAndVerify P E run plan target w = (Inr obs, w') \<Longrightarrow> validateObservation P obs plan = Inr ()"
  unfolding executeAndVerify_def by (auto simp: io_bind_Inr)

lemma executeAndVerify_extracts:
  assumes "executeAndVerify P E run plan target w = (Inr obs, w')"
  shows "\<exists>w1. continues w w1 \<and> extractObservation P E (run_session run) plan w1 = (Inr obs, w')"
proof -
  obtain w1 where "io_each (replay_step P E run target) (plan_preparationSteps plan) w = (Inr (), w1)"
    "extractObservation P E (run_session run) plan w1 = (Inr obs, w')"
    using assms unfolding executeAndVerify_def by (auto simp: io_bind_Inr)
  moreover have "emits work (io_each (replay_step P E run target) (plan_preparationSteps plan))"
    by (intro emits_intro emits_work_step)
  ultimately show ?thesis using continues_work by blast
qed

text \<open>Extraction reads the extractors and the expected currency of a plan only.\<close>

lemma extractObservation_plan:
  assumes "plan_extractors p = plan_extractors q" "plan_expectedCurrency p = plan_expectedCurrency q"
  shows "extractObservation P E s p = extractObservation P E s q"
  unfolding extractObservation_def finish_observation_def currency_text_def assms by (rule refl)

text \<open>What a plan needs before its identity is known.\<close>

definition steps_ok :: "platform \<Rightarrow> prep_step list \<Rightarrow> bool" where
  "steps_ok P steps \<longleftrightarrow> list_all (\<lambda>st. assertSafeAction P (step_action st) = Inr () \<and>
     step_instruction st = act_description (step_action st)) steps"

definition extractors_ok :: "plan_extractors \<Rightarrow> bool" where
  "extractors_ok ex \<longleftrightarrow> strategyList (ex_title ex) \<and> strategyList (ex_price ex) \<and>
     optional_list (ex_currency ex) \<and> strategyList (ex_availability ex) \<and>
     list_all extractionStrategySchema (ex_selectedVariant ex) \<and> optional_list (ex_sku ex)"

lemma starts_with_append [simp]: "starts_with (js ''xpath='' @ s) (js ''xpath='')"
  by (simp add: starts_with_def js_def)

lemma starts_with_quoted [simp]: "starts_with (quoted attr v) (js ''xpath='')"
  by (simp add: starts_with_def quoted_def js_def)

lemma extractors_ok_fixture: "extractors_ok (plan_extractors (fixture_plan P v1 input target requested steps))"
  by (simp add: extractors_ok_def fixture_plan_def strategyList_def optional_list_def fixture_path_def
      fixture_variant_path_def list_all_iff)

lemma strategyFor_ok: "strategyFor snapshot i a = Inr st \<Longrightarrow> extractionStrategySchema st"
  by (auto simp: strategyFor_def split: if_splits)

lemma variant_strategy_ok: "variant_strategy snapshot sel e = Inr st \<Longrightarrow> extractionStrategySchema st"
  by (auto simp: variant_strategy_def Let_def intro: strategyFor_ok split: prod.splits if_splits)

lemma list_all2_conclusion: "list_all2 R xs ys \<Longrightarrow> (\<And>x y. R x y \<Longrightarrow> Q y) \<Longrightarrow> list_all Q ys"
  by (induction rule: list_all2_induct) auto

lemma optional_strategy_ok:
  "optional_strategy snapshot i = Inr (Some st) \<Longrightarrow> extractionStrategySchema st"
  by (auto simp: optional_strategy_def rbind_Inr_iff intro: strategyFor_ok split: if_splits)

lemma extractors_ok_live:
  assumes "live_strategies snapshot sel requested = Inr (title, price, availability, variants)"
    and "optional_strategy snapshot i = Inr sku" "optional_strategy snapshot j = Inr currency"
  shows "extractors_ok (buildLiveExtractors \<lparr>lx_requestedVariant = r, lx_title = title, lx_sku = sku,
    lx_price = price, lx_currency = currency, lx_availability = availability, lx_selectedVariant = variants\<rparr>)"
proof -
  have "extractionStrategySchema title" "extractionStrategySchema price" "extractionStrategySchema availability"
    and v: "list_all2 (\<lambda>x y. variant_strategy snapshot sel x = Inr y) requested variants"
    using assms(1) unfolding live_strategies_def
    by (auto simp: rbind_Inr_iff map_throw_Inr intro: strategyFor_ok)
  moreover have "list_all extractionStrategySchema variants"
    using v by (rule list_all2_conclusion) (rule variant_strategy_ok)
  ultimately show ?thesis
    using assms(2,3) by (cases sku; cases currency)
      (auto simp: extractors_ok_def buildLiveExtractors_def Let_def strategyList_def optional_list_def
        dest: optional_strategy_ok)
qed

lemma fixture_step_ok:
  "fixture_step P v1 e = Inr st \<Longrightarrow> assertSafeAction P (step_action st) = Inr () \<and>
     step_instruction st = act_description (step_action st) \<and> act_description (step_action st) \<noteq> []"
  by (auto simp: fixture_step_def rbind_Inr_iff Let_def split: prod.splits)

lemma observe_step_ok:
  assumes "observe_step P E s e w = (Inr st, w')"
  shows "assertSafeAction P (step_action st) = Inr () \<and>
     step_instruction st = act_description (step_action st)"
proof -
  obtain as w1 where as: "env_observe E (w_calls w) s (observe_prompt e) = Inr as" and
    r: "(case as of [] \<Rightarrow> io_throw (PlainError (js ''No safe action found for '' @ fst e @ js ''='' @ snd e))
       | action # _ \<Rightarrow> io_bind (io_lift (assertSafeAction P action)) (\<lambda>_.
         io_ret \<lparr>step_purpose = Variant, step_instruction = act_description action, step_action = action\<rparr>)) w1 =
       (Inr st, w')"
    using assms unfolding observe_step_def by (auto simp: io_bind_Inr io_call_Inr)
  then obtain a as' where "as = a # as'" by (cases as) auto
  with as r show ?thesis by (fastforce simp: io_bind_Inr)
qed

lemma observe_steps_ok:
  "observe_steps P E s es w = (Inr sts, w') \<Longrightarrow> st \<in> set sts \<Longrightarrow> assertSafeAction P (step_action st) = Inr () \<and>
     step_instruction st = act_description (step_action st)"
proof (induction es arbitrary: sts w)
  case (Cons e es)
  then obtain s0 sts' w1 w2 where "observe_step P E s e w = (Inr s0, w1)"
    "observe_steps P E s es w1 = (Inr sts', w2)" "sts = s0 # sts'"
    by (auto simp: io_bind_Inr)
  moreover have "w2 = w'" using Cons.prems(1) calculation by (auto simp: io_bind_Inr)
  ultimately show ?case
    using Cons.IH [of w1 sts'] Cons.prems(2) observe_step_ok [of P E s e w s0 w1] by auto
qed simp

text \<open>
  What every outcome has, for a run from \<open>w\<close> to \<open>w'\<close>. The plan's extractors gave the observation
  the plan was built from and validated against, and the last thing the run did was to verify
  the plan once more, after navigating to the target again.
\<close>

definition compiled_ok ::
    "platform \<Rightarrow> env \<Rightarrow> browser_run \<Rightarrow> url \<Rightarrow> world \<Rightarrow> CompileOutcome \<Rightarrow> world \<Rightarrow> bool" where
  "compiled_ok P E run target w out w' \<longleftrightarrow>
    plan_schemaVersion (out_plan out) = 1 \<and> plan_stagehandVersion (out_plan out) = js ''3.7.0'' \<and>
    plan_validatorVersion (out_plan out) = 1 \<and> plan_canonicalUrl (out_plan out) = url_href target \<and>
    steps_ok P (plan_preparationSteps (out_plan out)) \<and> extractors_ok (plan_extractors (out_plan out)) \<and>
    id_title (plan_ident (out_plan out)) = obs_title (out_observation out) \<and>
    obs_title (out_observation out) \<noteq> [] \<and>
    id_fingerprint (plan_ident (out_plan out)) =
      fingerprint P (obs_title (out_observation out)) (obs_sku (out_observation out)) \<and>
    validateObservation P (out_observation out) (out_plan out) = Inr () \<and>
    (\<exists>w1 w2 w3. continues w w1 \<and>
       extractObservation P E (run_session run) (out_plan out) w1 = (Inr (out_observation out), w2) \<and>
       continues w2 w3 \<and> verifyFresh P E run (out_plan out) target w3 = (Inr (), w'))"

lemma compiled_ok_earlier:
  "continues v w \<Longrightarrow> compiled_ok P E run target w out w' \<Longrightarrow> compiled_ok P E run target v out w'"
  unfolding compiled_ok_def by (blast intro: continues_trans)

lemma adopt_identity_simps [simp]:
  "plan_schemaVersion (adopt_identity obs r p) = plan_schemaVersion p"
  "plan_stagehandVersion (adopt_identity obs r p) = plan_stagehandVersion p"
  "plan_validatorVersion (adopt_identity obs r p) = plan_validatorVersion p"
  "plan_canonicalUrl (adopt_identity obs r p) = plan_canonicalUrl p"
  "plan_preparationSteps (adopt_identity obs r p) = plan_preparationSteps p"
  "plan_extractors (adopt_identity obs r p) = plan_extractors p"
  "plan_expectedCurrency (adopt_identity obs r p) = plan_expectedCurrency p"
  "id_title (plan_ident (adopt_identity obs r p)) = obs_title obs"
  "id_fingerprint (plan_ident (adopt_identity obs r p)) = obs_identityFingerprint obs"
  "id_requestedVariant (plan_ident (adopt_identity obs r p)) = r"
  by (simp_all add: adopt_identity_def)

lemma extract_adopted:
  "extractObservation P E s (adopt_identity obs r p) = extractObservation P E s p"
  by (rule extractObservation_plan) simp_all

lemma compileFixture_outcome:
  assumes "compileFixture P E run input target w = (Inr out, w')"
  shows "compiled_ok P E run target w out w' \<and> out_modelCallCount out = 0 \<and> out_source out = ScriptedSource \<and>
    list_all (\<lambda>st. act_description (step_action st) \<noteq> []) (plan_preparationSteps (out_plan out))"
proof -
  obtain v1 requested steps obs w1 w2 where
    start: "continues w w1" and
    steps: "map_throw (fixture_step P v1) requested = Inr steps" and
    ev: "executeAndVerify P E run (fixture_plan P v1 input target requested steps) target w1 = (Inr obs, w2)" and
    val: "validateObservation P obs (adopt_identity obs requested (fixture_plan P v1 input target requested steps)) = Inr ()" and
    fresh: "verifyFresh P E run (adopt_identity obs requested (fixture_plan P v1 input target requested steps)) target w2 = (Inr (), w')" and
    out: "out = \<lparr>out_plan = adopt_identity obs requested (fixture_plan P v1 input target requested steps),
      out_observation = obs, out_modelCallCount = 0, out_source = ScriptedSource\<rparr>"
    using assms unfolding compileFixture_def Let_def io_bind_Inr io_call_Inr io_lift_Inr io_ret_Inr
    by (elim exE conjE) (rule that, auto)
  obtain w0 where ex: "continues w1 w0"
    "extractObservation P E (run_session run) (fixture_plan P v1 input target requested steps) w0 = (Inr obs, w2)"
    using executeAndVerify_extracts [OF ev] by blast
  have "list_all (\<lambda>st. assertSafeAction P (step_action st) = Inr () \<and>
      step_instruction st = act_description (step_action st) \<and> act_description (step_action st) \<noteq> []) steps"
    using steps unfolding map_throw_Inr by (rule list_all2_conclusion) (rule fixture_step_ok)
  then have "steps_ok P steps" "list_all (\<lambda>st. act_description (step_action st) \<noteq> []) steps"
    by (auto simp: steps_ok_def list_all_iff)
  moreover have "plan_preparationSteps (fixture_plan P v1 input target requested steps) = steps"
    "plan_schemaVersion (fixture_plan P v1 input target requested steps) = 1"
    "plan_stagehandVersion (fixture_plan P v1 input target requested steps) = js ''3.7.0''"
    "plan_validatorVersion (fixture_plan P v1 input target requested steps) = 1"
    "plan_canonicalUrl (fixture_plan P v1 input target requested steps) = url_href target"
    by (simp_all add: fixture_plan_def)
  ultimately show ?thesis
    using extractObservation_title [OF ex(2)] val fresh extractors_ok_fixture continues_trans [OF start ex(1)] ex(2)
    by (auto simp: compiled_ok_def out extract_adopted)
qed

lemma live_provisional_ok:
  assumes "live_provisional P E run input target config w = (Inr (requested, plan, semantic, calls), w')"
  shows "\<exists>steps ex cur. plan = live_plan P target requested steps ex cur \<and> steps_ok P steps \<and>
    extractors_ok ex \<and> calls \<ge> 2"
proof -
  have ok: "steps_ok P steps"
    if "observe_steps P E (run_session run) es w1 = (Inr steps, w2)" for es steps w1 w2
    using observe_steps_ok [OF that] by (auto simp: steps_ok_def list_all_iff)
  show ?thesis
    using assms unfolding live_provisional_def Let_def live_request_def
    by (clarsimp simp: io_bind_Inr split: if_split_asm) (fastforce dest!: ok extractors_ok_live)+
qed

lemma compileLive_outcome:
  assumes "compileLive P E run input target config w = (Inr out, w')"
  shows "compiled_ok P E run target w out w' \<and> out_modelCallCount out \<ge> 2 \<and> out_source out = StagehandSource"
proof -
  obtain requested plan semantic calls w1 where
    p: "live_provisional P E run input target config w = (Inr (requested, plan, semantic, calls), w1)" and
    f: "live_finish P E run target requested plan semantic calls w1 = (Inr out, w')"
    using assms unfolding compileLive_def by (auto simp: io_bind_Inr)
  obtain obs w2 where ex: "extractObservation P E (run_session run) plan w1 = (Inr obs, w2)" and
    val: "validateObservation P obs (adopt_identity obs requested plan) = Inr ()" and
    fresh: "verifyFresh P E run (adopt_identity obs requested plan) target w2 = (Inr (), w')" and
    out: "out = \<lparr>out_plan = adopt_identity obs requested plan, out_observation = obs,
      out_modelCallCount = calls, out_source = StagehandSource\<rparr>"
    using f unfolding live_finish_def Let_def by (auto simp: io_bind_Inr)
  have "continues w w1" by (rule continues_work [OF emits_work_provisional p])
  with live_provisional_ok [OF p] extractObservation_title [OF ex] val fresh ex show ?thesis
    by (auto simp: compiled_ok_def out live_plan_def extract_adopted)
qed

lemma compileMonitor_outcome:
  assumes "compileMonitor P E run input target fo config w = (Inr out, w')"
  shows "compiled_ok P E run target w out w' \<and>
    (out_source out = ScriptedSource \<longrightarrow>
       list_all (\<lambda>st. act_description (step_action st) \<noteq> []) (plan_preparationSteps (out_plan out)))"
proof -
  obtain w1 where w1: "continues w w1" "compileFixture P E run input target w1 = (Inr out, w') \<or>
      compileLive P E run input target config w1 = (Inr out, w')"
    using assms unfolding compileMonitor_def check_origin_def goto_def
    by (auto simp: io_bind_Inr io_call_Inr split: if_split_asm)
  then have "compiled_ok P E run target w1 out w'" using compileFixture_outcome compileLive_outcome by blast
  from compiled_ok_earlier [OF w1(1) this] show ?thesis
    using w1(2) compileFixture_outcome compileLive_outcome by fastforce
qed

section \<open>Properties\<close>

text \<open>
  C26. A compiled plan is acceptable later. The plan of every outcome of \<open>compileMonitor\<close>, scripted
  or live, names the validated target as its canonical URL and has only safe preparation
  actions; its extractors gave, in this run, the observation it was built from, which it
  accepts; and the last thing the run did was to verify it once more after a fresh navigation.
  It satisfies \<open>monitorPlanV1Schema\<close>, which a check or repair parses it with, exactly when its
  preparation actions have a description, and the scripted compiler's always have one. (The
  description of a live plan's action is whatever string Stagehand's \<open>observe\<close> gave it.) The
  hypotheses are about code outside: SHA-256 prints at least eight digits, and the address of
  an accepted target is a URL.
\<close>

theorem compiled_plan_accepted:
  assumes "compileMonitor P E run input target fo config w = (Inr out, w')"
    and "\<And>b. 8 \<le> length (sha256_hex P b)" "is_url (url_href target)"
  shows "(monitorPlanV1Schema is_url (out_plan out) \<longleftrightarrow>
      list_all (\<lambda>st. act_description (step_action st) \<noteq> []) (plan_preparationSteps (out_plan out))) \<and>
    (out_source out = ScriptedSource \<longrightarrow> monitorPlanV1Schema is_url (out_plan out)) \<and>
    plan_canonicalUrl (out_plan out) = url_href target \<and>
    (\<forall>st \<in> set (plan_preparationSteps (out_plan out)). assertSafeAction P (step_action st) = Inr ()) \<and>
    (\<exists>w1 w2 w3. continues w w1 \<and>
       extractObservation P E (run_session run) (out_plan out) w1 = (Inr (out_observation out), w2) \<and>
       validateObservation P (out_observation out) (out_plan out) = Inr () \<and>
       continues w2 w3 \<and> verifyFresh P E run (out_plan out) target w3 = (Inr (), w'))"
proof -
  note out = compileMonitor_outcome [OF assms(1)]
  then have ok: "compiled_ok P E run target w out w'" ..
  have "act_selector a \<noteq> []" if "assertSafeAction P a = Inr ()" for a
    using that by (auto simp: assertSafeAction_Inr starts_with_def js_def)
  moreover have "8 \<le> length (fingerprint P t sku)" for t sku
    unfolding fingerprint_def by (rule assms(2))
  ultimately have "monitorPlanV1Schema is_url (out_plan out) \<longleftrightarrow>
      list_all (\<lambda>st. act_description (step_action st) \<noteq> []) (plan_preparationSteps (out_plan out))"
    using ok assms(3)
    by (auto simp: compiled_ok_def monitorPlanV1Schema_def steps_ok_def extractors_ok_def actionSchema_def
        list_all_iff)
  then show ?thesis using out ok unfolding compiled_ok_def steps_ok_def list_all_iff by blast
qed

end
