(* ===== verification/UsdText.thy ===== *)
theory UsdText
  imports Validation JsRegexLaws
begin

text \<open>
  The text that \<open>Intl.NumberFormat("en-US", { style: "currency", currency: "USD" })\<close>
  gives for a non-negative amount of cents, and the proof that \<open>parsePrice\<close> reads it back:
  which match each of the five regular expressions of \<open>parsePrice\<close> returns on it, what the
  separator logic leaves, and that the two roundings of binary64 cancel.
\<close>

section \<open>Formatting\<close>

definition pad2 :: "nat \<Rightarrow> jsstr" where
  "pad2 n = [48 + int (n div 10 mod 10), 48 + int (n mod 10)]"

definition pad3 :: "nat \<Rightarrow> jsstr" where
  "pad3 n = [48 + int (n div 100 mod 10), 48 + int (n div 10 mod 10), 48 + int (n mod 10)]"

text \<open>Grouping of the integer part: the leading group and the following groups of three.\<close>

fun lead_group :: "nat \<Rightarrow> jsstr" where
  "lead_group n = (if n < 1000 then show_nat n else lead_group (n div 1000))"

fun groups3 :: "nat \<Rightarrow> jsstr list" where
  "groups3 n = (if n < 1000 then [] else groups3 (n div 1000) @ [pad3 (n mod 1000)])"

declare lead_group.simps [simp del] groups3.simps [simp del]

definition commas :: "jsstr list \<Rightarrow> jsstr" where
  "commas gs = concat (map (\<lambda>g. 44 # g) gs)"

definition usd_text :: "nat \<Rightarrow> jsstr" where
  "usd_text k = 36 # lead_group (k div 100) @ commas (groups3 (k div 100)) @ 46 # pad2 (k mod 100)"

section \<open>Shape of the text\<close>

lemma is_digit_plus [simp]: "is_digit (48 + int (n mod 10))"
  by (simp add: is_digit_def)

lemma pad_digits [simp]: "list_all is_digit (pad2 n)" "list_all is_digit (pad3 n)"
  by (simp_all add: pad2_def pad3_def)

lemma length_pad [simp]: "length (pad2 n) = 2" "length (pad3 n) = 3"
  by (simp_all add: pad2_def pad3_def)

lemma length_show_nat_small: "n < 1000 \<Longrightarrow> length (show_nat n) \<le> 3"
proof -
  assume "n < 1000"
  then have "n div 10 div 10 < 10" by simp
  then show ?thesis
    by (subst show_nat.simps, subst show_nat.simps, subst show_nat.simps) simp
qed

lemma lead_group_shape:
  "list_all is_digit (lead_group n) \<and> lead_group n \<noteq> [] \<and> length (lead_group n) \<le> 3"
proof (induction n rule: lead_group.induct)
  case (1 n)
  show ?case
  proof (cases "n < 1000")
    case True
    then show ?thesis
      by (simp add: lead_group.simps [of n] show_nat_digits length_show_nat_small)
  next
    case False
    then show ?thesis using 1 by (simp add: lead_group.simps [of n])
  qed
qed

lemma groups3_shape: "\<forall>g \<in> set (groups3 n). list_all is_digit g \<and> length g = 3"
proof (induction n rule: groups3.induct)
  case (1 n)
  then show ?case by (cases "n < 1000") (auto simp: groups3.simps [of n])
qed

lemma dec_val_pad3:
  assumes n: "n < 1000"
  shows "dec_val (ds @ pad3 n) = 1000 * dec_val ds + int n"
proof -
  define a b c where "a = n div 100 mod 10" and "b = n div 10 mod 10" and "c = n mod 10"
  have "n div 100 = a" using n by (simp add: a_def)
  moreover have "n div 10 = 10 * (n div 100) + b"
    using div_mult2_eq [of n 10 10] by (simp add: b_def)
  moreover have "n = 10 * (n div 10) + c" by (simp add: c_def)
  ultimately have "n = 100 * a + 10 * b + c" by linarith
  moreover have "pad3 n = [48 + int a, 48 + int b, 48 + int c]"
    by (simp add: pad3_def a_def b_def c_def)
  ultimately show ?thesis by (simp add: dec_val_def)
qed

lemma dec_val_pad2:
  assumes n: "n < 100"
  shows "dec_val (ds @ pad2 n) = 100 * dec_val ds + int n"
proof -
  define a b where "a = n div 10 mod 10" and "b = n mod 10"
  have "n = 10 * a + b" using n by (simp add: a_def b_def)
  moreover have "pad2 n = [48 + int a, 48 + int b]" by (simp add: pad2_def a_def b_def)
  ultimately show ?thesis by (simp add: dec_val_def)
qed

text \<open>The digits of the integer part denote it.\<close>

lemma dec_val_groups: "dec_val (lead_group n @ concat (groups3 n)) = int n"
proof (induction n rule: groups3.induct)
  case (1 n)
  show ?case
  proof (cases "n < 1000")
    case True
    then show ?thesis by (simp add: lead_group.simps [of n] groups3.simps [of n])
  next
    case False
    have "dec_val (lead_group n @ concat (groups3 n)) =
      dec_val ((lead_group (n div 1000) @ concat (groups3 (n div 1000))) @ pad3 (n mod 1000))"
      using False by (simp add: lead_group.simps [of n] groups3.simps [of n])
    also have "\<dots> = 1000 * int (n div 1000) + int (n mod 1000)"
      using 1 False by (simp only: dec_val_pad3) simp
    also have "\<dots> = int (1000 * (n div 1000) + n mod 1000)"
      by (simp only: of_nat_add of_nat_mult of_nat_numeral)
    also have "\<dots> = int n" by (simp only: mult_div_mod_eq)
    finally show ?thesis .
  qed
qed

section \<open>The number is found\<close>

text \<open>One grouping mark and three digits.\<close>

abbreviation group_re :: re where
  "group_re \<equiv> Seq (Cls [(44, 44), (46, 46)]) (Rep 3 0 digit_re)"

lemma first_group:
  assumes "list_all is_digit g" "length g = 3" "s = [] \<or> \<not> is_digit (hd s)"
  shows "first False group_re (p, 44 # g @ s, k) (last_opt g, s, k)"
proof (rule first_Seq)
  show "first False (Cls [(44, 44), (46, 46)]) (p, 44 # g @ s, k) (Some 44, g @ s, k)"
    by (rule first_Cls) (simp add: cls_has_def in_ranges_def)
  have "g \<noteq> []" using assms(2) by auto
  then show "first False (Rep 3 0 digit_re) (Some 44, g @ s, k) (last_opt g, s, k)"
    using first_Rep_digits [of g s 3 0 "Some 44" k] assms by simp
qed

text \<open>The fraction is too short to be a group.\<close>

lemma no_group_fraction:
  assumes "list_all is_digit f" "length f = 2"
  shows "matches False group_re (p, 46 # f, k) = []"
proof -
  have "matches False (Cls [(44, 44), (46, 46)]) (p, 46 # f, k) = [(Some 46, f, k)]"
    by (simp add: cls_has_def in_ranges_def)
  moreover have "matches False (Rep 3 0 digit_re) (Some 46, f, k) = []"
    using Rep_digits_fail [of f "[]" 3 0 "Some 46" k] assms by simp
  ultimately show ?thesis by simp
qed

lemma no_group_digit: "t = [] \<or> is_digit (hd t) \<Longrightarrow> matches False group_re (p, t, k) = []"
  by (cases t) (auto simp: cls_has_def in_ranges_def is_digit_def)

lemma digits_suffix:
  assumes "list_all is_digit d" "list_all is_digit f" "d @ 46 # f = w @ t"
  shows "t = 46 # f \<or> t = [] \<or> is_digit (hd t)"
proof -
  from assms(3) consider us where "t = us @ 46 # f" "d = w @ us" | us where "46 # f = us @ t"
    by (auto simp: append_eq_append_conv2)
  then show ?thesis
  proof cases
    case 1
    then show ?thesis using assms(1) by (cases us) auto
  next
    case 2
    then show ?thesis using assms(2) by (cases us; cases t) auto
  qed
qed

text \<open>Without a grouping mark the grouped alternative has no match at all.\<close>

lemma no_grouped_alternative:
  assumes d: "list_all is_digit d" and f: "list_all is_digit f" "length f = 2"
  shows "matches False (Seq (Rep 1 2 digit_re) (plus_re group_re)) (p, d @ 46 # f, k) = []"
proof -
  have "matches False group_re a = []" if "a \<in> set (matches False (Rep 1 2 digit_re) (p, d @ 46 # f, k))" for a
  proof -
    from that have "moves (p, d @ 46 # f, k) a" by (simp only: set_matches mem_Collect_eq mt_moves)
    then obtain w where w: "d @ 46 # f = w @ rest_of a" by (auto simp: moves_def)
    then consider "rest_of a = 46 # f" | "rest_of a = [] \<or> is_digit (hd (rest_of a))"
      using digits_suffix [OF d f(1)] by blast
    then show ?thesis
    proof cases
      case 1
      then show ?thesis using no_group_fraction [OF f, of "fst a" "snd (snd a)"] by (cases a) simp
    next
      case 2
      then show ?thesis using no_group_digit [of "rest_of a" "fst a" "snd (snd a)"] by (cases a) simp
    qed
  qed
  then show ?thesis by (blast intro: Seq_fail plus_fail)
qed

lemma run_groups:
  assumes "\<forall>g \<in> set gs. list_all is_digit g \<and> length g = 3"
    and "list_all is_digit f" "length f = 2"
  shows "\<exists>q. star_run False group_re (p, commas gs @ 46 # f, k) (q, 46 # f, k)"
  using assms(1)
proof (induction gs arbitrary: p)
  case Nil
  have "star_run False group_re (p, 46 # f, k) (p, 46 # f, k)"
    by (rule run_stop) (rule no_group_fraction [OF assms(2,3)])
  then show ?case by (auto simp: commas_def)
next
  case (Cons g gs)
  let ?s = "commas gs @ 46 # f"
  have "hd ?s = 44 \<or> hd ?s = 46" by (cases gs) (simp_all add: commas_def)
  then have "\<not> is_digit (hd ?s)" by (auto simp: is_digit_def)
  then have g: "first False group_re (p, 44 # g @ ?s, k) (last_opt g, ?s, k)"
    using Cons.prems by (intro first_group) auto
  from Cons obtain q where "star_run False group_re (last_opt g, ?s, k) (q, 46 # f, k)" by auto
  then have "star_run False group_re (p, 44 # g @ ?s, k) (q, 46 # f, k)"
    using run_step [OF g] by simp
  then show ?case by (auto simp: commas_def)
qed

lemma first_fraction:
  assumes "list_all is_digit f" "length f = 2"
  shows "first False fraction_re (q, 46 # f, k) (last_opt f, [], k)"
  unfolding fraction_re_def
proof (rule first_opt)
  have "f \<noteq> []" using assms(2) by auto
  show "first False (Seq (Cls [(46, 46), (44, 44)]) (Rep 1 1 digit_re)) (q, 46 # f, k) (last_opt f, [], k)"
  proof (rule first_Seq)
    show "first False (Cls [(46, 46), (44, 44)]) (q, 46 # f, k) (Some 46, f, k)"
      by (rule first_Cls) (simp add: cls_has_def in_ranges_def)
    show "first False (Rep 1 1 digit_re) (Some 46, f, k) (last_opt f, [], k)"
      using first_Rep_digits [of f "[]" 1 1 "Some 46" k] assms \<open>f \<noteq> []\<close> by simp
  qed
qed simp

lemma no_spaced_group:
  assumes "32 \<notin> set s"
  shows "matches False (Seq (Rep 1 2 digit_re) (Seq (plus_re (Seq (ch 32) (Rep 3 0 digit_re))) fraction_re))
    (p, s, k) = []"
proof (rule cannot_matches)
  show "list_all (\<lambda>c. c \<noteq> 32) s" using assms by (auto simp: list_all_iff)
  show "cannot (\<lambda>c. c \<noteq> 32) False
    (Seq (Rep 1 2 digit_re) (Seq (plus_re (Seq (ch 32) (Rep 3 0 digit_re))) fraction_re))"
    by (auto simp: plus_re_def ch_def same_unit_def)
qed

lemma digits_not_32: "list_all is_digit w \<Longrightarrow> 32 \<notin> set w"
  by (auto simp: list_all_iff is_digit_def)

text \<open>
  The whole amount is the first match of the number pattern: through the grouped
  alternative when there is a comma, through the plain one otherwise.
\<close>

lemma first_numeric:
  assumes d: "list_all is_digit d" "d \<noteq> []" "length d \<le> 3"
    and gs: "\<forall>g \<in> set gs. list_all is_digit g \<and> length g = 3"
    and f: "list_all is_digit f" "length f = 2"
  shows "first False numeric_re (p, d @ commas gs @ 46 # f, k) (last_opt f, [], k)"
proof -
  let ?s = "commas gs @ 46 # f"
  have "32 \<notin> set (d @ ?s)"
    using d(1) gs f(1) by (auto simp: commas_def dest: digits_not_32)
  note alt1 = no_spaced_group [OF this]
  have nd: "\<not> is_digit (hd ?s)"
    by (cases gs) (simp_all add: commas_def is_digit_def)
  have lead: "first False (Rep 1 2 digit_re) (p, d @ ?s, k) (last_opt d, ?s, k)"
    using first_Rep_digits [of d ?s 1 2 p k] d nd by (cases d) auto
  have "\<exists>q. first False (Alt (Seq (Rep 1 2 digit_re) (plus_re group_re)) (plus_re digit_re))
      (p, d @ ?s, k) (q, 46 # f, k)"
  proof (cases gs)
    case Nil
    have "matches False (Seq (Rep 1 2 digit_re) (plus_re group_re)) (p, d @ 46 # f, k) = []"
      by (rule no_grouped_alternative [OF d(1) f])
    moreover have "first False (plus_re digit_re) (p, d @ 46 # f, k) (last_opt d, 46 # f, k)"
      using first_digits d by (simp add: is_digit_def)
    ultimately have "first False (Alt (Seq (Rep 1 2 digit_re) (plus_re group_re)) (plus_re digit_re))
        (p, d @ 46 # f, k) (last_opt d, 46 # f, k)"
      by (rule first_AltR)
    moreover have "?s = 46 # f" using Nil by (simp add: commas_def)
    ultimately show ?thesis by metis
  next
    case (Cons g gs')
    let ?t = "commas gs' @ 46 # f"
    have s: "?s = 44 # g @ ?t" using Cons by (simp add: commas_def)
    have "\<not> is_digit (hd ?t)" by (cases gs') (simp_all add: commas_def is_digit_def)
    then have "first False group_re (last_opt d, ?s, k) (last_opt g, ?t, k)"
      unfolding s using gs Cons by (intro first_group) auto
    moreover obtain q where "star_run False group_re (last_opt g, ?t, k) (q, 46 # f, k)"
      using run_groups [of gs' f "last_opt g" k] gs Cons f by auto
    ultimately have "first False (plus_re group_re) (last_opt d, ?s, k) (q, 46 # f, k)"
      by (rule first_plus)
    with lead show ?thesis by (blast intro: first_AltL first_Seq)
  qed
  then obtain q where "first False (Alt (Seq (Rep 1 2 digit_re) (plus_re group_re)) (plus_re digit_re))
      (p, d @ ?s, k) (q, 46 # f, k)" ..
  from first_Seq [OF this first_fraction [OF f]] show ?thesis
    unfolding numeric_re_def by (rule first_AltR [OF alt1])
qed

section \<open>Nothing else is found\<close>

definition amount_unit :: "code_unit \<Rightarrow> bool" where
  "amount_unit c \<longleftrightarrow> is_digit c \<or> c = 44 \<or> c = 46"

definition price_unit :: "code_unit \<Rightarrow> bool" where
  "price_unit c \<longleftrightarrow> amount_unit c \<or> c = 36"

lemma no_letter:
  "price_unit d \<Longrightarrow> 65 \<le> c \<Longrightarrow> \<not> same_unit ic c d"
  by (auto simp: price_unit_def amount_unit_def same_unit_def lower_unit_def upper_unit_def
      is_digit_def is_ascii_upper_def is_ascii_lower_def)

lemma cannot_word: "65 \<le> c \<Longrightarrow> cannot price_unit ic (lit (c # w))"
  by (simp add: ch_def no_letter)

lemma cannot_str:
  "cannot price_unit ic (str (c # w))" if "65 \<le> (of_char c :: int)"
  using cannot_word [OF that] by (simp add: str_def js_def)

lemma cannot_ambiguous: "cannot price_unit True ambiguous_re"
proof -
  have "\<not> same_unit True 47 d" if "price_unit d" for d
    using that by (auto simp: price_unit_def amount_unit_def same_unit_def lower_unit_def
        upper_unit_def is_digit_def is_ascii_upper_def is_ascii_lower_def)
  then show ?thesis by (simp add: ambiguous_re_def cannot_str ch_def)
qed

lemma cannot_unsupported: "cannot price_unit False unsupported_sign_re"
  by (auto simp: unsupported_sign_re_def price_unit_def amount_unit_def cls_has_def in_ranges_def
      is_digit_def)

lemma cannot_jpy: "cannot price_unit True jpy_re"
  by (simp add: jpy_re_def cannot_str)

lemma cannot_code: "cannot price_unit True code_re"
  by (simp add: code_re_def cannot_str)

lemma cannot_symbol: "cannot amount_unit True symbol_re"
proof -
  have "\<not> same_unit True 36 d" "\<not> same_unit True 8364 d" "\<not> same_unit True 163 d"
    "65 \<le> c \<Longrightarrow> \<not> same_unit True c d" if "amount_unit d" for c d
    using that by (auto simp: amount_unit_def same_unit_def lower_unit_def
        upper_unit_def is_digit_def is_ascii_upper_def is_ascii_lower_def)
  then show ?thesis by (simp add: symbol_re_def str_def js_def ch_def)
qed

lemma no_numeric: "s = [] \<or> \<not> is_digit (hd s) \<Longrightarrow> matches False numeric_re (p, s, k) = []"
  using no_digit [of s p k] by (simp add: numeric_re_def plus_re_def)

lemma symbols_of_amount:
  assumes "list_all amount_unit t"
  shows "match_all True symbol_re (36 # t) = [(0, [36])]"
proof -
  have "first True symbol_re (None, 36 # t, None) (Some 36, t, None)"
    by (simp add: first_def symbol_re_def str_def js_def ch_def same_unit_def lower_unit_def
        upper_unit_def is_ascii_upper_def is_ascii_lower_def)
  then have "find_from True symbol_re None (36 # t) 0 =
      Some (0, (None, 36 # t, None), (Some 36, t, None))"
    by (rule find_from_hit)
  moreover have "find_from True symbol_re (Some 36) t 1 = None"
    by (rule cannot_find [OF cannot_symbol assms])
  ultimately show ?thesis by (simp add: match_all_def matched_def)
qed

lemma currencies_of_amount:
  assumes "list_all amount_unit t"
  shows "detectedCurrencies (36 # t) = [USD]"
proof -
  have "detect_symbol (0, [36]) [] = [USD]" by code_simp
  moreover have "list_all price_unit (36 # t)"
    using assms by (auto simp: price_unit_def list_all_iff)
  ultimately show ?thesis
    using symbols_of_amount [OF assms] cannot_match_all [OF cannot_code]
    by (simp add: detectedCurrencies_def)
qed

lemma number_of_amount:
  assumes d: "list_all is_digit d" "d \<noteq> []" "length d \<le> 3"
    and gs: "\<forall>g \<in> set gs. list_all is_digit g \<and> length g = 3"
    and f: "list_all is_digit f" "length f = 2"
    and t: "t = d @ commas gs @ 46 # f"
  shows "match_all False numeric_re (36 # t) = [(1, t)]"
proof -
  have "matches False numeric_re (None, 36 # t, None) = []"
    by (rule no_numeric) (simp add: is_digit_def)
  then have "find_from False numeric_re None (36 # t) 0 =
      Some (1, (Some 36, t, None), (last_opt f, [], None))"
    using find_from_hit [OF first_numeric [OF d gs f, of "Some 36" None], of 1] t by simp
  moreover have "find_from False numeric_re (last_opt f) [] i = None" for i
    by (simp add: no_numeric)
  ultimately show ?thesis using t by (simp add: match_all_def matched_def)
qed

section \<open>What the separators leave\<close>

lemma last_index_of_less: "last_index_of d s = Some i \<Longrightarrow> i < length s"
  by (induction s arbitrary: i) (auto split: option.splits if_splits)

lemma last_index_of_append_left: "d \<notin> set t \<Longrightarrow> last_index_of d (s @ t) = last_index_of d s"
proof (induction s)
  case Nil
  then show ?case by (simp add: last_index_of_None)
qed simp

lemma digits_not_sep: "list_all is_digit w \<Longrightarrow> 44 \<notin> set w \<and> 46 \<notin> set w \<and> 32 \<notin> set w"
  by (auto simp: list_all_iff is_digit_def)

lemma remove_unit_absent: "c \<notin> set s \<Longrightarrow> remove_unit c s = s"
  unfolding remove_unit_def by (rule filter_True) auto

lemma remove_commas:
  "\<forall>g \<in> set gs. list_all is_digit g \<Longrightarrow> remove_unit 44 (commas gs) = concat gs"
proof (induction gs)
  case (Cons g gs)
  then have "remove_unit 44 g = g" by (auto intro: remove_unit_absent dest: digits_not_sep)
  with Cons show ?case by (simp add: commas_def remove_unit_def)
qed (simp add: commas_def remove_unit_def)

lemma plain_decimal_amount:
  assumes d: "list_all is_digit d"
    and gs: "\<forall>g \<in> set gs. list_all is_digit g \<and> length g = 3"
    and f: "list_all is_digit f" "length f = 2"
  shows "plain_decimal (d @ commas gs @ 46 # f) = d @ concat gs @ 46 # f"
proof -
  let ?t = "d @ commas gs @ 46 # f"
  have ds: "44 \<notin> set d" "46 \<notin> set d" "32 \<notin> set d" "44 \<notin> set f" "46 \<notin> set f" "32 \<notin> set f"
    using digits_not_sep d f(1) by auto
  have c: "46 \<notin> set (commas gs)" "32 \<notin> set (commas gs)"
    using gs by (auto simp: commas_def dest: digits_not_sep)
  have t32: "remove_unit 32 ?t = ?t" using ds c by (intro remove_unit_absent) auto
  have dot: "last_index_of 46 ?t = Some (length (d @ commas gs))"
    using last_index_of_append [OF ds(5), of "d @ commas gs"] by simp
  show ?thesis
  proof (cases gs)
    case Nil
    then have "last_index_of 44 ?t = None" using ds by (simp add: last_index_of_None commas_def)
    with dot show ?thesis
      using Nil f(2) ds t32 remove_unit_absent [OF ds(2)]
      by (simp add: plain_decimal_def strip_separator_def commas_def)
  next
    case (Cons g gs')
    have "last_index_of 44 ?t = last_index_of 44 (d @ commas gs)"
      using last_index_of_append_left [of 44 "46 # f" "d @ commas gs"] ds by simp
    moreover have "44 \<in> set (commas gs)" using Cons by (simp add: commas_def)
    ultimately obtain lc where lc: "last_index_of 44 ?t = Some lc" "lc < length (d @ commas gs)"
      by (metis UnCI last_index_of_None last_index_of_less not_Some_eq set_append)
    have "remove_unit 44 ?t = d @ concat gs @ 46 # f"
      using remove_commas [of gs] gs remove_unit_absent [OF ds(1)] remove_unit_absent [OF ds(4)]
      by (simp add: remove_unit_def)
    with dot lc t32 show ?thesis by (simp add: plain_decimal_def)
  qed
qed

section \<open>The round trip\<close>

definition amount :: "nat \<Rightarrow> jsstr" where
  "amount k = lead_group (k div 100) @ commas (groups3 (k div 100)) @ 46 # pad2 (k mod 100)"

lemma usd_text_amount: "usd_text k = 36 # amount k"
  by (simp add: usd_text_def amount_def)

lemma amount_units: "list_all amount_unit (amount k)"
proof -
  have "list_all is_digit (lead_group (k div 100))" "list_all is_digit (pad2 (k mod 100))"
    "\<forall>g \<in> set (groups3 (k div 100)). list_all is_digit g"
    using lead_group_shape groups3_shape by auto
  then show ?thesis by (auto simp: amount_def commas_def amount_unit_def list_all_iff)
qed

lemma usd_text_units: "list_all price_unit (usd_text k)"
  using amount_units [of k] by (auto simp: usd_text_amount price_unit_def list_all_iff)

lemma compact_usd_text:
  "trim (map (\<lambda>c. if c = 160 \<or> c = 8239 then 32 else c) (usd_text k)) = usd_text k"
proof -
  have "map (\<lambda>c. if c = 160 \<or> c = 8239 then 32 else c) (usd_text k) = usd_text k"
    using usd_text_units [of k]
    by (intro map_idI) (auto simp: list_all_iff price_unit_def amount_unit_def is_digit_def)
  moreover have "trim (usd_text k) = usd_text k"
  proof (rule trim_id)
    show "\<not> is_space (last (usd_text k))"
      by (simp add: usd_text_def pad2_def is_digit_not_space)
  qed (simp_all add: usd_text_def is_space_def space_ranges_def in_ranges_def)
  ultimately show ?thesis by simp
qed

lemma number_of_usd_text: "match_all False numeric_re (usd_text k) = [(1, amount k)]"
  unfolding usd_text_amount
  by (rule number_of_amount [OF _ _ _ groups3_shape])
    (use lead_group_shape in \<open>auto simp: amount_def\<close>)

text \<open>The text between the dollar sign and the end is the decimal value of the amount.\<close>

lemma value_of_amount: "js_number (plain_decimal (amount k)) = fl (of_nat k / 100)"
proof -
  define d gs f where "d = lead_group (k div 100)" and "gs = groups3 (k div 100)"
    and "f = pad2 (k mod 100)"
  have d: "list_all is_digit d" "d \<noteq> []" using lead_group_shape by (auto simp: d_def)
  have gs: "\<forall>g \<in> set gs. list_all is_digit g \<and> length g = 3"
    using groups3_shape by (simp add: gs_def)
  have f: "list_all is_digit f" "length f = 2" "f \<noteq> []"
    using length_pad(1) [of "k mod 100"] by (auto simp: f_def simp del: length_pad)
  have "dec_val ((d @ concat gs) @ f) = 100 * int (k div 100) + int (k mod 100)"
    unfolding f_def d_def gs_def by (simp add: dec_val_pad2 dec_val_groups del: append_assoc)
  also have "\<dots> = int k" by (metis mult_div_mod_eq of_nat_add of_nat_mult of_nat_numeral)
  finally have val: "dec_val ((d @ concat gs) @ f) = int k" .
  have "list_all is_digit (d @ concat gs)" "d @ concat gs \<noteq> []"
    using d gs by (auto simp: list_all_iff)
  from js_number_fraction [OF this f(1,3)] val f(2)
  have "js_number ((d @ concat gs) @ 46 # f) = fl (of_nat k / 100)" by simp
  then show ?thesis
    using plain_decimal_amount [OF d(1) gs f(1,2)] by (simp add: amount_def d_def gs_def f_def)
qed

theorem parsePrice_usd_text:
  assumes k: "0 < k" "k \<le> 2 ^ 50"
  shows "parsePrice (usd_text k) = Inr (Fin (of_nat k), Some USD)"
proof -
  have codes: "adjacentCodes (trim_end [36]) (trim_start []) = []" by code_simp
  have cur: "detectedCurrencies (usd_text k) = [USD]"
    unfolding usd_text_amount by (rule currencies_of_amount [OF amount_units])
  obtain v where v: "fl (of_nat k / 100) = Fin v" "0 < v"
    "math_round (dmul (Fin v) 100) = Fin (of_nat k)"
    using round_cents [of "int k"] k by auto
  note units = usd_text_units [of k]
  have tests: "\<not> re_test True ambiguous_re (usd_text k)"
    "\<not> re_test False unsupported_sign_re (usd_text k)" "\<not> re_test True jpy_re (usd_text k)"
    using cannot_test [OF cannot_ambiguous units] cannot_test [OF cannot_unsupported units]
      cannot_test [OF cannot_jpy units] .
  have "take 1 (usd_text k) = [36]" "drop (1 + length (amount k)) (usd_text k) = []"
    by (simp_all add: usd_text_amount)
  then show ?thesis
    unfolding parsePrice_def compact_usd_text
    using tests number_of_usd_text cur codes value_of_amount v
    by (simp add: dle_def del: math_round.simps dmul.simps)
qed

end
