(* ===== verification/JsMath.thy ===== *)
theory JsMath
  imports Json
begin

text \<open>
  More of the standard library on numbers and lists, used by the web application: arithmetic on
  doubles, \<open>Math.floor\<close>, \<open>Math.abs\<close>, \<open>toFixed\<close>, the remainder, conversion of parsed values to
  numbers, and \<open>Array.prototype.sort\<close>.
\<close>

section \<open>Arithmetic\<close>

fun dadd :: "dbl \<Rightarrow> dbl \<Rightarrow> dbl" where
  "dadd (Fin x) (Fin y) = fl (x + y)"
| "dadd (Inf s) (Inf t) = (if s = t then Inf s else NaN)"
| "dadd (Inf s) (Fin y) = Inf s"
| "dadd (Fin x) (Inf t) = Inf t"
| "dadd _ _ = NaN"

definition dsub :: "dbl \<Rightarrow> dbl \<Rightarrow> dbl" where
  "dsub a b = dadd a (dneg b)"

text \<open>Division by a positive constant, and the remainder of it.\<close>

fun dquot :: "dbl \<Rightarrow> rat \<Rightarrow> dbl" where
  "dquot (Fin x) y = fl (x / y)"
| "dquot (Inf s) y = Inf s"
| "dquot NaN y = NaN"

definition trunc :: "rat \<Rightarrow> int" where
  "trunc q = (if q < 0 then \<lceil>q\<rceil> else \<lfloor>q\<rfloor>)"

fun dmod :: "dbl \<Rightarrow> rat \<Rightarrow> dbl" where
  "dmod (Fin x) y = Fin (x - y * of_int (trunc (x / y)))"
| "dmod _ y = NaN"

fun dabs :: "dbl \<Rightarrow> dbl" where
  "dabs (Fin x) = Fin \<bar>x\<bar>"
| "dabs (Inf s) = Inf False"
| "dabs NaN = NaN"

fun math_floor :: "dbl \<Rightarrow> dbl" where
  "math_floor (Fin x) = Fin (of_int \<lfloor>x\<rfloor>)"
| "math_floor d = d"

text \<open>
  \<open>x.toFixed(f)\<close>: the integer nearest to \<open>x * 10 ^ f\<close>, the larger of two, with a point before its
  last \<open>f\<close> digits. The exact value of the double counts, not its shortest decimal.
\<close>

definition fixed_digits :: "nat \<Rightarrow> int \<Rightarrow> jsstr" where
  "fixed_digits f n = (let ds = show_int n; ds' = replicate (Suc f - length ds) 48 @ ds
     in take (length ds' - f) ds' @ (if f = 0 then [] else 46 # drop (length ds' - f) ds'))"

fun to_fixed :: "nat \<Rightarrow> dbl \<Rightarrow> jsstr" where
  "to_fixed f (Fin x) =
     (if \<bar>x\<bar> \<ge> 10 ^ 21 then show_dbl (Fin x)
      else if x < 0 then 45 # fixed_digits f \<lfloor>- x * 10 ^ f + 1 / 2\<rfloor>
      else fixed_digits f \<lfloor>x * 10 ^ f + 1 / 2\<rfloor>)"
| "to_fixed f d = show_dbl d"

section \<open>Conversion of values\<close>

text \<open>\<open>Number(value)\<close>, which throws on a value without a string.\<close>

fun to_number :: "json option \<Rightarrow> jsstr + dbl" where
  "to_number None = Inr NaN"
| "to_number (Some JNull) = Inr (Fin 0)"
| "to_number (Some (JBool b)) = Inr (Fin (if b then 1 else 0))"
| "to_number (Some (JNum x)) = Inr x"
| "to_number (Some v) = (if has_string v then Inr (js_number (json_to_string v)) else Inl no_primitive)"

text \<open>\<open>a === b\<close> on two values that are not the same object.\<close>

fun strict_eq :: "json option \<Rightarrow> json option \<Rightarrow> bool" where
  "strict_eq None None = True"
| "strict_eq (Some JNull) (Some JNull) = True"
| "strict_eq (Some (JBool a)) (Some (JBool b)) = (a = b)"
| "strict_eq (Some (JNum x)) (Some (JNum y)) = (x = y \<and> x \<noteq> NaN)"
| "strict_eq (Some (JStr s)) (Some (JStr t)) = (s = t)"
| "strict_eq _ _ = False"

text \<open>\<open>a < b\<close>: strings by their units, anything else as numbers.\<close>

fun units_less :: "jsstr \<Rightarrow> jsstr \<Rightarrow> bool" where
  "units_less s [] = False"
| "units_less [] (d # t) = True"
| "units_less (c # s) (d # t) = (c < d \<or> c = d \<and> units_less s t)"

fun primitive :: "json option \<Rightarrow> jsstr + json option" where
  "primitive (Some (JArr vs)) =
     (if has_string (JArr vs) then Inr (Some (JStr (json_to_string (JArr vs)))) else Inl no_primitive)"
| "primitive (Some (JObj d)) =
     (if has_string (JObj d) then Inr (Some (JStr (json_to_string (JObj d)))) else Inl no_primitive)"
| "primitive v = Inr v"

definition value_less :: "json option \<Rightarrow> json option \<Rightarrow> jsstr + bool" where
  "value_less a b =
    rbind (primitive a) (\<lambda>x. rbind (primitive b) (\<lambda>y.
    case (x, y) of
      (Some (JStr s), Some (JStr t)) \<Rightarrow> Inr (units_less s t)
    | _ \<Rightarrow> rbind (to_number x) (\<lambda>m. rbind (to_number y) (\<lambda>n. Inr (dless m n)))))"

section \<open>Sorting\<close>

text \<open>
  \<open>xs.sort(cmp)\<close> where \<open>lt x y\<close> says \<open>cmp(x, y) < 0\<close>: stable, smallest first. For an inconsistent
  comparison the language leaves the order open, and this is one of the orders it allows.
\<close>

fun insert_by :: "('a \<Rightarrow> 'a \<Rightarrow> bool) \<Rightarrow> 'a \<Rightarrow> 'a list \<Rightarrow> 'a list" where
  "insert_by lt x [] = [x]"
| "insert_by lt x (y # ys) = (if lt x y then x # y # ys else y # insert_by lt x ys)"

definition js_sort :: "('a \<Rightarrow> 'a \<Rightarrow> bool) \<Rightarrow> 'a list \<Rightarrow> 'a list" where
  "js_sort lt xs = fold (insert_by lt) xs []"

lemma set_insert_by [simp]: "set (insert_by lt x ys) = insert x (set ys)"
  by (induction ys) auto

lemma length_insert_by [simp]: "length (insert_by lt x ys) = Suc (length ys)"
  by (induction ys) auto

lemma fold_insert_by: "set (fold (insert_by lt) xs ys) = set xs \<union> set ys \<and>
    length (fold (insert_by lt) xs ys) = length xs + length ys"
  by (induction xs arbitrary: ys) auto

lemma set_js_sort [simp]: "set (js_sort lt xs) = set xs"
  and length_js_sort [simp]: "length (js_sort lt xs) = length xs"
  by (simp_all add: js_sort_def fold_insert_by)

lemma js_sort_Nil [simp]: "js_sort lt xs = [] \<longleftrightarrow> xs = []"
  by (metis length_0_conv length_js_sort)

lemma sorted_insert_by:
  fixes f :: "'a \<Rightarrow> 'b :: linorder"
  assumes "sorted (map f ys)" "\<And>y. y \<in> set ys \<Longrightarrow> lt x y \<longleftrightarrow> f x < f y"
  shows "sorted (map f (insert_by lt x ys))"
  using assms by (induction ys) (auto simp: not_less)

lemma filter_insert_by:
  fixes f :: "'a \<Rightarrow> 'b :: linorder"
  assumes "sorted (map f ys)" "\<And>y. y \<in> set ys \<Longrightarrow> lt x y \<longleftrightarrow> f x < f y"
  shows "filter (\<lambda>y. f y = k) (insert_by lt x ys) = filter (\<lambda>y. f y = k) (ys @ [x])"
  using assms
proof (induction ys)
  case (Cons y ys)
  show ?case
  proof (cases "f x < f y")
    case True
    then have "filter (\<lambda>z. f z = f x) (y # ys) = []" using Cons.prems(1) by (auto simp: filter_empty_conv)
    then show ?thesis using True Cons.prems by auto
  qed (use Cons in auto)
qed simp

lemma fold_insert_by_sorted:
  fixes f :: "'a \<Rightarrow> 'b :: linorder"
  assumes "sorted (map f ys)" "\<And>x y. x \<in> set xs \<union> set ys \<Longrightarrow> y \<in> set xs \<union> set ys \<Longrightarrow> lt x y \<longleftrightarrow> f x < f y"
  shows "sorted (map f (fold (insert_by lt) xs ys)) \<and>
    (\<forall>k. filter (\<lambda>y. f y = k) (fold (insert_by lt) xs ys) = filter (\<lambda>y. f y = k) (ys @ xs))"
  using assms
proof (induction xs arbitrary: ys)
  case (Cons x xs)
  have s: "sorted (map f (insert_by lt x ys))"
    using Cons.prems by (intro sorted_insert_by) auto
  have "\<forall>k. filter (\<lambda>y. f y = k) (insert_by lt x ys) = filter (\<lambda>y. f y = k) (ys @ [x])"
    using Cons.prems by (intro allI filter_insert_by) auto
  moreover have "sorted (map f (fold (insert_by lt) xs (insert_by lt x ys))) \<and>
    (\<forall>k. filter (\<lambda>y. f y = k) (fold (insert_by lt) xs (insert_by lt x ys)) =
       filter (\<lambda>y. f y = k) (insert_by lt x ys @ xs))"
    using Cons.prems by (intro Cons.IH s) auto
  ultimately show ?case by simp
qed simp

text \<open>With a comparison by a key it is the stable sort by that key.\<close>

lemma js_sort_key:
  fixes f :: "'a \<Rightarrow> 'b :: linorder"
  assumes "\<And>x y. x \<in> set xs \<Longrightarrow> y \<in> set xs \<Longrightarrow> lt x y \<longleftrightarrow> f x < f y"
  shows "sorted (map f (js_sort lt xs))"
    and "filter (\<lambda>y. f y = k) (js_sort lt xs) = filter (\<lambda>y. f y = k) xs"
  using fold_insert_by_sorted [of f "[]" xs lt] assms by (auto simp: js_sort_def)

text \<open>The first element of the sorted list comes before none of the others.\<close>

lemma js_sort_hd:
  fixes f :: "'a \<Rightarrow> 'b :: linorder"
  assumes "\<And>x y. x \<in> set xs \<Longrightarrow> y \<in> set xs \<Longrightarrow> lt x y \<longleftrightarrow> f x < f y" and s: "js_sort lt xs = y # ys"
  shows "y \<in> set xs" and "x \<in> set xs \<Longrightarrow> f y \<le> f x"
proof -
  have "set (y # ys) = set xs" using s by (metis set_js_sort)
  moreover have "sorted (map f (y # ys))" using js_sort_key(1) [of xs lt f] assms by metis
  ultimately show "y \<in> set xs" and "x \<in> set xs \<Longrightarrow> f y \<le> f x" by auto
qed

end
