(* ===== verification/Fixture.thy ===== *)
theory Fixture
  imports Api Compiler UsdText JsMath
begin

text \<open>
  The fixture shop (\<open>fixture/src/server.ts\<close>): its state, the pages it renders in its two
  deployments, the control endpoints, and the script of the product page that adds the price of
  the chosen options. The style sheet and the message of a JSON syntax error are arguments; a
  request is its method, the path of its URL (none when the URL does not parse), the control
  token and the chunks of its body.
\<close>

section \<open>State\<close>

datatype fixture_version = V1 | V2

record FixtureState =
  fx_version :: fixture_version
  fx_basePriceMinor :: int
  fx_inStock :: bool
  fx_deployment :: int

definition initialState :: FixtureState where
  "initialState = \<lparr>fx_version = V1, fx_basePriceMinor = 109900, fx_inStock = True, fx_deployment = 1\<rparr>"

definition version_text :: "FixtureState \<Rightarrow> jsstr" where
  "version_text st = (if fx_version st = V1 then js ''1'' else js ''2'')"

definition state_json :: "FixtureState \<Rightarrow> json" where
  "state_json st = js_obj [(''version'', Some (json_int (if fx_version st = V1 then 1 else 2))),
     (''basePriceMinor'', Some (json_int (fx_basePriceMinor st))), (''inStock'', Some (JBool (fx_inStock st))),
     (''deployment'', Some (json_int (fx_deployment st)))]"

section \<open>Pages\<close>

text \<open>
  \<open>Intl.NumberFormat("en-US", ...)\<close> of \<open>minor / 100\<close> and \<open>(minor / 100).toFixed(2)\<close>: for the prices the
  shop admits, both round back to the exact cents.
\<close>

definition money :: "int \<Rightarrow> jsstr" where
  "money minor = usd_text (nat minor)"

definition fixed2 :: "int \<Rightarrow> jsstr" where
  "fixed2 minor = show_int (minor div 100) @ 46 # pad2 (nat (minor mod 100))"

definition stock_text :: "FixtureState \<Rightarrow> jsstr" where
  "stock_text st = (if fx_inStock st then js ''In stock '' @ [8212] @ js '' ships tomorrow'' else js ''Out of stock'')"

definition structuredData :: "FixtureState \<Rightarrow> jsstr" where
  "structuredData st = concat (map (\<lambda>c. if c = 60 then [92] @ js ''u003c'' else [c])
     (json_stringify (js_obj [
        (''@context'', Some (JStr (js ''https://schema.org''))),
        (''@type'', Some (JStr (js ''Product''))),
        (''name'', Some (JStr (js ''Atlas Studio Headphones''))),
        (''sku'', Some (JStr (js ''ASH-100''))),
        (''brand'', Some (js_obj [(''@type'', Some (JStr (js ''Brand''))),
           (''name'', Some (JStr (js ''Price Scout Fixture Store'')))])),
        (''offers'', Some (js_obj [(''@type'', Some (JStr (js ''Offer''))),
           (''price'', Some (JStr (fixed2 (fx_basePriceMinor st)))),
           (''priceCurrency'', Some (JStr (js ''USD''))),
           (''availability'', Some (JStr (if fx_inStock st then js ''https://schema.org/InStock''
              else js ''https://schema.org/OutOfStock'')))]))])))"

definition price_selector :: jsstr where
  "price_selector = js ''[data-ui='' @ [39] @ js ''offer-price'' @ [39] @ js '']''"

definition title_element :: "FixtureState \<Rightarrow> jsstr" where
  "title_element st =
    (if fx_version st = V1 then
       js ''<h1 id=\"product-title\">Atlas Studio Headphones</h1><span id=\"product-sku\" class=\"sr-only\">ASH-100</span>''
     else
       js ''<div class=\"title-cluster\"><h1 data-ui=\"product-name\">Atlas Studio Headphones</h1><span data-ui=\"product-sku\" class=\"sr-only\">ASH-100</span></div>'')"

definition offer_element :: "FixtureState \<Rightarrow> jsstr \<Rightarrow> jsstr" where
  "offer_element st price =
    (if fx_version st = V1 then
       js ''<div><span id=\"current-price\" class=\"price\">'' @ price @
       js ''</span><span id=\"price-currency\" class=\"currency\">USD</span></div><p id=\"stock-status\" class=\"stock '' @
       (if fx_inStock st then js ''yes'' else js ''no'') @ js ''\">'' @ stock_text st @ js ''</p>''
     else
       js ''<div class=\"price-stack\"><span data-ui=\"offer-price\" class=\"price\">'' @ price @
       js ''</span><span data-ui=\"price-currency\" class=\"currency\">USD</span></div><div data-component=\"inventory-pill\"><p data-ui=\"inventory-status\" class=\"stock '' @
       (if fx_inStock st then js ''yes'' else js ''no'') @ js ''\">'' @ stock_text st @ js ''</p></div>'')"

definition v1Controls :: "jsstr" where
  "v1Controls =
     js ''<div class=\"legacy-configurator\" aria-label=\"Product options\">'' @ [10] @
     js ''    <div class=\"legacy-heading\">Finish <strong id=\"selected-color\">black</strong></div>'' @ [10] @
     js ''    <div class=\"legacy-buttons\" data-legacy-group=\"color\"><button type=\"button\" id=\"legacy-color-black\" data-legacy-value=\"black\" aria-pressed=\"true\">Midnight black</button><button type=\"button\" id=\"legacy-color-silver\" data-legacy-value=\"silver\" aria-pressed=\"false\">Arctic silver</button></div>'' @
     [10] @ js ''    <div class=\"legacy-heading\">Storage <strong id=\"selected-capacity\">1tb</strong></div>'' @
     [10] @
     js ''    <div class=\"legacy-buttons\" data-legacy-group=\"capacity\"><button type=\"button\" id=\"legacy-capacity-1tb\" data-legacy-value=\"1tb\" aria-pressed=\"true\">1 TB</button><button type=\"button\" id=\"legacy-capacity-2tb\" data-legacy-value=\"2tb\" aria-pressed=\"false\">2 TB</button></div>'' @
     [10] @ js ''  </div>''"

definition v2Controls :: "jsstr" where
  "v2Controls =
     js ''<div data-component=\"option-picker\" class=\"option-picker\" aria-label=\"Product options\">'' @ [10] @
     js ''    <fieldset data-variant-group=\"color\"><legend>Finish <strong data-selected-variant=\"color\">black</strong></legend><div class=\"choice-row\"><button type=\"button\" data-value=\"black\" aria-pressed=\"true\"><i class=\"swatch black\"></i>Midnight black</button><button type=\"button\" data-value=\"silver\" aria-pressed=\"false\"><i class=\"swatch silver\"></i>Arctic silver</button></div></fieldset>'' @
     [10] @
     js ''    <fieldset data-variant-group=\"capacity\"><legend>Storage <strong data-selected-variant=\"capacity\">1tb</strong></legend><div class=\"choice-row\"><button type=\"button\" data-value=\"1tb\" aria-pressed=\"true\">1 TB</button><button type=\"button\" data-value=\"2tb\" aria-pressed=\"false\">2 TB</button></div></fieldset>'' @
     [10] @ js ''  </div>''"

definition clientScript :: "FixtureState \<Rightarrow> jsstr" where
  "clientScript st =
     js ''(() => {'' @ [10] @ js ''    const base = '' @ show_number (fx_basePriceMinor st) @ js '';'' @ [10] @
     js ''    const selected = { color: '' @ [39] @ js ''black'' @ [39] @ js '', capacity: '' @ [39] @ js ''1tb'' @
     [39] @ js '' };'' @ [10] @ js ''    const priceNode = document.querySelector('' @
     json_stringify (JStr (if fx_version st = V1 then js ''#current-price'' else price_selector)) @ js '');'' @
     [10] @ js ''    const format = value => new Intl.NumberFormat('' @ [39] @ js ''en-US'' @ [39] @
     js '', { style: '' @ [39] @ js ''currency'' @ [39] @ js '', currency: '' @ [39] @ js ''USD'' @ [39] @
     js '' }).format(value / 100);'' @ [10] @ js ''    const render = () => {'' @ [10] @
     js ''      const total = base + (selected.color === '' @ [39] @ js ''silver'' @ [39] @
     js '' ? 2000 : 0) + (selected.capacity === '' @ [39] @ js ''2tb'' @ [39] @ js '' ? 15000 : 0);'' @ [10] @
     js ''      if (priceNode) priceNode.textContent = format(total);'' @ [10] @
     js ''      for (const [key, value] of Object.entries(selected)) {'' @ [10] @
     js ''        const label = document.querySelector('' @ [39] @ js ''[data-selected-variant=\"'' @ [39] @
     js '' + key + '' @ [39] @ js ''\"]'' @ [39] @ js '');'' @ [10] @
     js ''        if (label) label.textContent = value;'' @ [10] @ js ''        document.querySelectorAll('' @ [39] @
     js ''[data-variant-group=\"'' @ [39] @ js '' + key + '' @ [39] @ js ''\"] [data-value]'' @ [39] @
     js '').forEach(node => node.setAttribute('' @ [39] @ js ''aria-pressed'' @ [39] @
     js '', String(node.dataset.value === value)));'' @ [10] @ js ''      }'' @ [10] @ js ''    };'' @ [10] @
     js ''    document.querySelectorAll('' @ [39] @ js ''[data-legacy-group] [data-legacy-value]'' @ [39] @
     js '').forEach(node => node.addEventListener('' @ [39] @ js ''click'' @ [39] @ js '', () => {'' @ [10] @
     js ''      const key = node.closest('' @ [39] @ js ''[data-legacy-group]'' @ [39] @
     js '').dataset.legacyGroup;'' @ [10] @ js ''      selected[key] = node.dataset.legacyValue;'' @ [10] @
     js ''      document.getElementById('' @ [39] @ js ''selected-'' @ [39] @
     js '' + key).textContent = selected[key];'' @ [10] @ js ''      document.querySelectorAll('' @ [39] @
     js ''[data-legacy-group=\"'' @ [39] @ js '' + key + '' @ [39] @ js ''\"] [data-legacy-value]'' @ [39] @
     js '').forEach(item => item.setAttribute('' @ [39] @ js ''aria-pressed'' @ [39] @
     js '', String(item.dataset.legacyValue === selected[key])));'' @ [10] @ js ''      render();'' @ [10] @
     js ''    }));'' @ [10] @ js ''    document.querySelectorAll('' @ [39] @
     js ''[data-variant-group] [data-value]'' @ [39] @ js '').forEach(node => node.addEventListener('' @ [39] @
     js ''click'' @ [39] @ js '', () => { selected[node.closest('' @ [39] @ js ''[data-variant-group]'' @ [39] @
     js '').dataset.variantGroup] = node.dataset.value; render(); }));'' @ [10] @ js ''    render();'' @ [10] @
     js ''  })();''"

definition product_body :: "FixtureState \<Rightarrow> jsstr" where
  "product_body st =
     js ''<header class=\"site-header\">'' @ [10] @
     js ''      <a class=\"brand\" href=\"/\">PRICE SCOUT<span>fixture</span></a>'' @ [10] @
     js ''      <nav aria-label=\"Main navigation\"><a href=\"#details\">Details</a><a href=\"#support\">Support</a><button class=\"bag\">Bag '' @
     [183] @ js '' 0</button></nav>'' @ [10] @ js ''    </header>'' @ [10] @
     js ''    <main class=\"product-layout\">'' @ [10] @
     js ''      <section class=\"product-visual\" aria-label=\"Product gallery\">'' @ [10] @
     js ''        <div class=\"visual-glow\"></div><div class=\"headphones\" aria-hidden=\"true\"><div class=\"band\"></div><div class=\"cup left\"></div><div class=\"cup right\"></div></div>'' @
     [10] @ js ''        <span class=\"gallery-label\">Studio reference '' @ [183] @ js '' Wireless</span>'' @ [10] @
     js ''      </section>'' @ [10] @ js ''      <section class=\"product-copy\">'' @ [10] @
     js ''        <p class=\"eyebrow\">Synthetic fixture '' @ [183] @ js '' ASH-100</p>'' @ [10] @ js ''        '' @
     title_element st @ [10] @
     js ''        <p class=\"lede\">Precision planar sound, adaptive isolation, and 60 hours of listening'' @
     [8212] @ js ''built for work that deserves your full attention.</p>'' @ [10] @
     js ''        <div class=\"rating\"><span aria-label=\"4.8 out of 5 stars\">4.8 / 5</span> <a href=\"#reviews\">218 reviews</a></div>'' @
     [10] @ js ''        '' @ (if fx_version st = V1 then v1Controls else v2Controls) @ [10] @
     js ''        <div class=\"purchase-row\">'' @ [10] @ js ''          '' @
     offer_element st (money (fx_basePriceMinor st)) @ [10] @ js ''        </div>'' @ [10] @
     js ''        <button class=\"primary\" '' @ (if fx_inStock st then [] else js ''disabled'') @
     js ''>Add to bag</button>'' @ [10] @
     js ''        <div class=\"assurances\"><span>30-day returns</span><span>2-year warranty</span><span>Carbon-neutral delivery</span></div>'' @
     [10] @ js ''      </section>'' @ [10] @ js ''    </main>'' @ [10] @
     js ''    <section id=\"details\" class=\"details\"><p class=\"eyebrow\">Designed around the way you listen</p><h2>Every detail, without distraction.</h2><div class=\"feature-grid\"><article><b>60h</b><span>battery life</span></article><article><b>24-bit</b><span>lossless wireless</span></article><article><b>252g</b><span>all-day comfort</span></article></div></section>'' @
     [10] @ js ''    <aside class=\"deploy-badge\" title=\"Synthetic test fixture\">Fixture UI '' @ [183] @
     js '' v'' @ version_text st @ js '' '' @ [183] @ js '' deploy '' @ show_number (fx_deployment st) @
     js ''</aside>'' @ [10] @ js ''    <script type=\"application/ld+json\">'' @ structuredData st @
     js ''</script>'' @ [10] @ js ''    <script>'' @ clientScript st @ js ''</script>''"

definition landing_body :: "FixtureState \<Rightarrow> jsstr" where
  "landing_body st =
     js ''<main class=\"landing\"><p class=\"eyebrow\">Price Scout deterministic retailer</p><h1>Synthetic fixture store</h1><p>The stable product URL is backed by controllable state and two structurally different frontend deployments.</p><a class=\"primary link\" href=\"/products/atlas-headphones\">Open Atlas product page</a><pre>Version: v'' @
     version_text st @ [10] @ js ''Deployment: '' @ show_number (fx_deployment st) @ [10] @ js ''Base price: '' @
     money (fx_basePriceMinor st) @ [10] @ js ''Stock: '' @
     (if fx_inStock st then js ''in stock'' else js ''out of stock'') @ js ''</pre></main>''"

definition pageShell :: "jsstr \<Rightarrow> jsstr \<Rightarrow> jsstr \<Rightarrow> jsstr" where
  "pageShell styles title body =
     js ''<!doctype html><html lang=\"en\"><head><meta charset=\"utf-8\"><meta name=\"viewport\" content=\"width=device-width,initial-scale=1\"><title>'' @
     title @ js ''</title><style>'' @ styles @ js ''</style></head><body>'' @ body @ js ''</body></html>''"

definition landingPage :: "jsstr \<Rightarrow> FixtureState \<Rightarrow> jsstr" where
  "landingPage styles st = pageShell styles (js ''Price Scout Fixture Control'') (landing_body st)"

definition productPage :: "jsstr \<Rightarrow> FixtureState \<Rightarrow> jsstr" where
  "productPage styles st =
     pageShell styles (js ''Atlas Studio Headphones '' @ [183] @ js '' Price Scout Fixture Store'') (product_body st)"

text \<open>The script of the product page: what is selected, a click on an option, and the price it shows.\<close>

record selection =
  sel_color :: jsstr
  sel_capacity :: jsstr

definition selected :: selection where
  "selected = \<lparr>sel_color = js ''black'', sel_capacity = js ''1tb''\<rparr>"

definition page_total :: "FixtureState \<Rightarrow> selection \<Rightarrow> int" where
  "page_total st s = fx_basePriceMinor st + (if sel_color s = js ''silver'' then 2000 else 0) +
     (if sel_capacity s = js ''2tb'' then 15000 else 0)"

definition rendered_price :: "FixtureState \<Rightarrow> selection \<Rightarrow> jsstr" where
  "rendered_price st s = money (page_total st s)"

section \<open>Requests\<close>

record fx_request =
  fr_method :: jsstr
  fr_pathname :: "jsstr option"
  fr_token :: "jsstr option"
  fr_chunks :: "int list list"

record fx_response =
  fs_status :: int
  fs_headers :: "jsstr dict"
  fs_body :: jsstr

definition common_headers :: "jsstr dict" where
  "common_headers = [(js ''X-Content-Type-Options'', js ''nosniff''), (js ''Referrer-Policy'', js ''no-referrer''),
     (js ''Cache-Control'', js ''no-store''),
     (js ''Content-Security-Policy'', js ''default-src '' @ [39] @ js ''self'' @ [39] @ js ''; style-src '' @ [39] @
        js ''unsafe-inline'' @ [39] @ js ''; script-src '' @ [39] @ js ''unsafe-inline'' @ [39] @ js ''; img-src '' @
        [39] @ js ''self'' @ [39] @ js '' data:; frame-ancestors '' @ [39] @ js ''none'' @ [39])]"

definition json_response :: "jsstr dict \<Rightarrow> int \<Rightarrow> json \<Rightarrow> fx_response" where
  "json_response hs status body = \<lparr>fs_status = status,
     fs_headers = hs @ [(js ''Content-Type'', js ''application/json; charset=utf-8'')], fs_body = json_stringify body\<rparr>"

definition html_response :: "int \<Rightarrow> jsstr \<Rightarrow> fx_response" where
  "html_response status body = \<lparr>fs_status = status,
     fs_headers = common_headers @ [(js ''Content-Type'', js ''text/html; charset=utf-8'')], fs_body = body\<rparr>"

definition error_json :: "jsstr \<Rightarrow> json" where
  "error_json m = js_obj [(''error'', Some (JStr m))]"

text \<open>
  \<open>Buffer.toString("utf8")\<close>: an ill-formed sequence becomes one replacement character per maximal
  prefix of a well-formed one.
\<close>

definition cont :: "int \<Rightarrow> bool" where
  "cont b \<longleftrightarrow> 128 \<le> b \<and> b \<le> 191"

definition second_ok :: "int \<Rightarrow> int \<Rightarrow> bool" where
  "second_ok a b \<longleftrightarrow> (if a = 224 then 160 else if a = 240 then 144 else 128) \<le> b \<and>
     b \<le> (if a = 237 then 159 else if a = 244 then 143 else 191)"

definition surrogates :: "int \<Rightarrow> jsstr" where
  "surrogates c = [55296 + (c - 65536) div 1024, 56320 + (c - 65536) mod 1024]"

fun utf8_decode :: "int list \<Rightarrow> jsstr" where
  "utf8_decode [] = []"
| "utf8_decode (a # r) =
    (if a < 128 then a # utf8_decode r
     else if 194 \<le> a \<and> a \<le> 223 then
       (case r of
          b # r1 \<Rightarrow> if cont b then ((a - 192) * 64 + (b - 128)) # utf8_decode r1 else 65533 # utf8_decode r
        | [] \<Rightarrow> [65533])
     else if 224 \<le> a \<and> a \<le> 239 then
       (case r of
          b # r1 \<Rightarrow>
            if second_ok a b then
              (case r1 of
                 c # r2 \<Rightarrow>
                   if cont c then ((a - 224) * 4096 + (b - 128) * 64 + (c - 128)) # utf8_decode r2
                   else 65533 # utf8_decode r1
               | [] \<Rightarrow> [65533])
            else 65533 # utf8_decode r
        | [] \<Rightarrow> [65533])
     else if 240 \<le> a \<and> a \<le> 244 then
       (case r of
          b # r1 \<Rightarrow>
            if second_ok a b then
              (case r1 of
                 c # r2 \<Rightarrow>
                   if cont c then
                     (case r2 of
                        d # r3 \<Rightarrow>
                          if cont d then
                            surrogates ((a - 240) * 262144 + (b - 128) * 4096 + (c - 128) * 64 + (d - 128)) @
                            utf8_decode r3
                          else 65533 # utf8_decode r2
                      | [] \<Rightarrow> [65533])
                   else 65533 # utf8_decode r1
               | [] \<Rightarrow> [65533])
            else 65533 # utf8_decode r
        | [] \<Rightarrow> [65533])
     else 65533 # utf8_decode r)"

text \<open>The loop of \<open>readJson\<close> over the chunks.\<close>

fun read_chunks :: "int list list \<Rightarrow> nat \<Rightarrow> int list \<Rightarrow> jsstr + int list" where
  "read_chunks [] n acc = Inr acc"
| "read_chunks (c # cs) n acc =
     (if n + length c > 16384 then Inl (js ''request body too large'')
      else read_chunks cs (n + length c) (acc @ c))"

definition readJson :: "(jsstr \<Rightarrow> jsstr) \<Rightarrow> int list list \<Rightarrow> jsstr + json" where
  "readJson syntax_error chunks =
     rbind (read_chunks chunks 0 []) (\<lambda>bytes.
     if chunks = [] then Inr (JObj [])
     else
       (case json_parse (utf8_decode bytes) of
          None \<Rightarrow> Inl (syntax_error (utf8_decode bytes))
        | Some value \<Rightarrow> if is_obj value then Inr value else Inl (js ''JSON object required'')))"

text \<open>\<open>Number.isSafeInteger\<close>.\<close>

fun safe_integer :: "dbl \<Rightarrow> int option" where
  "safe_integer (Fin x) = (if of_int \<lfloor>x\<rfloor> = x \<and> \<bar>\<lfloor>x\<rfloor>\<bar> \<le> max_safe then Some \<lfloor>x\<rfloor> else None)"
| "safe_integer _ = None"

definition control :: "jsstr \<Rightarrow> json \<Rightarrow> FixtureState \<Rightarrow> fx_response \<times> FixtureState" where
  "control pathname body st =
    (let reply = (\<lambda>s. (json_response common_headers 200 (state_json s), s));
         refuse400 = (\<lambda>m. (json_response common_headers 400 (error_json m), st))
     in if pathname = js ''/__control/deploy'' then
          reply (if fx_version st \<noteq> V2 then st\<lparr>fx_version := V2, fx_deployment := fx_deployment st + 1\<rparr> else st)
        else if pathname = js ''/__control/reset'' then reply initialState
        else if pathname = js ''/__control/price'' then
          (case to_number (json_get body ''priceMinor'') of
             Inl m \<Rightarrow> (json_response common_headers 500 (error_json m), st)
           | Inr x \<Rightarrow>
              (case safe_integer x of
                 Some value \<Rightarrow>
                   if value \<le> 0 \<or> value > 100000000 then refuse400 (js ''priceMinor must be a positive integer'')
                   else reply (st\<lparr>fx_basePriceMinor := value\<rparr>)
               | None \<Rightarrow> refuse400 (js ''priceMinor must be a positive integer'')))
        else if pathname = js ''/__control/stock'' then
          (case json_get body ''inStock'' of
             Some (JBool b) \<Rightarrow> reply (st\<lparr>fx_inStock := b\<rparr>)
           | _ \<Rightarrow> refuse400 (js ''inStock must be boolean''))
        else (json_response common_headers 404 (error_json (js ''not found'')), st))"

definition fixture_handle ::
    "(jsstr \<Rightarrow> jsstr) \<Rightarrow> jsstr \<Rightarrow> jsstr \<Rightarrow> fx_request \<Rightarrow> FixtureState \<Rightarrow> fx_response \<times> FixtureState" where
  "fixture_handle syntax_error styles controlToken request st =
    (case fr_pathname request of
       None \<Rightarrow> (json_response [] 500 (error_json (js ''Invalid URL'')), st)
     | Some pathname \<Rightarrow>
        let get = (fr_method request = js ''GET'') in
        if get \<and> (pathname = js ''/healthz'' \<or> pathname = js ''/readyz'') then
          (json_response common_headers 200 (js_obj [(''status'', Some (JStr (js ''ok''))),
             (''version'', Some (json_int (if fx_version st = V1 then 1 else 2))),
             (''deployment'', Some (json_int (fx_deployment st)))]), st)
        else if get \<and> pathname = js ''/__control/state'' then
          (json_response common_headers 200 (state_json st), st)
        else if get \<and> pathname = js ''/'' then (html_response 200 (landingPage styles st), st)
        else if get \<and> pathname = js ''/products/atlas-headphones'' then
          (html_response 200 (productPage styles st), st)
        else if fr_method request = js ''POST'' \<and> starts_with pathname (js ''/__control/'') then
          (if fr_token request \<noteq> Some controlToken then
             (json_response common_headers 401 (error_json (js ''invalid fixture control token'')), st)
           else
             (case readJson syntax_error (fr_chunks request) of
                Inl m \<Rightarrow> (json_response common_headers 500 (error_json m), st)
              | Inr body \<Rightarrow> control pathname body st))
        else (json_response common_headers 404 (error_json (js ''not found'')), st))"

end
