(* ===== verification/Artifacts.thy ===== *)
theory Artifacts
  imports Browser
begin

text \<open>
  Evidence of an execution (\<open>worker/src/artifacts.ts\<close>): where the screenshot and the snapshot
  of a page are written and how the control plane is told about them, with \<open>path.resolve\<close>
  and \<open>path.join\<close> of \<open>node:path\<close> on POSIX paths.
\<close>

section \<open>Paths\<close>

text \<open>The segments of an absolute path after \<open>.\<close>, \<open>..\<close> and empty ones are resolved.\<close>

definition resolve_segment :: "jsstr \<Rightarrow> jsstr list \<Rightarrow> jsstr list" where
  "resolve_segment seg acc =
     (if seg = [] \<or> seg = js ''.'' then acc
      else if seg = js ''..'' then butlast acc
      else acc @ [seg])"

definition is_absolute :: "jsstr \<Rightarrow> bool" where
  "is_absolute p \<longleftrightarrow> starts_with p (js ''/'')"

text \<open>What \<open>path.resolve(...parts)\<close> concatenates: the parts from the last absolute one on.\<close>

fun resolve_join :: "jsstr \<Rightarrow> jsstr list \<Rightarrow> jsstr" where
  "resolve_join base [] = base"
| "resolve_join base (p # ps) = resolve_join (if is_absolute p then p else base @ [47] @ p) ps"

definition segments :: "jsstr \<Rightarrow> jsstr list" where
  "segments p = fold resolve_segment (split_on 47 p) []"

definition path_resolve :: "platform \<Rightarrow> jsstr list \<Rightarrow> jsstr" where
  "path_resolve P parts = 47 # join [47] (segments (resolve_join (cwd P) parts))"

text \<open>\<open>path.join\<close> of a resolved directory and a plain file name.\<close>

definition path_join :: "jsstr \<Rightarrow> string \<Rightarrow> jsstr" where
  "path_join dir name = dir @ [47] @ js name"

section \<open>captureEvidence\<close>

definition artifact :: "platform \<Rightarrow> artifact_kind \<Rightarrow> jsstr \<Rightarrow> content_type \<Rightarrow> int list \<Rightarrow> ArtifactRef" where
  "artifact P kind storageKey contentType content =
     \<lparr>art_kind = kind, art_storageKey = storageKey, art_contentType = contentType,
      art_sizeBytes = length content, art_sha256 = sha256_hex P content\<rparr>"

definition safe_id :: "jsstr \<Rightarrow> jsstr" where
  "safe_id executionId = take 100 (safe_units executionId)"

definition captureEvidence :: "platform \<Rightarrow> env \<Rightarrow> session \<Rightarrow> jsstr \<Rightarrow> jsstr \<Rightarrow> ArtifactRef list io" where
  "captureEvidence P E s artifactRoot executionId =
    (let safeId = safe_id executionId;
         directory = path_resolve P [artifactRoot, safeId];
         root = path_resolve P [artifactRoot];
         screenshotPath = path_join directory ''page.png'';
         snapshotPath = path_join directory ''snapshot.txt''
     in io_bind (io_lift (throw_if (\<not> starts_with directory (root @ [47]))
          (PlainError (js ''Unsafe artifact path'')))) (\<lambda>_.
        io_bind (io_call (CMkdir directory) (\<lambda>h. env_mkdir E h directory)) (\<lambda>_.
        io_bind (io_call (CScreenshot s) (\<lambda>h. env_screenshot E h s)) (\<lambda>screenshot.
        io_bind (io_call (CSnapshot s) (\<lambda>h. env_snapshot E h s)) (\<lambda>snapshot.
        let snapshotBuffer = utf8_encode (take 2000000 (snap_formattedTree snapshot)) in
        io_bind (io_attempt (io_call (CWrite screenshotPath)
          (\<lambda>h. env_write E h screenshotPath screenshot))) (\<lambda>first_write.
        io_bind (io_attempt (io_call (CWrite snapshotPath)
          (\<lambda>h. env_write E h snapshotPath snapshotBuffer))) (\<lambda>second_write.
        io_bind (io_lift first_write) (\<lambda>_.
        io_bind (io_lift second_write) (\<lambda>_.
        io_ret [artifact P Screenshot (safeId @ js ''/page.png'') ImagePng screenshot,
                artifact P Snapshot (safeId @ js ''/snapshot.txt'') TextPlain snapshotBuffer])))))))))"

section \<open>The directory\<close>

definition plain_segment :: "jsstr \<Rightarrow> bool" where
  "plain_segment g \<longleftrightarrow> g \<noteq> [] \<and> 47 \<notin> set g \<and> 46 \<notin> set g"

lemma safe_units_safe: "c \<in> set (safe_units s) \<Longrightarrow> safe_unit c"
  by (auto simp: safe_units_def safe_unit_def split: if_splits)

lemma safe_id_units: "c \<in> set (safe_id s) \<Longrightarrow> safe_unit c"
  unfolding safe_id_def by (meson in_set_takeD safe_units_safe)

lemma safe_id_plain: "s \<noteq> [] \<Longrightarrow> plain_segment (safe_id s)"
proof -
  assume "s \<noteq> []"
  then have "safe_id s \<noteq> []" by (simp add: safe_id_def safe_units_def)
  moreover have "\<not> safe_unit 47" "\<not> safe_unit 46"
    by (simp_all add: safe_unit_def is_ascii_lower_def is_ascii_upper_def is_digit_def)
  ultimately show ?thesis using safe_id_units unfolding plain_segment_def by blast
qed

lemma split_on_plain_end:
  "47 \<notin> set g \<Longrightarrow> split_on 47 (p @ 47 # g) = split_on 47 p @ [g]"
proof (induction p)
  case (Cons c p)
  obtain w ws where "split_on 47 p = w # ws"
    by (metis split_on_nonempty neq_Nil_conv)
  with Cons show ?case by simp
qed (simp add: split_on_no_sep)

lemma segments_append:
  assumes "plain_segment g"
  shows "segments (p @ 47 # g) = segments p @ [g]"
proof -
  have "g \<noteq> js ''.''" "g \<noteq> js ''..''" using assms by (auto simp: plain_segment_def js_def)
  then show ?thesis
    using assms by (simp add: segments_def plain_segment_def split_on_plain_end resolve_segment_def)
qed

lemma join_snoc: "xs \<noteq> [] \<Longrightarrow> join d (xs @ [x]) = join d xs @ d @ x"
  by (induction d xs rule: join.induct) auto

lemma resolve_child:
  assumes "plain_segment g" "segments (resolve_join (cwd P) [art_root]) \<noteq> []"
  shows "path_resolve P [art_root, g] = path_resolve P [art_root] @ [47] @ g"
proof -
  have "\<not> is_absolute g"
    using assms(1) by (cases g) (auto simp: plain_segment_def is_absolute_def starts_with_def js_def)
  then have "resolve_join (cwd P) [art_root, g] = resolve_join (cwd P) [art_root] @ 47 # g" by simp
  then show ?thesis
    using assms segments_append [OF assms(1), of "resolve_join (cwd P) [art_root]"]
    by (simp add: path_resolve_def join_snoc)
qed

lemma resolve_slash:
  assumes "plain_segment g" "segments (resolve_join (cwd P) [art_root]) = []"
  shows "\<not> starts_with (path_resolve P [art_root, g]) (path_resolve P [art_root] @ [47])"
proof -
  have "\<not> is_absolute g"
    using assms(1) by (cases g) (auto simp: plain_segment_def is_absolute_def starts_with_def js_def)
  then have "resolve_join (cwd P) [art_root, g] = resolve_join (cwd P) [art_root] @ 47 # g" by simp
  then have "path_resolve P [art_root, g] = 47 # g" "path_resolve P [art_root] = [47]"
    using assms segments_append [OF assms(1), of "resolve_join (cwd P) [art_root]"]
    by (simp_all add: path_resolve_def)
  then show ?thesis using assms(1) by (cases g) (auto simp: plain_segment_def starts_with_def)
qed

definition captures :: "session \<Rightarrow> jsstr \<Rightarrow> call \<Rightarrow> bool" where
  "captures s dir c \<longleftrightarrow> c \<in> {CMkdir dir, CScreenshot s, CSnapshot s,
     CWrite (dir @ js ''/page.png''), CWrite (dir @ js ''/snapshot.txt'')}"

lemma emits_captureEvidence:
  assumes "executionId \<noteq> []"
  shows "emits (captures s (path_resolve P [art_root] @ [47] @ safe_id executionId))
    (captureEvidence P E s art_root executionId)"
proof (cases "segments (resolve_join (cwd P) [art_root]) = []")
  case True
  note resolve_slash [OF safe_id_plain [OF assms] True]
  then show ?thesis
    unfolding captureEvidence_def Let_def by (intro emits_bind_lift) simp
next
  case False
  have "js ''/page.png'' = 47 # js ''page.png''" "js ''/snapshot.txt'' = 47 # js ''snapshot.txt''"
    by (simp_all add: js_def)
  with resolve_child [OF safe_id_plain [OF assms] False] show ?thesis
    unfolding captureEvidence_def Let_def
    by (intro emits_intro) (auto simp: captures_def path_join_def)
qed

section \<open>Properties\<close>

text \<open>
  C32. Evidence stays inside the artifact directory: whatever the execution id (path separators
  and dots included), \<open>captureEvidence\<close> creates only the directory
  \<open><resolved artifact root>/<safe id>\<close>, whose name has at most 100 letters, digits, dashes
  and underscores, and writes only \<open>page.png\<close> and \<open>snapshot.txt\<close> in it.
\<close>

theorem evidence_contained:
  assumes "executionId \<noteq> []" "captureEvidence P E s art_root executionId w = (r, w')"
  shows "\<exists>new dir. w_calls w' = w_calls w @ new \<and>
    dir = path_resolve P [art_root] @ [47] @ safe_id executionId \<and>
    length (safe_id executionId) \<le> 100 \<and> list_all safe_unit (safe_id executionId) \<and>
    (\<forall>c \<in> set new. \<forall>p. (c = CMkdir p \<longrightarrow> p = dir) \<and>
       (c = CWrite p \<longrightarrow> p = dir @ js ''/page.png'' \<or> p = dir @ js ''/snapshot.txt''))"
proof -
  have "length (safe_id executionId) \<le> 100" "list_all safe_unit (safe_id executionId)"
    by (simp add: safe_id_def, simp add: list_all_iff safe_id_units)
  then show ?thesis
    using emitsD [OF emits_captureEvidence [OF assms(1)] assms(2)]
    unfolding extends_def list_all_iff captures_def by fastforce
qed

theorem evidence_contained_witness:
  "path_resolve ascii_platform [js ''data/../artifacts''] @ [47] @ safe_id (js ''../x'') = js ''/app/artifacts/___x'' \<and>
   list_all safe_unit (safe_id (js ''../x''))"
proof -
  have "path_resolve ascii_platform [js ''data/../artifacts''] @ [47] @ safe_id (js ''../x'') = js ''/app/artifacts/___x''"
    by code_simp
  moreover have "list_all safe_unit (safe_id (js ''../x''))"
    using evidence_contained [of "js ''../x''" ascii_platform idle_env MainRun "js ''data/../artifacts''"
        "\<lparr>w_calls = [], w_timings = []\<rparr>", OF _ prod.collapse [symmetric]] by auto
  ultimately show ?thesis ..
qed

end
