(* ===== verification/Handler.thy ===== *)
theory Handler
  imports Compiler Artifacts
begin

text \<open>
  One job (\<open>worker/src/handler.ts\<close>): \<open>executeJob\<close> with its compile, check and repair paths,
  \<open>warmCheck\<close>, \<open>repairLive\<close>, the validation of a repaired plan in an independent browser
  session, the classification of failures and the measured timings.

  The abort listener of the source closes the browser when the job's signal fires. The
  calls it makes are not part of a job's sequence of calls; its effect is that later calls
  on the session fail, which an environment may do at any point. The session is closed at
  the end of the job in any case (\<open>run_close\<close>), and its life cycle under a concurrent close
  is the step relation of theory \<open>Browser\<close>.
\<close>

section \<open>Time and the abort signal\<close>

definition io_now :: "env \<Rightarrow> rat io" where
  "io_now E = io_bind (io_read (env_clock E)) (\<lambda>t. io_bind (io_call CClock (\<lambda>_. Inr ())) (\<lambda>_. io_ret t))"

text \<open>\<open>timings[name] = Math.round(performance.now() - started)\<close>\<close>

definition set_timing :: "env \<Rightarrow> string \<Rightarrow> rat \<Rightarrow> world \<Rightarrow> world" where
  "set_timing E name started w =
     (record_call CClock w)\<lparr>w_timings :=
        obj_set (js name) (math_round (fl (env_clock E (w_calls w) - started))) (w_timings w)\<rparr>"

definition timed :: "env \<Rightarrow> string \<Rightarrow> 'a io \<Rightarrow> 'a io" where
  "timed E name task =
     io_bind (io_now E) (\<lambda>started. io_finally task (set_timing E name started))"

definition note_total :: "env \<Rightarrow> rat \<Rightarrow> unit io" where
  "note_total E started = io_finally (io_ret ()) (set_timing E ''total'' started)"

text \<open>\<open>const timingsMs = {}\<close>: every job measures its own.\<close>

definition fresh_timings :: "unit io" where
  "fresh_timings = (\<lambda>w. (Inr (), w\<lparr>w_timings := []\<rparr>))"

fun abortReason :: "thrown \<Rightarrow> exn" where
  "abortReason (ExtError m) = External (ExtError m)"
| "abortReason (ExtValue v) = PlainError (js ''Execution aborted'')"

definition throwIfAborted :: "env \<Rightarrow> unit io" where
  "throwIfAborted E =
     io_bind (io_read (env_aborted E)) (\<lambda>a.
     case a of None \<Rightarrow> io_ret () | Some reason \<Rightarrow> io_throw (abortReason reason))"

section \<open>Failures\<close>

definition safeError :: "exn \<Rightarrow> jsstr" where
  "safeError e = take 1000
     (replace_all False (plus_re (Cls [(13, 13), (10, 10)])) (\<lambda>_. [32]) (errorMessage e))"

definition rate_limited_re :: re where
  "rate_limited_re = alts [str ''429'', seqs [str ''rate'', opt_re any_re, str ''limit''], str ''retry-after'']"

definition blocked_re :: re where
  "blocked_re = alts [str ''403'', str ''captcha'', str ''access denied'', str ''blocked'']"

definition stale_action_re :: re where
  "stale_action_re = alts [str ''selector'', str ''element'', str ''xpath'', str ''locator'', str ''not found'']"

definition stale_extractor_re :: re where
  "stale_extractor_re = alts [str ''extract'', str ''price'', str ''availability'']"

definition classify_message :: "jsstr \<Rightarrow> FailureClassification" where
  "classify_message message =
    (if re_test False rate_limited_re message then rate_limited
     else if re_test False blocked_re message then blocked
     else if re_test False stale_action_re message then stale_action
     else if re_test False stale_extractor_re message then stale_extractor
     else transient_infrastructure)"

fun reason_class :: "reason \<Rightarrow> FailureClassification" where
  "reason_class IdentityDrift = identity_drift"
| "reason_class AmbiguousValue = ambiguous_value"

definition classifyFailure :: "platform \<Rightarrow> exn \<Rightarrow> FailureClassification" where
  "classifyFailure P e =
    (case e of
       SafetyError m \<Rightarrow> invalid_input
     | StaleActionError m \<Rightarrow> stale_action
     | ValidationError m r \<Rightarrow> reason_class r
     | _ \<Rightarrow> classify_message (to_lower P (safeError e)))"

fun is_validation :: "exn \<Rightarrow> bool" where
  "is_validation (ValidationError m r) = True"
| "is_validation _ = False"

definition metric :: "env \<Rightarrow> browser_run option \<Rightarrow> int io" where
  "metric E run =
    (case run of
       None \<Rightarrow> io_ret 0
     | Some r \<Rightarrow> io_read (\<lambda>h. case env_heal_count E h (run_session r) of Some n \<Rightarrow> n | None \<Rightarrow> 0))"

text \<open>\<open>run.sessionId ? { browserbaseSessionId } : {}\<close>\<close>

definition session_field :: "env \<Rightarrow> browser_run option \<Rightarrow> jsstr option io" where
  "session_field E run =
    (case run of
       None \<Rightarrow> io_ret None
     | Some r \<Rightarrow> io_bind (sessionId E r) (\<lambda>i. io_ret (if nonempty_opt i then i else None)))"

section \<open>Checks and repairs\<close>

definition warmCheck :: "platform \<Rightarrow> env \<Rightarrow> browser_run \<Rightarrow> MonitorPlanV1 \<Rightarrow> url \<Rightarrow> Observation io" where
  "warmCheck P E run plan target =
     io_bind (goto E (run_session run) (plan_canonicalUrl plan)) (\<lambda>_.
     io_bind (check_origin P E (run_session run) target) (\<lambda>_.
     io_bind (io_each (replay_step P E run target) (plan_preparationSteps plan)) (\<lambda>_.
     io_bind (extractObservation P E (run_session run) plan) (\<lambda>observation.
     io_bind (io_lift (validateObservation P observation plan)) (\<lambda>_. io_ret observation)))))"

text \<open>The loop of \<open>repairLive\<close>: a step keeps its action unless Stagehand returned another.\<close>

fun heal_steps :: "platform \<Rightarrow> env \<Rightarrow> browser_run \<Rightarrow> url \<Rightarrow> prep_step list \<Rightarrow> prep_step list io" where
  "heal_steps P E run target [] = io_ret []"
| "heal_steps P E run target (st # sts) =
     io_bind (replaySafeAction P E (replay E run) (run_session run) (step_action st) target) (\<lambda>healed.
     io_bind (heal_steps P E run target sts) (\<lambda>rest.
     io_ret ((case last_opt healed of None \<Rightarrow> st | Some a \<Rightarrow> st\<lparr>step_action := a\<rparr>) # rest)))"

text \<open>Errors after which a live repair does not fall back to compiling again.\<close>

fun is_final :: "exn \<Rightarrow> bool" where
  "is_final (ValidationError m r) = True"
| "is_final (SafetyError m) = True"
| "is_final _ = False"

definition repairLive ::
    "platform \<Rightarrow> env \<Rightarrow> browser_run \<Rightarrow> ExecutionInput \<Rightarrow> MonitorPlanV1 \<Rightarrow> url \<Rightarrow> WorkerConfig \<Rightarrow> CompileOutcome io" where
  "repairLive P E run input oldPlan target config =
     io_bind (goto E (run_session run) (plan_canonicalUrl oldPlan)) (\<lambda>_.
     io_bind (check_origin P E (run_session run) target) (\<lambda>_.
     io_catch
       (io_bind (heal_steps P E run target (plan_preparationSteps oldPlan)) (\<lambda>steps.
        let candidate = oldPlan\<lparr>plan_preparationSteps := steps\<rparr> in
        io_bind (extractObservation P E (run_session run) candidate) (\<lambda>observation.
        io_bind (io_lift (validateObservation P observation candidate)) (\<lambda>_.
        io_bind (metric E (Some run)) (\<lambda>n.
        io_ret \<lparr>out_plan = candidate, out_observation = observation, out_modelCallCount = max 1 n,
          out_source = StagehandSource\<rparr>)))))
       (\<lambda>error. if is_final error then io_throw error
         else compileMonitor P E run input target (cfg_FIXTURE_ORIGIN config) config)))"

definition validator_options :: "ExecutionInput \<Rightarrow> BrowserRunOptions" where
  "validator_options input = \<lparr>opt_selfHeal = False, opt_needsModel = False,
     opt_executionId = job_id (in_execution input) @ js ''-validator''\<rparr>"

definition validateRepairFresh ::
    "platform \<Rightarrow> env \<Rightarrow> WorkerConfig \<Rightarrow> ExecutionInput \<Rightarrow> url \<Rightarrow> MonitorPlanV1 \<Rightarrow> Observation io" where
  "validateRepairFresh P E config input target plan =
     io_bind (newBrowserRun E ValidatorRun config (validator_options input)) (\<lambda>validator.
     io_bind (io_attempt (throwIfAborted E)) (\<lambda>a.
     case a of
       Inl e \<Rightarrow> io_finally (io_throw e) (run_close validator False)
     | Inr _ \<Rightarrow>
         io_finally
           (io_bind (initialize E validator (url_hostname target)) (\<lambda>_.
            io_bind (throwIfAborted E) (\<lambda>_.
            io_bind (warmCheck P E validator plan target) (\<lambda>observation.
            io_bind (throwIfAborted E) (\<lambda>_. io_ret observation)))))
           (run_close validator True)))"

text \<open>
  \<open>JSON.stringify\<close> of a dictionary of strings lists its entries in property order, so the two
  texts differ exactly when the lists of entries do.
\<close>

definition assertObservationsAgree :: "Observation \<Rightarrow> Observation \<Rightarrow> exn + unit" where
  "assertObservationsAgree candidate fresh =
     throw_if
       (dne (obs_priceMinor candidate) (obs_priceMinor fresh) \<or>
        obs_currency candidate \<noteq> obs_currency fresh \<or>
        obs_inStock candidate \<noteq> obs_inStock fresh \<or>
        obs_identityFingerprint candidate \<noteq> obs_identityFingerprint fresh \<or>
        obs_selectedVariant candidate \<noteq> obs_selectedVariant fresh)
       (ValidationError (js ''Repair candidate produced conflicting observations in an independent browser session'')
         AmbiguousValue)"

fun kind_name :: "execution_kind \<Rightarrow> jsstr" where
  "kind_name Compile = js ''compile''"
| "kind_name Check = js ''check''"
| "kind_name Repair = js ''repair''"

definition requireRevision :: "env \<Rightarrow> ExecutionInput \<Rightarrow> exn + revision_ref" where
  "requireRevision E input =
    (case in_revision input of
       None \<Rightarrow> Inl (PlainError (kind_name (job_kind (in_execution input)) @
         js '' execution requires an active monitor revision''))
     | Some r \<Rightarrow>
         if monitorPlanV1Schema (env_is_url E) (rev_plan r) then Inr r
         else Inl (External (ExtError (env_zod_plan E (rev_plan r)))))"

section \<open>Results\<close>

definition base_result :: "ExecutionInput \<Rightarrow> ArtifactRef list \<Rightarrow> browser_provider \<Rightarrow> jsstr option \<Rightarrow> dbl dict \<Rightarrow> ExecutionResult" where
  "base_result input artifacts prov session timings =
     \<lparr>res_status = RSucceeded, res_kind = job_kind (in_execution input),
      res_executionId = job_id (in_execution input), res_monitorId = mon_id (in_monitor input),
      res_generation = None, res_candidatePlan = None, res_observation = None, res_artifacts = artifacts,
      res_modelCallCount = 0, res_browserProvider = prov, res_browserbaseSessionId = session,
      res_traceId = None, res_cacheStatus = None, res_repairSource = None, res_requiresConfirmation = None,
      res_failure = None, res_timingsMs = timings\<rparr>"

text \<open>The timings measured so far.\<close>

definition io_timings :: "dbl dict io" where
  "io_timings = (\<lambda>w. (Inr (w_timings w), w))"

text \<open>The end of a successful job: evidence, the total time, and the fields every result has.\<close>

definition job_success ::
    "platform \<Rightarrow> env \<Rightarrow> WorkerConfig \<Rightarrow> ExecutionInput \<Rightarrow> browser_run \<Rightarrow> rat \<Rightarrow>
     (ExecutionResult \<Rightarrow> ExecutionResult) \<Rightarrow> ExecutionResult io" where
  "job_success P E config input run started fill =
     io_bind (timed E ''evidence''
       (captureEvidence P E (run_session run) (cfg_ARTIFACT_DIR config) (job_id (in_execution input)))) (\<lambda>artifacts.
     io_bind (note_total E started) (\<lambda>_.
     io_bind (session_field E (Some run)) (\<lambda>session.
     io_bind io_timings (\<lambda>timings.
     io_ret (fill (base_result input artifacts (provider run) session timings))))))"

text \<open>The body of the \<open>catch\<close> block.\<close>

definition job_failure ::
    "platform \<Rightarrow> env \<Rightarrow> WorkerConfig \<Rightarrow> ExecutionInput \<Rightarrow> rat \<Rightarrow> browser_run option \<Rightarrow> bool \<Rightarrow> exn \<Rightarrow>
     ExecutionResult io" where
  "job_failure P E config input started run page_ready error =
     io_bind (io_read (env_aborted E)) (\<lambda>aborted.
     let terminalError = (case aborted of Some reason \<Rightarrow> abortReason reason | None \<Rightarrow> error) in
     io_bind
       (if page_ready \<and> aborted = None then
          io_catch (timed E ''failureEvidence''
            (captureEvidence P E (run_session (the run)) (cfg_ARTIFACT_DIR config) (job_id (in_execution input))))
            (\<lambda>_. io_ret [])
        else io_ret []) (\<lambda>artifacts.
     io_bind (note_total E started) (\<lambda>_.
     io_bind (metric E run) (\<lambda>n.
     io_bind (session_field E run) (\<lambda>session.
     io_bind io_timings (\<lambda>timings.
     io_ret ((base_result input artifacts (cfg_BROWSER_PROVIDER config) session timings)\<lparr>
       res_status := (if is_validation terminalError then RNeedsReview else RFailed),
       res_modelCallCount := n,
       res_failure := Some \<lparr>fail_classification = classifyFailure P terminalError,
         fail_message = safeError terminalError\<rparr>\<rparr>)))))))"

section \<open>executeJob\<close>

text \<open>From the start to the constructed run: the target, whether the job is scripted, the run.\<close>

definition is_scripted :: "platform \<Rightarrow> WorkerConfig \<Rightarrow> ExecutionInput \<Rightarrow> url \<Rightarrow> exn + bool" where
  "is_scripted P config input target =
    (case in_compilerMode input of
       Scripted \<Rightarrow> Inr True
     | Live \<Rightarrow> Inr False
     | Auto \<Rightarrow> rbind (origin_of P (cfg_FIXTURE_ORIGIN config)) (\<lambda>origin. Inr (url_origin target = origin)))"

definition run_options :: "ExecutionInput \<Rightarrow> bool \<Rightarrow> BrowserRunOptions" where
  "run_options input scripted =
     \<lparr>opt_selfHeal = (job_kind (in_execution input) = Repair),
      opt_needsModel = (\<not> scripted \<and> job_kind (in_execution input) \<in> {Compile, Repair}),
      opt_executionId = job_id (in_execution input)\<rparr>"

definition job_prepare ::
    "platform \<Rightarrow> env \<Rightarrow> WorkerConfig \<Rightarrow> ExecutionInput \<Rightarrow> (url \<times> bool \<times> browser_run) io" where
  "job_prepare P E config input =
     io_bind (throwIfAborted E) (\<lambda>_.
     io_bind (timed E ''urlValidation''
       (validateTargetUrl P E (mon_url (in_monitor input)) (cfg_allowedPrivateHosts config))) (\<lambda>target.
     io_bind (throwIfAborted E) (\<lambda>_.
     io_bind (io_lift (is_scripted P config input target)) (\<lambda>scripted.
     io_bind (newBrowserRun E MainRun config (run_options input scripted)) (\<lambda>run.
     io_ret (target, scripted, run))))))"

text \<open>The three paths once the page is up.\<close>

definition job_compile ::
    "platform \<Rightarrow> env \<Rightarrow> WorkerConfig \<Rightarrow> ExecutionInput \<Rightarrow> rat \<Rightarrow> url \<Rightarrow> browser_run \<Rightarrow> ExecutionResult io" where
  "job_compile P E config input started target run =
     io_bind (timed E ''compile''
       (compileMonitor P E run input target (cfg_FIXTURE_ORIGIN config) config)) (\<lambda>outcome.
     job_success P E config input run started (\<lambda>r. r\<lparr>
       res_candidatePlan := Some (out_plan outcome), res_observation := Some (out_observation outcome),
       res_modelCallCount := out_modelCallCount outcome, res_cacheStatus := Some MISS,
       res_requiresConfirmation := Some True\<rparr>))"

definition job_check ::
    "platform \<Rightarrow> env \<Rightarrow> WorkerConfig \<Rightarrow> ExecutionInput \<Rightarrow> rat \<Rightarrow> url \<Rightarrow> browser_run \<Rightarrow> revision_ref \<Rightarrow> ExecutionResult io" where
  "job_check P E config input started target run revision =
     io_bind (timed E ''warmCheck'' (warmCheck P E run (rev_plan revision) target)) (\<lambda>observation.
     job_success P E config input run started (\<lambda>r. r\<lparr>
       res_generation := Some (rev_generation revision), res_observation := Some observation,
       res_cacheStatus := Some HIT\<rparr>))"

definition job_repair ::
    "platform \<Rightarrow> env \<Rightarrow> WorkerConfig \<Rightarrow> ExecutionInput \<Rightarrow> rat \<Rightarrow> url \<Rightarrow> bool \<Rightarrow> browser_run \<Rightarrow> revision_ref \<Rightarrow> ExecutionResult io" where
  "job_repair P E config input started target scripted run revision =
     io_bind (if scripted
       then timed E ''scriptedRepair''
         (compileMonitor P E run input target (cfg_FIXTURE_ORIGIN config) config)
       else timed E ''stagehandRepair''
         (repairLive P E run input (rev_plan revision) target config)) (\<lambda>outcome.
     io_bind (timed E ''freshValidation''
       (validateRepairFresh P E config input target (out_plan outcome))) (\<lambda>fresh.
     io_bind (io_lift (assertObservationsAgree (out_observation outcome) fresh)) (\<lambda>_.
     job_success P E config input run started (\<lambda>r. r\<lparr>
       res_generation := Some (rev_generation revision + 1), res_candidatePlan := Some (out_plan outcome),
       res_modelCallCount := out_modelCallCount outcome, res_cacheStatus := Some MISS,
       res_repairSource := Some (out_source outcome), res_requiresConfirmation := Some False\<rparr>))))"

definition job_main ::
    "platform \<Rightarrow> env \<Rightarrow> WorkerConfig \<Rightarrow> ExecutionInput \<Rightarrow> rat \<Rightarrow> url \<Rightarrow> bool \<Rightarrow> browser_run \<Rightarrow> ExecutionResult io" where
  "job_main P E config input started target scripted run =
     io_bind (throwIfAborted E) (\<lambda>_.
     if job_kind (in_execution input) = Compile then job_compile P E config input started target run
     else
       io_bind (io_lift (requireRevision E input)) (\<lambda>revision.
       if job_kind (in_execution input) = Check
       then job_check P E config input started target run revision
       else job_repair P E config input started target scripted run revision))"

text \<open>
  \<open>executeJob\<close>: what the \<open>catch\<close> block can see of the run and the page depends on how far the
  body came; the \<open>finally\<close> block closes the run if there is one.
\<close>

definition executeJob :: "platform \<Rightarrow> env \<Rightarrow> WorkerConfig \<Rightarrow> ExecutionInput \<Rightarrow> ExecutionResult io" where
  "executeJob P E config input =
     io_bind (io_now E) (\<lambda>started.
     io_bind fresh_timings (\<lambda>_.
     io_bind (io_attempt (job_prepare P E config input)) (\<lambda>prepared.
     case prepared of
       Inl e \<Rightarrow> job_failure P E config input started None False e
     | Inr (target, scripted, run) \<Rightarrow>
         io_bind (io_attempt (throwIfAborted E)) (\<lambda>a.
         case a of
           Inl e \<Rightarrow> io_finally (job_failure P E config input started (Some run) False e) (run_close run False)
         | Inr _ \<Rightarrow>
             io_finally
               (io_bind (io_attempt (timed E ''browserInit'' (initialize E run (url_hostname target)))) (\<lambda>i.
                case i of
                  Inl e \<Rightarrow> job_failure P E config input started (Some run) False e
                | Inr _ \<Rightarrow>
                    io_catch (job_main P E config input started target scripted run)
                      (\<lambda>e. job_failure P E config input started (Some run) True e)))
               (run_close run True)))))"

end
