(* ===== verification/Traces.thy ===== *)
theory Traces
  imports Effects
begin

text \<open>
  Properties of the whole sequence of calls a program makes, where \<open>emits\<close> speaks of single
  calls. The locale states what composition needs: the property holds of no calls and is
  kept by appending; its lemmas are the rules for the effect operations. The instance used
  here: every initialised session is closed later.
\<close>

definition traces :: "(call list \<Rightarrow> bool) \<Rightarrow> 'a io \<Rightarrow> bool" where
  "traces T m \<longleftrightarrow> (\<forall>w. \<exists>new. w_calls (snd (m w)) = w_calls w @ new \<and> T new)"

lemma tracesD: "traces T m \<Longrightarrow> m w = (r, w') \<Longrightarrow> \<exists>new. w_calls w' = w_calls w @ new \<and> T new"
  by (metis traces_def snd_conv)

lemma traces_weaken: "traces T m \<Longrightarrow> (\<And>cs. T cs \<Longrightarrow> U cs) \<Longrightarrow> traces U m"
  unfolding traces_def by metis

lemma emits_traces: "emits Q m \<longleftrightarrow> traces (list_all Q) m"
  by (simp add: emits_def traces_def extends_def)

text \<open>The finaliser of a program, as the calls it adds.\<close>

lemma traces_finally_tail:
  assumes "emits Q m" and "\<And>w. w_calls (f w) = w_calls w @ tail" and "\<And>cs. list_all Q cs \<Longrightarrow> T (cs @ tail)"
  shows "traces T (io_finally m f)"
  unfolding traces_def
proof
  fix w
  obtain r w1 where m: "m w = (r, w1)" by fastforce
  then obtain new where "w_calls w1 = w_calls w @ new" "list_all Q new"
    using emitsD [OF assms(1) m] by (auto simp: extends_def)
  then show "\<exists>new. w_calls (snd (io_finally m f w)) = w_calls w @ new \<and> T new"
    using m assms(2,3) by (auto simp: io_finally_def)
qed

locale trace_property =
  fixes T :: "call list \<Rightarrow> bool"
  assumes T_nil: "T []" and T_append: "T xs \<Longrightarrow> T ys \<Longrightarrow> T (xs @ ys)"
begin

lemma traces_pure: "(\<And>w. w_calls (snd (m w)) = w_calls w) \<Longrightarrow> traces T m"
  using T_nil by (simp add: traces_def)

lemma traces_bind_dep:
  assumes m: "traces T m" and f: "\<And>w x w'. m w = (Inr x, w') \<Longrightarrow> traces T (f x)"
  shows "traces T (io_bind m f)"
  unfolding traces_def
proof
  fix w
  obtain r w1 where m1: "m w = (r, w1)" by fastforce
  then obtain new where n: "w_calls w1 = w_calls w @ new" "T new" using tracesD [OF m] by blast
  show "\<exists>new. w_calls (snd (io_bind m f w)) = w_calls w @ new \<and> T new"
  proof (cases r)
    case (Inr x)
    obtain new' where "w_calls (snd (f x w1)) = w_calls w1 @ new'" "T new'"
      using f [of w x w1] m1 Inr by (auto simp: traces_def)
    then show ?thesis using m1 n Inr T_append by (auto simp: io_bind_def)
  qed (use m1 n in \<open>auto simp: io_bind_def\<close>)
qed

lemma traces_bind: "traces T m \<Longrightarrow> (\<And>x. traces T (f x)) \<Longrightarrow> traces T (io_bind m f)"
  by (rule traces_bind_dep)

lemma traces_catch:
  assumes m: "traces T m" and f: "\<And>e. traces T (f e)"
  shows "traces T (io_catch m f)"
  unfolding traces_def
proof
  fix w
  obtain r w1 where m1: "m w = (r, w1)" by fastforce
  then obtain new where n: "w_calls w1 = w_calls w @ new" "T new" using tracesD [OF m] by blast
  show "\<exists>new. w_calls (snd (io_catch m f w)) = w_calls w @ new \<and> T new"
  proof (cases r)
    case (Inl e)
    obtain new' where "w_calls (snd (f e w1)) = w_calls w1 @ new'" "T new'"
      using f [of e] by (auto simp: traces_def)
    then show ?thesis using m1 n Inl T_append by (auto simp: io_catch_def)
  qed (use m1 n in \<open>auto simp: io_catch_def\<close>)
qed

lemma traces_attempt: "traces T m \<Longrightarrow> traces T (io_attempt m)"
  unfolding traces_def io_attempt_def by (metis (no_types, lifting) case_prod_beta snd_conv)

lemma traces_finally:
  assumes m: "traces T m" and f: "\<And>w. \<exists>new. w_calls (f w) = w_calls w @ new \<and> T new"
  shows "traces T (io_finally m f)"
  unfolding traces_def
proof
  fix w
  obtain r w1 where m1: "m w = (r, w1)" by fastforce
  then obtain new where n: "w_calls w1 = w_calls w @ new" "T new" using tracesD [OF m] by blast
  obtain new' where "w_calls (f w1) = w_calls w1 @ new'" "T new'" using f [of w1] by blast
  then show "\<exists>new. w_calls (snd (io_finally m f w)) = w_calls w @ new \<and> T new"
    using m1 n T_append by (auto simp: io_finally_def)
qed

lemma traces_ret: "traces T (io_ret x)"
  and traces_throw: "traces T (io_throw e)"
  and traces_lift: "traces T (io_lift r)"
  and traces_read: "traces T (io_read g)"
  by (rule traces_pure, simp add: io_simps)+

lemma traces_if: "traces T m \<Longrightarrow> traces T n \<Longrightarrow> traces T (if b then m else n)"
  by simp

lemma traces_sum:
  "(\<And>e. traces T (g e)) \<Longrightarrow> (\<And>y. traces T (f y)) \<Longrightarrow> traces T (case x of Inl e \<Rightarrow> g e | Inr y \<Rightarrow> f y)"
  by (cases x) auto

lemma traces_prod: "(\<And>a b. traces T (f a b)) \<Longrightarrow> traces T (case x of (a, b) \<Rightarrow> f a b)"
  by (cases x) auto

lemmas traces_intro = traces_bind traces_catch traces_attempt traces_ret traces_throw traces_lift
  traces_read traces_if traces_sum traces_prod

end

section \<open>Sessions are closed\<close>

text \<open>Wherever the session is initialised, a close of it follows.\<close>

fun closed_after :: "session \<Rightarrow> call list \<Rightarrow> bool" where
  "closed_after s [] = True"
| "closed_after s (c # cs) = ((c = CInit s \<longrightarrow> CClose s \<in> set cs) \<and> closed_after s cs)"

lemma closed_after_iff: "closed_after s cs \<longleftrightarrow> (\<forall>pre post. cs = pre @ CInit s # post \<longrightarrow> CClose s \<in> set post)"
proof (induction cs)
  case (Cons c cs)
  show ?case
  proof
    assume "closed_after s (c # cs)"
    then show "\<forall>pre post. c # cs = pre @ CInit s # post \<longrightarrow> CClose s \<in> set post"
      using Cons by (auto simp: Cons_eq_append_conv)
  next
    assume *: "\<forall>pre post. c # cs = pre @ CInit s # post \<longrightarrow> CClose s \<in> set post"
    then have "\<forall>pre post. cs = pre @ CInit s # post \<longrightarrow> CClose s \<in> set post"
      by (metis append_Cons)
    moreover have "c = CInit s \<longrightarrow> CClose s \<in> set cs" using * by (metis append_Nil)
    ultimately show "closed_after s (c # cs)" using Cons by simp
  qed
qed simp

lemma closed_after_append: "closed_after s xs \<Longrightarrow> closed_after s ys \<Longrightarrow> closed_after s (xs @ ys)"
  by (induction xs) auto

lemma closed_after_none: "list_all (\<lambda>c. c \<noteq> CInit s) cs \<Longrightarrow> closed_after s cs"
  by (induction cs) auto

lemma closed_after_tail: "CClose s \<in> set tail \<Longrightarrow> closed_after s tail \<Longrightarrow> closed_after s (cs @ tail)"
  by (induction cs) auto

interpretation closing: trace_property "closed_after s" for s
  by unfold_locales (auto intro: closed_after_append)

lemma emits_closing: "emits (\<lambda>c. c \<noteq> CInit s) m \<Longrightarrow> traces (closed_after s) m"
  unfolding emits_traces by (erule traces_weaken) (rule closed_after_none)

end
