(* ===== verification/HandlerLaws.thy ===== *)
theory HandlerLaws
  imports Handler Traces
begin

text \<open>
  What a job returns and does (\<open>executeJob\<close>): it never throws, its result carries the
  execution's identity and is a failure exactly when it says why; every action it hands to
  the browser is safe; a check consults no model; a repaired plan was confirmed by an
  independent session; and every browser session it opened is closed at the end.
\<close>

section \<open>Totality\<close>

lemma settles_now [settles_intro]: "settles (io_now E)"
  unfolding io_now_def by (intro settles_bind settles_read settles_ret) (simp add: settles_def io_call_def)

lemma settles_note_total [settles_intro]: "settles (note_total E started)"
  unfolding note_total_def by (intro settles_intro)

lemma settles_metric [settles_intro]: "settles (metric E run)"
  unfolding metric_def by (intro settles_intro)

lemma settles_session_field [settles_intro]: "settles (session_field E run)"
  unfolding session_field_def sessionId_def by (intro settles_intro)

lemma settles_timings [settles_intro]: "settles io_timings"
  by (simp add: settles_def io_timings_def)

lemma settles_fresh_timings [settles_intro]: "settles fresh_timings"
  by (simp add: settles_def fresh_timings_def)

lemma settles_job_failure [settles_intro]: "settles (job_failure P E config input started run ready e)"
  unfolding job_failure_def Let_def by (intro settles_intro)

lemma settles_executeJob: "settles (executeJob P E config input)"
  unfolding executeJob_def by (intro settles_intro)

section \<open>The result\<close>

text \<open>Identity of a result, and the agreement of its status with its other fields.\<close>

definition result_ok :: "ExecutionInput \<Rightarrow> ExecutionResult \<Rightarrow> bool" where
  "result_ok input r \<longleftrightarrow>
    res_executionId r = job_id (in_execution input) \<and> res_monitorId r = mon_id (in_monitor input) \<and>
    res_kind r = job_kind (in_execution input) \<and>
    (res_status r = RSucceeded \<longleftrightarrow> res_failure r = None) \<and>
    (res_status r = RNeedsReview \<longleftrightarrow>
       (\<exists>f. res_failure r = Some f \<and> fail_classification f \<in> {identity_drift, ambiguous_value})) \<and>
    (\<forall>f. res_failure r = Some f \<longrightarrow> length (fail_message f) \<le> 1000 \<and>
       res_observation r = None \<and> res_candidatePlan r = None)"

lemma classify_message_not_review:
  "classify_message m \<noteq> identity_drift" "classify_message m \<noteq> ambiguous_value"
  by (simp_all add: classify_message_def)

lemma classifyFailure_review:
  "classifyFailure P e \<in> {identity_drift, ambiguous_value} \<longleftrightarrow> is_validation e"
proof (cases e)
  case (ValidationError m r)
  then show ?thesis by (cases r) (simp_all add: classifyFailure_def)
qed (simp_all add: classifyFailure_def classify_message_not_review)

lemma job_failure_result: "returns (result_ok input) (job_failure P E config input started run ready e)"
proof -
  have "result_ok input ((base_result input artifacts prov session timings)\<lparr>
      res_status := if is_validation e' then RNeedsReview else RFailed, res_modelCallCount := n,
      res_failure := Some \<lparr>fail_classification = classifyFailure P e', fail_message = safeError e'\<rparr>\<rparr>)"
    for artifacts prov session timings e' n
    using classifyFailure_review [of P e'] by (auto simp: result_ok_def base_result_def safeError_def)
  then show ?thesis
    unfolding job_failure_def Let_def by (intro returns_intro)
qed

lemma job_success_result:
  assumes "\<And>a p s t. R (fill (base_result input a p s t))"
  shows "returns R (job_success P E config input run started fill)"
  unfolding job_success_def by (intro returns_intro assms)

lemma job_main_result: "returns (result_ok input) (job_main P E config input started target scripted run)"
  unfolding job_main_def job_compile_def job_check_def job_repair_def
  by (intro returns_intro job_success_result) (simp_all add: result_ok_def base_result_def)

lemma executeJob_result: "returns (result_ok input) (executeJob P E config input)"
  unfolding executeJob_def by (intro returns_intro job_failure_result job_main_result)

section \<open>The calls of a job\<close>

lemma emits_now: "Q CClock \<Longrightarrow> emits Q (io_now E)"
  unfolding io_now_def by (intro emits_intro)

lemma extends_set_timing: "Q CClock \<Longrightarrow> extends Q w (set_timing E name started w)"
  by (simp add: extends_def set_timing_def record_call_def)

lemma emits_timed: "Q CClock \<Longrightarrow> emits Q task \<Longrightarrow> emits Q (timed E name task)"
  unfolding timed_def by (intro emits_intro emits_now extends_set_timing)

lemma emits_note_total: "Q CClock \<Longrightarrow> emits Q (note_total E started)"
  unfolding note_total_def by (intro emits_intro extends_set_timing)

lemma emits_quiet:
  "emits Q (throwIfAborted E)" "emits Q (metric E run)" "emits Q (session_field E run)" "emits Q io_timings"
  "emits Q fresh_timings"
  unfolding throwIfAborted_def metric_def session_field_def sessionId_def
  by (intro emits_intro, intro emits_intro, intro emits_intro)
    (simp_all add: emits_def io_timings_def fresh_timings_def extends_def)

text \<open>Calls that every job may make around its page.\<close>

definition housekeeping :: "session \<Rightarrow> call \<Rightarrow> bool" where
  "housekeeping s c \<longleftrightarrow> c \<in> {CClock, CInit s, CNewPage s, CScreenshot s, CSnapshot s, CClose s} \<or>
     (\<exists>x. c \<in> {CLookup x, CMkdir x, CWrite x, CRemove x}) \<or> (\<exists>hs. c = CDomainPolicy s hs)"

lemma housekeeping_simps [simp]:
  "housekeeping s CClock" "housekeeping s (CInit s)" "housekeeping s (CNewPage s)"
  "housekeeping s (CScreenshot s)" "housekeeping s (CSnapshot s)" "housekeeping s (CClose s)"
  "housekeeping s (CLookup x)" "housekeeping s (CMkdir x)" "housekeeping s (CWrite x)"
  "housekeeping s (CRemove x)" "housekeeping s (CDomainPolicy s hs)"
  by (simp_all add: housekeeping_def)

lemma emits_captures_housekeeping: "emits (housekeeping s) (captureEvidence P E s dir i)"
  unfolding captureEvidence_def Let_def by (intro emits_intro) simp_all

lemma emits_initialize: "emits (housekeeping (run_session run)) (initialize E run host)"
  unfolding initialize_def Let_def by (intro emits_intro) simp_all

lemma emits_validateTargetUrl: "emits (housekeeping s) (validateTargetUrl P E x allowed)"
  unfolding validateTargetUrl_def Let_def by (intro emits_intro) simp_all

lemma extends_run_close: "extends (housekeeping (run_session run)) w (run_close run b w)"
  by (cases b) (simp_all add: extends_def run_close_def record_call_def)

definition launches :: "browser_run \<Rightarrow> call \<Rightarrow> bool" where
  "launches run c \<longleftrightarrow> c = CLaunch (run_session run) (run_selfHeal run) (run_model run)"

lemma newBrowserRun_Inr:
  "newBrowserRun E s config opts w = (Inr run, w') \<Longrightarrow>
   run_session run = s \<and> run_selfHeal run = opt_selfHeal opts \<and> run_model run = opt_needsModel opts"
  unfolding newBrowserRun_def by (auto simp: io_bind_Inr)

lemma emits_newBrowserRun:
  "emits (\<lambda>c. c = CLaunch s (opt_selfHeal opts) (opt_needsModel opts)) (newBrowserRun E s config opts)"
  unfolding newBrowserRun_def by (intro emits_intro) simp

text \<open>
  What a job of a given kind may do: \<open>job_call P h m\<close> with \<open>h\<close> whether sessions may self-heal and
  \<open>m\<close> whether the model may be asked.
\<close>

definition job_call :: "platform \<Rightarrow> bool \<Rightarrow> bool \<Rightarrow> call \<Rightarrow> bool" where
  "job_call P h m c \<longleftrightarrow> (\<exists>s. housekeeping s c \<or> drives P s c \<or> (m \<and> asks_model s c) \<or>
     (\<exists>h' m'. c = CLaunch s h' m' \<and> (h' \<longrightarrow> h) \<and> (m' \<longrightarrow> m)))"

lemma job_call_intros:
  "housekeeping s c \<Longrightarrow> job_call P h m c"
  "drives P s c \<Longrightarrow> job_call P h m c"
  "live_call P s c \<Longrightarrow> m \<Longrightarrow> job_call P h m c"
  "(h' \<longrightarrow> h) \<Longrightarrow> (m' \<longrightarrow> m) \<Longrightarrow> job_call P h m (CLaunch s h' m')"
  unfolding job_call_def by blast+

lemma job_call_clock [simp]: "job_call P h m CClock"
  by (rule job_call_intros(1) [of MainRun]) simp

lemma extends_weaken: "extends Q w w' \<Longrightarrow> (\<And>c. Q c \<Longrightarrow> R c) \<Longrightarrow> extends R w w'"
  unfolding extends_def by (metis list.pred_mono_strong)

lemma emits_job_parts:
  "emits (job_call P h m) (captureEvidence P E s dir i)"
  "emits (job_call P h m) (initialize E run host)"
  "emits (job_call P h m) (validateTargetUrl P E x allowed)"
  "extends (job_call P h m) w (run_close run b w)"
  by (rule emits_weaken [OF emits_captures_housekeeping], erule job_call_intros)
    (rule emits_weaken [OF emits_initialize], erule job_call_intros,
     rule emits_weaken [OF emits_validateTargetUrl], erule job_call_intros,
     rule extends_weaken [OF extends_run_close], erule job_call_intros)

lemma emits_job_failure: "emits (job_call P h m) (job_failure P E config input started run ready e)"
  unfolding job_failure_def Let_def
  by (intro emits_intro emits_quiet emits_timed emits_note_total emits_job_parts job_call_clock)

lemma emits_job_success: "emits (job_call P h m) (job_success P E config input run started fill)"
  unfolding job_success_def
  by (intro emits_intro emits_quiet emits_timed emits_note_total emits_job_parts job_call_clock)

lemma emits_job_compileMonitor:
  "unicode_ok P \<Longrightarrow> emits (job_call P h True) (compileMonitor P E run input target fo config)"
  by (rule emits_weaken [OF emits_compileMonitor]) (auto intro: job_call_intros)

lemma emits_warmCheck:
  assumes "unicode_ok P"
  shows "emits (drives P (run_session run)) (warmCheck P E run plan target)"
  unfolding warmCheck_def
  by (intro emits_intro emits_goto emits_check_origin emits_replay_step emits_extract_drives assms)

lemma emits_heal_steps:
  "unicode_ok P \<Longrightarrow> emits (drives P (run_session run)) (heal_steps P E run target sts)"
  by (induction sts) (auto intro!: emits_intro emits_replaySafeAction)

lemma emits_repairLive:
  assumes "unicode_ok P"
  shows "emits (job_call P h True) (repairLive P E run input plan target config)"
proof -
  have d: "emits (job_call P h True) m" if "emits (drives P (run_session run)) m" for m :: "'a io"
    using that by (rule emits_weaken) (rule job_call_intros)
  have "emits (job_call P h True) (goto E (run_session run) x)" for x by (intro d emits_goto)
  moreover have "emits (job_call P h True) (heal_steps P E run target sts)" for sts
    by (intro d emits_heal_steps assms)
  moreover have "emits (job_call P h True) (extractObservation P E (run_session run) p)" for p
    by (intro d emits_extract_drives)
  ultimately show ?thesis
    unfolding repairLive_def Let_def
    by (intro emits_intro emits_quiet emits_check_origin emits_job_compileMonitor assms)
qed

lemma emits_validateRepairFresh:
  assumes "unicode_ok P"
  shows "emits (job_call P h m) (validateRepairFresh P E config input target plan)"
proof -
  have "emits (job_call P h m) (newBrowserRun E ValidatorRun config (validator_options input))"
    by (rule emits_weaken [OF emits_newBrowserRun]) (simp add: validator_options_def job_call_intros)
  moreover have "emits (job_call P h m) (warmCheck P E run plan target)" for run
    by (rule emits_weaken [OF emits_warmCheck [OF assms]]) (rule job_call_intros)
  ultimately show ?thesis
    unfolding validateRepairFresh_def by (intro emits_intro emits_quiet emits_job_parts)
qed

lemma emits_job_prepare:
  "(job_kind (in_execution input) = Repair \<Longrightarrow> h) \<Longrightarrow> (job_kind (in_execution input) \<noteq> Check \<Longrightarrow> m) \<Longrightarrow>
   emits (job_call P h m) (job_prepare P E config input)"
proof -
  assume k: "job_kind (in_execution input) = Repair \<Longrightarrow> h" "job_kind (in_execution input) \<noteq> Check \<Longrightarrow> m"
  have "emits (job_call P h m) (newBrowserRun E MainRun config (run_options input scripted))" for scripted
    by (rule emits_weaken [OF emits_newBrowserRun]) (use k in \<open>auto simp: run_options_def intro!: job_call_intros(4)\<close>)
  then show ?thesis
    unfolding job_prepare_def
    by (intro emits_intro emits_quiet emits_timed emits_job_parts job_call_clock)
qed

lemma emits_job_check:
  assumes "unicode_ok P"
  shows "emits (job_call P h m) (job_check P E config input started target run revision)"
proof -
  have "emits (job_call P h m) (warmCheck P E run p target)" for p
    by (rule emits_weaken [OF emits_warmCheck [OF assms]]) (rule job_call_intros)
  then show ?thesis
    unfolding job_check_def by (intro emits_intro emits_timed emits_job_success job_call_clock)
qed

lemma emits_job_main:
  assumes "unicode_ok P" "job_kind (in_execution input) \<noteq> Check \<Longrightarrow> m"
  shows "emits (job_call P h m) (job_main P E config input started target scripted run)"
proof (cases "job_kind (in_execution input) = Check")
  case True
  then show ?thesis
    unfolding job_main_def by (intro emits_intro emits_quiet emits_job_check assms(1)) simp_all
next
  case False
  then have m: "m = True" using assms(2) by simp
  show ?thesis
    unfolding job_main_def job_compile_def job_repair_def m
    by (intro emits_intro emits_quiet emits_timed emits_job_success emits_job_check
        emits_job_compileMonitor emits_repairLive emits_validateRepairFresh assms(1) job_call_clock)
qed

lemma emits_executeJob:
  assumes "unicode_ok P" "job_kind (in_execution input) = Repair \<Longrightarrow> h"
    "job_kind (in_execution input) \<noteq> Check \<Longrightarrow> m"
  shows "emits (job_call P h m) (executeJob P E config input)"
  unfolding executeJob_def
  by (intro emits_intro emits_quiet emits_now emits_timed emits_job_failure emits_job_parts
      emits_job_prepare emits_job_main job_call_clock assms) (use assms in auto)

text \<open>Every part of a job makes calls of its own only, whatever the platform.\<close>

lemma work_housekeeping: "housekeeping s c \<Longrightarrow> work c"
  by (auto simp: housekeeping_def)

lemma emits_work_parts:
  "emits work (captureEvidence P E s dir i)" "emits work (initialize E run host)"
  "emits work (validateTargetUrl P E x allowed)" "extends work w (run_close run b w)"
  "emits work (newBrowserRun E s config opts)"
  by (rule emits_weaken [OF emits_captures_housekeeping], erule work_housekeeping)
    (rule emits_weaken [OF emits_initialize], erule work_housekeeping,
     rule emits_weaken [OF emits_validateTargetUrl], erule work_housekeeping,
     rule extends_weaken [OF extends_run_close], erule work_housekeeping,
     rule emits_weaken [OF emits_newBrowserRun], simp)

lemma emits_work_steps: "emits work (heal_steps P E run target sts)"
  by (induction sts) (auto intro!: emits_intro emits_work_replay)

lemma emits_work_check: "emits work (warmCheck P E run plan target)"
  unfolding warmCheck_def
  by (intro emits_intro emits_work_step emits_work_page emits_check_origin)

lemma emits_work_report:
  "emits work (job_failure P E config input started r ready e)"
  "emits work (job_success P E config input run started fill)"
  unfolding job_failure_def job_success_def Let_def
  by (intro emits_intro emits_quiet emits_timed emits_note_total emits_work_parts; simp)+

lemma emits_work_repair:
  "emits work (repairLive P E run input plan target config)"
  "emits work (validateRepairFresh P E config input target plan)"
  unfolding repairLive_def validateRepairFresh_def Let_def
  by (intro emits_intro emits_quiet emits_work_check emits_work_steps emits_work_page emits_work_parts
      emits_check_origin emits_work_compile)+

lemma emits_work_prepare: "emits work (job_prepare P E config input)"
  unfolding job_prepare_def by (intro emits_intro emits_quiet emits_timed emits_work_parts) simp_all

lemma emits_work_main: "emits work (job_main P E config input started target scripted run)"
  unfolding job_main_def job_compile_def job_check_def job_repair_def
  by (intro emits_intro emits_quiet emits_timed emits_work_check emits_work_report
      emits_work_compile emits_work_repair) simp_all

lemma emits_work_executeJob: "emits work (executeJob P E config input)"
  unfolding executeJob_def
  by (intro emits_intro emits_quiet emits_now emits_timed emits_work_parts emits_work_prepare emits_work_report
      emits_work_main) simp_all

text \<open>What ends a job: readings of the clock, evidence, the closing of sessions.\<close>

fun closing_call :: "call \<Rightarrow> bool" where
  "closing_call CClock = True"
| "closing_call (CScreenshot s) = True"
| "closing_call (CSnapshot s) = True"
| "closing_call (CMkdir x) = True"
| "closing_call (CWrite x) = True"
| "closing_call (CClose s) = True"
| "closing_call (CRemove x) = True"
| "closing_call _ = False"

lemma closing_report:
  "emits closing_call (job_failure P E config input started r ready e)"
  "emits closing_call (job_success P E config input run started fill)"
  "extends closing_call w (run_close run b w)"
proof -
  have c: "emits closing_call (captureEvidence P E s dir i)" for s dir i
    unfolding captureEvidence_def Let_def by (intro emits_intro) simp_all
  show "emits closing_call (job_failure P E config input started r ready e)"
    "emits closing_call (job_success P E config input run started fill)"
    unfolding job_failure_def job_success_def Let_def
    by (intro emits_intro emits_quiet emits_timed emits_note_total c; simp)+
  show "extends closing_call w (run_close run b w)"
    by (cases b) (simp_all add: extends_def run_close_def record_call_def)
qed

section \<open>Sessions are closed\<close>

lemma run_close_calls:
  "w_calls (run_close run True w) =
     w_calls w @ [CClose (run_session run), CClose (run_session run), CRemove (run_cacheDir run)]"
  "w_calls (run_close run False w) = w_calls w @ [CRemove (run_cacheDir run)]"
  by (simp_all add: run_close_def record_call_def)

text \<open>A program that ends by closing its session leaves it closed.\<close>

lemma emits_True: "emits Q m \<Longrightarrow> emits (\<lambda>_. True) m"
  by (erule emits_weaken) simp

lemma closing_finally:
  assumes "emits Q m" "run_session run = s"
  shows "traces (closed_after s) (io_finally m (run_close run True))"
  by (rule traces_finally_tail [OF emits_True [OF assms(1)] run_close_calls(1)])
    (use assms(2) in \<open>auto intro: closed_after_tail\<close>)

lemma closing_other:
  assumes "traces (closed_after s) m"
  shows "traces (closed_after s) (io_finally m (run_close run b))"
  by (rule closing.traces_finally [OF assms]) (cases b; simp add: run_close_calls)

text \<open>The only calls on a session are those of its run.\<close>

definition not_init :: "session \<Rightarrow> call \<Rightarrow> bool" where
  "not_init s c \<longleftrightarrow> c \<noteq> CInit s"

lemma drives_not_init: "drives P s' c \<Longrightarrow> not_init s c"
  by (auto simp: drives_def inspects_def reads_page_def not_init_def)

lemma live_not_init: "live_call P s' c \<Longrightarrow> not_init s c"
  using drives_not_init [of P s' c s] by (auto simp: asks_model_def not_init_def)

lemma housekeeping_not_init: "housekeeping s' c \<Longrightarrow> s' \<noteq> s \<Longrightarrow> not_init s c"
  by (auto simp: housekeeping_def not_init_def)

lemma emits_not_init_parts:
  "emits (not_init s) (captureEvidence P E s' dir i)"
  "emits (not_init s) (validateTargetUrl P E x allowed)"
  "emits (not_init s) (newBrowserRun E s' config opts)"
  unfolding captureEvidence_def validateTargetUrl_def newBrowserRun_def Let_def
  by (intro emits_intro; simp add: not_init_def)+

lemmas not_init_intro = emits_intro emits_quiet emits_timed emits_now emits_note_total emits_not_init_parts

lemma not_init_clock [simp]: "not_init s CClock"
  by (simp add: not_init_def)

lemma emits_not_init_job:
  "emits (not_init s) (job_failure P E config input started r ready e)"
  "emits (not_init s) (job_success P E config input run started fill)"
  "emits (not_init s) (job_prepare P E config input)"
  unfolding job_failure_def job_success_def job_prepare_def Let_def
  by (intro not_init_intro not_init_clock)+

lemma closing_validateRepairFresh:
  assumes "unicode_ok P"
  shows "traces (closed_after ValidatorRun) (validateRepairFresh P E config input target plan)"
  unfolding validateRepairFresh_def
proof (rule closing.traces_bind_dep)
  show "traces (closed_after ValidatorRun) (newBrowserRun E ValidatorRun config (validator_options input))"
    by (rule emits_closing) (rule emits_not_init_parts [unfolded not_init_def])
next
  fix w validator w'
  assume v: "newBrowserRun E ValidatorRun config (validator_options input) w = (Inr validator, w')"
  have s: "run_session validator = ValidatorRun" using newBrowserRun_Inr [OF v] by simp
  have "emits (job_call P False False)
     (io_bind (initialize E validator (url_hostname target)) (\<lambda>_.
        io_bind (throwIfAborted E) (\<lambda>_.
        io_bind (warmCheck P E validator plan target) (\<lambda>observation.
        io_bind (throwIfAborted E) (\<lambda>_. io_ret observation)))))"
    by (intro emits_intro emits_quiet emits_job_parts emits_weaken [OF emits_warmCheck [OF assms]])
      (rule job_call_intros)
  from closing_finally [OF this s]
  show "traces (closed_after ValidatorRun) (io_bind (io_attempt (throwIfAborted E)) (\<lambda>a. case a of
       Inl e \<Rightarrow> io_finally (io_throw e) (run_close validator False)
     | Inr _ \<Rightarrow> io_finally
           (io_bind (initialize E validator (url_hostname target)) (\<lambda>_.
            io_bind (throwIfAborted E) (\<lambda>_.
            io_bind (warmCheck P E validator plan target) (\<lambda>observation.
            io_bind (throwIfAborted E) (\<lambda>_. io_ret observation)))))
           (run_close validator True)))"
    by (intro closing.traces_bind [OF closing.traces_attempt [OF emits_closing [OF emits_quiet(1)]]]
        closing.traces_sum closing_other [OF closing.traces_throw])
qed

lemma closing_timed: "traces (closed_after s) task \<Longrightarrow> traces (closed_after s) (timed E name task)"
  unfolding timed_def
  by (rule closing.traces_bind [OF emits_closing [OF emits_now] closing.traces_finally])
    (simp_all add: set_timing_def record_call_def)

lemma not_init_closing: "emits (not_init s) m \<Longrightarrow> traces (closed_after s) m"
  by (rule emits_closing) (erule emits_weaken, simp add: not_init_def)

text \<open>The parts of a job that run in the main session leave the other session alone.\<close>

lemma emits_not_init_main:
  assumes "unicode_ok P" "run_session run \<noteq> s"
  shows "emits (not_init s) (compileMonitor P E run input target fo config)"
    "emits (not_init s) (warmCheck P E run plan target)"
    "emits (not_init s) (initialize E run host)"
    "emits (not_init s) (repairLive P E run input plan target config)"
proof -
  show c: "emits (not_init s) (compileMonitor P E run input target fo config)" for fo
    by (rule emits_weaken [OF emits_compileMonitor [OF assms(1)]]) (rule live_not_init)
  have d: "emits (drives P (run_session run)) m \<Longrightarrow> emits (not_init s) m" for m :: "'b io"
    by (erule emits_weaken) (rule drives_not_init)
  show "emits (not_init s) (warmCheck P E run plan target)"
    by (intro d emits_warmCheck assms(1))
  show "emits (not_init s) (initialize E run host)"
    by (rule emits_weaken [OF emits_initialize]) (rule housekeeping_not_init [OF _ assms(2)])
  have "emits (not_init s) (goto E (run_session run) x)" for x
    by (rule emits_weaken [OF emits_goto]) (rule drives_not_init)
  moreover have "emits (not_init s) (heal_steps P E run target sts)" for sts
    by (rule emits_weaken [OF emits_heal_steps [OF assms(1)]]) (rule drives_not_init)
  moreover have "emits (not_init s) (extractObservation P E (run_session run) p)" for p
    by (rule emits_weaken [OF emits_extract_drives]) (rule drives_not_init)
  ultimately show "emits (not_init s) (repairLive P E run input plan target config)"
    unfolding repairLive_def Let_def
    by (intro emits_intro emits_quiet emits_check_origin c)
qed

lemma closing_job_main:
  assumes "unicode_ok P" "run_session run = MainRun"
  shows "traces (closed_after ValidatorRun) (job_main P E config input started target scripted run)"
proof -
  have s: "run_session run \<noteq> ValidatorRun" using assms(2) by simp
  note parts = emits_not_init_main [OF assms(1) s]
  show ?thesis
    unfolding job_main_def job_compile_def job_check_def job_repair_def
    by (intro closing.traces_intro closing_timed closing_validateRepairFresh assms(1)
        not_init_closing [OF emits_not_init_job(2)] not_init_closing [OF emits_quiet(1)]
        not_init_closing [OF parts(1)] not_init_closing [OF parts(2)] not_init_closing [OF parts(4)])
qed

lemma job_prepare_run:
  "job_prepare P E config input w = (Inr (target, scripted, run), w') \<Longrightarrow> run_session run = MainRun"
  unfolding job_prepare_def by (auto simp: io_bind_Inr dest: newBrowserRun_Inr)

lemma io_attempt_Inr: "io_attempt m w = (Inr r, w') \<longleftrightarrow> m w = (r, w')"
  by (auto simp: io_attempt_def split: prod.splits)

lemma closing_executeJob:
  assumes "unicode_ok P"
  shows "traces (closed_after s) (executeJob P E config input)"
proof -
  let ?fail = "\<lambda>started. job_failure P E config input started"
  let ?inner = "\<lambda>started target scripted run.
    io_bind (io_attempt (timed E ''browserInit'' (initialize E run (url_hostname target)))) (\<lambda>i.
      case i of Inl e \<Rightarrow> ?fail started (Some run) False e
      | Inr _ \<Rightarrow> io_catch (job_main P E config input started target scripted run)
          (\<lambda>e. ?fail started (Some run) True e))"
  have inner: "traces (closed_after s) (io_finally (?inner started target scripted run) (run_close run True))"
    if "run_session run = MainRun" for started target scripted run
  proof (cases s)
    case MainRun
    have "emits (job_call P True True) (?inner started target scripted run)"
      by (intro emits_intro emits_timed emits_job_failure emits_job_parts emits_job_main
          job_call_clock assms) simp
    from closing_finally [OF this that] show ?thesis using MainRun by simp
  next
    case ValidatorRun
    have v: "run_session run \<noteq> ValidatorRun" using that by simp
    show ?thesis unfolding ValidatorRun
      by (intro closing_other closing.traces_intro closing_timed closing_job_main assms that
          not_init_closing [OF emits_not_init_main(3) [OF assms v]] not_init_closing [OF emits_not_init_job(1)])
  qed
  have after: "traces (closed_after s) (io_bind (io_attempt (throwIfAborted E)) (\<lambda>a. case a of
      Inl e \<Rightarrow> io_finally (?fail started (Some run) False e) (run_close run False)
    | Inr _ \<Rightarrow> io_finally (?inner started target scripted run) (run_close run True)))"
    if "run_session run = MainRun" for started target scripted run
    by (intro closing.traces_bind [OF closing.traces_attempt [OF not_init_closing [OF emits_quiet(1)]]]
        closing.traces_sum inner that closing_other [OF not_init_closing [OF emits_not_init_job(1)]])
  show ?thesis
    unfolding executeJob_def
  proof (rule closing.traces_bind [OF not_init_closing [OF emits_now]], simp,
      rule closing.traces_bind [OF not_init_closing [OF emits_quiet(5)]],
      rule closing.traces_bind_dep [OF closing.traces_attempt [OF not_init_closing [OF emits_not_init_job(3)]]],
      goal_cases)
    case (1 started u w prepared w')
    then show ?case
      using not_init_closing [OF emits_not_init_job(1)]
      by (cases prepared) (auto simp: io_attempt_Inr dest!: job_prepare_run intro!: after)
  qed
qed

end
