(* ===== verification/Shop.thy ===== *)
theory Shop
  imports HandlerLaws
begin

text \<open>
  A concrete shop: a page with a title, a price, an availability and a product in JSON-LD,
  a browser that works and a model that answers. The jobs of the worker are evaluated on it
  with the rules of \<open>yields\<close>; the examples of the job theories rest on these results.
\<close>

definition shop_platform :: platform where
  "shop_platform = ascii_platform\<lparr>sha256_hex := (\<lambda>_. js ''0123456789abcdef'')\<rparr>"

lemma unicode_ok_shop [simp]: "unicode_ok shop_platform"
  using unicode_ok_ascii_platform by (simp add: unicode_ok_def shop_platform_def)

definition shop_ld :: jsstr where
  "shop_ld = js ''{\"@type\":\"Product\",\"sku\":\"L1\",\"offers\":{\"priceCurrency\":\"USD\"}}''"

definition shop_product :: json where
  "shop_product = JObj [(js ''@type'', JStr (js ''Product'')), (js ''sku'', JStr (js ''L1'')),
     (js ''offers'', JObj [(js ''priceCurrency'', JStr (js ''USD''))])]"

definition shop_snapshot :: page_snapshot where
  "shop_snapshot = \<lparr>snap_formattedTree = js ''tree'',
     snap_xpathMap = [(js ''1'', js ''t''), (js ''2'', js ''p''), (js ''3'', js ''a'')]\<rparr>"

definition shop_nodes :: node_selection where
  "shop_nodes = \<lparr>ns_titleNodeId = js ''1'', ns_currentPriceNodeId = js ''2'', ns_availabilityNodeId = js ''3'',
     ns_currencyNodeId = None, ns_skuNodeId = None, ns_variantNodeIds = []\<rparr>"

definition shop_semantic :: semantic_product where
  "shop_semantic = \<lparr>sem_title = js ''Lamp'', sem_currentPriceText = js ''$5'', sem_currency = js ''USD'',
     sem_availability = js ''In stock'', sem_sku = None\<rparr>"

definition shop_env :: env where
  "shop_env = shelf_env\<lparr>env_lookup := (\<lambda>_ _. Inr [js ''8.8.8.8'']),
     env_launch := (\<lambda>_ _. Inr ()), env_init := (\<lambda>_ _. Inr ()), env_has_page := (\<lambda>_ _. True),
     env_goto := (\<lambda>_ _ _. Inr ()), env_url := (\<lambda>_ _. js ''http://a/p''),
     env_ld_count := (\<lambda>_ _. Inr 1), env_ld_text := (\<lambda>_ _ _. Inr (Some shop_ld)),
     env_observe := (\<lambda>_ _ _. Inr [button]), env_extract := (\<lambda>_ _. Inr shop_semantic),
     env_intent := (\<lambda>_ _. Inr \<lparr>ir_requestedVariant = [], ir_currency = None\<rparr>),
     env_nodes := (\<lambda>_ _. Inr shop_nodes), env_snapshot := (\<lambda>_ _. Inr shop_snapshot),
     env_screenshot := (\<lambda>_ _. Inr [1]), env_mkdir := (\<lambda>_ _. Inr ()), env_write := (\<lambda>_ _ _. Inr ())\<rparr>"

definition shop_url :: url where
  "shop_url = the (simple_url (js ''http://a/p''))"

definition shop_config :: WorkerConfig where
  "shop_config = default_config\<lparr>cfg_MODEL_NAME := js ''m/m'', cfg_MODEL_API_KEY := Some (js ''k''),
     cfg_FIXTURE_ORIGIN := js ''http://f''\<rparr>"

text \<open>The plan the live compiler finds there, and what it observes.\<close>

definition shop_observation :: Observation where
  "shop_observation = \<lparr>obs_title = js ''Lamp'', obs_sku = Some (js ''L1''), obs_priceMinor = Fin 500,
     obs_currency = USD, obs_inStock = True, obs_availabilityRaw = js ''In stock'',
     obs_selectedVariant = [], obs_rawPrice = js ''$5'',
     obs_identityFingerprint = js ''0123456789abcdef''\<rparr>"

definition shop_plan :: MonitorPlanV1 where
  "shop_plan = \<lparr>plan_schemaVersion = 1, plan_stagehandVersion = js ''3.7.0'',
     plan_canonicalUrl = js ''http://a/p'',
     plan_ident = \<lparr>id_title = js ''Lamp'', id_brand = None, id_sku = Some (js ''L1''),
       id_fingerprint = js ''0123456789abcdef'', id_requestedVariant = []\<rparr>,
     plan_preparationSteps = [],
     plan_extractors = \<lparr>ex_title = [XpathText (js ''xpath=t'') None, JsonLd FTitle],
       ex_price = [XpathText (js ''xpath=p'') None, JsonLd FPrice], ex_currency = Some [JsonLd FCurrency],
       ex_availability = [XpathText (js ''xpath=a'') None, JsonLd FAvailability],
       ex_selectedVariant = [], ex_sku = Some [JsonLd FSku]\<rparr>,
     plan_expectedCurrency = USD, plan_validatorVersion = 1\<rparr>"

definition shop_input :: "execution_kind \<Rightarrow> ExecutionInput" where
  "shop_input k = \<lparr>in_execution = \<lparr>job_id = js ''e1'', job_kind = k, job_state = Queued, job_attempt = 1,
       job_failedGeneration = None\<rparr>,
     in_monitor = \<lparr>mon_id = js ''m1'', mon_url = js ''http://a/p'', mon_intent = js ''lamp'', mon_condition = None\<rparr>,
     in_revision = Some \<lparr>rev_id = Some (js ''r1''), rev_generation = 4, rev_plan = shop_plan\<rparr>,
     in_compilerMode = Live\<rparr>"

section \<open>Facts that compute\<close>

lemma shop_values:
  "parsePrice (js ''$5'') = Inr (Fin 500, Some USD)"
  "normalizeCurrency shop_platform (js ''USD'') = Inr USD"
  "parseAvailability shop_platform (js ''In stock'') = Inr True"
  "fingerprint shop_platform t sku = js ''0123456789abcdef''"
  by (code_simp, code_simp, code_simp, simp add: fingerprint_def shop_platform_def)

lemma shop_checks:
  "validateObservation shop_platform shop_observation shop_plan = Inr ()"
  "check_semantic shop_platform shop_semantic shop_observation = Inr ()"
  "assertSameOrigin shop_platform (js ''http://a/p'') shop_url = Inr ()"
  "model_configured shop_config"
  "url_hostname shop_url = js ''a''" "url_href shop_url = js ''http://a/p''"
  "monitorPlanV1Schema (\<lambda>_. True) shop_plan"
  by code_simp+

lemma shop_products:
  "script_product (Some shop_ld) = Some shop_product"
  "jsonLdField shop_product FCurrency = Inr (js ''USD'')"
  "jsonLdField shop_product FSku = Inr (js ''L1'')"
proof -
  have "json_parse shop_ld = Some shop_product" "findProduct shop_product = Some shop_product" by code_simp+
  then show "script_product (Some shop_ld) = Some shop_product"
    by (simp add: script_product_def) (simp add: shop_ld_def js_def)
  show "jsonLdField shop_product FCurrency = Inr (js ''USD'')" "jsonLdField shop_product FSku = Inr (js ''L1'')"
    by code_simp+
qed

section \<open>Reading the page\<close>

lemma shop_texts:
  "env_innerText shop_env h s (js ''xpath=t'') = Inr (js '' Lamp '')"
  "env_innerText shop_env h s (js ''xpath=p'') = Inr (js ''$5'')"
  "env_innerText shop_env h s (js ''xpath=a'') = Inr (js ''In stock'')"
  by (simp_all add: shop_env_def shelf_env_def js_def)

lemma shop_trims:
  "trim (js '' Lamp '') = js ''Lamp''" "trim (js ''$5'') = js ''$5''"
  "trim (js ''In stock'') = js ''In stock''" "trim (js ''USD'') = js ''USD''" "trim (js ''L1'') = js ''L1''"
  by code_simp+

lemma js_nonempty [simp]: "js (c # cs) \<noteq> []"
  by (simp add: js_def)

lemma yields_text:
  assumes "\<And>h. env_innerText E h s sel = Inr v" "trim v = t" "t \<noteq> []"
  shows "yields (readFirst E s (Some (XpathText sel a # rest)) f c) (Some t, c)"
  using assms by (simp add: yields_def readFirst_def io_simps)

lemma yields_ld:
  assumes "jsonLdField shop_product f = Inr v" "trim v = v" "v \<noteq> []"
  shows "yields (readFirst shop_env s (Some [JsonLd f]) n None) (Some v, Some shop_product)"
    "yields (readFirst shop_env s (Some [JsonLd f]) n (Some shop_product)) (Some v, Some shop_product)"
  using assms
  by (simp_all add: yields_def readFirst_def loadJsonLd_def readProductJsonLd_def io_simps shop_env_def shop_products)

lemma shop_reads:
  "yields (readFirst shop_env s (Some (XpathText (js ''xpath=t'') a # r)) f c) (Some (js ''Lamp''), c)"
  "yields (readFirst shop_env s (Some (XpathText (js ''xpath=p'') a # r)) f c) (Some (js ''$5''), c)"
  "yields (readFirst shop_env s (Some (XpathText (js ''xpath=a'') a # r)) f c) (Some (js ''In stock''), c)"
  "yields (readFirst shop_env s (Some [JsonLd FSku]) n None) (Some (js ''L1''), Some shop_product)"
  "yields (readFirst shop_env s (Some [JsonLd FCurrency]) n (Some shop_product)) (Some (js ''USD''), Some shop_product)"
  by (rule yields_text [OF shop_texts(1) shop_trims(1)], simp)
    (rule yields_text [OF shop_texts(2) shop_trims(2)], simp,
     rule yields_text [OF shop_texts(3) shop_trims(3)], simp,
     rule yields_ld(1) [OF shop_products(3) shop_trims(5)], simp,
     rule yields_ld(2) [OF shop_products(2) shop_trims(4)], simp)

lemma yields_prod: "yields (f a b) v \<Longrightarrow> yields (case (a, b) of (x, y) \<Rightarrow> f x y) v"
  by simp

lemma shop_extract:
  assumes "plan_extractors plan = plan_extractors shop_plan"
  shows "yields (extractObservation shop_platform shop_env s plan) shop_observation"
proof -
  have "yields (finish_observation shop_platform shop_env s plan (js ''Lamp'') (js ''$5'') (js ''In stock'') None)
      shop_observation"
    unfolding finish_observation_def assms
    by (rule yields_bind, simp add: shop_plan_def, rule shop_reads(4), rule yields_prod,
        rule yields_bind, simp add: shop_plan_def, rule shop_reads(5), rule yields_prod,
        rule yields_bind, rule yields_lift, rule shop_values, rule yields_prod,
        rule yields_bind, rule yields_lift, simp add: currency_text_def, rule shop_values,
        rule yields_bind, simp add: shop_plan_def, rule yields_ret,
        rule yields_bind, rule yields_lift, rule shop_values)
      (simp add: shop_observation_def shop_values yields_def io_ret_def)
  moreover have "ex_title (plan_extractors shop_plan) = [XpathText (js ''xpath=t'') None, JsonLd FTitle]"
     "ex_price (plan_extractors shop_plan) = [XpathText (js ''xpath=p'') None, JsonLd FPrice]"
     "ex_availability (plan_extractors shop_plan) = [XpathText (js ''xpath=a'') None, JsonLd FAvailability]"
    by (simp_all add: shop_plan_def)
  ultimately show ?thesis
    unfolding extractObservation_def assms
    by (auto intro!: yields_bind [OF shop_reads(1)] yields_bind [OF shop_reads(2)] yields_bind [OF shop_reads(3)])
qed

section \<open>Running jobs\<close>

lemma shop_answers:
  "env_goto shop_env h s x = Inr ()" "env_url shop_env h s = js ''http://a/p''"
  "env_launch shop_env h s = Inr ()" "env_init shop_env h s = Inr ()" "env_has_page shop_env h s"
  "env_snapshot shop_env h s = Inr shop_snapshot" "env_screenshot shop_env h s = Inr [1]"
  "env_mkdir shop_env h x = Inr ()" "env_write shop_env h x b = Inr ()" "env_aborted shop_env h = None"
  "env_nodes shop_env h r = Inr shop_nodes" "env_extract shop_env h s = Inr shop_semantic"
  "env_intent shop_env h x = Inr \<lparr>ir_requestedVariant = [], ir_currency = None\<rparr>"
  "env_heal_count shop_env h s = None" "env_session_id shop_env h s = None"
  "env_observe shop_env h s x = Inr [button]" "env_is_url shop_env = (\<lambda>_. True)" "env_clock shop_env h = 0"
  "env_lookup shop_env h x = Inr [js ''8.8.8.8'']"
  by (simp_all add: shop_env_def shelf_env_def idle_env_def Let_def)

lemma shop_goto: "yields (goto shop_env s x) ()"
  and shop_origin: "yields (check_origin shop_platform shop_env s shop_url) ()"
  and shop_not_aborted: "yields (throwIfAborted shop_env) ()"
  unfolding goto_def check_origin_def throwIfAborted_def
  by (simp_all add: yields_def io_simps shop_answers shop_checks)

lemma yields_any:
  assumes "settles m" and "\<And>x. yields (f x) v"
  shows "yields (io_bind m f) v"
  unfolding yields_def
proof
  fix w
  obtain x w1 where "m w = (Inr x, w1)" using settlesD [OF assms(1)] by blast
  then show "fst (io_bind m f w) = Inr v" using assms(2) by (simp add: yields_def io_bind_def)
qed

lemma yields_timed: "yields m v \<Longrightarrow> yields (timed E n m) v"
  unfolding timed_def by (rule yields_any [OF settles_now yields_finally])

lemma shop_initialize:
  "run_session run = s \<Longrightarrow> yields (initialize shop_env run (url_hostname shop_url)) ()"
  by (simp add: initialize_def yields_def io_simps shop_answers shop_checks js_def)

lemma shop_launch:
  "yields (newBrowserRun shop_env s shop_config opts)
     \<lparr>run_session = s, run_config = shop_config, run_selfHeal = opt_selfHeal opts,
       run_model = opt_needsModel opts,
       run_cacheDir = js ''/tmp/price-scout-cache/'' @ safeSegment (opt_executionId opts)\<rparr>"
  by (simp add: newBrowserRun_def yields_def io_simps shop_answers shop_config_def throw_if_def nonempty_opt_def)

lemma shop_warmCheck: "yields (warmCheck shop_platform shop_env run shop_plan shop_url) shop_observation"
  unfolding warmCheck_def
  by (rule yields_bind [OF shop_goto], rule yields_bind [OF shop_origin],
      rule yields_bind [where x = "()"], simp add: shop_plan_def, rule yields_ret,
      rule yields_bind [OF shop_extract [OF refl]], rule yields_bind [OF yields_lift [OF shop_checks(1)]],
      rule yields_ret)

lemma shop_validate:
  "yields (validateRepairFresh shop_platform shop_env shop_config (shop_input k) shop_url shop_plan) shop_observation"
  unfolding validateRepairFresh_def
  by (rule yields_bind [OF shop_launch], rule yields_bind [OF yields_attempt [OF shop_not_aborted]],
      unfold sum.case, rule yields_finally, rule yields_bind [OF shop_initialize [OF refl]],
      rule yields_bind [OF shop_not_aborted], rule yields_bind [OF shop_warmCheck],
      rule yields_bind [OF shop_not_aborted], rule yields_ret)

lemma shop_evidence:
  "\<exists>as. yields (captureEvidence shop_platform shop_env s (cfg_ARTIFACT_DIR shop_config) (js ''e1'')) as"
proof -
  have "starts_with (path_resolve shop_platform [cfg_ARTIFACT_DIR shop_config, safe_id (js ''e1'')])
      (path_resolve shop_platform [cfg_ARTIFACT_DIR shop_config] @ [47])"
    by code_simp
  then show ?thesis
    unfolding captureEvidence_def
    by (simp add: yields_def io_simps shop_answers throw_if_def Let_def)
qed

text \<open>Results carry the timings, which depend on the world: a program that always returns some result in \<open>R\<close>.\<close>

definition always :: "('a \<Rightarrow> bool) \<Rightarrow> 'a io \<Rightarrow> bool" where
  "always R m \<longleftrightarrow> (\<forall>w. \<exists>x w'. m w = (Inr x, w') \<and> R x)"

lemma always_ret: "R x \<Longrightarrow> always R (io_ret x)"
  by (simp add: always_def io_simps)

lemma always_bind: "yields m x \<Longrightarrow> always R (f x) \<Longrightarrow> always R (io_bind m f)"
  unfolding always_def io_bind_Inr by (metis yieldsD)

lemma always_any: "settles m \<Longrightarrow> (\<And>x. always R (f x)) \<Longrightarrow> always R (io_bind m f)"
  unfolding always_def io_bind_Inr by (metis settlesD)

lemma always_finally: "always R m \<Longrightarrow> always R (io_finally m f)"
  unfolding always_def io_finally_def by (metis (no_types, lifting) case_prod_conv)

lemma always_catch: "always R m \<Longrightarrow> always R (io_catch m f)"
  unfolding always_def io_catch_def by (metis (no_types, lifting) case_prod_conv sum.simps(6))

lemma shop_success:
  assumes "\<And>a t. R (fill (base_result (shop_input k) a (provider run) None t))"
  shows "always R (job_success shop_platform shop_env shop_config (shop_input k) run started fill)"
proof -
  obtain as where e: "yields (captureEvidence shop_platform shop_env (run_session run)
      (cfg_ARTIFACT_DIR shop_config) (js ''e1'')) as"
    using shop_evidence by blast
  have i: "job_id (in_execution (shop_input k)) = js ''e1''" by (simp add: shop_input_def)
  have "yields (note_total shop_env started) ()" by (simp add: note_total_def yields_finally yields_ret)
  moreover have "yields (session_field shop_env (Some run)) None"
    by (simp add: session_field_def sessionId_def yields_def io_simps shop_answers nonempty_opt_def)
  moreover have "settles io_timings" by (simp add: settles_def io_timings_def)
  ultimately show ?thesis
    unfolding job_success_def i
    by (intro always_bind [OF yields_timed [OF e]]) (blast intro: always_bind always_any always_ret assms)
qed

lemma shop_repairLive:
  "yields (repairLive shop_platform shop_env run (shop_input k) shop_plan shop_url shop_config)
     \<lparr>out_plan = shop_plan, out_observation = shop_observation, out_modelCallCount = 1, out_source = StagehandSource\<rparr>"
proof -
  have "yields (heal_steps shop_platform shop_env run shop_url (plan_preparationSteps shop_plan)) []"
    by (simp add: shop_plan_def yields_ret)
  moreover have "shop_plan\<lparr>plan_preparationSteps := []\<rparr> = shop_plan" by (simp add: shop_plan_def)
  moreover have "yields (metric shop_env (Some run)) 0" by (simp add: metric_def yields_def io_simps shop_answers)
  ultimately show ?thesis
    unfolding repairLive_def Let_def
    by (intro yields_bind [OF shop_goto] yields_bind [OF shop_origin] yields_catch)
      (rule yields_bind, assumption, simp,
       rule yields_bind [OF shop_extract [OF refl]], rule yields_bind [OF yields_lift [OF shop_checks(1)]],
       rule yields_bind, assumption, simp add: yields_ret)
qed

section \<open>Compiling\<close>

lemma shop_verify:
  "yields (verifyFresh shop_platform shop_env run shop_plan shop_url) ()"
  unfolding verifyFresh_def executeAndVerify_def
  by (rule yields_bind [OF shop_goto], rule yields_bind [OF shop_origin],
      rule yields_bind, rule yields_bind [where x = "()"], simp add: shop_plan_def, rule yields_ret,
      rule yields_bind [OF shop_extract [OF refl]], rule yields_bind [OF yields_lift [OF shop_checks(1)]],
      rule yields_ret, rule yields_ret)

definition shop_provisional :: MonitorPlanV1 where
  "shop_provisional = live_plan shop_platform shop_url [] [] (plan_extractors shop_plan) USD"

lemma shop_nodes_checks:
  "live_strategies shop_snapshot shop_nodes [] =
     Inr (XpathText (js ''xpath=t'') None, XpathText (js ''xpath=p'') None, XpathText (js ''xpath=a'') None, [])"
  "\<not> list_ex (\<lambda>i. \<not> known_node shop_snapshot i) (selected_ids shop_nodes)"
  "currency_of_code (to_upper shop_platform (trim (sem_currency shop_semantic))) = Some USD"
  by code_simp+

lemma shop_live_provisional:
  "yields (live_provisional shop_platform shop_env run (shop_input k) shop_url shop_config)
     ([], shop_provisional, shop_semantic, 3)"
proof -
  have r: "yields (live_request shop_env (shop_input k) shop_config) ([], None, 1)"
    by (simp add: live_request_def requested_variant_def shop_input_def parseIntent_def require_model_def
        yields_def io_simps shop_answers throw_if_def shop_checks)
  have n: "yields (selectSnapshotNodes shop_env shop_snapshot [] shop_config) shop_nodes"
    using shop_nodes_checks(2)
    by (simp add: selectSnapshotNodes_def require_model_def yields_def io_simps shop_answers throw_if_def shop_checks)
  have c: "live_currency shop_platform shop_env (shop_input k) None (sem_currency shop_semantic) = Inr USD"
    by (simp add: live_currency_def condition_currency_def shop_input_def shop_nodes_checks)
  show ?thesis
    unfolding live_provisional_def Let_def
    apply (rule yields_bind [OF r])
    apply (simp add: split_def)
    apply (rule yields_bind [OF yields_ret])
    apply (rule yields_bind, simp, rule yields_ret)
    apply (rule yields_bind [OF yields_call], rule shop_answers)
    apply (rule yields_bind [OF n])
    apply (rule yields_bind [OF yields_lift], rule shop_nodes_checks)
    apply (rule yields_bind [OF yields_call], rule shop_answers)
    apply (rule yields_bind [OF yields_lift], simp add: c)
    apply (simp add: shop_nodes_def optional_strategy_def nonempty_opt_def)
    apply (rule yields_bind [OF yields_lift], rule refl)+
    apply (simp add: buildLiveExtractors_def shop_provisional_def shop_plan_def yields_ret)
    done
qed

lemma shop_compile:
  "yields (compileMonitor shop_platform shop_env run (shop_input k) shop_url fo shop_config)
     \<lparr>out_plan = shop_plan, out_observation = shop_observation, out_modelCallCount = 3,
       out_source = StagehandSource\<rparr>"
proof -
  have e: "plan_extractors shop_provisional = plan_extractors shop_plan"
    by (simp add: shop_provisional_def live_plan_def)
  have p: "adopt_identity shop_observation [] shop_provisional = shop_plan"
    by (simp add: adopt_identity_def shop_provisional_def live_plan_def shop_plan_def shop_observation_def
        shop_checks nonempty_opt_def)
  have "yields (live_finish shop_platform shop_env run shop_url [] shop_provisional shop_semantic 3)
     \<lparr>out_plan = shop_plan, out_observation = shop_observation, out_modelCallCount = 3,
       out_source = StagehandSource\<rparr>"
    unfolding live_finish_def Let_def
    by (rule yields_bind [OF shop_extract [OF e]], rule yields_bind [OF yields_lift [OF shop_checks(2)]],
        unfold p, rule yields_bind [OF yields_lift [OF shop_checks(1)]], rule yields_bind [OF shop_verify],
        rule yields_ret)
  then have l: "yields (compileLive shop_platform shop_env run (shop_input k) shop_url shop_config)
     \<lparr>out_plan = shop_plan, out_observation = shop_observation, out_modelCallCount = 3,
       out_source = StagehandSource\<rparr>"
    unfolding compileLive_def by (intro yields_bind [OF shop_live_provisional]) simp
  show ?thesis
    unfolding compileMonitor_def
    by (rule yields_bind [OF yields_lift], simp add: chooseCompiler_def shop_input_def)
      (rule yields_bind [OF shop_goto], rule yields_bind [OF shop_origin], simp add: l)
qed

section \<open>Whole jobs\<close>

lemma shop_target: "yields (validateTargetUrl shop_platform shop_env (js ''http://a/p'') hosts) shop_url"
proof -
  have "url_parse shop_platform (js ''http://a/p'') = Some shop_url" "url_protocol shop_url = js ''http:''"
    "url_username shop_url = []" "url_password shop_url = []" "url_port shop_url = []"
    "is_ip shop_platform (to_lower shop_platform (url_hostname shop_url)) = 0"
    "shop_url\<lparr>url_fragment := None\<rparr> = shop_url"
    "isPrivateAddress shop_platform (js ''8.8.8.8'') = False"
    by code_simp+
  then show ?thesis
    by (simp add: validateTargetUrl_def yields_def io_simps shop_answers Let_def)
qed

definition shop_run :: "execution_kind \<Rightarrow> browser_run" where
  "shop_run k = \<lparr>run_session = MainRun, run_config = shop_config, run_selfHeal = (k = Repair),
     run_model = (k \<in> {Compile, Repair}),
     run_cacheDir = js ''/tmp/price-scout-cache/'' @ safeSegment (js ''e1'')\<rparr>"

lemma shop_prepare:
  "yields (job_prepare shop_platform shop_env shop_config (shop_input k)) (shop_url, False, shop_run k)"
proof -
  have u: "mon_url (in_monitor (shop_input k)) = js ''http://a/p''" by (simp add: shop_input_def)
  have s: "is_scripted shop_platform shop_config (shop_input k) shop_url = Inr False"
    by (simp add: is_scripted_def shop_input_def)
  show ?thesis
    unfolding job_prepare_def u
    by (rule yields_bind [OF shop_not_aborted], rule yields_bind [OF yields_timed [OF shop_target]],
        rule yields_bind [OF shop_not_aborted], rule yields_bind [OF yields_lift [OF s]],
        rule yields_bind [OF shop_launch])
      (simp add: shop_run_def run_options_def shop_input_def yields_ret)
qed

lemma shop_executeJob:
  assumes "\<And>started. always R (job_main shop_platform shop_env shop_config (shop_input k) started shop_url False (shop_run k))"
  shows "always R (executeJob shop_platform shop_env shop_config (shop_input k))"
  unfolding executeJob_def
  by (rule always_any [OF settles_now], rule always_any [OF settles_fresh_timings], rule always_bind [OF yields_attempt [OF shop_prepare]],
      unfold sum.case prod.case, rule always_bind [OF yields_attempt [OF shop_not_aborted]],
      unfold sum.case, rule always_finally,
      rule always_bind [OF yields_attempt [OF yields_timed [OF shop_initialize [OF refl]]]],
      unfold sum.case, rule always_catch, rule assms)

definition shop_revision :: revision_ref where
  "shop_revision = \<lparr>rev_id = Some (js ''r1''), rev_generation = 4, rev_plan = shop_plan\<rparr>"

lemma shop_requireRevision: "requireRevision shop_env (shop_input k) = Inr shop_revision"
  by (simp add: requireRevision_def shop_input_def shop_answers shop_checks shop_revision_def)

lemma shop_check:
  "always (\<lambda>r. res_status r = RSucceeded \<and> res_observation r = Some shop_observation)
     (executeJob shop_platform shop_env shop_config (shop_input Check))"
proof (rule shop_executeJob)
  fix started
  have k: "job_kind (in_execution (shop_input Check)) = Check" by (simp add: shop_input_def)
  have p: "rev_plan shop_revision = shop_plan" by (simp add: shop_revision_def)
  show "always (\<lambda>r. res_status r = RSucceeded \<and> res_observation r = Some shop_observation)
    (job_main shop_platform shop_env shop_config (shop_input Check) started shop_url False (shop_run Check))"
    unfolding job_main_def k job_check_def p
    by (rule always_bind [OF shop_not_aborted], simp, rule always_bind [OF yields_lift [OF shop_requireRevision]],
        unfold p, rule always_bind [OF yields_timed [OF shop_warmCheck]], rule shop_success)
      (simp add: base_result_def)
qed

lemma shop_repair:
  "always (\<lambda>r. res_status r = RSucceeded \<and> res_candidatePlan r = Some shop_plan \<and> res_generation r = Some 5)
     (executeJob shop_platform shop_env shop_config (shop_input Repair))"
proof (rule shop_executeJob)
  fix started
  have k: "job_kind (in_execution (shop_input Repair)) = Repair" by (simp add: shop_input_def)
  have p: "rev_plan shop_revision = shop_plan" "rev_generation shop_revision = 4" by (simp_all add: shop_revision_def)
  have a: "assertObservationsAgree shop_observation shop_observation = Inr ()"
    by (simp add: assertObservationsAgree_def throw_if_def dne_def shop_observation_def)
  show "always (\<lambda>r. res_status r = RSucceeded \<and> res_candidatePlan r = Some shop_plan \<and> res_generation r = Some 5)
    (job_main shop_platform shop_env shop_config (shop_input Repair) started shop_url False (shop_run Repair))"
    unfolding job_main_def k job_repair_def
    by (rule always_bind [OF shop_not_aborted], simp, rule always_bind [OF yields_lift [OF shop_requireRevision]],
        unfold p, rule always_bind [OF yields_timed [OF shop_repairLive]], simp,
        rule always_bind [OF yields_timed [OF shop_validate]], rule always_bind [OF yields_lift [OF a]],
        rule shop_success)
      (simp add: base_result_def)
qed

end
