(* ===== verification/FixtureLaws.thy ===== *)
theory FixtureLaws
  imports Fixture Shop
begin

text \<open>
  What the fixture shop guarantees of its state: the invariant of the states it can reach by
  handling requests, and which requests change them.
\<close>

section \<open>Reachable states\<close>

inductive fx_reachable :: "(jsstr \<Rightarrow> jsstr) \<Rightarrow> jsstr \<Rightarrow> jsstr \<Rightarrow> FixtureState \<Rightarrow> bool"
  for syntax_error styles controlToken where
  fx_start: "fx_reachable syntax_error styles controlToken initialState"
| fx_request: "fx_reachable syntax_error styles controlToken st \<Longrightarrow>
    fx_reachable syntax_error styles controlToken (snd (fixture_handle syntax_error styles controlToken r st))"

definition fixture_ok :: "FixtureState \<Rightarrow> bool" where
  "fixture_ok st \<longleftrightarrow> 0 < fx_basePriceMinor st \<and> fx_basePriceMinor st \<le> 100000000 \<and>
     fx_deployment st = (if fx_version st = V1 then 1 else 2)"

lemma fixture_version_cases: "fx_version st \<noteq> V2 \<longleftrightarrow> fx_version st = V1"
  by (cases "fx_version st") auto

lemma fixture_ok_control: "fixture_ok st \<Longrightarrow> fixture_ok (snd (control path body st))"
  unfolding control_def Let_def
  by (auto simp: fixture_ok_def initialState_def fixture_version_cases split: if_splits option.splits sum.splits json.splits)

lemma fixture_ok_handle: "fixture_ok st \<Longrightarrow> fixture_ok (snd (fixture_handle se styles tok r st))"
  using fixture_ok_control by (auto simp: fixture_handle_def Let_def split: option.splits sum.splits)

lemma fixture_ok_initial: "fixture_ok initialState"
  by (simp add: fixture_ok_def initialState_def)

lemma reachable_ok: "fx_reachable se styles tok st \<Longrightarrow> fixture_ok st"
  by (induction rule: fx_reachable.induct) (auto simp: fixture_ok_initial fixture_ok_handle)

text \<open>Where a request leads to a different state.\<close>

lemma control_change:
  assumes "snd (control path body st) \<noteq> st"
  shows "fst (control path body st) = json_response common_headers 200 (state_json (snd (control path body st))) \<and>
    (path = js ''/__control/deploy'' \<and> fx_version st = V1 \<or> path = js ''/__control/reset'' \<or>
     path = js ''/__control/price'' \<or> path = js ''/__control/stock'')"
  using assms unfolding control_def Let_def
  by (auto simp: fixture_version_cases split: if_splits option.splits sum.splits json.splits)

text \<open>
  In every state the fixture server can reach by handling requests, with any control token,
  the base price is positive and at most 100,000,000 cents, and the deployment counter is 1 under
  the first front end and 2 under the second.
\<close>

theorem fixture_invariant:
  assumes "fx_reachable syntax_error styles controlToken st"
  shows "0 < fx_basePriceMinor st \<and> fx_basePriceMinor st \<le> 100000000 \<and>
    fx_deployment st = (if fx_version st = V1 then 1 else 2)"
  using reachable_ok [OF assms] by (simp add: fixture_ok_def)

theorem fixture_invariant_witness:
  "0 < fx_basePriceMinor initialState \<and> fx_basePriceMinor initialState \<le> 100000000 \<and>
    fx_deployment initialState = (if fx_version initialState = V1 then 1 else 2)"
  by (rule fixture_invariant [OF fx_start [of "\<lambda>_. []" "[]" "[]"]])

text \<open>
  A request that changes the state of the fixture server is a POST to one of the four control
  paths that carries the control token, a repeated deployment changes nothing, and the response is
  status 200 with the new state.
\<close>

theorem control_needs_token:
  assumes "fixture_handle syntax_error styles controlToken request st = (response, st')" "st' \<noteq> st"
  shows "fr_method request = js ''POST'' \<and> fr_token request = Some controlToken \<and>
    fs_status response = 200 \<and> fs_body response = json_stringify (state_json st') \<and>
    (fr_pathname request = Some (js ''/__control/deploy'') \<and> fx_version st = V1 \<or>
     fr_pathname request = Some (js ''/__control/reset'') \<or>
     fr_pathname request = Some (js ''/__control/price'') \<or>
     fr_pathname request = Some (js ''/__control/stock''))"
proof -
  obtain path body where "fr_pathname request = Some path" "fr_method request = js ''POST''"
    "fr_token request = Some controlToken" and c: "control path body st = (response, st')"
    using assms unfolding fixture_handle_def Let_def by (auto split: if_splits option.splits sum.splits)
  then show ?thesis using control_change [of path body st] assms(2) by (auto simp: c json_response_def)
qed

definition deploy_request :: fx_request where
  "deploy_request = \<lparr>fr_method = js ''POST'', fr_pathname = Some (js ''/__control/deploy''),
     fr_token = Some (js ''t''), fr_chunks = []\<rparr>"

theorem control_needs_token_witness:
  "let out = fixture_handle (\<lambda>_. []) [] (js ''t'') deploy_request initialState in
   snd out \<noteq> initialState \<and> fs_status (fst out) = 200 \<and> fs_body (fst out) = json_stringify (state_json (snd out))"
proof -
  let ?out = "fixture_handle (\<lambda>_. []) [] (js ''t'') deploy_request initialState"
  have ne: "snd ?out \<noteq> initialState" by code_simp
  show ?thesis using control_needs_token [of _ _ _ _ _ "fst ?out" "snd ?out", OF _ ne] ne
    by (simp add: Let_def)
qed

end
