(* ===== verification/FixturePage.thy ===== *)
theory FixturePage
  imports FixtureLaws
begin

text \<open>
  The product page of the fixture shop as the worker reads it: which text stands at which place of
  the page, and the observation the plan of the scripted compiler makes there.
\<close>

section \<open>Texts of the page\<close>

text \<open>An element whose tag has an attribute with this value, and its text.\<close>

definition holds_text :: "jsstr \<Rightarrow> string \<Rightarrow> string \<Rightarrow> jsstr \<Rightarrow> bool" where
  "holds_text page attr val t \<longleftrightarrow> (\<exists>pre mid post.
     page = pre @ 32 # js attr @ [61, 34] @ js val @ 34 # mid @ 62 # t @ 60 # post \<and>
     62 \<notin> set mid \<and> 60 \<notin> set mid)"

lemma holds_textI:
  assumes "page = pre @ 32 # js attr @ [61, 34] @ js val @ 34 # mid @ 62 # t @ 60 # post"
    "62 \<notin> set mid" "60 \<notin> set mid"
  shows "holds_text page attr val t"
  using assms unfolding holds_text_def by blast

lemma holds_text_context:
  assumes "holds_text b attr val t"
  shows "holds_text (a @ b @ c) attr val t"
proof -
  obtain pre mid post where "b = pre @ 32 # js attr @ [61, 34] @ js val @ 34 # mid @ 62 # t @ 60 # post"
    "62 \<notin> set mid" "60 \<notin> set mid"
    using assms unfolding holds_text_def by blast
  then show ?thesis by (intro holds_textI [of _ "a @ pre" _ _ mid _ "post @ c"]) simp_all
qed

text \<open>
  The places the scripted compiler reads, by the \<open>id\<close> of the first front end and the
  \<open>data-ui\<close> of the second, with the text the page has there after its script rendered a selection.
\<close>

definition fixture_texts :: "FixtureState \<Rightarrow> selection \<Rightarrow> (string \<times> string \<times> jsstr) list" where
  "fixture_texts st sel =
    [(''product-title'', ''product-name'', js ''Atlas Studio Headphones''),
     (''product-sku'', ''product-sku'', js ''ASH-100''),
     (''current-price'', ''offer-price'', rendered_price st sel),
     (''price-currency'', ''price-currency'', js ''USD''),
     (''stock-status'', ''inventory-status'', stock_text st)]"

definition place :: "FixtureState \<Rightarrow> string \<Rightarrow> string \<Rightarrow> string \<times> string" where
  "place st i u = (if fx_version st = V1 then (''id'', i) else (''data-ui'', u))"

lemma rendered_initially: "rendered_price st selected = money (fx_basePriceMinor st)"
  by (simp add: rendered_price_def page_total_def selected_def js_def)

lemma v1_title: "fx_version st = V1 \<Longrightarrow> holds_text (title_element st) ''id'' ''product-title'' (js ''Atlas Studio Headphones'')"
  by (rule holds_textI [where pre = "js ''<h1''" and mid = "[]" and
      post = "js ''/h1><span id=\"product-sku\" class=\"sr-only\">ASH-100</span>''"])
    (simp_all add: title_element_def js_def)

lemma v1_sku: "fx_version st = V1 \<Longrightarrow> holds_text (title_element st) ''id'' ''product-sku'' (js ''ASH-100'')"
  by (rule holds_textI [where pre = "js ''<h1 id=\"product-title\">Atlas Studio Headphones</h1><span''" and
      mid = "js '' class=\"sr-only\"''" and post = "js ''/span>''"])
    (simp_all add: title_element_def js_def)

lemma v2_title: "fx_version st \<noteq> V1 \<Longrightarrow> holds_text (title_element st) ''data-ui'' ''product-name'' (js ''Atlas Studio Headphones'')"
  by (rule holds_textI [where pre = "js ''<div class=\"title-cluster\"><h1''" and mid = "[]" and
      post = "js ''/h1><span data-ui=\"product-sku\" class=\"sr-only\">ASH-100</span></div>''"])
    (simp_all add: title_element_def js_def)

lemma v2_sku: "fx_version st \<noteq> V1 \<Longrightarrow> holds_text (title_element st) ''data-ui'' ''product-sku'' (js ''ASH-100'')"
  by (rule holds_textI [where
      pre = "js ''<div class=\"title-cluster\"><h1 data-ui=\"product-name\">Atlas Studio Headphones</h1><span''" and
      mid = "js '' class=\"sr-only\"''" and post = "js ''/span></div>''"])
    (simp_all add: title_element_def js_def)

lemmas title_texts = v1_title v1_sku v2_title v2_sku

definition stock_class :: "FixtureState \<Rightarrow> jsstr" where
  "stock_class st = js '' class=\"stock '' @ (if fx_inStock st then js ''yes'' else js ''no'') @ js ''\"''"

lemma v1_price: "fx_version st = V1 \<Longrightarrow> holds_text (offer_element st p) ''id'' ''current-price'' p"
  by (rule holds_textI [where pre = "js ''<div><span''" and mid = "js '' class=\"price\"''" and
      post = "js ''/span><span id=\"price-currency\" class=\"currency\">USD</span></div><p id=\"stock-status\"'' @
        stock_class st @ 62 # stock_text st @ js ''</p>''"])
    (simp_all add: offer_element_def stock_class_def js_def)

lemma v1_currency: "fx_version st = V1 \<Longrightarrow> holds_text (offer_element st p) ''id'' ''price-currency'' (js ''USD'')"
  by (rule holds_textI [where pre = "js ''<div><span id=\"current-price\" class=\"price\">'' @ p @ js ''</span><span''" and
      mid = "js '' class=\"currency\"''" and
      post = "js ''/span></div><p id=\"stock-status\"'' @ stock_class st @ 62 # stock_text st @ js ''</p>''"])
    (simp_all add: offer_element_def stock_class_def js_def)

lemma v1_stock: "fx_version st = V1 \<Longrightarrow> holds_text (offer_element st p) ''id'' ''stock-status'' (stock_text st)"
  by (rule holds_textI [where pre = "js ''<div><span id=\"current-price\" class=\"price\">'' @ p @
        js ''</span><span id=\"price-currency\" class=\"currency\">USD</span></div><p''" and
      mid = "stock_class st" and post = "js ''/p>''"])
    (simp_all add: offer_element_def stock_class_def js_def)

lemma v2_price: "fx_version st \<noteq> V1 \<Longrightarrow> holds_text (offer_element st p) ''data-ui'' ''offer-price'' p"
  by (rule holds_textI [where pre = "js ''<div class=\"price-stack\"><span''" and mid = "js '' class=\"price\"''" and
      post = "js ''/span><span data-ui=\"price-currency\" class=\"currency\">USD</span></div><div data-component=\"inventory-pill\"><p data-ui=\"inventory-status\"'' @
        stock_class st @ 62 # stock_text st @ js ''</p></div>''"])
    (simp_all add: offer_element_def stock_class_def js_def)

lemma v2_currency: "fx_version st \<noteq> V1 \<Longrightarrow> holds_text (offer_element st p) ''data-ui'' ''price-currency'' (js ''USD'')"
  by (rule holds_textI [where
      pre = "js ''<div class=\"price-stack\"><span data-ui=\"offer-price\" class=\"price\">'' @ p @ js ''</span><span''" and
      mid = "js '' class=\"currency\"''" and
      post = "js ''/span></div><div data-component=\"inventory-pill\"><p data-ui=\"inventory-status\"'' @
        stock_class st @ 62 # stock_text st @ js ''</p></div>''"])
    (simp_all add: offer_element_def stock_class_def js_def)

lemma v2_stock: "fx_version st \<noteq> V1 \<Longrightarrow> holds_text (offer_element st p) ''data-ui'' ''inventory-status'' (stock_text st)"
  by (rule holds_textI [where pre = "js ''<div class=\"price-stack\"><span data-ui=\"offer-price\" class=\"price\">'' @ p @
        js ''</span><span data-ui=\"price-currency\" class=\"currency\">USD</span></div><div data-component=\"inventory-pill\"><p''" and
      mid = "stock_class st" and post = "js ''/p></div>''"])
    (simp_all add: offer_element_def stock_class_def js_def)

lemmas offer_texts = v1_price v1_currency v1_stock v2_price v2_currency v2_stock

lemma part_here: "\<exists>a c. x @ s = a @ x @ c"
  by (rule exI [of _ "[]"]) simp

lemma part_later: "\<exists>a c. s = a @ x @ c \<Longrightarrow> \<exists>a c. d @ s = a @ x @ c"
  by (metis append.assoc)

lemma page_body: "\<exists>a c. productPage styles st = a @ product_body st @ c"
  unfolding productPage_def pageShell_def by (rule part_here | rule part_later)+

lemma body_title: "\<exists>a c. product_body st = a @ title_element st @ c"
  unfolding product_body_def by (rule part_here | rule part_later)+

lemma body_offer: "\<exists>a c. product_body st = a @ offer_element st (money (fx_basePriceMinor st)) @ c"
  unfolding product_body_def by (rule part_here | rule part_later)+

lemma page_title: "holds_text (title_element st) a v t \<Longrightarrow> holds_text (productPage styles st) a v t"
  using page_body body_title holds_text_context by metis

lemma page_offer:
  "holds_text (offer_element st (money (fx_basePriceMinor st))) a v t \<Longrightarrow> holds_text (productPage styles st) a v t"
  using page_body body_offer holds_text_context by metis

text \<open>
  In either deployment the product page the fixture server renders has, at each of the five
  places the scripted compiler reads, an element with exactly the expected text: title, SKU, the
  formatted base price, the currency and the stock status.
\<close>

theorem fixture_page_texts:
  assumes "(i, u, t) \<in> set (fixture_texts st selected)" "place st i u = (attr, val)"
  shows "holds_text (productPage styles st) attr val t"
  using assms unfolding fixture_texts_def place_def rendered_initially
  by (auto intro: page_title page_offer title_texts offer_texts split: if_splits)

theorem fixture_page_texts_witness:
  "holds_text (productPage [] initialState) ''id'' ''stock-status'' (stock_text initialState)"
  by (rule fixture_page_texts [of "''stock-status''" "''inventory-status''"])
    (simp_all add: fixture_texts_def place_def initialState_def)

section \<open>What the worker reads there\<close>

lemma parsePrice_money: "0 < n \<Longrightarrow> n \<le> 2 ^ 50 \<Longrightarrow> parsePrice (money n) = Inr (Fin (of_int n), Some USD)"
  using parsePrice_usd_text [of "nat n"] by (simp add: money_def)

lemma total_bounds: "fixture_ok st \<Longrightarrow> 0 < page_total st sel \<and> page_total st sel \<le> 2 ^ 50"
  by (auto simp: fixture_ok_def page_total_def)

lemma trim_money: "trim (money n) = money n" "money n \<noteq> []"
proof -
  have u: "money n = usd_text (nat n)" by (simp add: money_def)
  show "trim (money n) = money n"
    unfolding u
  proof (rule trim_id)
    show "\<not> is_space (last (usd_text (nat n)))"
      by (simp add: usd_text_def pad2_def is_digit_not_space)
  qed (simp_all add: usd_text_def is_space_def space_ranges_def in_ranges_def)
  show "money n \<noteq> []" by (simp add: u usd_text_def)
qed

text \<open>Lower case leaves an em dash alone.\<close>

definition dash_ok :: "platform \<Rightarrow> bool" where
  "dash_ok P \<longleftrightarrow> to_lower P (js ''In stock '' @ [8212] @ js '' ships tomorrow'') =
     js ''in stock '' @ [8212] @ js '' ships tomorrow''"

lemma dash_ok_shop: "dash_ok shop_platform"
  by code_simp

lemma availability_of_stock:
  assumes "unicode_ok P" "dash_ok P"
  shows "parseAvailability P (stock_text st) = Inr (fx_inStock st)"
proof (cases "fx_inStock st")
  case True
  have "filter is_ascii_lower (js ''in stock '' @ [8212] @ js '' ships tomorrow'') = js ''instockshipstomorrow''"
    "\<not> re_test False unavailable_re (js ''instockshipstomorrow'')"
    "re_test False available_re (js ''instockshipstomorrow'')" by code_simp+
  then show ?thesis using assms(2) True by (simp add: parseAvailability_def stock_text_def dash_ok_def Let_def)
next
  case False
  have "ascii (js ''Out of stock'')" by code_simp
  then have "to_lower P (js ''Out of stock'') = map lower_unit (js ''Out of stock'')"
    using unicode_okD [OF assms(1)] by blast
  moreover have "re_test False unavailable_re (filter is_ascii_lower (map lower_unit (js ''Out of stock'')))" by code_simp
  ultimately show ?thesis using False by (simp add: parseAvailability_def stock_text_def Let_def)
qed

lemma trim_stock: "trim (stock_text st) = stock_text st" "stock_text st \<noteq> []"
proof -
  have "trim (js ''In stock '' @ [8212] @ js '' ships tomorrow'') = js ''In stock '' @ [8212] @ js '' ships tomorrow''"
    "trim (js ''Out of stock'') = js ''Out of stock''" by code_simp+
  then show "trim (stock_text st) = stock_text st" by (simp add: stock_text_def)
  show "stock_text st \<noteq> []" by (simp add: stock_text_def)
qed

lemma usd_label: "unicode_ok P \<Longrightarrow> normalizeCurrency P (js ''USD'') = Inr USD"
proof -
  assume "unicode_ok P"
  moreover have "ascii (js ''USD'')" "trim (js ''USD'') = js ''USD''" "map upper_unit (js ''USD'') = js ''USD''" by code_simp+
  ultimately have "normalizeCurrency P (js ''USD'') = normalizeCurrency shop_platform (js ''USD'')"
    using unicode_okD [of P "js ''USD''"] unicode_okD [of shop_platform "js ''USD''"]
    by (simp add: normalizeCurrency_def)
  then show ?thesis by (simp add: shop_values)
qed

text \<open>
  A session whose page is the product page of a state, with a selection made: \<open>innerText\<close> answers with
  the text at each place, and the labels name the selected options.
\<close>

definition label_selector :: "FixtureState \<Rightarrow> jsstr \<Rightarrow> jsstr" where
  "label_selector st key = (if fx_version st = V1 then quoted ''id'' (js ''selected-'' @ key)
     else quoted ''data-selected-variant'' key)"

definition place_selector :: "FixtureState \<Rightarrow> string \<Rightarrow> string \<Rightarrow> jsstr" where
  "place_selector st i u = (case place st i u of (attr, val) \<Rightarrow> quoted attr (js val))"

definition shows_fixture :: "env \<Rightarrow> session \<Rightarrow> FixtureState \<Rightarrow> selection \<Rightarrow> bool" where
  "shows_fixture E s st sel \<longleftrightarrow>
    (\<forall>(i, u, t) \<in> set (fixture_texts st sel). \<forall>h. env_innerText E h s (place_selector st i u) = Inr t) \<and>
    (\<forall>h. env_innerText E h s (label_selector st (js ''color'')) = Inr (sel_color sel)) \<and>
    (\<forall>h. env_innerText E h s (label_selector st (js ''capacity'')) = Inr (sel_capacity sel))"

definition requested_of :: "selection \<Rightarrow> jsstr dict" where
  "requested_of sel = [(js ''color'', sel_color sel), (js ''capacity'', sel_capacity sel)]"

definition selection_ok :: "selection \<Rightarrow> bool" where
  "selection_ok sel \<longleftrightarrow> (sel_color sel = js ''black'' \<or> sel_color sel = js ''silver'') \<and>
     (sel_capacity sel = js ''1tb'' \<or> sel_capacity sel = js ''2tb'')"

definition fixture_observation :: "platform \<Rightarrow> FixtureState \<Rightarrow> selection \<Rightarrow> Observation" where
  "fixture_observation P st sel = \<lparr>obs_title = js ''Atlas Studio Headphones'', obs_sku = Some (js ''ASH-100''),
     obs_priceMinor = Fin (of_int (page_total st sel)), obs_currency = USD, obs_inStock = fx_inStock st,
     obs_availabilityRaw = stock_text st, obs_selectedVariant = requested_of sel,
     obs_rawPrice = rendered_price st sel,
     obs_identityFingerprint = fingerprint P (js ''Atlas Studio Headphones'') (Some (js ''ASH-100''))\<rparr>"

lemma place_path: "fixture_path (fx_version st = V1) i u = XpathText (place_selector st i u) None"
  by (simp add: fixture_path_def place_selector_def place_def)

lemma label_path:
  "key \<noteq> [] \<Longrightarrow> fixture_variant_path (fx_version st = V1) key = XpathText (label_selector st key) (Some key)"
  by (simp add: fixture_variant_path_def label_selector_def)

lemma fixture_read:
  assumes "shows_fixture E s st sel" "(i, u, t) \<in> set (fixture_texts st sel)"
  shows "yields (readFirst E s (Some [fixture_path (fx_version st = V1) i u]) f c) (Some t, c)"
proof -
  have "trim (js ''Atlas Studio Headphones'') = js ''Atlas Studio Headphones''"
    "trim (js ''ASH-100'') = js ''ASH-100''" by code_simp+
  then have "trim t = t" "t \<noteq> []"
    using assms(2) by (auto simp: fixture_texts_def rendered_price_def shop_trims trim_stock trim_money
        trim_stock(2) [symmetric] trim_money(2) [symmetric])
  moreover have "env_innerText E h s (place_selector st i u) = Inr t" for h
    using assms unfolding shows_fixture_def by blast
  ultimately show ?thesis unfolding place_path by (intro yields_text) auto
qed

lemma fixture_reads:
  assumes "shows_fixture E s st sel"
  shows "yields (readFirst E s (Some [fixture_path (fx_version st = V1) ''product-title'' ''product-name'']) f c)
      (Some (js ''Atlas Studio Headphones''), c)"
    "yields (readFirst E s (Some [fixture_path (fx_version st = V1) ''product-sku'' ''product-sku'']) f c)
      (Some (js ''ASH-100''), c)"
    "yields (readFirst E s (Some [fixture_path (fx_version st = V1) ''current-price'' ''offer-price'']) f c)
      (Some (rendered_price st sel), c)"
    "yields (readFirst E s (Some [fixture_path (fx_version st = V1) ''price-currency'' ''price-currency'']) f c)
      (Some (js ''USD''), c)"
    "yields (readFirst E s (Some [fixture_path (fx_version st = V1) ''stock-status'' ''inventory-status'']) f c)
      (Some (stock_text st), c)"
  by (rule fixture_read [OF assms], simp add: fixture_texts_def)+

lemma fixture_labels:
  assumes "shows_fixture E s st sel" "selection_ok sel"
  shows "yields (read_variants E s (map (fixture_variant_path (fx_version st = V1)) (map fst (requested_of sel))) [] c)
    (requested_of sel)"
proof -
  have "trim (js ''black'') = js ''black''" "trim (js ''silver'') = js ''silver''" "trim (js ''1tb'') = js ''1tb''"
    "trim (js ''2tb'') = js ''2tb''" by code_simp+
  then have tr: "trim (sel_color sel) = sel_color sel" "sel_color sel \<noteq> []"
    "trim (sel_capacity sel) = sel_capacity sel" "sel_capacity sel \<noteq> []"
    using assms(2) by (auto simp: selection_ok_def)
  have "obj_set (js ''capacity'') b (obj_set (js ''color'') a []) = [(js ''color'', a), (js ''capacity'', b)]" for a b :: jsstr
    by code_simp
  then show ?thesis using assms(1) tr
    by (simp add: requested_of_def label_path yields_def io_simps shows_fixture_def)
qed

lemma fixture_extract:
  assumes "fixture_ok st" "unicode_ok P" "dash_ok P" "shows_fixture E s st sel" "selection_ok sel"
    and plan: "plan_extractors plan =
      plan_extractors (fixture_plan P (fx_version st = V1) input target (requested_of sel) steps)"
  shows "yields (extractObservation P E s plan) (fixture_observation P st sel)"
proof -
  let ?V = "fx_version st = V1"
  have ex: "ex_title (plan_extractors plan) = [fixture_path ?V ''product-title'' ''product-name'']"
    "ex_price (plan_extractors plan) = [fixture_path ?V ''current-price'' ''offer-price'']"
    "ex_currency (plan_extractors plan) = Some [fixture_path ?V ''price-currency'' ''price-currency'']"
    "ex_availability (plan_extractors plan) = [fixture_path ?V ''stock-status'' ''inventory-status'']"
    "ex_selectedVariant (plan_extractors plan) = map (fixture_variant_path ?V) (map fst (requested_of sel))"
    "ex_sku (plan_extractors plan) = Some [fixture_path ?V ''product-sku'' ''product-sku'']"
    unfolding plan fixture_plan_def by simp_all
  note reads = fixture_reads [OF assms(4)]
  have price: "parsePrice (rendered_price st sel) = Inr (Fin (of_int (page_total st sel)), Some USD)"
    unfolding rendered_price_def using total_bounds [OF assms(1)] by (intro parsePrice_money) auto
  have "yields (finish_observation P E s plan (js ''Atlas Studio Headphones'') (rendered_price st sel) (stock_text st) None)
      (fixture_observation P st sel)"
    unfolding finish_observation_def ex
    by (rule yields_bind, rule reads(2), rule yields_prod,
        rule yields_bind, rule reads(4), rule yields_prod,
        rule yields_bind, rule yields_lift, rule price, rule yields_prod,
        rule yields_bind, rule yields_lift, simp add: currency_text_def, rule usd_label [OF assms(2)],
        rule yields_bind, rule fixture_labels [OF assms(4,5)],
        rule yields_bind, rule yields_lift, rule availability_of_stock [OF assms(2,3)])
      (simp add: fixture_observation_def yields_def io_ret_def)
  then show ?thesis
    unfolding extractObservation_def ex
    by (auto intro!: yields_bind [OF reads(1)] yields_bind [OF reads(3)] yields_bind [OF reads(5)])
qed

text \<open>
  C40. When the browser shows the product page of a reachable state of the fixture shop with a
  selection made, in either deployment, then the plan the scripted compiler writes for that
  selection makes an observation there: the title, the SKU, exactly the base price plus the price
  of the options in cents, USD, the stock state and the selected options; and the plan accepts it.
\<close>

theorem fixture_observed:
  assumes "fx_reachable syntax_error styles controlToken st" "unicode_ok P" "dash_ok P"
    and "shows_fixture E s st sel" "selection_ok sel"
    and plan: "plan = fixture_plan P (fx_version st = V1) input target (requested_of sel) steps"
    and "condition_currency input = None \<or> condition_currency input = Some USD"
  shows "\<exists>w'. extractObservation P E s plan w = (Inr (fixture_observation P st sel), w') \<and>
    obs_priceMinor (fixture_observation P st sel) = Fin (of_int (page_total st sel)) \<and>
    validateObservation P (fixture_observation P st sel) plan = Inr ()"
proof -
  have "plan_expectedCurrency plan = USD" "id_sku (plan_ident plan) = Some (js ''ASH-100'')"
    "id_requestedVariant (plan_ident plan) = requested_of sel"
    unfolding plan fixture_plan_def using assms(7) by auto
  moreover have "js ''color'' \<noteq> js ''capacity''" by (simp add: js_def)
  ultimately have "validateObservation P (fixture_observation P st sel) plan = Inr ()"
    by (simp add: validateObservation_def fixture_observation_def both_skus_def throw_if_def check_variant_def
        requested_of_def)
  moreover have "yields (extractObservation P E s plan) (fixture_observation P st sel)"
    by (rule fixture_extract [OF reachable_ok [OF assms(1)] assms(2-5)]) (simp add: plan)
  ultimately show ?thesis using yieldsD [of "extractObservation P E s plan"]
    by (simp add: fixture_observation_def)
qed

text \<open>The first deployment with its initial selection, in a browser that shows it.\<close>

definition fixture_env :: env where
  "fixture_env = shop_env\<lparr>env_innerText := (\<lambda>h s x.
     if x = quoted ''id'' (js ''selected-color'') then Inr (js ''black'')
     else if x = quoted ''id'' (js ''selected-capacity'') then Inr (js ''1tb'')
     else case map_of (map (\<lambda>(i, u, t). (quoted ''id'' (js i), t)) (fixture_texts initialState selected)) x of
       Some t \<Rightarrow> Inr t | None \<Rightarrow> env_innerText shop_env h s x)\<rparr>"

lemma fixture_env_shows: "shows_fixture fixture_env s initialState selected"
proof -
  have q: "quoted a x = quoted a y \<longleftrightarrow> x = y" for a x y by (simp add: quoted_def)
  show ?thesis
    by (simp add: shows_fixture_def fixture_env_def fixture_texts_def place_selector_def place_def label_selector_def
        selected_def initialState_def q js_def)
qed

theorem fixture_observed_witness:
  "\<forall>w. \<exists>w'. extractObservation shop_platform fixture_env MainRun
      (fixture_plan shop_platform True (shop_input Check) shop_url (requested_of selected) []) w =
      (Inr (fixture_observation shop_platform initialState selected), w') \<and>
    obs_priceMinor (fixture_observation shop_platform initialState selected) = Fin 109900"
proof -
  have c: "condition_currency (shop_input Check) = None" by (simp add: shop_input_def condition_currency_def)
  have v: "fx_version initialState = V1" "page_total initialState selected = 109900"
    by (simp_all add: initialState_def selected_def page_total_def js_def)
  have "selection_ok selected" by (simp add: selection_ok_def selected_def)
  then show ?thesis
    using fixture_observed [OF fx_start [of "\<lambda>_. []" "[]" "[]"] unicode_ok_shop dash_ok_shop fixture_env_shows _ refl,
        of "shop_input Check"] c v by fastforce
qed

end
