(* ===== verification/ValidationLaws.thy ===== *)
theory ValidationLaws
  imports UsdText
begin

text \<open>
  What \<open>parsePrice\<close> and \<open>validateObservation\<close> decide: the errors and refusals of the price
  parser in terms of the text, the exactness of the similarity threshold on the counts of
  title words despite binary64 division, and the condition under which an observation is
  accepted for a plan.
\<close>

section \<open>Refusals of the price parser\<close>

lemma parsePrice_error:
  assumes "parsePrice raw = Inl e"
  shows "\<exists>m. e = ValidationError m AmbiguousValue"
  using assms unfolding parsePrice_def Let_def ambiguous_def
  by (auto split: if_splits list.splits option.splits prod.splits)

definition compact_text :: "jsstr \<Rightarrow> jsstr" where
  "compact_text raw = trim (map (\<lambda>c. if c = 160 \<or> c = 8239 then 32 else c) raw)"

lemma parsePrice_Inr:
  assumes "parsePrice raw = Inr (m, c)"
  shows "\<not> re_test True ambiguous_re (compact_text raw)"
    "\<not> re_test False unsupported_sign_re (compact_text raw)"
    "set (detectedCurrencies (compact_text raw)) = set_option c"
    "length (match_all False numeric_re (compact_text raw)) = 1"
    "m \<noteq> NaN"
proof -
  let ?t = "compact_text raw"
  from assms have t: "\<not> re_test True ambiguous_re ?t" "\<not> re_test False unsupported_sign_re ?t"
      "\<not> length (detectedCurrencies ?t) > 1"
    unfolding parsePrice_def Let_def compact_text_def by (auto split: if_splits)
  from assms obtain start w where one: "match_all False numeric_re ?t = [(start, w)]"
    unfolding parsePrice_def Let_def compact_text_def
    by (auto split: if_splits list.splits option.splits prod.splits)
  from assms t one have r: "is_finite (js_number (plain_decimal w))"
      "\<not> dle (js_number (plain_decimal w)) (Fin 0)"
      "m = math_round (dmul (js_number (plain_decimal w)) 100)"
      "c = (case detectedCurrencies ?t of [] \<Rightarrow> None | c # _ \<Rightarrow> Some c)"
    unfolding parsePrice_def Let_def compact_text_def
    by (auto split: if_splits option.splits)
  show "\<not> re_test True ambiguous_re ?t" "\<not> re_test False unsupported_sign_re ?t"
    using t by simp_all
  show "length (match_all False numeric_re ?t) = 1" using one by simp
  show "set (detectedCurrencies ?t) = set_option c"
    using t(3) r(4) by (cases "detectedCurrencies ?t") auto
  obtain x where "js_number (plain_decimal w) = Fin x" "0 < x"
    using r(1,2) by (cases "js_number (plain_decimal w)") (auto simp: dle_def not_le)
  then have "dmul (js_number (plain_decimal w)) 100 = fl_pos (x * 100)" by (simp add: fl_def)
  moreover have "math_round (fl_pos y) \<noteq> NaN" for y
    by (simp add: fl_pos_def Let_def)
  ultimately show "m \<noteq> NaN" using r(3) by simp
qed

text \<open>The phrases of prices that are not a total.\<close>

definition non_total_phrases :: "jsstr set" where
  "non_total_phrases = js ` {''from'', ''starting at'', ''per month'', ''monthly'', ''installment'', ''finance''}"

lemma denotes_non_total:
  "denotes (alts [str ''from'', str ''starting at'', str ''per month'', str ''monthly'',
     str ''installment'', str ''finance'']) non_total_phrases"
proof -
  have low: "map lower_unit (js s) = js s"
    if "s \<in> {''from'', ''starting at'', ''per month'', ''monthly'', ''installment'', ''finance''}" for s
    using that by (auto simp: js_eval)
  have "denotes (alts [str ''from'', str ''starting at'', str ''per month'', str ''monthly'',
     str ''installment'', str ''finance'']) ({js ''from''} \<union> ({js ''starting at''} \<union> ({js ''per month''} \<union>
     ({js ''monthly''} \<union> ({js ''installment''} \<union> {js ''finance''})))))"
    unfolding alts.simps by (intro denotes_Alt denotes_str low) simp_all
  then show ?thesis by (simp add: non_total_phrases_def insert_commute)
qed

lemma re_test_Alt: "re_test ic (Alt r q) s \<longleftrightarrow> re_test ic r s \<or> re_test ic q s"
  unfolding re_test_iff mt.simps by blast

lemma ambiguous_phrase:
  assumes "s = pre @ v @ post" "map lower_unit v \<in> non_total_phrases"
    "word_edge pre (v @ post)" "word_edge (pre @ v) post"
  shows "re_test True ambiguous_re s"
  unfolding ambiguous_re_def re_test_Alt re_test_words [OF denotes_non_total] using assms by blast

lemma re_test_Cls: "re_test False (Cls rs) s \<longleftrightarrow> (\<exists>c \<in> set s. in_ranges rs c)"
  unfolding re_test_iff mt.simps fst_conv snd_conv
  by (fastforce simp: cls_has_def in_set_conv_decomp)

definition unsupported_signs :: "code_unit set" where
  "unsupported_signs = {165, 8377, 8381, 8361, 8378, 8363, 3647, 8369, 8358, 8372, 8362}"

lemma unsupported_sign_iff:
  "re_test False unsupported_sign_re s \<longleftrightarrow> set s \<inter> unsupported_signs \<noteq> {}"
  unfolding unsupported_sign_re_def re_test_Cls
  by (auto simp: in_ranges_def unsupported_signs_def)

section \<open>The similarity threshold\<close>

lemma threshold_positive: "\<exists>y. fl (8 / 10) = Fin y \<and> 0 < y"
proof -
  have "case fl (8 / 10) of Fin y \<Rightarrow> 0 < y | _ \<Rightarrow> False" by code_simp
  then show ?thesis by (auto split: dbl.splits)
qed

lemma similarity_threshold:
  fixes a b :: nat
  assumes "a \<le> b" "0 < b" "b < 2 ^ 40"
  shows "dless (ddiv_nat a b) (fl (8 / 10)) \<longleftrightarrow> 5 * a < 4 * b"
proof -
  define x :: rat where "x = of_nat a / of_nat b"
  have q: "ddiv_nat a b = fl x" using assms(2) by (simp add: ddiv_nat_def x_def)
  have b: "(0::rat) < of_nat b" "of_nat b < (2 ^ 40 :: rat)"
    using assms(2,3) by (simp, metis of_nat_less_iff of_nat_numeral of_nat_power)
  have x: "x \<le> 1" using assms(1) b(1) by (simp add: x_def)
  consider "5 * a < 4 * b" | "5 * a = 4 * b" | "4 * b < 5 * a" by linarith
  then show ?thesis
  proof cases
    case 1
    show ?thesis
    proof (cases "a = 0")
      case True
      then have "ddiv_nat a b = Fin 0" using assms(2) by (simp add: ddiv_nat_def fl_def)
      then show ?thesis using threshold_positive 1 by auto
    next
      case False
      have "(5 * of_nat a + 1 :: rat) \<le> 4 * of_nat b"
        using 1 by (metis (mono_tags) Suc_leI of_nat_1 of_nat_add of_nat_le_iff of_nat_mult of_nat_numeral Suc_eq_plus1)
      then have gap: "x + 1 / (5 * of_nat b) \<le> 8 / 10"
        using b(1) by (simp add: x_def field_simps)
      have "x * (1 / 2 ^ 50) \<le> 1 / 2 ^ 50" using x by simp
      also have "\<dots> < 1 / (5 * 2 ^ 40)" by simp
      also have "\<dots> \<le> 1 / (5 * of_nat b)" using b by (simp add: frac_le)
      finally have "x * (1 + 1 / 2 ^ 50) < 8 / 10" using gap by (simp add: ring_distribs)
      moreover have "1 / 2 ^ 100 \<le> x"
      proof -
        have "1 / 2 ^ 100 \<le> (1 :: rat) / 2 ^ 40" by simp
        also have "\<dots> \<le> 1 / of_nat b" using b by (simp add: frac_le)
        also have "\<dots> \<le> x" using False b(1) by (simp add: x_def divide_right_mono)
        finally show ?thesis .
      qed
      ultimately obtain u v where "fl x = Fin u" "fl (8 / 10) = Fin v" "u < v"
        using double.ratio_separated [of x "8 / 10"] by auto
      then show ?thesis using 1 by (simp add: q)
    qed
  next
    case 2
    then have "5 * (of_nat a :: rat) = 4 * of_nat b"
      by (metis of_nat_mult of_nat_numeral)
    then have "x = 8 / 10" using b(1) by (simp add: x_def field_simps)
    moreover have "\<not> dless d d" for d by (cases d) auto
    ultimately have "\<not> dless (fl x) (fl (8 / 10))" by (simp only: not_False_eq_True)
    then show ?thesis using 2 q by simp
  next
    case 3
    have "(4 * of_nat b + 1 :: rat) \<le> 5 * of_nat a"
      using 3 by (metis (mono_tags) Suc_leI of_nat_1 of_nat_add of_nat_le_iff of_nat_mult of_nat_numeral Suc_eq_plus1)
    then have "(4 * of_nat b + 1) / (5 * of_nat b) \<le> (5 * of_nat a :: rat) / (5 * of_nat b)"
      using b(1) by (intro divide_right_mono) simp_all
    then have gap: "8 / 10 + 1 / (5 * of_nat b) \<le> x"
      using b(1) by (simp add: x_def add_divide_distrib)
    have "8 / 10 * (1 / 2 ^ 50) < (1 :: rat) / (5 * 2 ^ 40)" by simp
    also have "\<dots> \<le> 1 / (5 * of_nat b)" using b by (simp add: frac_le)
    finally have "8 / 10 * (1 + 1 / 2 ^ 50) < x" using gap by (simp add: ring_distribs)
    then obtain u v where "fl (8 / 10) = Fin u" "fl x = Fin v" "u < v"
      using double.ratio_separated [of "8 / 10" x] x by auto
    then show ?thesis using 3 by (simp add: q)
  qed
qed

text \<open>The words of a title, as a set.\<close>

definition words :: "platform \<Rightarrow> jsstr \<Rightarrow> jsstr set" where
  "words P s = set (split_on 32 (normalize P s)) - {[]}"

lemma set_title_tokens: "set (title_tokens P s) = words P s"
  by (auto simp: title_tokens_def words_def)

lemma titleSimilarity_low:
  assumes "card (words P l \<union> words P r) < 2 ^ 40"
  shows "dless (titleSimilarity P l r) (fl (8 / 10)) \<longleftrightarrow>
    words P l = {} \<or> words P r = {} \<or>
    5 * card (words P l \<inter> words P r) < 4 * card (words P l \<union> words P r)"
proof -
  let ?a = "title_tokens P l" and ?b = "title_tokens P r"
  have eq: "length (filter (\<lambda>t. t \<in> set ?b) ?a) = card (words P l \<inter> words P r)"
    by (subst distinct_card [symmetric])
      (auto simp: title_tokens_def words_def intro: arg_cong [of _ _ card])
  have un: "length (set_of (?a @ ?b)) = card (words P l \<union> words P r)"
    by (simp add: length_set_of set_title_tokens)
  have nil: "?a = [] \<longleftrightarrow> words P l = {}" "?b = [] \<longleftrightarrow> words P r = {}"
    by (metis set_empty set_title_tokens)+
  show ?thesis
  proof (cases "words P l = {} \<or> words P r = {}")
    case True
    then show ?thesis using threshold_positive nil by (auto simp: titleSimilarity_def)
  next
    case False
    have fin: "finite (words P l \<union> words P r)" by (simp add: words_def)
    have "card (words P l \<inter> words P r) \<le> card (words P l \<union> words P r)"
      using fin by (intro card_mono) auto
    moreover have "0 < card (words P l \<union> words P r)" using fin False by (simp add: card_gt_0_iff)
    ultimately have "dless (ddiv_nat (card (words P l \<inter> words P r)) (card (words P l \<union> words P r)))
        (fl (8 / 10)) \<longleftrightarrow> 5 * card (words P l \<inter> words P r) < 4 * card (words P l \<union> words P r)"
      using assms by (rule similarity_threshold)
    then show ?thesis using False nil by (simp add: titleSimilarity_def eq un)
  qed
qed

section \<open>Properties\<close>

text \<open>
  C33. Round trip of money: the price text of \<open>k\<close> cents in US dollars, with its dollar sign,
  thousands separators and two decimals, is parsed to exactly \<open>k\<close> minor units and USD, for
  every amount up to \<open>2 ^ 50\<close> cents, although the parser goes through binary64 numbers.
\<close>

theorem price_round_trip:
  assumes "0 < k" "k \<le> 2 ^ 50"
  shows "parsePrice (usd_text k) = Inr (Fin (of_nat k), Some USD)"
  using assms by (rule parsePrice_usd_text)

theorem price_round_trip_witness:
  "usd_text 123456 = js ''$1,234.56'' \<and>
   parsePrice (js ''$1,234.56'') = Inr (Fin 123456, Some USD)"
proof -
  have "usd_text 123456 = js ''$1,234.56''"
    by (simp add: usd_text_def lead_group.simps groups3.simps commas_def pad2_def pad3_def show_nat.simps js_def)
  then show ?thesis using price_round_trip [of 123456] by simp
qed

text \<open>
  Refusals of \<open>parsePrice\<close>: every error it throws is a \<open>ValidationError\<close> for an
  ambiguous value, and a price it accepts comes from a text with exactly one number, at
  most the one currency it returns, none of the six phrases for prices that are not a
  total, and none of the eleven unsupported currency signs.
\<close>

theorem parsePrice_fails_closed:
  "(\<forall>e. parsePrice raw = Inl e \<longrightarrow> (\<exists>m. e = ValidationError m AmbiguousValue)) \<and>
   (\<forall>m c. parsePrice raw = Inr (m, c) \<longrightarrow>
      length (match_all False numeric_re (compact_text raw)) = 1 \<and>
      set (detectedCurrencies (compact_text raw)) = set_option c \<and>
      set (compact_text raw) \<inter> unsupported_signs = {} \<and>
      \<not> (\<exists>pre v post. compact_text raw = pre @ v @ post \<and> map lower_unit v \<in> non_total_phrases \<and>
          word_edge pre (v @ post) \<and> word_edge (pre @ v) post))"
proof (intro conjI allI impI)
  fix m c assume *: "parsePrice raw = Inr (m, c)"
  note facts = parsePrice_Inr [OF *]
  show "length (match_all False numeric_re (compact_text raw)) = 1"
    "set (detectedCurrencies (compact_text raw)) = set_option c"
    using facts by simp_all
  show "set (compact_text raw) \<inter> unsupported_signs = {}"
    using facts(2) by (simp add: unsupported_sign_iff)
  show "\<not> (\<exists>pre v post. compact_text raw = pre @ v @ post \<and> map lower_unit v \<in> non_total_phrases \<and>
      word_edge pre (v @ post) \<and> word_edge (pre @ v) post)"
    using facts(1) ambiguous_phrase by blast
qed (rule parsePrice_error)

theorem parsePrice_fails_closed_witness:
  "length (match_all False numeric_re (compact_text (js ''$5''))) = 1"
proof -
  have "parsePrice (js ''$5'') = Inr (Fin 500, Some USD)" by code_simp
  then show ?thesis using parsePrice_fails_closed [of "js ''$5''"] by blast
qed

text \<open>
  C36. An observation is accepted for a plan exactly when its currency is the plan's, its
  identity matches (equal normalised SKUs when both have one; otherwise both titles have
  words and the shared words are at least four fifths of all of them, decided exactly
  although the code divides in binary64), and every requested variant attribute is still
  selected.
\<close>

theorem validateObservation_accepts:
  assumes "card (words P (id_title (plan_ident plan)) \<union> words P (obs_title obs)) < 2 ^ 40"
  shows "validateObservation P obs plan = Inr () \<longleftrightarrow>
    obs_currency obs = plan_expectedCurrency plan \<and>
    (case both_skus (id_sku (plan_ident plan)) (obs_sku obs) of
       Some (x, y) \<Rightarrow> normalize P x = normalize P y
     | None \<Rightarrow>
         words P (id_title (plan_ident plan)) \<noteq> {} \<and> words P (obs_title obs) \<noteq> {} \<and>
         4 * card (words P (id_title (plan_ident plan)) \<union> words P (obs_title obs))
           \<le> 5 * card (words P (id_title (plan_ident plan)) \<inter> words P (obs_title obs))) \<and>
    (\<forall>attribute expected. (attribute, expected) \<in> set (id_requestedVariant (plan_ident plan)) \<longrightarrow>
       normalize P (case obj_get (obs_selectedVariant obs) attribute of None \<Rightarrow> [] | Some v \<Rightarrow> v)
         = normalize P expected)"
  unfolding validateObservation_def rbind_Inr_iff throw_if_simps for_each_Inr
  using titleSimilarity_low [OF assms]
  by (auto simp: check_variant_def not_less split: option.splits prod.splits)

definition lamp_plan :: MonitorPlanV1 where
  "lamp_plan = \<lparr>plan_schemaVersion = 1, plan_stagehandVersion = js ''3.7.0'',
     plan_canonicalUrl = js ''http://a/p'',
     plan_ident = \<lparr>id_title = js ''Desk lamp'', id_brand = None, id_sku = None,
       id_fingerprint = js ''12345678'', id_requestedVariant = [(js ''color'', js ''Red'')]\<rparr>,
     plan_preparationSteps = [],
     plan_extractors = \<lparr>ex_title = [JsonLd FTitle], ex_price = [JsonLd FPrice], ex_currency = None,
       ex_availability = [JsonLd FAvailability], ex_selectedVariant = [], ex_sku = None\<rparr>,
     plan_expectedCurrency = USD, plan_validatorVersion = 1\<rparr>"

definition lamp_observation :: Observation where
  "lamp_observation = \<lparr>obs_title = js ''Desk Lamp'', obs_sku = None, obs_priceMinor = Fin 500,
     obs_currency = USD, obs_inStock = True, obs_availabilityRaw = js ''in stock'',
     obs_selectedVariant = [(js ''color'', js ''red'')], obs_rawPrice = js ''$5'',
     obs_identityFingerprint = []\<rparr>"

lemma lamp_words:
  "words ascii_platform (id_title (plan_ident lamp_plan)) = {js ''desk'', js ''lamp''}"
  "words ascii_platform (obs_title lamp_observation) = {js ''desk'', js ''lamp''}"
  "normalize ascii_platform (js ''red'') = normalize ascii_platform (js ''Red'')"
  "both_skus (id_sku (plan_ident lamp_plan)) (obs_sku lamp_observation) = None"
proof -
  have "split_on 32 (normalize ascii_platform (js ''Desk lamp'')) = [js ''desk'', js ''lamp'']"
    "split_on 32 (normalize ascii_platform (js ''Desk Lamp'')) = [js ''desk'', js ''lamp'']"
    by code_simp+
  then show "words ascii_platform (id_title (plan_ident lamp_plan)) = {js ''desk'', js ''lamp''}"
    "words ascii_platform (obs_title lamp_observation) = {js ''desk'', js ''lamp''}"
    by (auto simp: words_def lamp_plan_def lamp_observation_def)
  show "normalize ascii_platform (js ''red'') = normalize ascii_platform (js ''Red'')"
    by code_simp
qed (simp add: lamp_plan_def both_skus_def)

theorem validateObservation_accepts_witness:
  "validateObservation ascii_platform lamp_observation lamp_plan = Inr ()"
proof -
  have "js ''desk'' \<noteq> js ''lamp''" by (simp add: js_def)
  then have "card {js ''desk'', js ''lamp''} = 2" by simp
  moreover have "obs_currency lamp_observation = plan_expectedCurrency lamp_plan"
    "id_requestedVariant (plan_ident lamp_plan) = [(js ''color'', js ''Red'')]"
    "obj_get (obs_selectedVariant lamp_observation) (js ''color'') = Some (js ''red'')"
    by (simp_all add: lamp_plan_def lamp_observation_def)
  ultimately show ?thesis
    by (subst validateObservation_accepts) (simp_all add: lamp_words)
qed

text \<open>
  Two currencies the parser guesses: the Canadian \<open>CA$\<close> is read as Australian dollars,
  because \<open>A$\<close> matches inside it, and the Brazilian \<open>R$\<close> as US dollars.
\<close>

theorem dollar_prefix_guess:
  "parsePrice (js ''CA$5'') = Inr (Fin 500, Some AUD) \<and>
   parsePrice (js ''R$ 5'') = Inr (Fin 500, Some USD)"
  by code_simp

end
