(* ===== verification/JobLaws.thy ===== *)
theory JobLaws
  imports HandlerLaws Shop
begin

text \<open>
  The properties of a job, each with an example on the concrete shop: a job always reports a
  result, only safe actions reach the browser, sessions are closed, a check asks no model,
  and a repaired plan was confirmed in an independent session.
\<close>

section \<open>Inversion of successful jobs\<close>

lemma warmCheck_validates: "returns (\<lambda>obs. validateObservation P obs plan = Inr ()) (warmCheck P E run plan target)"
  unfolding warmCheck_def returns_def by (auto simp: io_bind_Inr)

text \<open>Failures are never reported as successes, so a property of the successes of a job is one of its main part.\<close>

lemma failure_not_success:
  "returns (\<lambda>r. res_status r = RSucceeded \<longrightarrow> R r) (job_failure P E config input started run ready e)"
  unfolding job_failure_def Let_def by (intro returns_intro) (simp add: base_result_def)

lemma executeJob_successes:
  assumes "\<And>started target scripted run. returns (\<lambda>r. res_status r = RSucceeded \<longrightarrow> R r)
      (job_main P E config input started target scripted run)"
  shows "returns (\<lambda>r. res_status r = RSucceeded \<longrightarrow> R r) (executeJob P E config input)"
  unfolding executeJob_def by (intro returns_intro failure_not_success assms)

lemma requireRevision_Inr: "requireRevision E input = Inr r \<Longrightarrow> in_revision input = Some r"
  by (auto simp: requireRevision_def split: option.splits if_splits)

lemma returns_bind_fact:
  assumes "returns R m" and "\<And>x. R x \<Longrightarrow> returns S (f x)"
  shows "returns S (io_bind m f)"
  by (rule returns_bind_dep, rule assms(2), erule returnsD [OF assms(1)])

lemma returns_timed: "returns R m \<Longrightarrow> returns R (timed E n m)"
  unfolding timed_def by (intro returns_intro)

lemma returns_requireRevision:
  "(\<And>rev. in_revision input = Some rev \<Longrightarrow> returns R (f rev)) \<Longrightarrow>
   returns R (io_bind (io_lift (requireRevision E input)) f)"
  by (rule returns_bind_dep) (auto dest: requireRevision_Inr)

definition checked :: "platform \<Rightarrow> ExecutionInput \<Rightarrow> ExecutionResult \<Rightarrow> bool" where
  "checked P input r \<longleftrightarrow> (\<exists>rev obs. in_revision input = Some rev \<and> res_observation r = Some obs \<and>
     validateObservation P obs (rev_plan rev) = Inr () \<and> res_generation r = Some (rev_generation rev) \<and>
     res_modelCallCount r = 0 \<and> res_candidatePlan r = None)"

lemma check_successes:
  assumes "job_kind (in_execution input) = Check"
  shows "returns (\<lambda>r. res_status r = RSucceeded \<longrightarrow> checked P input r) (executeJob P E config input)"
proof (rule executeJob_successes)
  fix started target scripted run
  show "returns (\<lambda>r. res_status r = RSucceeded \<longrightarrow> checked P input r)
      (job_main P E config input started target scripted run)"
    unfolding job_main_def job_check_def assms
    by (rule returns_bind, simp, rule returns_requireRevision,
        rule returns_bind_fact [OF returns_timed [OF warmCheck_validates]], rule job_success_result)
      (simp add: checked_def base_result_def)
qed


















section \<open>Properties\<close>

text \<open>
  C4. A job always reports: whatever the browser, the page, the model, the clock and the abort
  signal do, \<open>executeJob\<close> returns a result and never throws, and the result carries the ids and
  the kind of the execution, succeeded exactly when it has no failure, asks for review exactly
  when the failure is an identity drift or an ambiguous value, and with a failure reports
  neither an observation nor a plan, and at most 1000 characters of message.
\<close>

theorem job_always_reports:
  "\<exists>r w'. executeJob P E config input w = (Inr r, w') \<and>
    res_executionId r = job_id (in_execution input) \<and> res_monitorId r = mon_id (in_monitor input) \<and>
    res_kind r = job_kind (in_execution input) \<and> (res_status r = RSucceeded \<longleftrightarrow> res_failure r = None) \<and>
    (res_status r = RNeedsReview \<longleftrightarrow>
       (\<exists>f. res_failure r = Some f \<and> fail_classification f \<in> {identity_drift, ambiguous_value})) \<and>
    (case res_failure r of None \<Rightarrow> True | Some f \<Rightarrow> length (fail_message f) \<le> 1000 \<and>
       res_observation r = None \<and> res_candidatePlan r = None)"
proof -
  obtain r w' where r: "executeJob P E config input w = (Inr r, w')"
    using settlesD [OF settles_executeJob] by blast
  have "result_ok input r" by (rule returnsD [OF executeJob_result r])
  with r show ?thesis by (auto simp: result_ok_def split: option.splits)
qed

text \<open>
  C6. A job is safe from its first call to its last: every action it hands to the browser,
  cached, compiled, observed by the model or self-healed, passes \<open>assertSafeAction\<close>, and a
  session may self-heal only in a repair.
\<close>

theorem job_actions_safe:
  assumes "unicode_ok P" "executeJob P E config input w = (r, w')"
  shows "\<exists>new. w_calls w' = w_calls w @ new \<and>
    (\<forall>s a. CAct s a \<in> set new \<longrightarrow> assertSafeAction P a = Inr ()) \<and>
    (\<forall>s m. CLaunch s True m \<in> set new \<longrightarrow> job_kind (in_execution input) = Repair)"
proof -
  let ?h = "job_kind (in_execution input) = Repair"
  have "emits (job_call P ?h True) (executeJob P E config input)"
    by (rule emits_executeJob [OF assms(1)]) simp_all
  from emitsD [OF this assms(2)] obtain new where n: "w_calls w' = w_calls w @ new"
    and c: "\<And>c. c \<in> set new \<Longrightarrow> job_call P ?h True c"
    by (auto simp: extends_def list_all_iff)
  have "assertSafeAction P a = Inr ()" if "CAct s a \<in> set new" for s a
    using c [OF that] by (auto simp: job_call_def housekeeping_def drives_def inspects_def reads_page_def asks_model_def)
  moreover have ?h if "CLaunch s True m \<in> set new" for s m
    using c [OF that] by (auto simp: job_call_def housekeeping_def drives_def inspects_def reads_page_def asks_model_def)
  ultimately show ?thesis using n by blast
qed

abbreviation shop_start :: world where
  "shop_start \<equiv> \<lparr>w_calls = [], w_timings = []\<rparr>"

lemma alwaysD: "always R m \<Longrightarrow> \<exists>x w'. m w = (Inr x, w') \<and> R x"
  by (simp add: always_def)

theorem job_actions_safe_witness:
  "\<exists>r w'. executeJob shop_platform shop_env shop_config (shop_input Check) shop_start = (Inr r, w') \<and>
     res_status r = RSucceeded \<and> (\<forall>s m. CLaunch s True m \<notin> set (w_calls w'))"
proof -
  obtain r w' where r: "executeJob shop_platform shop_env shop_config (shop_input Check) shop_start = (Inr r, w')"
    "res_status r = RSucceeded" using alwaysD [OF shop_check] by blast
  have "job_kind (in_execution (shop_input Check)) \<noteq> Repair" by (simp add: shop_input_def)
  then show ?thesis using job_actions_safe [OF unicode_ok_shop r(1)] r by auto
qed

text \<open>
  C7. No browser session outlives its job: after every initialisation of the main or of the
  validator session in the calls of \<open>executeJob\<close>, a close of the same session follows, on
  every path, aborts and errors included.
\<close>

theorem job_closes_sessions:
  assumes "unicode_ok P" "executeJob P E config input w = (r, w')"
  shows "\<exists>new. w_calls w' = w_calls w @ new \<and>
    (\<forall>s before after. new = before @ CInit s # after \<longrightarrow> CClose s \<in> set after)"
proof -
  obtain new where n: "w_calls w' = w_calls w @ new" and "closed_after MainRun new"
    using tracesD [OF closing_executeJob [OF assms(1)] assms(2)] by blast
  moreover have "closed_after ValidatorRun new"
    using tracesD [OF closing_executeJob [OF assms(1)] assms(2)] n by fastforce
  ultimately have "closed_after s new" for s by (cases s) auto
  with n show ?thesis unfolding closed_after_iff by blast
qed

theorem job_closes_sessions_witness:
  "\<exists>r w'. executeJob shop_platform shop_env shop_config (shop_input Repair) shop_start = (Inr r, w') \<and>
     res_status r = RSucceeded \<and>
     (\<forall>s before after. w_calls w' = before @ CInit s # after \<longrightarrow> CClose s \<in> set after)"
proof -
  obtain r w' where r: "executeJob shop_platform shop_env shop_config (shop_input Repair) shop_start = (Inr r, w')"
    "res_status r = RSucceeded" using alwaysD [OF shop_repair] by blast
  then show ?thesis using job_closes_sessions [OF unicode_ok_shop r(1)] by auto
qed

text \<open>
  C8. A check never asks the model: its calls contain no observe, extract or language-model
  call and no session is launched with a model or with self-healing. When it succeeds, its
  observation passes \<open>validateObservation\<close> for the plan of the revision, it reports that
  revision's generation, no new plan and zero model calls.
\<close>

theorem check_without_model:
  assumes "unicode_ok P" "job_kind (in_execution input) = Check" "executeJob P E config input w = (Inr r, w')"
  shows "(\<exists>new. w_calls w' = w_calls w @ new \<and> (\<forall>c \<in> set new. \<forall>s x d h m.
      c \<noteq> CExtract s \<and> c \<noteq> CObserve s x \<and> c \<noteq> CIntent x \<and> c \<noteq> CNodes d \<and>
      (c = CLaunch s h m \<longrightarrow> \<not> h \<and> \<not> m))) \<and>
    (res_status r = RSucceeded \<longrightarrow> (\<exists>rev obs. in_revision input = Some rev \<and> res_observation r = Some obs \<and>
      validateObservation P obs (rev_plan rev) = Inr () \<and> res_generation r = Some (rev_generation rev) \<and>
      res_modelCallCount r = 0 \<and> res_candidatePlan r = None))"
proof
  have "emits (job_call P False False) (executeJob P E config input)"
    by (rule emits_executeJob [OF assms(1)]) (simp_all add: assms(2))
  from emitsD [OF this assms(3)] obtain new where n: "w_calls w' = w_calls w @ new"
    and c: "\<And>c. c \<in> set new \<Longrightarrow> job_call P False False c"
    by (auto simp: extends_def list_all_iff)
  show "\<exists>new. w_calls w' = w_calls w @ new \<and> (\<forall>c \<in> set new. \<forall>s x d h m.
      c \<noteq> CExtract s \<and> c \<noteq> CObserve s x \<and> c \<noteq> CIntent x \<and> c \<noteq> CNodes d \<and>
      (c = CLaunch s h m \<longrightarrow> \<not> h \<and> \<not> m))"
    using n by (intro exI [of _ new])
      (auto dest!: c simp: job_call_def housekeeping_def drives_def inspects_def reads_page_def)
  show "res_status r = RSucceeded \<longrightarrow> (\<exists>rev obs. in_revision input = Some rev \<and> res_observation r = Some obs \<and>
      validateObservation P obs (rev_plan rev) = Inr () \<and> res_generation r = Some (rev_generation rev) \<and>
      res_modelCallCount r = 0 \<and> res_candidatePlan r = None)"
    using returnsD [OF check_successes [OF assms(2)] assms(3)] unfolding checked_def .
qed

theorem check_without_model_witness:
  "\<exists>r w'. executeJob shop_platform shop_env shop_config (shop_input Check) shop_start = (Inr r, w') \<and>
     res_generation r = Some 4 \<and> res_modelCallCount r = 0 \<and> (\<forall>s. CExtract s \<notin> set (w_calls w'))"
proof -
  obtain r w' where r: "executeJob shop_platform shop_env shop_config (shop_input Check) shop_start = (Inr r, w')"
    "res_status r = RSucceeded" using alwaysD [OF shop_check] by blast
  have k: "job_kind (in_execution (shop_input Check)) = Check" by (simp add: shop_input_def)
  have "in_revision (shop_input Check) = Some shop_revision" "rev_generation shop_revision = 4"
    by (simp_all add: shop_input_def shop_revision_def)
  then show ?thesis using check_without_model [OF unicode_ok_shop k r(1)] r by auto
qed



text \<open>The plan compiled in the shop, for the property of compiled plans.\<close>

theorem compiled_plan_accepted_witness:
  "\<exists>out w'. compileMonitor shop_platform shop_env (shop_run Compile) (shop_input Compile) shop_url [] shop_config
      shop_start = (Inr out, w') \<and> out_plan out = shop_plan \<and>
    monitorPlanV1Schema (\<lambda>_. True) shop_plan \<and> validateObservation shop_platform shop_observation shop_plan = Inr ()"
proof -
  obtain w' where c: "compileMonitor shop_platform shop_env (shop_run Compile) (shop_input Compile) shop_url [] shop_config
      shop_start = (Inr \<lparr>out_plan = shop_plan, out_observation = shop_observation, out_modelCallCount = 3,
        out_source = StagehandSource\<rparr>, w')"
    using yieldsD [OF shop_compile] by blast
  have "8 \<le> length (sha256_hex shop_platform b)" for b by (simp add: shop_platform_def js_def)
  from compiled_plan_accepted [OF c this, of "\<lambda>_. True"] c show ?thesis by (auto simp: shop_plan_def)
qed

end
