(* ===== verification/Queue.thy ===== *)
theory Queue
  imports Api Handler
begin

text \<open>
  Deliveries of the work queue (\<open>worker/src/queue.ts\<close>): \<open>processDelivery\<close>, which reads a work
  message, fetches its execution, runs the job under its deadline, posts the result and
  settles the message; \<open>executeWithJobTimeout\<close>, \<open>ensureDurableConsumer\<close>, \<open>backoff\<close> and
  \<open>traceIdFromTraceparent\<close>. A message is what the NATS client hands over: the value of
  \<open>message.json()\<close>, or none when it throws, and the count of redeliveries. Heartbeats
  (\<open>message.working()\<close> every 15 seconds) neither settle the message nor change what the
  delivery does and are left out, as is logging.
\<close>

section \<open>Helpers\<close>

definition stream :: jsstr where
  "stream = js ''SCOUT_WORK''"

definition terminalExecutionStates :: "execution_state set" where
  "terminalExecutionStates = {Succeeded, Failed, Blocked, NeedsReview}"

definition backoff :: "nat \<Rightarrow> int" where
  "backoff redeliveryCount = min 60000 (1000 * 2 ^ min redeliveryCount 6)"

definition hex_re :: re where
  "hex_re = Cls [(48, 57), (97, 102)]"

definition traceparent_re :: re where
  "traceparent_re = seqs [Bol, str ''00-'', NotAhead (Rep 32 0 (ch 48)), Grp (Rep 32 0 hex_re), ch 45,
     NotAhead (Rep 16 0 (ch 48)), Rep 16 0 hex_re, ch 45, Rep 2 0 hex_re, Eol]"

definition traceIdFromTraceparent :: "jsstr option \<Rightarrow> jsstr option" where
  "traceIdFromTraceparent traceparent = Option.bind traceparent (re_group False traceparent_re)"

section \<open>executeWithJobTimeout\<close>

text \<open>A job executor: the environment carries the abort signal the executor is given.\<close>

type_synonym JobExecutor = "env \<Rightarrow> WorkerConfig \<Rightarrow> ExecutionInput \<Rightarrow> ExecutionResult io"

definition deadline_reason :: "WorkerConfig \<Rightarrow> thrown" where
  "deadline_reason config =
     ExtError (js ''Job deadline exceeded after '' @ show_number (cfg_JOB_TIMEOUT_MS config) @ js ''ms'')"

text \<open>The signal is aborted with that reason from the moment the timer has fired.\<close>

definition with_deadline :: "WorkerConfig \<Rightarrow> env \<Rightarrow> env" where
  "with_deadline config E =
     E\<lparr>env_aborted := (\<lambda>h. if env_deadline E h then Some (deadline_reason config) else None)\<rparr>"

definition executeWithJobTimeout :: "env \<Rightarrow> ExecutionInput \<Rightarrow> WorkerConfig \<Rightarrow> JobExecutor \<Rightarrow> ExecutionResult io" where
  "executeWithJobTimeout E input config executor = executor (with_deadline config E) config input"

section \<open>processDelivery\<close>

record message =
  msg_json :: "json option"
  msg_redeliveryCount :: nat

definition settle :: "env \<Rightarrow> call \<Rightarrow> unit io" where
  "settle E c = io_call c (\<lambda>h. env_message E h c)"

definition with_trace :: "jsstr option \<Rightarrow> ExecutionResult \<Rightarrow> ExecutionResult" where
  "with_trace traceId r = (if nonempty_opt traceId then r\<lparr>res_traceId := traceId\<rparr> else r)"

text \<open>The body of the \<open>try\<close> block, for a payload that parsed.\<close>

definition deliver ::
    "env \<Rightarrow> WorkerConfig \<Rightarrow> (jsstr \<Rightarrow> ExecutionInput io) \<Rightarrow> (jsstr \<Rightarrow> ExecutionResult \<Rightarrow> unit io) \<Rightarrow>
     JobExecutor \<Rightarrow> queue_job \<Rightarrow> unit io" where
  "deliver E config input_of post executor payload =
     io_bind (input_of (qj_executionId payload)) (\<lambda>input.
     if job_state (in_execution input) \<in> terminalExecutionStates then settle E CAck
     else
       io_bind (executeWithJobTimeout E input config executor) (\<lambda>executionResult.
       io_bind (post (qj_executionId payload)
         (with_trace (traceIdFromTraceparent (qj_traceparent payload)) executionResult)) (\<lambda>_.
       settle E CAck)))"

definition processDelivery ::
    "env \<Rightarrow> WorkerConfig \<Rightarrow> (jsstr \<Rightarrow> ExecutionInput io) \<Rightarrow> (jsstr \<Rightarrow> ExecutionResult \<Rightarrow> unit io) \<Rightarrow>
     JobExecutor \<Rightarrow> message \<Rightarrow> unit io" where
  "processDelivery E config input_of post executor message =
    (case msg_json message of
       None \<Rightarrow> settle E (CTerm (js ''invalid price-scout work-message JSON''))
     | Some raw \<Rightarrow>
        (case queueJobSchema raw of
           None \<Rightarrow> settle E (CTerm (js ''invalid price-scout work-message schema''))
         | Some payload \<Rightarrow>
             io_catch (deliver E config input_of post executor payload)
               (\<lambda>_. settle E (CNak (backoff (msg_redeliveryCount message))))))"

text \<open>The worker's own instance: \<open>ControlPlaneClient\<close> and \<open>executeJob\<close>, the defaults of the queue.\<close>

definition worker_delivery :: "platform \<Rightarrow> env \<Rightarrow> WorkerConfig \<Rightarrow> message \<Rightarrow> unit io" where
  "worker_delivery P E config =
     processDelivery E config (api_input E config) (api_result E config) (executeJob P)"

section \<open>ensureDurableConsumer\<close>

definition missing_re :: re where
  "missing_re = str ''consumer not found''"

definition isConsumerMissing :: "consumer_error \<Rightarrow> bool" where
  "isConsumerMissing e \<longleftrightarrow> ce_code e = js ''404'' \<or> re_test True missing_re (ce_text e)"

definition in_use_re :: re where
  "in_use_re = Alt (str ''already exists'') (str ''name already in use'')"

definition exists_re :: re where
  "exists_re = Alt (seqs [str ''consumer'', Star any_re, in_use_re]) (seqs [in_use_re, Star any_re, str ''consumer''])"

definition isConsumerAlreadyExists :: "consumer_error \<Rightarrow> bool" where
  "isConsumerAlreadyExists e \<longleftrightarrow> re_test True exists_re (ce_code e @ [32] @ ce_text e)"

definition mutableConfig :: "WorkerConfig \<Rightarrow> consumer_config" where
  "mutableConfig config = \<lparr>cc_ack_wait = 90000 * 1000000, cc_max_deliver = - 1,
     cc_max_ack_pending = cfg_WORKER_MAX_IN_FLIGHT config\<rparr>"

definition consumer_spec_of :: "WorkerConfig \<Rightarrow> consumer_spec" where
  "consumer_spec_of config = \<lparr>cs_durable_name = cfg_WORKER_QUEUE config, cs_name = cfg_WORKER_QUEUE config,
     cs_filter_subject = js ''scout.monitor.*'', cs_ack_policy = js ''explicit'', cs_deliver_policy = js ''all'',
     cs_replay_policy = js ''instant'', cs_config = mutableConfig config\<rparr>"

text \<open>A call of the consumer manager, with its error as a value.\<close>

definition consumer_call :: "env \<Rightarrow> call \<Rightarrow> (consumer_error + unit) io" where
  "consumer_call E c = io_call c (\<lambda>h. Inr (env_consumer E h c))"

definition rethrow :: "consumer_error \<Rightarrow> 'a io" where
  "rethrow e = io_throw (External (ce_thrown e))"

definition update_consumer :: "env \<Rightarrow> WorkerConfig \<Rightarrow> (consumer_error + unit) io" where
  "update_consumer E config =
     consumer_call E (CConsumerUpdate stream (cfg_WORKER_QUEUE config) (mutableConfig config))"

text \<open>The second \<open>try\<close> block: add the consumer, or update the one another replica added.\<close>

definition create_consumer :: "env \<Rightarrow> WorkerConfig \<Rightarrow> unit io" where
  "create_consumer E config =
     io_bind (consumer_call E (CConsumerAdd stream (consumer_spec_of config))) (\<lambda>added.
     case added of
       Inr _ \<Rightarrow> io_ret ()
     | Inl e \<Rightarrow>
         if \<not> isConsumerAlreadyExists e then rethrow e
         else io_bind (update_consumer E config) (\<lambda>u. case u of Inl e' \<Rightarrow> rethrow e' | Inr _ \<Rightarrow> io_ret ()))"

definition ensureDurableConsumer :: "env \<Rightarrow> WorkerConfig \<Rightarrow> unit io" where
  "ensureDurableConsumer E config =
     io_bind (io_call CManager (env_manager E)) (\<lambda>_.
     io_bind (consumer_call E (CConsumerInfo stream (cfg_WORKER_QUEUE config))) (\<lambda>info.
     io_bind (case info of Inl e \<Rightarrow> io_ret (Inl e) | Inr _ \<Rightarrow> update_consumer E config) (\<lambda>found.
     case found of
       Inr _ \<Rightarrow> io_ret ()
     | Inl e \<Rightarrow> if isConsumerMissing e then create_consumer E config else rethrow e)))"

end
