(* ===== verification/Delivery.thy ===== *)
theory Delivery
  imports Queue HandlerLaws
begin

text \<open>
  What a delivery of the work queue guarantees. The two interfaces of \<open>queue.ts\<close>, \<open>WorkerApi\<close> and
  \<open>JobExecutor\<close>, are locales with the laws \<open>processDelivery\<close> relies on; its properties are proved
  from the laws and hold for \<open>ControlPlaneClient\<close> and \<open>executeJob\<close> by interpretation.
\<close>

section \<open>The interfaces\<close>

text \<open>
  \<open>WorkerApi\<close>: neither operation settles a message, and when \<open>result\<close> returns, its last call was
  an accepted post of the result.
\<close>

locale worker_api =
  fixes input_of :: "jsstr \<Rightarrow> ExecutionInput io" and post :: "jsstr \<Rightarrow> ExecutionResult \<Rightarrow> unit io"
    and accepted :: "jsstr \<Rightarrow> ExecutionResult \<Rightarrow> call list \<Rightarrow> call \<Rightarrow> bool"
  assumes input_work: "emits work (input_of i)" and post_work: "emits work (post i r)"
    and post_accepted: "post i r w = (Inr u, w') \<Longrightarrow> \<exists>c. w_calls w' = w_calls w @ [c] \<and> accepted i r (w_calls w) c"

text \<open>
  \<open>JobExecutor\<close>: it does not settle the message, never throws, and reports about the execution it
  was given.
\<close>

locale job_executor =
  fixes exec :: JobExecutor
  assumes exec_work: "emits work (exec E config input)" and exec_settles: "settles (exec E config input)"
    and exec_result: "returns (result_ok input) (exec E config input)"

locale delivery = worker_api + job_executor +
  fixes E :: env and config :: WorkerConfig
begin

lemma settle_calls: "settle E c w = (r, w') \<Longrightarrow> w' = record_call c w"
  by (auto simp: settle_def io_call_def)

lemma emits_timeout_work: "emits work (executeWithJobTimeout E input config exec)"
  unfolding executeWithJobTimeout_def by (rule exec_work)

text \<open>A delivery adds work only, unless it comes to the acknowledgement.\<close>

lemma deliver_cases:
  assumes "deliver E config input_of post exec payload w = (r, w')"
  shows "(\<exists>e. r = Inl e \<and> extends work w w') \<or>
    (\<exists>input w1. input_of (qj_executionId payload) w = (Inr input, w1) \<and>
      job_state (in_execution input) \<in> terminalExecutionStates \<and> settle E CAck w1 = (r, w')) \<or>
    (\<exists>input w1 x w2 w3. input_of (qj_executionId payload) w = (Inr input, w1) \<and>
      job_state (in_execution input) \<notin> terminalExecutionStates \<and>
      executeWithJobTimeout E input config exec w1 = (Inr x, w2) \<and>
      post (qj_executionId payload)
        (with_trace (traceIdFromTraceparent (qj_traceparent payload)) x) w2 = (Inr (), w3) \<and>
      settle E CAck w3 = (r, w'))"
proof -
  obtain a w1 where i: "input_of (qj_executionId payload) w = (a, w1)" by fastforce
  note e1 = emitsD [OF input_work i]
  show ?thesis
  proof (cases a)
    case (Inl e)
    then show ?thesis using assms i e1 by (auto simp: deliver_def io_bind_def)
  next
    case (Inr input)
    note a = Inr
    show ?thesis
    proof (cases "job_state (in_execution input) \<in> terminalExecutionStates")
      case True
      then show ?thesis using assms i a by (auto simp: deliver_def io_bind_def)
    next
      case False
      obtain b w2 where x: "executeWithJobTimeout E input config exec w1 = (b, w2)" by fastforce
      then obtain v where v: "b = Inr v"
        using settlesD [OF exec_settles] unfolding executeWithJobTimeout_def by (metis prod.inject)
      obtain c w3 where p: "post (qj_executionId payload)
          (with_trace (traceIdFromTraceparent (qj_traceparent payload)) v) w2 = (c, w3)" by fastforce
      have "extends work w w3"
        using extends_trans [OF extends_trans [OF e1 emitsD [OF emits_timeout_work x]] emitsD [OF post_work p]] .
      then show ?thesis using assms i a False x v p by (cases c) (auto simp: deliver_def io_bind_def)
    qed
  qed
qed

lemma deliver_extends:
  assumes "deliver E config input_of post exec payload w = (r, w')"
  shows "extends (\<lambda>_. True) w w'"
proof -
  have "emits (\<lambda>_. True) (deliver E config input_of post exec payload)"
    unfolding deliver_def settle_def
    by (intro emits_intro emits_True [OF input_work] emits_True [OF emits_timeout_work] emits_True [OF post_work])
      simp_all
  from emitsD [OF this assms] show ?thesis .
qed

lemma exec_reports:
  "executeWithJobTimeout E input config exec w = (Inr x, w') \<Longrightarrow> result_ok input x"
  unfolding executeWithJobTimeout_def by (rule returnsD [OF exec_result])

lemma extends_filter: "extends work w w' \<Longrightarrow> \<exists>new. w_calls w' = w_calls w @ new \<and> filter settlement new = []"
  by (auto simp: extends_def list_all_iff filter_empty_conv)

text \<open>When settling succeeds, a delivery returns and settles its message exactly once.\<close>

lemma deliver_once:
  assumes "\<And>h c. env_message E h c = Inr ()"
    and d: "deliver E config input_of post exec payload w = (r, w')"
  shows "\<exists>new. w_calls w' = w_calls w @ new \<and> filter settlement new = (case r of Inl e \<Rightarrow> [] | Inr _ \<Rightarrow> [CAck])"
proof -
  have ok: "settle E c v = (Inr (), record_call c v)" for c v
    using assms(1) by (simp add: settle_def io_call_def)
  have acked: ?thesis if "extends work w v" "settle E CAck v = (r, w')" for v
    using extends_filter [OF that(1)] that(2) by (auto simp: ok record_call_def)
  from deliver_cases [OF d] show ?thesis
  proof (elim disjE exE conjE)
    fix e assume "r = Inl e" "extends work w w'"
    then show ?thesis using extends_filter by auto
  next
    fix input w1 assume "input_of (qj_executionId payload) w = (Inr input, w1)" "settle E CAck w1 = (r, w')"
    then show ?thesis using acked emitsD [OF input_work] by blast
  next
    fix input w1 x w2 w3
    assume "input_of (qj_executionId payload) w = (Inr input, w1)"
      "executeWithJobTimeout E input config exec w1 = (Inr x, w2)"
      "post (qj_executionId payload) (with_trace (traceIdFromTraceparent (qj_traceparent payload)) x) w2 = (Inr (), w3)"
      "settle E CAck w3 = (r, w')"
    then show ?thesis
      using acked emitsD [OF input_work] emitsD [OF emits_timeout_work] emitsD [OF post_work] extends_trans by metis
  qed
qed

lemma settled_once:
  assumes "\<And>h c. env_message E h c = Inr ()"
  shows "\<exists>w' new c. processDelivery E config input_of post exec m w = (Inr (), w') \<and>
    w_calls w' = w_calls w @ new \<and> filter settlement new = [c]"
proof -
  have ok: "settle E c v = (Inr (), record_call c v)" for c v
    using assms by (simp add: settle_def io_call_def)
  show ?thesis
  proof (cases "Option.bind (msg_json m) queueJobSchema")
    case None
    then show ?thesis
      by (auto simp: processDelivery_def ok record_call_def Option.bind_eq_None_conv split: option.splits)
  next
    case (Some payload)
    obtain r w1 where d: "deliver E config input_of post exec payload w = (r, w1)" by fastforce
    have "processDelivery E config input_of post exec m w =
        (case r of Inl e \<Rightarrow> (Inr (), record_call (CNak (backoff (msg_redeliveryCount m))) w1)
         | Inr u \<Rightarrow> (Inr (), w1))"
      using Some by (auto simp: processDelivery_def io_catch_def d ok Option.bind_eq_Some_conv split: sum.splits)
    then show ?thesis using deliver_once [OF assms d] by (cases r) (auto simp: record_call_def)
  qed
qed

text \<open>An acknowledgement comes after an accepted result, or for an execution that had ended.\<close>

definition acknowledged :: "queue_job \<Rightarrow> world \<Rightarrow> call list \<Rightarrow> bool" where
  "acknowledged payload w calls \<longleftrightarrow> (\<exists>input w1. input_of (qj_executionId payload) w = (Inr input, w1) \<and>
     (job_state (in_execution input) \<in> terminalExecutionStates \<and> calls = w_calls w1 @ [CAck] \<or>
      job_state (in_execution input) \<notin> terminalExecutionStates \<and>
      (\<exists>x h c. result_ok input x \<and> calls = h @ [c, CAck] \<and>
        accepted (qj_executionId payload) (with_trace (traceIdFromTraceparent (qj_traceparent payload)) x) h c)))"

lemma deliver_acknowledged:
  assumes "deliver E config input_of post exec payload w = (r, w')"
  shows "extends work w w' \<or> acknowledged payload w (w_calls w')"
  using deliver_cases [OF assms]
proof (elim disjE exE conjE)
  fix input w1
  assume "input_of (qj_executionId payload) w = (Inr input, w1)"
    "job_state (in_execution input) \<in> terminalExecutionStates" "settle E CAck w1 = (r, w')"
  then show ?thesis by (auto simp: acknowledged_def record_call_def dest: settle_calls)
next
  fix input w1 x w2 w3
  assume i: "input_of (qj_executionId payload) w = (Inr input, w1)"
      "job_state (in_execution input) \<notin> terminalExecutionStates"
    and x: "executeWithJobTimeout E input config exec w1 = (Inr x, w2)"
    and p: "post (qj_executionId payload) (with_trace (traceIdFromTraceparent (qj_traceparent payload)) x) w2 = (Inr (), w3)"
    and a: "settle E CAck w3 = (r, w')"
  obtain c where "w_calls w3 = w_calls w2 @ [c]"
    "accepted (qj_executionId payload) (with_trace (traceIdFromTraceparent (qj_traceparent payload)) x) (w_calls w2) c"
    using post_accepted [OF p] by blast
  moreover have "w_calls w' = w_calls w3 @ [CAck]" using settle_calls [OF a] by (simp add: record_call_def)
  ultimately show ?thesis using i exec_reports [OF x] by (auto simp: acknowledged_def)
qed simp

lemma processDelivery_acknowledged:
  assumes "processDelivery E config input_of post exec m w = (r, w')"
  shows "\<exists>new calls rest. w_calls w' = w_calls w @ new \<and> w_calls w' = calls @ rest \<and> CAck \<notin> set rest \<and>
    (CAck \<in> set new \<longrightarrow>
      (\<exists>payload. Option.bind (msg_json m) queueJobSchema = Some payload \<and> acknowledged payload w calls))"
proof (cases "Option.bind (msg_json m) queueJobSchema")
  case None
  then obtain s where "settle E (CTerm s) w = (r, w')"
    using assms by (auto simp: processDelivery_def Option.bind_eq_None_conv split: option.splits)
  then show ?thesis
    by (intro exI [of _ "[CTerm s]"] exI [of _ "w_calls w'"] exI [of _ "[]"])
      (auto simp: record_call_def dest: settle_calls)
next
  case (Some payload)
  obtain a w1 where d: "deliver E config input_of post exec payload w = (a, w1)" by fastforce
  let ?nak = "CNak (backoff (msg_redeliveryCount m))"
  have "processDelivery E config input_of post exec m w =
      (case a of Inl e \<Rightarrow> settle E ?nak w1 | Inr u \<Rightarrow> (a, w1))"
    using Some by (auto simp: processDelivery_def io_catch_def d Option.bind_eq_Some_conv split: sum.splits)
  then have w': "w_calls w' = w_calls w1 @ (case a of Inl e \<Rightarrow> [?nak] | Inr u \<Rightarrow> [])" (is "_ = _ @ ?rest")
    using assms by (cases a) (auto simp: record_call_def dest: settle_calls [OF sym])
  have rest: "CAck \<notin> set ?rest" by (cases a) auto
  obtain n where n: "w_calls w1 = w_calls w @ n" "extends work w w1 \<Longrightarrow> CAck \<notin> set n"
    using deliver_extends [OF d] by (auto simp: extends_def list_all_iff) (metis settlement.simps(1))
  show ?thesis
    using deliver_acknowledged [OF d] w' n rest Some
    by (intro exI [of _ "n @ ?rest"] exI [of _ "w_calls w1"] exI [of _ ?rest]) auto
qed

end

section \<open>The control-plane client and executeJob\<close>

definition api_accepted :: "env \<Rightarrow> WorkerConfig \<Rightarrow> jsstr \<Rightarrow> ExecutionResult \<Rightarrow> call list \<Rightarrow> call \<Rightarrow> bool" where
  "api_accepted E config i r h c \<longleftrightarrow> (\<exists>address response. execution_url config i ''result'' = Inr address \<and>
     c = CFetch (result_request config i address r) \<and>
     env_fetch E h (result_request config i address r) = Inr response \<and> response_ok response)"

lemma requests_work: "requests config i c \<Longrightarrow> work c"
  by (auto simp: requests_def)

interpretation client: worker_api "api_input E config" "api_result E config" "api_accepted E config" for E config
proof unfold_locales
  show "emits work (api_input E config i)" for i
    by (rule emits_weaken [OF emits_api_input]) (rule requests_work)
  show "emits work (api_result E config i r)" for i r
    by (rule emits_weaken [OF emits_api_result]) (rule requests_work)
  show "\<exists>c. w_calls w' = w_calls w @ [c] \<and> api_accepted E config i r (w_calls w) c"
    if "api_result E config i r w = (Inr u, w')" for i r w u w'
    using api_result_Inr [OF that] by (auto simp: api_accepted_def record_call_def)
qed

interpretation job: job_executor "executeJob P" for P
  by unfold_locales (rule emits_work_executeJob, rule settles_executeJob, rule executeJob_result)

interpretation worker: delivery "api_input E config" "api_result E config" "api_accepted E config"
    "executeJob P" E config for P E config
  by unfold_locales

end
