(* ===== verification/Trace.thy ===== *)
theory Trace
  imports Queue
begin

text \<open>
  \<open>traceIdFromTraceparent\<close> and \<open>backoff\<close>: the pattern of a W3C trace context header against a
  direct description of its fields, and the bounds of the redelivery delay.
\<close>

section \<open>Patterns of fixed length\<close>

text \<open>After \<open>n\<close> units of the remaining input.\<close>

definition skip :: "nat \<Rightarrow> rstate \<Rightarrow> rstate" where
  "skip n st = (if n = 0 then fst st else last_opt (take n (rest_of st)), drop n (rest_of st), snd (snd st))"

lemma matches_Rep_Cls:
  "matches False (Rep n 0 (Cls rs)) (p, s, k) =
    (if n \<le> length s \<and> list_all (cls_has False rs) (take n s) then [skip n (p, s, k)] else [])"
proof (induction n arbitrary: p s)
  case (Suc n)
  show ?case
  proof (cases s)
    case (Cons c t)
    then show ?thesis using Suc [of "Some c" t] by (auto simp: skip_def last_opt_Cons)
  qed simp
qed (simp add: skip_def)

lemma matches_lit:
  "matches False (lit w) (p, s, k) = (if starts_with s w then [skip (length w) (p, s, k)] else [])"
proof (induction w arbitrary: p s)
  case (Cons c w)
  show ?case
  proof (cases s)
    case (Cons d t)
    then show ?thesis
      using Cons.IH [of "Some d" t]
      by (auto simp: skip_def last_opt_Cons starts_with_def ch_def cls_has_def in_ranges_def)
  qed (simp add: starts_with_def ch_def)
qed (simp add: skip_def starts_with_def)

lemma matches_ch: "matches False (ch c) (p, s, k) = (if s \<noteq> [] \<and> hd s = c then [skip 1 (p, s, k)] else [])"
  by (cases s) (auto simp: ch_def cls_has_def in_ranges_def skip_def)

section \<open>The trace context header\<close>

definition is_hex :: "code_unit \<Rightarrow> bool" where
  "is_hex c \<longleftrightarrow> 48 \<le> c \<and> c \<le> 57 \<or> 97 \<le> c \<and> c \<le> 102"

definition hex_field :: "nat \<Rightarrow> jsstr \<Rightarrow> bool" where
  "hex_field n s \<longleftrightarrow> length s = n \<and> list_all is_hex s"

text \<open>The tests of the pattern in order, on what is left of the input.\<close>

definition zeros :: "nat \<Rightarrow> jsstr \<Rightarrow> bool" where
  "zeros n s \<longleftrightarrow> n \<le> length s \<and> list_all (\<lambda>c. c = 48) (take n s)"

definition hexes :: "nat \<Rightarrow> jsstr \<Rightarrow> bool" where
  "hexes n s \<longleftrightarrow> n \<le> length s \<and> list_all is_hex (take n s)"

definition dash :: "jsstr \<Rightarrow> bool" where
  "dash s \<longleftrightarrow> s \<noteq> [] \<and> hd s = 45"

definition trace_ok :: "jsstr \<Rightarrow> bool" where
  "trace_ok s \<longleftrightarrow> starts_with s (js ''00-'') \<and> \<not> zeros 32 (drop 3 s) \<and> hexes 32 (drop 3 s) \<and> dash (drop 35 s) \<and>
     \<not> zeros 16 (drop 36 s) \<and> hexes 16 (drop 36 s) \<and> dash (drop 52 s) \<and> hexes 2 (drop 53 s) \<and> drop 55 s = []"

lemma matches_zeros: "matches False (Rep n 0 (ch 48)) (p, s, k) = (if zeros n s then [skip n (p, s, k)] else [])"
proof -
  have "cls_has False [(48, 48)] = (\<lambda>c. c = 48)" by (auto simp: fun_eq_iff cls_has_def in_ranges_def)
  then show ?thesis by (simp add: ch_def matches_Rep_Cls zeros_def del: matches.simps)
qed

lemma matches_hexes: "matches False (Rep n 0 hex_re) (p, s, k) = (if hexes n s then [skip n (p, s, k)] else [])"
proof -
  have "cls_has False [(48, 57), (97, 102)] = is_hex"
    by (auto simp: fun_eq_iff cls_has_def in_ranges_def is_hex_def)
  then show ?thesis by (simp add: hex_re_def matches_Rep_Cls hexes_def del: matches.simps)
qed

lemma matches_dash: "matches False (ch 45) (p, s, k) = (if dash s then [skip 1 (p, s, k)] else [])"
  by (simp add: matches_ch dash_def del: matches.simps)

lemma matches_prefix: "matches False (str ''00-'') (p, s, k) =
    (if starts_with s (js ''00-'') then [skip 3 (p, s, k)] else [])"
  unfolding str_def matches_lit by (simp add: js_def numeral_3_eq_3)

lemma matches_Seq: "matches ic (Seq r q) st = concat (map (matches ic q) (matches ic r st))"
  and matches_NotAhead: "matches ic (NotAhead r) st = (if matches ic r st = [] then [st] else [])"
  and matches_Grp: "matches ic (Grp r) st = map (capture st) (matches ic r st)"
  and matches_Bol: "matches ic Bol st = (if fst st = None then [st] else [])"
  and matches_Eol: "matches ic Eol st = (if rest_of st = [] then [st] else [])"
  by simp_all

lemma skip_parts: "skip (Suc n) (p, s, k) = (last_opt (take (Suc n) s), drop (Suc n) s, k)"
  by (simp add: skip_def)

lemma matches_traceparent:
  "\<exists>p'. matches False traceparent_re (p, s, k) =
    (if p = None \<and> trace_ok s then [(p', [], Some (take 32 (drop 3 s)))] else [])"
  unfolding traceparent_re_def seqs.simps
  by (simp add: matches_Seq matches_NotAhead matches_Grp matches_Bol matches_Eol matches_prefix matches_zeros
      matches_hexes matches_dash skip_def capture_def trace_ok_def del: matches.simps)
    (auto simp: hexes_def)

lemma find_traceparent_later: "find_from False traceparent_re (Some c) s i = None"
proof (induction s arbitrary: c i)
  case Nil
  show ?case using matches_traceparent [of "Some c" "[]" None] by simp
next
  case (Cons d s)
  show ?case using matches_traceparent [of "Some c" "d # s" None] Cons by simp
qed

lemma re_group_traceparent:
  "re_group False traceparent_re s = (if trace_ok s then Some (take 32 (drop 3 s)) else None)"
proof -
  obtain p' where "matches False traceparent_re (None, s, None) =
      (if trace_ok s then [(p', [], Some (take 32 (drop 3 s)))] else [])"
    using matches_traceparent [of None s None] by auto
  then show ?thesis
    by (cases s) (simp_all add: re_group_def find_traceparent_later)
qed

text \<open>The fields of an accepted header.\<close>

lemma hexes_split:
  assumes "hexes n s"
  obtains f where "s = f @ drop n s" "hex_field n f" "zeros n s \<longleftrightarrow> f = replicate n 48"
proof
  show "s = take n s @ drop n s" by simp
  show "hex_field n (take n s)" using assms by (simp add: hexes_def hex_field_def)
  show "zeros n s \<longleftrightarrow> take n s = replicate n 48"
    using assms by (auto simp: hexes_def zeros_def list_all_iff replicate_length_same in_set_replicate
        intro!: replicate_eqI)
qed

lemma dash_drop: "dash (drop n s) \<Longrightarrow> drop n s = 45 # drop (Suc n) s"
  by (cases "drop n s") (auto simp: dash_def drop_Suc tl_drop dest: arg_cong [of _ _ tl])

lemma trace_ok_fields:
  assumes "trace_ok s"
  shows "\<exists>parent flags. s = js ''00-'' @ take 32 (drop 3 s) @ [45] @ parent @ [45] @ flags \<and>
    hex_field 32 (take 32 (drop 3 s)) \<and> hex_field 16 parent \<and> hex_field 2 flags \<and>
    take 32 (drop 3 s) \<noteq> replicate 32 48 \<and> parent \<noteq> replicate 16 48"
proof -
  have t: "starts_with s (js ''00-'')" "\<not> zeros 32 (drop 3 s)" "hexes 32 (drop 3 s)" "dash (drop 35 s)"
    "\<not> zeros 16 (drop 36 s)" "hexes 16 (drop 36 s)" "dash (drop 52 s)" "hexes 2 (drop 53 s)" "drop 55 s = []"
    using assms unfolding trace_ok_def by blast+
  obtain f where f: "drop 3 s = f @ drop 32 (drop 3 s)" "hex_field 32 f" "zeros 32 (drop 3 s) \<longleftrightarrow> f = replicate 32 48"
    by (rule hexes_split [OF t(3)])
  obtain g where g: "drop 36 s = g @ drop 16 (drop 36 s)" "hex_field 16 g" "zeros 16 (drop 36 s) \<longleftrightarrow> g = replicate 16 48"
    by (rule hexes_split [OF t(6)])
  obtain h where h: "drop 53 s = h @ drop 2 (drop 53 s)" "hex_field 2 h" by (rule hexes_split [OF t(8)])
  have d: "drop 32 (drop 3 s) = 45 # drop 36 s" "drop 16 (drop 36 s) = 45 # drop 53 s" "drop 2 (drop 53 s) = []"
    using dash_drop [OF t(4)] dash_drop [OF t(7)] t(9) by simp_all
  have s: "s = js ''00-'' @ drop 3 s" using t(1) by (auto simp: starts_with_iff js_def)
  have f': "take 32 (drop 3 s) = f" using f(1,2) by (metis append_eq_conv_conj hex_field_def)
  have "s = js ''00-'' @ f @ [45] @ g @ [45] @ h"
    using s f(1) g(1) h(1) unfolding d by simp
  then show ?thesis unfolding f' using f(2,3) g(2,3) h(2) t(2,5) by blast
qed

lemma trace_ok_intro:
  assumes "hex_field 32 t" "hex_field 16 parent" "hex_field 2 flags" "t \<noteq> replicate 32 48" "parent \<noteq> replicate 16 48"
  defines "s \<equiv> js ''00-'' @ t @ [45] @ parent @ [45] @ flags"
  shows "trace_ok s \<and> take 32 (drop 3 s) = t"
proof -
  have len: "length t = 32" "length parent = 16" "length flags = 2" using assms by (simp_all add: hex_field_def)
  have d: "drop 3 s = t @ [45] @ parent @ [45] @ flags" "drop 35 s = [45] @ parent @ [45] @ flags"
    "drop 36 s = parent @ [45] @ flags" "drop 52 s = [45] @ flags" "drop 53 s = flags" "drop 55 s = []"
    using len by (simp_all add: s_def js_def)
  have z: "\<not> zeros (length f) (f @ r)" if "f \<noteq> replicate (length f) 48" for f r
    using that by (auto simp: zeros_def list_all_iff intro: replicate_eqI)
  have x: "hexes (length f) (f @ r)" if "list_all is_hex f" for f r
    using that by (simp add: hexes_def)
  have "starts_with s (js ''00-'')" by (simp add: s_def starts_with_def)
  moreover have "\<not> zeros 32 (drop 3 s)" "\<not> zeros 16 (drop 36 s)"
    using z [of t] z [of parent] assms(4,5) len by (simp_all add: d)
  moreover have "hexes 32 (drop 3 s)" "hexes 16 (drop 36 s)" "hexes 2 (drop 53 s)"
    using x [of t] x [of parent] x [of flags "[]"] assms(1-3) len by (simp_all add: d hex_field_def)
  ultimately show ?thesis using len by (simp add: trace_ok_def d dash_def)
qed

section \<open>Properties\<close>

text \<open>
  \<open>traceIdFromTraceparent\<close> accepts exactly the headers of version 00 of the W3C trace context
  with a trace id and a parent id that are not all zeros, and returns the trace id.
\<close>

theorem traceparent_fields:
  "traceIdFromTraceparent (Some s) = Some t \<longleftrightarrow>
    (\<exists>parent flags. s = js ''00-'' @ t @ [45] @ parent @ [45] @ flags \<and>
       hex_field 32 t \<and> hex_field 16 parent \<and> hex_field 2 flags \<and>
       t \<noteq> replicate 32 48 \<and> parent \<noteq> replicate 16 48)"
  (is "?l \<longleftrightarrow> ?r")
proof
  assume ?l
  then have "trace_ok s" "t = take 32 (drop 3 s)"
    by (simp_all add: traceIdFromTraceparent_def re_group_traceparent split: if_splits)
  then show ?r using trace_ok_fields by blast
next
  assume ?r
  then show ?l using trace_ok_intro by (auto simp: traceIdFromTraceparent_def re_group_traceparent)
qed

text \<open>
  The delay before a redelivery stays between one second and one minute, never shrinks with
  the count of redeliveries, doubles up to the sixth and is one minute from then on.
\<close>

theorem backoff_bounds:
  "1000 \<le> backoff n \<and> backoff n \<le> 60000 \<and> backoff n \<le> backoff (Suc n) \<and>
   backoff n = (if n < 6 then 1000 * 2 ^ n else 60000)"
proof -
  have "n \<in> {0, 1, 2, 3, 4, 5} \<or> 6 \<le> n" by auto
  then have e: "backoff n = (if n < 6 then 1000 * 2 ^ n else 60000)"
    by (auto simp: backoff_def)
  moreover have "backoff n \<le> backoff (Suc n)"
  proof -
    have "(2 :: int) ^ min n 6 \<le> 2 ^ min (Suc n) 6" by (rule power_increasing) auto
    then show ?thesis unfolding backoff_def by (meson min.mono mult_left_mono order_refl zero_le_numeral)
  qed
  moreover have "1000 \<le> backoff n" "backoff n \<le> 60000"
    by (simp_all add: backoff_def)
  ultimately show ?thesis by blast
qed

end
