(* ===== verification/QueueLaws.thy ===== *)
theory QueueLaws
  imports Delivery Trace Shop
begin

text \<open>
  The properties of the work queue: how the worker settles a message, what has happened before it
  acknowledges one, the deadline of a job and the set-up of the durable consumer.
\<close>

section \<open>Examples\<close>

definition text_of :: "execution_state \<Rightarrow> jsstr" where
  "text_of st = js ''{\"execution\":{\"id\":\"e\",\"kind\":\"check\",\"state\":\"'' @
     (if st = Failed then js ''failed'' else js ''running'') @
     js ''\"},\"monitor\":{\"id\":\"m\",\"url\":\"http://a/p\",\"intent\":\"x\"}}''"

definition raw_of :: "execution_state \<Rightarrow> json" where
  "raw_of st = JObj [
     (js ''execution'', JObj [(js ''id'', JStr (js ''e'')), (js ''kind'', JStr (js ''check'')),
        (js ''state'', JStr (if st = Failed then js ''failed'' else js ''running''))]),
     (js ''monitor'', JObj [(js ''id'', JStr (js ''m'')), (js ''url'', JStr (js ''http://a/p'')),
        (js ''intent'', JStr (js ''x''))])]"

text \<open>A control plane that knows one execution and accepts every result.\<close>

definition plane_env :: "execution_state \<Rightarrow> env" where
  "plane_env st = idle_env\<lparr>env_fetch := (\<lambda>_ _. Inr \<lparr>rs_status = 200, rs_body = Inr (text_of st)\<rparr>)\<rparr>"

definition work_message :: message where
  "work_message = \<lparr>msg_json = Some (JObj [(js ''executionId'', JStr (js ''e''))]), msg_redeliveryCount = 0\<rparr>"

definition plane_input :: "execution_state \<Rightarrow> ExecutionInput" where
  "plane_input st = \<lparr>in_execution = \<lparr>job_id = js ''e'', job_kind = Check, job_state = st, job_attempt = 1,
       job_failedGeneration = None\<rparr>,
     in_monitor = \<lparr>mon_id = js ''m'', mon_url = js ''http://a/p'', mon_intent = js ''x'', mon_condition = None\<rparr>,
     in_revision = None, in_compilerMode = Auto\<rparr>"

lemma plane_parse:
  "json_parse (text_of Failed) = Some (raw_of Failed)" "json_parse (text_of Running) = Some (raw_of Running)"
  "parse_input (\<lambda>_. True) (normalize_input default_config (raw_of Failed)) = Some (plane_input Failed)"
  "parse_input (\<lambda>_. True) (normalize_input default_config (raw_of Running)) = Some (plane_input Running)"
  by code_simp+

lemma plane_answers:
  "env_fetch (plane_env st) h rq = Inr \<lparr>rs_status = 200, rs_body = Inr (text_of st)\<rparr>"
  "env_message (plane_env st) h c = Inr ()" "env_is_url (plane_env st) = (\<lambda>_. True)"
  by (simp_all add: plane_env_def idle_env_def Let_def)

lemma plane_input:
  assumes "st \<in> {Failed, Running}"
  shows "yields (api_input (plane_env st) default_config (js ''e'')) (plane_input st)"
proof -
  have "encode_component (js ''e'') = Some (js ''e'')" by code_simp
  then have u: "\<exists>a. execution_url default_config (js ''e'') ''input'' = Inr a" by (simp add: execution_url_def)
  have "json_parse (text_of st) = Some (raw_of st)"
    "parse_input (\<lambda>_. True) (normalize_input default_config (raw_of st)) = Some (plane_input st)"
    "raw_of st \<noteq> JNull"
    using assms plane_parse by (auto simp: raw_of_def)
  then show ?thesis
    using u by (auto simp: api_input_def http_fetch_def yields_def io_simps plane_answers response_ok_def
        response_json_def response_text_def)
qed

lemma work_message_payload:
  "Option.bind (msg_json work_message) queueJobSchema = Some \<lparr>qj_executionId = js ''e'', qj_traceparent = None\<rparr>"
  by code_simp

lemma duplicate_acknowledged:
  "\<exists>w1. worker_delivery P (plane_env Failed) default_config work_message w = (Inr (), record_call CAck w1)"
proof -
  obtain w1 where "api_input (plane_env Failed) default_config (js ''e'') w = (Inr (plane_input Failed), w1)"
    using yieldsD [OF plane_input] by blast
  then show ?thesis
    using work_message_payload
    by (auto simp: worker_delivery_def processDelivery_def deliver_def Option.bind_eq_Some_conv io_catch_def
        io_bind_def plane_input_def terminalExecutionStates_def settle_def io_call_def plane_answers)
qed

section \<open>Properties\<close>

text \<open>
  C1. Every delivered message is settled, and once: as long as settling itself does not fail, the
  worker's processing of a message returns, whatever the message, the control plane, the browser
  and the job do, and among its calls is exactly one acknowledgement, negative acknowledgement or
  termination.
\<close>

theorem delivery_settles_once:
  assumes "\<And>h c. env_message E h c = Inr ()"
  shows "\<exists>w' new c. worker_delivery P E config message w = (Inr (), w') \<and> w_calls w' = w_calls w @ new \<and>
    filter settlement new = [c]"
  unfolding worker_delivery_def by (rule worker.settled_once [OF assms])

theorem delivery_settles_once_witness:
  "\<exists>w' c. worker_delivery ascii_platform (plane_env Running) default_config work_message
      \<lparr>w_calls = [], w_timings = []\<rparr> = (Inr (), w') \<and> filter settlement (w_calls w') = [c]"
  using delivery_settles_once [OF plane_answers(2), of ascii_platform Running default_config work_message
      "\<lparr>w_calls = [], w_timings = []\<rparr>"] by auto

text \<open>
  C2. No result is lost: when a message is acknowledged, its payload was valid and the control
  plane had either reported the execution as finished, in which case nothing but that request
  preceded the acknowledgement, or answered with success to the post of a result of this execution,
  the last call before the acknowledgement.
\<close>

theorem ack_after_result:
  assumes "worker_delivery P E config message w = (r, w')" "w_calls w' = w_calls w @ new" "CAck \<in> set new"
  shows "\<exists>payload input w1 calls rest. Option.bind (msg_json message) queueJobSchema = Some payload \<and>
    api_input E config (qj_executionId payload) w = (Inr input, w1) \<and> w_calls w' = calls @ [CAck] @ rest \<and>
    (job_state (in_execution input) \<in> terminalExecutionStates \<and> calls = w_calls w1 \<or>
     job_state (in_execution input) \<notin> terminalExecutionStates \<and>
     (\<exists>x h rq response. calls = h @ [CFetch rq] \<and>
       res_executionId x = job_id (in_execution input) \<and> res_monitorId x = mon_id (in_monitor input) \<and>
       res_kind x = job_kind (in_execution input) \<and>
       rq_body rq = Some (json_stringify (result_body
         (with_trace (traceIdFromTraceparent (qj_traceparent payload)) x))) \<and>
       env_fetch E h rq = Inr response \<and> response_ok response))"
proof -
  obtain calls rest payload where c: "w_calls w' = calls @ rest"
      "Option.bind (msg_json message) queueJobSchema = Some payload"
    and a: "worker.acknowledged E config payload w calls"
    using worker.processDelivery_acknowledged [OF assms(1) [unfolded worker_delivery_def]] assms(2,3) by auto
  then obtain input w1 where i: "api_input E config (qj_executionId payload) w = (Inr input, w1)"
    and s: "job_state (in_execution input) \<in> terminalExecutionStates \<and> calls = w_calls w1 @ [CAck] \<or>
      job_state (in_execution input) \<notin> terminalExecutionStates \<and> (\<exists>x h c. result_ok input x \<and> calls = h @ [c, CAck] \<and>
        api_accepted E config (qj_executionId payload)
          (with_trace (traceIdFromTraceparent (qj_traceparent payload)) x) h c)"
    unfolding worker.acknowledged_def by blast
  from s show ?thesis
  proof (elim disjE exE conjE)
    assume "job_state (in_execution input) \<in> terminalExecutionStates" "calls = w_calls w1 @ [CAck]"
    then show ?thesis using c i by auto
  next
    fix x h d
    assume *: "job_state (in_execution input) \<notin> terminalExecutionStates" "result_ok input x" "calls = h @ [d, CAck]"
      "api_accepted E config (qj_executionId payload)
        (with_trace (traceIdFromTraceparent (qj_traceparent payload)) x) h d"
    then obtain rq response where "d = CFetch rq" "env_fetch E h rq = Inr response" "response_ok response"
      "rq_body rq = Some (json_stringify (result_body
         (with_trace (traceIdFromTraceparent (qj_traceparent payload)) x)))"
      by (auto simp: api_accepted_def result_request_def)
    then show ?thesis
      using * c i by (intro exI [of _ payload] exI [of _ input] exI [of _ w1] exI [of _ "h @ [d]"] exI [of _ rest])
        (auto simp: result_ok_def)
  qed
qed

theorem ack_after_result_witness:
  "\<exists>w' input w1 calls rest. worker_delivery ascii_platform (plane_env Failed) default_config work_message
      \<lparr>w_calls = [], w_timings = []\<rparr> = (Inr (), w') \<and>
    api_input (plane_env Failed) default_config (js ''e'') \<lparr>w_calls = [], w_timings = []\<rparr> = (Inr input, w1) \<and>
    w_calls w' = calls @ [CAck] @ rest"
proof -
  obtain w1 where d: "worker_delivery ascii_platform (plane_env Failed) default_config work_message
      \<lparr>w_calls = [], w_timings = []\<rparr> = (Inr (), record_call CAck w1)"
    using duplicate_acknowledged by blast
  have "CAck \<in> set (w_calls (record_call CAck w1))" by (simp add: record_call_def)
  from ack_after_result [OF d _ this] work_message_payload d show ?thesis by fastforce
qed

text \<open>
  A message that is not JSON, or does not satisfy \<open>queueJobSchema\<close>, is terminated at once: the
  control plane is not asked and no job runs.
\<close>

theorem poison_terminated:
  assumes "Option.bind (msg_json message) queueJobSchema = None" "worker_delivery P E config message w = (r, w')"
  shows "\<exists>reason. w_calls w' = w_calls w @ [CTerm reason]"
  using assms
  by (auto simp: worker_delivery_def processDelivery_def settle_def io_call_def record_call_def
      Option.bind_eq_None_conv split: option.splits)

theorem poison_terminated_witness:
  "\<exists>reason. w_calls (snd (worker_delivery ascii_platform idle_env default_config
      \<lparr>msg_json = Some (JObj [(js ''wrong'', JStr (js ''shape''))]), msg_redeliveryCount = 1\<rparr>
      \<lparr>w_calls = [], w_timings = []\<rparr>)) = [CTerm reason]"
proof -
  have "Option.bind (msg_json \<lparr>msg_json = Some (JObj [(js ''wrong'', JStr (js ''shape''))]), msg_redeliveryCount = 1\<rparr>)
      queueJobSchema = None"
    by code_simp
  from poison_terminated [OF this prod.collapse [symmetric], of ascii_platform idle_env default_config
      "\<lparr>w_calls = [], w_timings = []\<rparr>"] show ?thesis by simp
qed

text \<open>
  C27. The consumer is configured when the worker starts to pull: whenever \<open>ensureDurableConsumer\<close>
  returns, its last call was a successful update or creation of the durable consumer with the
  acknowledgement wait, the unlimited redelivery and the in-flight ceiling of the configuration;
  and it does return when the consumer was missing and another replica created it first.
\<close>

theorem consumer_configured:
  assumes "ensureDurableConsumer E config w = (r, w')"
  shows "(r = Inr () \<longrightarrow> (\<exists>h c. w_calls w' = h @ [c] \<and> env_consumer E h c = Inr () \<and>
      c \<in> {CConsumerUpdate stream (cfg_WORKER_QUEUE config) (mutableConfig config),
           CConsumerAdd stream (consumer_spec_of config)})) \<and>
    ((\<forall>h. env_manager E h = Inr ()) \<and>
     (\<forall>h. \<exists>e. env_consumer E h (CConsumerInfo stream (cfg_WORKER_QUEUE config)) = Inl e \<and> isConsumerMissing e) \<and>
     (\<forall>h. \<exists>e. env_consumer E h (CConsumerAdd stream (consumer_spec_of config)) = Inl e \<and> isConsumerAlreadyExists e) \<and>
     (\<forall>h. env_consumer E h (CConsumerUpdate stream (cfg_WORKER_QUEUE config) (mutableConfig config)) = Inr ())
     \<longrightarrow> r = Inr ())"
proof
  show "r = Inr () \<longrightarrow> (\<exists>h c. w_calls w' = h @ [c] \<and> env_consumer E h c = Inr () \<and>
      c \<in> {CConsumerUpdate stream (cfg_WORKER_QUEUE config) (mutableConfig config),
           CConsumerAdd stream (consumer_spec_of config)})"
    using assms unfolding ensureDurableConsumer_def create_consumer_def update_consumer_def consumer_call_def rethrow_def
    by (auto simp: io_bind_Inr io_call_Inr record_call_def split: sum.split_asm if_split_asm)
next
  show "(\<forall>h. env_manager E h = Inr ()) \<and>
     (\<forall>h. \<exists>e. env_consumer E h (CConsumerInfo stream (cfg_WORKER_QUEUE config)) = Inl e \<and> isConsumerMissing e) \<and>
     (\<forall>h. \<exists>e. env_consumer E h (CConsumerAdd stream (consumer_spec_of config)) = Inl e \<and> isConsumerAlreadyExists e) \<and>
     (\<forall>h. env_consumer E h (CConsumerUpdate stream (cfg_WORKER_QUEUE config) (mutableConfig config)) = Inr ())
     \<longrightarrow> r = Inr ()"
  proof (intro impI, elim conjE)
    assume m: "\<forall>h. env_manager E h = Inr ()"
      and i: "\<forall>h. \<exists>e. env_consumer E h (CConsumerInfo stream (cfg_WORKER_QUEUE config)) = Inl e \<and> isConsumerMissing e"
      and a: "\<forall>h. \<exists>e. env_consumer E h (CConsumerAdd stream (consumer_spec_of config)) = Inl e \<and> isConsumerAlreadyExists e"
      and u: "\<forall>h. env_consumer E h (CConsumerUpdate stream (cfg_WORKER_QUEUE config) (mutableConfig config)) = Inr ()"
    let ?h = "w_calls w @ [CManager]"
    obtain e where e: "env_consumer E ?h (CConsumerInfo stream (cfg_WORKER_QUEUE config)) = Inl e" "isConsumerMissing e"
      using i by blast
    obtain e' where e': "env_consumer E (?h @ [CConsumerInfo stream (cfg_WORKER_QUEUE config)])
        (CConsumerAdd stream (consumer_spec_of config)) = Inl e'" "isConsumerAlreadyExists e'"
      using a by blast
    show "r = Inr ()"
      using assms m u e e' unfolding ensureDurableConsumer_def create_consumer_def update_consumer_def consumer_call_def
      by (simp add: io_simps record_call_def)
  qed
qed

text \<open>Two replicas start at the same time and this one loses the race.\<close>

definition race_env :: env where
  "race_env = idle_env\<lparr>env_manager := (\<lambda>_. Inr ()), env_consumer := (\<lambda>_ c. case c of
     CConsumerInfo s q \<Rightarrow> Inl \<lparr>ce_code = js ''404'', ce_text = js ''NatsError: consumer not found'',
       ce_thrown = ExtError (js ''consumer not found'')\<rparr>
   | CConsumerAdd s spec \<Rightarrow> Inl \<lparr>ce_code = js ''400'', ce_text = js ''NatsError: consumer already exists'',
       ce_thrown = ExtError (js ''consumer already exists'')\<rparr>
   | _ \<Rightarrow> Inr ())\<rparr>"

theorem consumer_configured_witness:
  "\<exists>w' h c. ensureDurableConsumer race_env default_config \<lparr>w_calls = [], w_timings = []\<rparr> = (Inr (), w') \<and>
     w_calls w' = h @ [c] \<and> c = CConsumerUpdate stream (cfg_WORKER_QUEUE default_config) (mutableConfig default_config)"
proof -
  let ?info = "\<lparr>ce_code = js ''404'', ce_text = js ''NatsError: consumer not found'',
       ce_thrown = ExtError (js ''consumer not found'')\<rparr>"
  let ?add = "\<lparr>ce_code = js ''400'', ce_text = js ''NatsError: consumer already exists'',
       ce_thrown = ExtError (js ''consumer already exists'')\<rparr>"
  have m: "isConsumerMissing ?info" by code_simp
  have a: "isConsumerAlreadyExists ?add" by code_simp
  have e: "env_manager race_env h = Inr ()" "env_consumer race_env h (CConsumerInfo s q) = Inl ?info"
    "env_consumer race_env h (CConsumerAdd s spec) = Inl ?add" "env_consumer race_env h (CConsumerUpdate s q cc) = Inr ()"
    for h s q spec cc by (simp_all add: race_env_def)
  obtain r w' where d: "ensureDurableConsumer race_env default_config \<lparr>w_calls = [], w_timings = []\<rparr> = (r, w')" by fastforce
  from consumer_configured [OF d] show ?thesis using d m a by (auto simp: e)
qed

end
