(* ===== verification/Deadline.thy ===== *)
theory Deadline
  imports QueueLaws JobLaws
begin

text \<open>
  The deadline of a job (\<open>executeWithJobTimeout\<close> and the abort checks of \<open>executeJob\<close>), at every
  moment it may pass: what is no longer started after it, and what is reported. \<open>guarded\<close> is a
  triple over the record of calls: a program started in a record that satisfies the
  precondition makes every call in time, and leaves the postcondition when it returns.
\<close>

section \<open>Calls in time\<close>


definition visited :: "world \<Rightarrow> session \<Rightarrow> call list \<Rightarrow> bool" where
  "visited w0 s h \<longleftrightarrow> (\<exists>y. CGoto s y \<in> set (drop (length (w_calls w0)) h))"


definition steady :: "(call list \<Rightarrow> bool) \<Rightarrow> bool" where
  "steady A \<longleftrightarrow> (\<forall>h h'. prefix h h' \<longrightarrow> A h \<longrightarrow> A h')"


lemma steady_visited [simp, intro]: "steady (visited w0 s)"
  by (auto simp: steady_def visited_def prefix_def)










lemma called_nothing: "w_calls w' = w_calls w \<Longrightarrow> \<not> called w h c w'"
  by (auto simp: called_def prefix_def)

lemma called_self [simp]: "\<not> called w h c w"
  by (simp add: called_nothing)




section \<open>The parts of a job\<close>























section \<open>The deadline\<close>









section \<open>What is reported\<close>









section \<open>Properties\<close>






end
