(* ===== verification/Worker.thy ===== *)
theory Worker
  imports Delivery
begin

text \<open>
  The process (\<open>WorkerQueue.run\<close> and \<open>stop\<close> of \<open>worker/src/queue.ts\<close>, \<open>shutdown\<close> of
  \<open>worker/src/index.ts\<close>) as a step relation: each step is what happens between two points
  where \<open>run\<close> awaits something, or the handling of a signal, which may come in between.
  A message being processed is one step of \<open>worker_delivery\<close>; signals that arrive meanwhile
  only set the flag that \<open>run\<close> reads afterwards, as a signal step before or after does.
\<close>

section \<open>The state\<close>

datatype os_signal = SIGINT | SIGTERM

text \<open>Where \<open>run\<close> stands: what it is waiting for, or how it ended.\<close>

datatype phase =
    Connecting
  | Ensuring
  | Getting
  | Pulling
  | Handling message
  | Exited
  | Crashed

text \<open>
  The worker (whether \<open>this.connection\<close> is set among it), the flag of \<open>index.ts\<close>, the signals still listened to (\<open>process.once\<close>), how often the
  connection was drained, and what happened to the messages it was given.
\<close>

datatype event = Started message | Finished message | Returned message | Stopped

record worker =
  wk_phase :: phase
  wk_connected :: bool
  wk_stopping :: bool
  wk_shuttingDown :: bool
  wk_listening :: "os_signal set"
  wk_drains :: nat
  wk_events :: "event list"
  wk_world :: world

definition worker_start :: worker where
  "worker_start = \<lparr>wk_phase = Connecting, wk_connected = False, wk_stopping = False, wk_shuttingDown = False,
     wk_listening = {SIGINT, SIGTERM}, wk_drains = 0, wk_events = [], wk_world = \<lparr>w_calls = [], w_timings = []\<rparr>\<rparr>"

section \<open>Steps\<close>

definition goes :: "phase \<Rightarrow> world \<Rightarrow> event list \<Rightarrow> worker \<Rightarrow> worker" where
  "goes ph w es s = s\<lparr>wk_phase := ph, wk_world := w, wk_events := wk_events s @ es\<rparr>"

text \<open>The test of \<open>while (!this.stopping)\<close>.\<close>

definition loop_top :: "worker \<Rightarrow> phase" where
  "loop_top s = (if wk_stopping s then Exited else Pulling)"

text \<open>\<open>stop\<close>; there is no connection to drain unless \<open>connect\<close> has returned one.\<close>

definition stop :: "worker \<Rightarrow> worker" where
  "stop s = s\<lparr>wk_stopping := True, wk_drains := wk_drains s + (if wk_connected s then 1 else 0),
     wk_events := wk_events s @ [Stopped]\<rparr>"

definition shutdown :: "worker \<Rightarrow> worker" where
  "shutdown s = (if wk_shuttingDown s then s else stop (s\<lparr>wk_shuttingDown := True\<rparr>))"

inductive wk_step :: "platform \<Rightarrow> env \<Rightarrow> WorkerConfig \<Rightarrow> worker \<Rightarrow> worker \<Rightarrow> bool"
  for P :: platform and E :: env and config :: WorkerConfig where
  connected: "wk_phase s = Connecting \<Longrightarrow>
    wk_step P E config s (goes Ensuring (wk_world s) [] (s\<lparr>wk_connected := True\<rparr>))"
| connect_fails: "wk_phase s = Connecting \<Longrightarrow> wk_step P E config s (goes Crashed (wk_world s) [] s)"
| ensured: "wk_phase s = Ensuring \<Longrightarrow> ensureDurableConsumer E config (wk_world s) = (Inr (), w) \<Longrightarrow>
    wk_step P E config s (goes Getting w [] s)"
| ensure_fails: "wk_phase s = Ensuring \<Longrightarrow> ensureDurableConsumer E config (wk_world s) = (Inl e, w) \<Longrightarrow>
    wk_step P E config s (goes Crashed w [] s)"
| got: "wk_phase s = Getting \<Longrightarrow> wk_step P E config s (goes (loop_top s) (wk_world s) [] s)"
| get_fails: "wk_phase s = Getting \<Longrightarrow> wk_step P E config s (goes Crashed (wk_world s) [] s)"
| next_none: "wk_phase s = Pulling \<Longrightarrow> wk_step P E config s (goes (loop_top s) (wk_world s) [] s)"
| next_fails: "wk_phase s = Pulling \<Longrightarrow>
    wk_step P E config s (goes (if wk_stopping s then Exited else Crashed) (wk_world s) [] s)"
| next_message: "wk_phase s = Pulling \<Longrightarrow> \<not> wk_stopping s \<Longrightarrow>
    wk_step P E config s (goes (Handling m) (wk_world s) [Started m] s)"
| next_late: "wk_phase s = Pulling \<Longrightarrow> wk_stopping s \<Longrightarrow> settle E (CNak 1000) (wk_world s) = (Inr (), w) \<Longrightarrow>
    wk_step P E config s (goes Exited w [Returned m] s)"
| late_fails: "wk_phase s = Pulling \<Longrightarrow> wk_stopping s \<Longrightarrow> settle E (CNak 1000) (wk_world s) = (Inl e, w) \<Longrightarrow>
    wk_step P E config s (goes Crashed w [Returned m] s)"
| delivered: "wk_phase s = Handling m \<Longrightarrow> worker_delivery P E config m (wk_world s) = (Inr (), w) \<Longrightarrow>
    wk_step P E config s (goes (loop_top s) w [Finished m] s)"
| delivery_fails: "wk_phase s = Handling m \<Longrightarrow> worker_delivery P E config m (wk_world s) = (Inl e, w) \<Longrightarrow>
    wk_step P E config s (goes Crashed w [Finished m] s)"

inductive sig_step :: "worker \<Rightarrow> worker \<Rightarrow> bool" where
  signal: "g \<in> wk_listening s \<Longrightarrow> sig_step s (shutdown (s\<lparr>wk_listening := wk_listening s - {g}\<rparr>))"

definition any_step :: "platform \<Rightarrow> env \<Rightarrow> WorkerConfig \<Rightarrow> worker \<Rightarrow> worker \<Rightarrow> bool" where
  "any_step P E config s t \<longleftrightarrow> wk_step P E config s t \<or> sig_step s t"

inductive reachable :: "platform \<Rightarrow> env \<Rightarrow> WorkerConfig \<Rightarrow> worker \<Rightarrow> bool"
  for P :: platform and E :: env and config :: WorkerConfig where
  reach_start: "reachable P E config worker_start"
| reach_step: "reachable P E config s \<Longrightarrow> any_step P E config s t \<Longrightarrow> reachable P E config t"

inductive_cases wk_stepE: "wk_step P E config s t"

inductive_cases sig_stepE: "sig_step s t"

section \<open>The abstract worker\<close>

text \<open>
  What the rest of the system relies on: a worker takes one message at a time while it is open, gives
  back what reaches it after it was closed, and is closed once. As a deterministic acceptor of events.
\<close>

record pool =
  pl_open :: bool
  pl_current :: "message option"

definition pool_start :: pool where
  "pool_start = \<lparr>pl_open = True, pl_current = None\<rparr>"

fun pool_step :: "pool \<Rightarrow> event \<Rightarrow> pool option" where
  "pool_step p (Started m) =
     (if pl_open p \<and> pl_current p = None then Some (p\<lparr>pl_current := Some m\<rparr>) else None)"
| "pool_step p (Finished m) = (if pl_current p = Some m then Some (p\<lparr>pl_current := None\<rparr>) else None)"
| "pool_step p (Returned m) = (if \<not> pl_open p \<and> pl_current p = None then Some p else None)"
| "pool_step p Stopped = (if pl_open p then Some (p\<lparr>pl_open := False\<rparr>) else None)"

fun pool_run :: "pool \<Rightarrow> event list \<Rightarrow> pool option" where
  "pool_run p [] = Some p"
| "pool_run p (e # es) = Option.bind (pool_step p e) (\<lambda>q. pool_run q es)"

lemma pool_run_append: "pool_run p (xs @ ys) = Option.bind (pool_run p xs) (\<lambda>q. pool_run q ys)"
  by (induction xs arbitrary: p) (auto split: Option.bind_splits)

text \<open>The abstract view of the process.\<close>

fun handled :: "phase \<Rightarrow> message option" where
  "handled (Handling m) = Some m"
| "handled _ = None"

definition abs_worker :: "worker \<Rightarrow> pool" where
  "abs_worker s = \<lparr>pl_open = (\<not> wk_stopping s), pl_current = handled (wk_phase s)\<rparr>"

section \<open>Simulation\<close>

definition wk_inv :: "worker \<Rightarrow> bool" where
  "wk_inv s \<longleftrightarrow> (wk_shuttingDown s \<longleftrightarrow> wk_stopping s) \<and> wk_drains s \<le> (if wk_stopping s then 1 else 0)"

lemma handled_loop_top [simp]: "handled (loop_top s) = None"
  by (simp add: loop_top_def)

lemma wk_step_frame:
  assumes "wk_step P E config s t"
  shows "wk_stopping t = wk_stopping s" "wk_shuttingDown t = wk_shuttingDown s" "wk_listening t = wk_listening s"
    "wk_drains t = wk_drains s"
  using assms by (induction) (simp_all add: goes_def)

lemma sig_step_cases:
  assumes "sig_step s t"
  obtains (again) g where "g \<in> wk_listening s" "wk_shuttingDown s" "t = s\<lparr>wk_listening := wk_listening s - {g}\<rparr>"
  | (first) g where "g \<in> wk_listening s" "\<not> wk_shuttingDown s"
      "t = stop (s\<lparr>wk_listening := wk_listening s - {g}, wk_shuttingDown := True\<rparr>)"
  using assms by (auto elim!: sig_stepE simp: shutdown_def split: if_splits)

lemma any_step_inv: "any_step P E config s t \<Longrightarrow> wk_inv s \<Longrightarrow> wk_inv t"
  unfolding any_step_def
  by (auto simp: wk_inv_def wk_step_frame stop_def elim!: sig_step_cases)

lemma wk_step_simulates:
  "wk_step P E config s t \<Longrightarrow>
   \<exists>es. wk_events t = wk_events s @ es \<and> pool_run (abs_worker s) es = Some (abs_worker t)"
  by (induction rule: wk_step.induct) (auto simp: goes_def abs_worker_def)

lemma sig_step_simulates:
  assumes "sig_step s t" "wk_inv s"
  shows "\<exists>es. wk_events t = wk_events s @ es \<and> pool_run (abs_worker s) es = Some (abs_worker t)"
  using assms(1)
proof (cases rule: sig_step_cases)
  case (again g)
  then show ?thesis by (intro exI [of _ "[]"]) (simp add: abs_worker_def)
next
  case (first g)
  then show ?thesis
    using assms(2) by (intro exI [of _ "[Stopped]"]) (simp add: abs_worker_def stop_def wk_inv_def)
qed

lemma reachable_refines:
  "reachable P E config s \<Longrightarrow> wk_inv s \<and> pool_run pool_start (wk_events s) = Some (abs_worker s)"
proof (induction rule: reachable.induct)
  case reach_start
  show ?case by (simp add: wk_inv_def worker_start_def pool_start_def abs_worker_def)
next
  case (reach_step s t)
  then obtain es where "wk_events t = wk_events s @ es" "pool_run (abs_worker s) es = Some (abs_worker t)"
    unfolding any_step_def using wk_step_simulates sig_step_simulates by metis
  with reach_step any_step_inv show ?case by (auto simp: pool_run_append)
qed

section \<open>Settlements\<close>

fun is_done :: "event \<Rightarrow> bool" where
  "is_done (Finished m) = True"
| "is_done (Returned m) = True"
| "is_done _ = False"

definition settled :: "world \<Rightarrow> nat" where
  "settled w = length (filter settlement (w_calls w))"

lemma ensure_settled:
  assumes "ensureDurableConsumer E config w = (r, w')"
  shows "settled w' = settled w"
proof -
  have "emits work (ensureDurableConsumer E config)"
    unfolding ensureDurableConsumer_def create_consumer_def update_consumer_def consumer_call_def rethrow_def
    by (intro emits_intro) simp_all
  from emitsD [OF this assms] show ?thesis
    by (auto simp: extends_def settled_def list_all_iff filter_empty_conv)
qed

lemma settle_settled: "settle E c w = (r, w') \<Longrightarrow> settlement c \<Longrightarrow> settled w' = Suc (settled w)"
  by (auto simp: settle_def io_call_def record_call_def settled_def)

lemma delivery_settled:
  assumes "\<And>h c. env_message E h c = Inr ()" "worker_delivery P E config m w = (r, w')"
  shows "settled w' = Suc (settled w)"
proof -
  have "\<exists>w' new c. worker_delivery P E config m w = (Inr (), w') \<and> w_calls w' = w_calls w @ new \<and>
      filter settlement new = [c]"
    unfolding worker_delivery_def by (rule worker.settled_once [OF assms(1)])
  then show ?thesis using assms(2) by (auto simp: settled_def)
qed

lemma reachable_settled:
  assumes "reachable P E config s" and m: "\<And>h c. env_message E h c = Inr ()"
  shows "settled (wk_world s) = length (filter is_done (wk_events s))"
  using assms(1)
proof (induction rule: reachable.induct)
  case reach_start
  show ?case by (simp add: worker_start_def settled_def)
next
  case (reach_step s t)
  from reach_step.hyps(2) consider "wk_step P E config s t" | "sig_step s t" unfolding any_step_def by blast
  then show ?case
  proof cases
    case 1
    then show ?thesis
      using reach_step.IH ensure_settled settle_settled [of E "CNak 1000"] delivery_settled [OF m]
      by (induction rule: wk_step.induct) (simp_all add: goes_def)
  next
    case 2
    then show ?thesis using reach_step.IH by (cases rule: sig_step_cases) (simp_all add: stop_def)
  qed
qed

section \<open>Shutting down\<close>

fun rank :: "phase \<Rightarrow> nat" where
  "rank Connecting = 4"
| "rank Ensuring = 3"
| "rank Getting = 2"
| "rank Pulling = 1"
| "rank (Handling m) = 1"
| "rank Exited = 0"
| "rank Crashed = 0"

definition distance :: "worker \<Rightarrow> nat" where
  "distance s = rank (wk_phase s) + card (wk_listening s)"

lemma finite_signals [simp]: "finite (A :: os_signal set)"
proof (rule finite_subset)
  show "A \<subseteq> {SIGINT, SIGTERM}" by (auto intro: os_signal.exhaust)
qed simp

lemma card_signals: "card (A :: os_signal set) \<le> 2"
proof -
  have "A \<subseteq> {SIGINT, SIGTERM}" by (auto intro: os_signal.exhaust)
  then have "card A \<le> card {SIGINT, SIGTERM}" by (rule card_mono [rotated]) simp
  then show ?thesis by simp
qed

lemma wk_step_rank: "wk_step P E config s t \<Longrightarrow> wk_stopping s \<Longrightarrow> rank (wk_phase t) < rank (wk_phase s)"
  by (induction rule: wk_step.induct) (simp_all add: goes_def loop_top_def)

lemma any_step_distance:
  assumes "any_step P E config s t" "wk_stopping s"
  shows "distance t < distance s \<and> wk_stopping t"
proof -
  from assms(1) consider "wk_step P E config s t" | "sig_step s t" unfolding any_step_def by blast
  then show ?thesis
  proof cases
    case 1
    then show ?thesis using wk_step_rank [OF 1 assms(2)] wk_step_frame [OF 1] assms(2) by (simp add: distance_def)
  next
    case 2
    then obtain g where "g \<in> wk_listening s" "wk_listening t = wk_listening s - {g}"
      "wk_phase t = wk_phase s" "wk_stopping t"
      using assms(2) by (cases rule: sig_step_cases) (auto simp: stop_def)
    moreover have "card (wk_listening s - {g}) < card (wk_listening s)"
      by (rule card_Diff1_less) (use calculation in simp_all)
    ultimately show ?thesis by (simp add: distance_def)
  qed
qed

lemma steps_bounded: "(any_step P E config ^^ n) s t \<Longrightarrow> wk_stopping s \<Longrightarrow> n + distance t \<le> distance s \<and> wk_stopping t"
proof (induction n arbitrary: t)
  case (Suc n)
  then obtain u where "(any_step P E config ^^ n) s u" "any_step P E config u t" by auto
  with Suc any_step_distance [of P E config u t] show ?case by fastforce
qed simp

lemma not_stuck: "wk_phase s \<notin> {Exited, Crashed} \<Longrightarrow> \<exists>t. wk_step P E config s t"
proof (cases "wk_phase s")
  case Ensuring
  obtain r w where "ensureDurableConsumer E config (wk_world s) = (r, w)" by fastforce
  with Ensuring show ?thesis by (cases r) (auto intro: wk_step.intros)
next
  case (Handling m)
  obtain r w where "worker_delivery P E config m (wk_world s) = (r, w)" by fastforce
  with Handling show ?thesis by (cases r) (auto intro: wk_step.intros)
qed (auto intro: wk_step.intros)

section \<open>Properties\<close>

text \<open>
  C3. The process implements the abstract worker: in every reachable state, for every interleaving
  of pulled messages, failures and signals, the events so far are a run of the abstract worker that
  ends in the abstract view of the state. So messages are processed one at a time and to the end,
  none is started after the worker was told to stop, one that arrives then is given back, and the
  worker is stopped at most once however many signals come; and the connection is drained at most
  once.
\<close>

theorem worker_refines:
  assumes "reachable P E config s"
  shows "pool_run pool_start (wk_events s) = Some (abs_worker s) \<and> wk_drains s \<le> 1"
proof -
  have "wk_inv s" "pool_run pool_start (wk_events s) = Some (abs_worker s)" using reachable_refines [OF assms] by auto
  then show ?thesis by (auto simp: wk_inv_def split: if_splits)
qed

lemma stop_before_connect:
  "reachable P E config (shutdown (worker_start\<lparr>wk_listening := {SIGINT, SIGTERM} - {SIGTERM}\<rparr>))"
proof -
  have "sig_step worker_start (shutdown (worker_start\<lparr>wk_listening := wk_listening worker_start - {SIGTERM}\<rparr>))"
    by (rule signal) (simp add: worker_start_def)
  moreover have "wk_listening worker_start = {SIGINT, SIGTERM}" by (simp add: worker_start_def)
  ultimately have "any_step P E config worker_start
      (shutdown (worker_start\<lparr>wk_listening := {SIGINT, SIGTERM} - {SIGTERM}\<rparr>))"
    unfolding any_step_def by metis
  with reachable.reach_start show ?thesis by (rule reachable.reach_step)
qed

theorem worker_refines_witness:
  "pool_run pool_start [Stopped] =
     Some (abs_worker (shutdown (worker_start\<lparr>wk_listening := {SIGINT, SIGTERM} - {SIGTERM}\<rparr>)))"
  using worker_refines [OF stop_before_connect [of ascii_platform idle_env default_config]]
  by (simp add: shutdown_def stop_def worker_start_def)

text \<open>
  Every message the process was given is settled exactly once: in every reachable state the
  number of settlements it has sent is the number of messages it has finished or given back, as
  long as sending a settlement does not fail.
\<close>

theorem worker_settles_all:
  assumes "reachable P E config s" "\<And>h c. env_message E h c = Inr ()"
  shows "length (filter settlement (w_calls (wk_world s))) = length (filter is_done (wk_events s))"
  using reachable_settled [OF assms] by (simp add: settled_def)

theorem worker_settles_all_witness:
  "length (filter settlement (w_calls (wk_world
     (shutdown (worker_start\<lparr>wk_listening := {SIGINT, SIGTERM} - {SIGTERM}\<rparr>))))) = 0"
proof -
  have "env_message idle_env h c = Inr ()" for h c by (simp add: idle_env_def Let_def)
  from worker_settles_all [OF stop_before_connect [of ascii_platform idle_env default_config] this] show ?thesis
    by (simp add: shutdown_def stop_def worker_start_def)
qed

text \<open>
  C9. Shutting down ends: once the worker has been told to stop, whatever is interleaved, at most six
  steps follow, and as long as the process has neither left its loop nor failed, a step of it is
  possible. So every run ends in one of the two.
\<close>

theorem shutdown_ends:
  assumes "wk_stopping s" "(any_step P E config ^^ n) s t"
  shows "n \<le> 6 \<and> (wk_phase t \<in> {Exited, Crashed} \<or> (\<exists>u. wk_step P E config t u))"
proof -
  have "rank (wk_phase s) \<le> 4" by (cases "wk_phase s") simp_all
  then have "distance s \<le> 6" using card_signals [of "wk_listening s"] by (simp add: distance_def)
  then show ?thesis using steps_bounded [OF assms(2,1)] not_stuck by fastforce
qed

theorem shutdown_ends_witness:
  "\<exists>u. wk_step ascii_platform idle_env default_config
     (shutdown (worker_start\<lparr>wk_listening := {SIGINT, SIGTERM} - {SIGTERM}\<rparr>)) u"
proof -
  let ?s = "shutdown (worker_start\<lparr>wk_listening := {SIGINT, SIGTERM} - {SIGTERM}\<rparr>)"
  have "wk_stopping ?s" "wk_phase ?s = Connecting" by (simp_all add: shutdown_def stop_def worker_start_def)
  then show ?thesis using shutdown_ends [of ?s 0 ascii_platform idle_env default_config ?s] by simp
qed

end
