(* ===== verification/WebTypes.thy ===== *)
theory WebTypes
  imports JsMath JsValue
begin

text \<open>
  The data types of the web application (\<open>web/src/types.ts\<close>). A value of the application is a
  parsed JSON value; an interface is the predicate that its properties have the declared types. As
  in TypeScript an object may have further properties. A property set to \<open>undefined\<close> is one that is
  absent: only the operator \<open>in\<close> tells them apart, which the application applies to response bodies
  alone.
\<close>

section \<open>Types\<close>

fun is_string :: "json \<Rightarrow> bool" where
  "is_string (JStr s) = True"
| "is_string _ = False"

fun is_number :: "json \<Rightarrow> bool" where
  "is_number (JNum x) = True"
| "is_number _ = False"

fun is_boolean :: "json \<Rightarrow> bool" where
  "is_boolean (JBool b) = True"
| "is_boolean _ = False"

text \<open>A union of string literals, \<open>Array<T>\<close> and \<open>Record<string, T>\<close>.\<close>

definition one_of :: "string list \<Rightarrow> json \<Rightarrow> bool" where
  "one_of names v \<longleftrightarrow> v \<in> set (map (\<lambda>n. JStr (js n)) names)"

fun is_array :: "(json \<Rightarrow> bool) \<Rightarrow> json \<Rightarrow> bool" where
  "is_array P (JArr vs) = list_all P vs"
| "is_array P _ = False"

fun is_record :: "(json \<Rightarrow> bool) \<Rightarrow> json \<Rightarrow> bool" where
  "is_record P (JObj d) = list_all (\<lambda>(k, v). P v) d"
| "is_record P _ = False"

text \<open>A required and an optional property.\<close>

definition has_prop :: "json dict \<Rightarrow> string \<Rightarrow> (json \<Rightarrow> bool) \<Rightarrow> bool" where
  "has_prop d k P \<longleftrightarrow> (case obj_get d (js k) of None \<Rightarrow> False | Some v \<Rightarrow> P v)"

definition may_prop :: "json dict \<Rightarrow> string \<Rightarrow> (json \<Rightarrow> bool) \<Rightarrow> bool" where
  "may_prop d k P \<longleftrightarrow> (case obj_get d (js k) of None \<Rightarrow> True | Some v \<Rightarrow> P v)"

fun interface :: "(string \<times> (json \<Rightarrow> bool)) list \<Rightarrow> (string \<times> (json \<Rightarrow> bool)) list \<Rightarrow> json \<Rightarrow> bool" where
  "interface required optional (JObj d) =
     (list_all (\<lambda>(k, P). has_prop d k P) required \<and> list_all (\<lambda>(k, P). may_prop d k P) optional)"
| "interface required optional _ = False"

section \<open>Declarations\<close>

definition MonitorStatus :: "json \<Rightarrow> bool" where
  "MonitorStatus = one_of [''compiling'', ''awaiting_confirmation'', ''active'', ''needs_review'', ''paused'', ''blocked'']"

definition ExecutionState :: "json \<Rightarrow> bool" where
  "ExecutionState = one_of [''queued'', ''running'', ''succeeded'', ''failed'', ''blocked'', ''needs_review'', ''cancelled'']"

definition PriceCondition :: "json \<Rightarrow> bool" where
  "PriceCondition = interface
     [(''requireInStock'', is_boolean), (''requestedVariant'', is_record is_string)]
     [(''priceBelowMinor'', is_number), (''currency'', is_string)]"

definition WebObservation :: "json \<Rightarrow> bool" where
  "WebObservation = interface
     [(''id'', is_string), (''observedAt'', is_string)]
     [(''executionId'', is_string), (''priceMinor'', is_number), (''currency'', is_string),
      (''inStock'', is_boolean), (''rawText'', is_string), (''title'', is_string),
      (''selectedVariant'', is_record is_string),
      (''verificationState'', one_of [''verified'', ''review_required'', ''failed'', ''blocked'']),
      (''screenshotUrl'', is_string)]"

definition plan_view :: "json \<Rightarrow> bool" where
  "plan_view = interface []
     [(''identity'', interface [] [(''title'', is_string), (''brand'', is_string), (''sku'', is_string),
        (''requestedVariant'', is_record is_string)]),
      (''expectedCurrency'', is_string),
      (''preparationSteps'', is_array (interface [(''purpose'', is_string), (''instruction'', is_string)] []))]"

definition MonitorRevision :: "json \<Rightarrow> bool" where
  "MonitorRevision = interface
     [(''id'', is_string), (''generation'', is_number), (''createdAt'', is_string)]
     [(''source'', one_of [''compile'', ''repair'']), (''validationState'', is_string),
      (''activatedAt'', is_string), (''plan'', plan_view)]"

definition summary_required :: "(string \<times> (json \<Rightarrow> bool)) list" where
  "summary_required = [(''id'', is_string), (''kind'', is_string), (''state'', ExecutionState), (''createdAt'', is_string)]"

definition summary_optional :: "(string \<times> (json \<Rightarrow> bool)) list" where
  "summary_optional = [(''monitorId'', is_string), (''revisionId'', is_string), (''requestedGeneration'', is_number),
     (''attempt'', is_number), (''provider'', is_string), (''startedAt'', is_string), (''completedAt'', is_string),
     (''durationMs'', is_number), (''failureClassification'', is_string)]"

definition ExecutionSummary :: "json \<Rightarrow> bool" where
  "ExecutionSummary = interface summary_required summary_optional"

definition monitor_required :: "(string \<times> (json \<Rightarrow> bool)) list" where
  "monitor_required = [(''id'', is_string), (''url'', is_string), (''intent'', is_string), (''status'', MonitorStatus),
     (''createdAt'', is_string)]"

definition monitor_optional :: "(string \<times> (json \<Rightarrow> bool)) list" where
  "monitor_optional = [(''name'', is_string), (''condition'', PriceCondition), (''intervalMinutes'', is_number),
     (''nextRunAt'', is_string), (''currentRevisionId'', is_string), (''currentGeneration'', is_number),
     (''latestObservation'', WebObservation), (''observations'', is_array WebObservation),
     (''revisions'', is_array MonitorRevision), (''executions'', is_array ExecutionSummary), (''updatedAt'', is_string)]"

definition Monitor :: "json \<Rightarrow> bool" where
  "Monitor = interface monitor_required monitor_optional"

definition Artifact :: "json \<Rightarrow> bool" where
  "Artifact = interface [(''id'', is_string), (''kind'', is_string), (''url'', is_string)]
     [(''label'', is_string), (''createdAt'', is_string)]"

definition TraceStep :: "json \<Rightarrow> bool" where
  "TraceStep = interface [(''label'', is_string)]
     [(''id'', is_string), (''detail'', is_string),
      (''status'', one_of [''pending'', ''running'', ''succeeded'', ''failed'']), (''timestamp'', is_string),
      (''durationMs'', is_number)]"

definition ExecutionDiagnostics :: "json \<Rightarrow> bool" where
  "ExecutionDiagnostics = interface []
     [(''modelCallCount'', is_number), (''cacheStatus'', one_of [''HIT'', ''MISS'']),
      (''repairSource'', one_of [''scripted'', ''stagehand'']), (''timingsMs'', is_record is_number)]"

definition error_view :: "json \<Rightarrow> bool" where
  "error_view v \<longleftrightarrow> is_string v \<or> interface [] [(''message'', is_string), (''detail'', is_string)] v"

definition Execution :: "json \<Rightarrow> bool" where
  "Execution = interface summary_required (summary_optional @
     [(''observation'', WebObservation), (''artifacts'', is_array Artifact), (''steps'', is_array TraceStep),
      (''error'', error_view), (''browserSessionUrl'', is_string), (''traceId'', is_string),
      (''diagnostics'', ExecutionDiagnostics)])"

definition Review :: "json \<Rightarrow> bool" where
  "Review = interface [(''monitor'', Monitor), (''revision'', MonitorRevision)]
     [(''evidence'', is_array Artifact),
      (''comparison'', interface [] [(''previous'', MonitorRevision),
         (''changes'', is_array (interface [(''field'', is_string)] [(''before'', is_string), (''after'', is_string)]))])]"

definition CreateMonitorInput :: "json \<Rightarrow> bool" where
  "CreateMonitorInput = interface [(''url'', is_string), (''intent'', is_string), (''intervalMinutes'', is_number)] []"

definition CreateMonitorResult :: "json \<Rightarrow> bool" where
  "CreateMonitorResult = interface [(''monitor'', Monitor)] [(''executionId'', is_string)]"

definition SystemEvent :: "json \<Rightarrow> bool" where
  "SystemEvent = interface [(''id'', is_string), (''type'', is_string), (''occurredAt'', is_string)]
     [(''monitorId'', is_string), (''executionId'', is_string), (''message'', is_string), (''data'', is_record (\<lambda>_. True))]"

definition ServiceStatus :: "json \<Rightarrow> bool" where
  "ServiceStatus = interface
     [(''health'', one_of [''healthy'', ''unhealthy'', ''unknown'']),
      (''ready'', one_of [''ready'', ''not_ready'', ''unknown'']), (''checkedAt'', is_string)] []"

section \<open>Objects\<close>

text \<open>\<open>{ ...d, k: v }\<close> with a value that may be \<open>undefined\<close>.\<close>

definition put :: "string \<Rightarrow> json option \<Rightarrow> json dict \<Rightarrow> json dict" where
  "put k v d = (case v of Some x \<Rightarrow> obj_set (js k) x d | None \<Rightarrow> filter (\<lambda>(k', _). k' \<noteq> js k) d)"

lemma map_of_filter_key: "map_of (filter (\<lambda>(k', _). k' \<noteq> k) d) q = (if q = k then None else map_of d q)"
  by (induction d) auto

lemma obj_get_put [simp]: "obj_get (put k v d) (js q) = (if q = k then v else obj_get d (js q))"
  by (auto simp: put_def map_of_filter_key split: option.splits)

lemma may_prop_put: "may_prop (put k v d) q P \<longleftrightarrow> (if q = k then (case v of None \<Rightarrow> True | Some x \<Rightarrow> P x) else may_prop d q P)"
  and has_prop_put: "has_prop (put k v d) q P \<longleftrightarrow> (if q = k then (case v of None \<Rightarrow> False | Some x \<Rightarrow> P x) else has_prop d q P)"
  by (auto simp: may_prop_def has_prop_def split: option.splits)

text \<open>Writing an optional property of an interface keeps a value in the interface.\<close>

lemma interface_put:
  assumes "interface req opt (JObj d)" "\<And>P. (k, P) \<in> set req \<union> set opt \<Longrightarrow> (case v of None \<Rightarrow> (k, P) \<notin> set req | Some x \<Rightarrow> P x)"
  shows "interface req opt (JObj (put k v d))"
  using assms by (fastforce simp: list_all_iff may_prop_put has_prop_put split: option.splits)

end
