(* ===== verification/JsDate.thy ===== *)
theory JsDate
  imports JsMath
begin

text \<open>
  \<open>new Date(value).getTime()\<close>. Strings in the date-time format of ECMA-262 that fix an instant are
  computed: a date, or a date and a time with \<open>Z\<close> or an offset; the fraction of a second may have
  any number of digits, as every engine accepts it. Any other string (local times, expanded years,
  days that do not exist, the formats an engine adds) is the argument \<open>other\<close>.
\<close>

section \<open>Days\<close>

definition leap :: "int \<Rightarrow> bool" where
  "leap y \<longleftrightarrow> y mod 4 = 0 \<and> (y mod 100 \<noteq> 0 \<or> y mod 400 = 0)"

definition days_in_month :: "int \<Rightarrow> int \<Rightarrow> int" where
  "days_in_month y m = (if m = 2 then if leap y then 29 else 28 else if m \<in> {4, 6, 9, 11} then 30 else 31)"

definition days_before_month :: "int \<Rightarrow> int \<Rightarrow> int" where
  "days_before_month y m = sum_list (map (\<lambda>k. days_in_month y (int k)) [1..<nat m])"

definition day_from_year :: "int \<Rightarrow> int" where
  "day_from_year y =
     365 * (y - 1970) + (y - 1969) div 4 - (y - 1901) div 100 + (y - 1601) div 400"

definition day_number :: "int \<Rightarrow> int \<Rightarrow> int \<Rightarrow> int" where
  "day_number y m d = day_from_year y + days_before_month y m + d - 1"

section \<open>The format\<close>

text \<open>A number of exactly \<open>n\<close> digits, and a given unit.\<close>

definition take_digits :: "nat \<Rightarrow> jsstr \<Rightarrow> (int \<times> jsstr) option" where
  "take_digits n s =
     (if n \<le> length s \<and> list_all is_digit (take n s) then Some (dec_val (take n s), drop n s) else None)"

definition take_unit :: "int \<Rightarrow> jsstr \<Rightarrow> jsstr option" where
  "take_unit c s = (case s of d # r \<Rightarrow> if d = c then Some r else None | [] \<Rightarrow> None)"

definition parse_day :: "jsstr \<Rightarrow> (int \<times> jsstr) option" where
  "parse_day s =
    Option.bind (take_digits 4 s) (\<lambda>(y, r1).
    case take_unit 45 r1 of
      None \<Rightarrow> Some (day_number y 1 1, r1)
    | Some r2 \<Rightarrow>
       Option.bind (take_digits 2 r2) (\<lambda>(m, r3).
       if m < 1 \<or> 12 < m then None
       else case take_unit 45 r3 of
         None \<Rightarrow> Some (day_number y m 1, r3)
       | Some r4 \<Rightarrow>
          Option.bind (take_digits 2 r4) (\<lambda>(d, r5).
          if d < 1 \<or> days_in_month y m < d then None else Some (day_number y m d, r5))))"

text \<open>Seconds with a fraction cut to milliseconds.\<close>

definition parse_fraction :: "jsstr \<Rightarrow> (int \<times> jsstr) option" where
  "parse_fraction s =
    (case take_unit 46 s of
       None \<Rightarrow> Some (0, s)
     | Some r \<Rightarrow>
        let ds = takeWhile is_digit r in
        if ds = [] then None
        else Some (dec_val (take 3 (ds @ [48, 48])), dropWhile is_digit r))"

definition parse_time :: "jsstr \<Rightarrow> (int \<times> jsstr) option" where
  "parse_time s =
    Option.bind (take_digits 2 s) (\<lambda>(h, r1).
    Option.bind (take_unit 58 r1) (\<lambda>r2.
    Option.bind (take_digits 2 r2) (\<lambda>(mi, r3).
    Option.bind (case take_unit 58 r3 of
        None \<Rightarrow> Some (0, 0, r3)
      | Some r4 \<Rightarrow>
         Option.bind (take_digits 2 r4) (\<lambda>(sec, r5).
         map_option (\<lambda>(ms, r6). (sec, ms, r6)) (parse_fraction r5))) (\<lambda>(sec, ms, r).
    if mi \<le> 59 \<and> sec \<le> 59 \<and> (h \<le> 23 \<or> h = 24 \<and> mi = 0 \<and> sec = 0 \<and> ms = 0)
    then Some (((h * 60 + mi) * 60 + sec) * 1000 + ms, r) else None))))"

definition parse_offset :: "jsstr \<Rightarrow> int option" where
  "parse_offset s =
    (if s = [90] then Some 0
     else case s of
       [] \<Rightarrow> None
     | c # r \<Rightarrow>
        if c \<noteq> 43 \<and> c \<noteq> 45 then None
        else
          Option.bind (take_digits 2 r) (\<lambda>(h, r1).
          Option.bind (take_unit 58 r1) (\<lambda>r2.
          Option.bind (take_digits 2 r2) (\<lambda>(mi, r3).
          if r3 = [] \<and> h \<le> 23 \<and> mi \<le> 59
          then Some ((if c = 45 then - 1 else 1) * (h * 60 + mi) * 60000) else None))))"

definition iso_time :: "jsstr \<Rightarrow> int option" where
  "iso_time s =
    Option.bind (parse_day s) (\<lambda>(day, r).
    if r = [] then Some (day * 86400000)
    else if length s < 10 then None
    else
      Option.bind (take_unit 84 r) (\<lambda>r1.
      Option.bind (parse_time r1) (\<lambda>(t, r2).
      Option.bind (parse_offset r2) (\<lambda>off.
      Some (day * 86400000 + t - off)))))"

definition date_parse :: "(jsstr \<Rightarrow> dbl) \<Rightarrow> jsstr \<Rightarrow> dbl" where
  "date_parse other s = (case iso_time s of Some t \<Rightarrow> Fin (of_int t) | None \<Rightarrow> other s)"

section \<open>Time values\<close>

fun time_clip :: "dbl \<Rightarrow> dbl" where
  "time_clip (Fin x) = (if \<bar>x\<bar> \<le> 8640000000000000 then Fin (of_int (trunc x)) else NaN)"
| "time_clip _ = NaN"

text \<open>\<open>new Date(v).getTime()\<close>.\<close>

fun date_value :: "(jsstr \<Rightarrow> dbl) \<Rightarrow> json option \<Rightarrow> jsstr + dbl" where
  "date_value other None = Inr NaN"
| "date_value other (Some (JStr s)) = Inr (date_parse other s)"
| "date_value other (Some v) =
    rbind (primitive (Some v)) (\<lambda>p.
    case p of
      Some (JStr s) \<Rightarrow> Inr (date_parse other s)
    | q \<Rightarrow> rbind (to_number q) (\<lambda>x. Inr (time_clip x)))"

lemma iso_examples:
  "iso_time (js ''1970-01-01T00:00:00Z'') = Some 0"
  "iso_time (js ''2026-01-01T01:00:00.5Z'') = Some 1767229200500"
  "iso_time (js ''2024-02-29'') = Some 1709164800000"
  "iso_time (js ''2025-02-29'') = None"
  "iso_time (js ''2000-03-01T01:30:00+01:30'') = Some 951868800000"
  "iso_time (js ''2026-01-01T01:00:00'') = None"
  by code_simp+

end
