(* ===== verification/WebClient.thy ===== *)
theory WebClient
  imports WebTypes JsDate
begin

text \<open>
  The web application's client of the control plane (\<open>web/src/api/client.ts\<close>). A program maps the
  requests sent so far to a result and the requests sent then; what the server answers is a function
  of the requests, \<open>None\<close> when the network fails. The casts of \<open>request<T>\<close> check nothing at run time,
  so the operations run on any parsed value; \<open>WebTypes\<close> says what the declared types are.
\<close>

section \<open>Programs\<close>

record web_request =
  wq_url :: jsstr
  wq_method :: jsstr
  wq_headers :: "jsstr dict"
  wq_body :: "jsstr option"

text \<open>A response: its body may fail to arrive. Names of headers are lower case.\<close>

record web_response =
  wr_status :: int
  wr_content_type :: "jsstr option"
  wr_body :: "jsstr option"

text \<open>
  \<open>ApiError\<close> with its message, status and details; of the errors of the runtime only the kind is kept.
\<close>

datatype web_error =
    ApiError jsstr int "json option"
  | TypeErr
  | SyntaxErr
  | UriErr
  | NetworkErr

record web_env =
  we_base :: "jsstr option"
  we_fetch :: "web_request list \<Rightarrow> web_request \<Rightarrow> web_response option"
  we_uuid :: "web_request list \<Rightarrow> jsstr"
  we_now_iso :: "web_request list \<Rightarrow> jsstr"
  we_date :: "jsstr \<Rightarrow> dbl"

type_synonym 'a web = "web_request list \<Rightarrow> (web_error + 'a) \<times> web_request list"

definition web_lift :: "web_error + 'a \<Rightarrow> 'a web" where
  "web_lift r = (\<lambda>w. (r, w))"

definition web_bind :: "'a web \<Rightarrow> ('a \<Rightarrow> 'b web) \<Rightarrow> 'b web" where
  "web_bind m f = (\<lambda>w. case m w of (Inl e, w') \<Rightarrow> (Inl e, w') | (Inr x, w') \<Rightarrow> f x w')"

text \<open>\<open>p.catch(() => undefined)\<close>.\<close>

definition web_optional :: "'a web \<Rightarrow> 'a option web" where
  "web_optional m = (\<lambda>w. case m w of (Inl e, w') \<Rightarrow> (Inr None, w') | (Inr x, w') \<Rightarrow> (Inr (Some x), w'))"

definition fetch :: "web_env \<Rightarrow> web_request \<Rightarrow> web_response web" where
  "fetch E rq = (\<lambda>w. (case we_fetch E w rq of None \<Rightarrow> Inl NetworkErr | Some r \<Rightarrow> Inr r, w @ [rq]))"

definition ok :: "web_response \<Rightarrow> bool" where
  "ok r \<longleftrightarrow> 200 \<le> wr_status r \<and> wr_status r \<le> 299"

section \<open>Values\<close>

text \<open>A conversion that throws a \<open>TypeError\<close>.\<close>

definition converts :: "jsstr + 'a \<Rightarrow> web_error + 'a" where
  "converts r = (case r of Inl m \<Rightarrow> Inl TypeErr | Inr x \<Rightarrow> Inr x)"

text \<open>\<open>v.k\<close>, which throws on \<open>undefined\<close> and \<open>null\<close>, \<open>k in v\<close>, which throws on what is no object, and \<open>{ ...v }\<close>.\<close>

definition property :: "json option \<Rightarrow> string \<Rightarrow> web_error + json option" where
  "property v k = (case v of None \<Rightarrow> Inl TypeErr | Some j \<Rightarrow> if j = JNull then Inl TypeErr else Inr (json_get j k))"

fun has_key :: "json \<Rightarrow> string \<Rightarrow> web_error + bool" where
  "has_key (JObj d) k = Inr (obj_get d (js k) \<noteq> None)"
| "has_key (JArr vs) k = Inr False"
| "has_key _ k = Inl TypeErr"

fun spread :: "json option \<Rightarrow> json dict" where
  "spread (Some (JObj d)) = d"
| "spread (Some (JArr vs)) = zip (map show_nat [0..<length vs]) vs"
| "spread (Some (JStr s)) = zip (map show_nat [0..<length s]) (map (\<lambda>c. JStr [c]) s)"
| "spread _ = []"

text \<open>The methods of arrays, called on \<open>v?.\<close>, and the iterator of \<open>[...v]\<close>.\<close>

definition list_of :: "json option \<Rightarrow> web_error + json list option" where
  "list_of v = (if nullish v then Inr None else case v of Some (JArr vs) \<Rightarrow> Inr (Some vs) | _ \<Rightarrow> Inl TypeErr)"

fun code_points :: "jsstr \<Rightarrow> json list" where
  "code_points [] = []"
| "code_points [c] = [JStr [c]]"
| "code_points (c # d # s) =
     (if is_high c \<and> is_low d then JStr [c, d] # code_points s else JStr [c] # code_points (d # s))"

fun iterate :: "json option \<Rightarrow> web_error + json list" where
  "iterate (Some (JArr vs)) = Inr vs"
| "iterate (Some (JStr s)) = Inr (code_points s)"
| "iterate _ = Inl TypeErr"

fun find_throw :: "('a \<Rightarrow> 'e + bool) \<Rightarrow> 'a list \<Rightarrow> 'e + 'a option" where
  "find_throw P [] = Inr None"
| "find_throw P (x # xs) = rbind (P x) (\<lambda>b. if b then Inr (Some x) else find_throw P xs)"

fun filter_throw :: "('a \<Rightarrow> 'e + bool) \<Rightarrow> 'a list \<Rightarrow> 'e + 'a list" where
  "filter_throw P [] = Inr []"
| "filter_throw P (x # xs) = rbind (P x) (\<lambda>b. rbind (filter_throw P xs) (\<lambda>ys. Inr (if b then x # ys else ys)))"

text \<open>
  \<open>xs.sort((a, b) => key(b) - key(a))[0]\<close>: a single element is not compared, so its key is not read.
\<close>

definition newest :: "(json \<Rightarrow> web_error + dbl) \<Rightarrow> json list \<Rightarrow> web_error + json option" where
  "newest key xs =
    (case xs of
       [] \<Rightarrow> Inr None
     | [x] \<Rightarrow> Inr (Some x)
     | _ \<Rightarrow> rbind (map_throw key xs) (\<lambda>ks.
         Inr (Some (snd (hd (js_sort (\<lambda>a b. dless (fst b) (fst a)) (zip ks xs)))))))"

definition js_length :: "json option \<Rightarrow> json option" where
  "js_length v =
    (case v of
       Some (JArr vs) \<Rightarrow> Some (JNum (Fin (of_nat (length vs))))
     | Some (JStr s) \<Rightarrow> Some (JNum (Fin (of_nat (length s))))
     | Some (JObj d) \<Rightarrow> obj_get d (js ''length'')
     | _ \<Rightarrow> None)"

definition to_text :: "json option \<Rightarrow> web_error + jsstr" where
  "to_text v =
    (case v of
       None \<Rightarrow> Inr (js ''undefined'')
     | Some j \<Rightarrow> if has_string j then Inr (json_to_string j) else Inl TypeErr)"

section \<open>request\<close>

text \<open>
  The string handed to \<open>fetch\<close> is recorded; \<open>fetch\<close> parses it and removes dot segments from its path
  (\<open>fetched_segments\<close> of theory \<open>UrlPath\<close>).
\<close>

definition baseUrl :: "web_env \<Rightarrow> jsstr" where
  "baseUrl E =
    (case we_base E of
       None \<Rightarrow> []
     | Some b \<Rightarrow> if b \<noteq> [] \<and> last b = 47 then butlast b else b)"

record request_init =
  ri_method :: jsstr
  ri_headers :: "jsstr dict"
  ri_body :: "jsstr option"

definition no_init :: request_init where
  "no_init = \<lparr>ri_method = js ''GET'', ri_headers = [], ri_body = None\<rparr>"

definition sending :: "string \<Rightarrow> json \<Rightarrow> request_init" where
  "sending method body = \<lparr>ri_method = js method, ri_headers = [], ri_body = Some (json_stringify body)\<rparr>"

definition request_headers :: "request_init \<Rightarrow> jsstr dict" where
  "request_headers init =
    (case ri_body init of
       Some b \<Rightarrow>
         if b \<noteq> [] \<and> obj_get (ri_headers init) (js ''content-type'') = None
         then ri_headers init @ [(js ''content-type'', js ''application/json'')] else ri_headers init
     | None \<Rightarrow> ri_headers init)"

definition web_body :: "web_response \<Rightarrow> json web" where
  "web_body r =
    (let contentType = (case wr_content_type r of None \<Rightarrow> [] | Some t \<Rightarrow> t) in
     web_lift
       (case wr_body r of
          None \<Rightarrow> Inl NetworkErr
        | Some t \<Rightarrow>
           if str_includes contentType (js ''application/json'')
           then (case json_parse t of None \<Rightarrow> Inl SyntaxErr | Some v \<Rightarrow> Inr v)
           else Inr (JStr t)))"

fun is_object :: "json option \<Rightarrow> bool" where
  "is_object (Some (JObj d)) = True"
| "is_object (Some (JArr vs)) = True"
| "is_object _ = False"

text \<open>The error of a refused request.\<close>

definition api_error :: "int \<Rightarrow> json \<Rightarrow> web_error" where
  "api_error status body =
    (let record = (if is_object (Some body) then Some body else None);
         nestedError = (if is_object (opt_get record ''error'') then opt_get record ''error'' else None);
         message = coalesce (opt_get record ''message'')
           (coalesce (opt_get nestedError ''message'')
           (coalesce (opt_get record ''error'')
           (coalesce (Some body) (Some (JStr (js ''Request failed ('' @ show_number status @ js '')''))))))
     in case to_text message of
          Inl e \<Rightarrow> e
        | Inr t \<Rightarrow> ApiError t status (coalesce (opt_get record ''details'') (opt_get nestedError ''details'')))"

definition unwrap :: "json \<Rightarrow> json" where
  "unwrap body = (case body of JObj d \<Rightarrow> (case obj_get d (js ''data'') of Some v \<Rightarrow> v | None \<Rightarrow> body) | _ \<Rightarrow> body)"

definition request :: "web_env \<Rightarrow> jsstr \<Rightarrow> request_init \<Rightarrow> json web" where
  "request E path init =
     web_bind (fetch E \<lparr>wq_url = baseUrl E @ path, wq_method = ri_method init,
       wq_headers = request_headers init, wq_body = ri_body init\<rparr>) (\<lambda>response.
     web_bind (web_body response) (\<lambda>body.
     if \<not> ok response then web_lift (Inl (api_error (wr_status response) body))
     else web_lift (Inr (unwrap body))))"

section \<open>Normalisation\<close>

definition time_of :: "web_env \<Rightarrow> json option \<Rightarrow> web_error + dbl" where
  "time_of E v = converts (date_value (we_date E) v)"

definition durationBetween :: "web_env \<Rightarrow> json option \<Rightarrow> json option \<Rightarrow> web_error + json option" where
  "durationBetween E startedAt completedAt =
    (if \<not> truthy startedAt \<or> \<not> truthy completedAt then Inr None
     else rbind (time_of E completedAt) (\<lambda>b. rbind (time_of E startedAt) (\<lambda>a.
       let duration = dsub b a in
       Inr (if is_finite duration \<and> dle (Fin 0) duration then Some (JNum duration) else None))))"

text \<open>\<open>{ ...execution, durationMs: execution.durationMs ?? durationBetween(...) }\<close>.\<close>

definition with_duration :: "web_env \<Rightarrow> json \<Rightarrow> web_error + json dict" where
  "with_duration E execution =
     rbind (property (Some execution) ''durationMs'') (\<lambda>given.
     rbind (if \<not> nullish given then Inr given
            else durationBetween E (json_get execution ''startedAt'') (json_get execution ''completedAt'')) (\<lambda>duration.
     Inr (put ''durationMs'' duration (spread (Some execution)))))"

definition same_id :: "web_error + json option \<Rightarrow> json \<Rightarrow> web_error + bool" where
  "same_id wanted item = rbind (property (Some item) ''id'') (\<lambda>i. rbind wanted (\<lambda>q. Inr (strict_eq i q)))"

definition generation :: "json \<Rightarrow> web_error + dbl" where
  "generation item = rbind (property (Some item) ''generation'') (\<lambda>g. converts (to_number g))"

definition current_generation :: "json option \<Rightarrow> json option \<Rightarrow> web_error + json option" where
  "current_generation revisions monitor =
     rbind (list_of revisions) (\<lambda>rs.
     case rs of
       None \<Rightarrow> Inr None
     | Some xs \<Rightarrow>
        rbind (find_throw (same_id (property monitor ''currentRevisionId'')) xs) (\<lambda>found.
        if \<not> nullish (opt_get found ''generation'') then Inr (opt_get found ''generation'')
        else
          rbind (filter_throw (\<lambda>r. rbind (property (Some r) ''activatedAt'') (\<lambda>a. Inr (truthy a))) xs) (\<lambda>active.
          rbind (newest generation active) (\<lambda>top. Inr (opt_get top ''generation'')))))"

definition observed_at :: "web_env \<Rightarrow> json \<Rightarrow> web_error + dbl" where
  "observed_at E item = rbind (property (Some item) ''observedAt'') (time_of E)"

definition normalizeMonitor :: "web_env \<Rightarrow> json \<Rightarrow> web_error + json" where
  "normalizeMonitor E raw =
     rbind (has_key raw ''monitor'') (\<lambda>nested.
     let monitor = (if nested then json_get raw ''monitor'' else Some raw);
         part = (\<lambda>k. if nested \<and> \<not> nullish (json_get raw k) then Inr (json_get raw k) else property monitor k)
     in
     rbind (part ''revisions'') (\<lambda>revisions.
     rbind (part ''observations'') (\<lambda>observations.
     rbind (rbind (part ''executions'') list_of) (\<lambda>listed.
     rbind (case listed of
         None \<Rightarrow> Inr None
       | Some xs \<Rightarrow> rbind (map_throw (with_duration E) xs) (\<lambda>ds. Inr (Some (JArr (map JObj ds))))) (\<lambda>executions.
     rbind (if nullish observations then Inr [] else iterate observations) (\<lambda>seen.
     rbind (newest (observed_at E) seen) (\<lambda>latest.
     rbind (if nullish latest then property monitor ''latestObservation'' else Inr latest) (\<lambda>latestObservation.
     rbind (current_generation revisions monitor) (\<lambda>currentGeneration.
     Inr (JObj (put ''currentGeneration'' currentGeneration (put ''latestObservation'' latestObservation
       (put ''observations'' observations (put ''executions'' executions (put ''revisions'' revisions
         (spread monitor))))))))))))))))"

definition asRecord :: "json option \<Rightarrow> json dict option" where
  "asRecord value = (case value of Some (JObj d) \<Rightarrow> Some d | _ \<Rightarrow> None)"

definition numericRecord :: "json option \<Rightarrow> json dict option" where
  "numericRecord value =
    (case asRecord value of
       None \<Rightarrow> None
     | Some d \<Rightarrow>
        let entries = filter (\<lambda>(k, v). case v of JNum x \<Rightarrow> is_finite x \<and> dle (Fin 0) x | _ \<Rightarrow> False) d in
        if entries = [] then None else Some entries)"

definition natural :: "json option \<Rightarrow> bool" where
  "natural v = (case v of Some (JNum (Fin x)) \<Rightarrow> of_int \<lfloor>x\<rfloor> = x \<and> 0 \<le> x | _ \<Rightarrow> False)"

definition literal :: "string list \<Rightarrow> json option \<Rightarrow> json option" where
  "literal names v = (if v \<in> set (map (\<lambda>n. Some (JStr (js n))) names) then v else None)"

definition diagnostics_of :: "json option \<Rightarrow> json option" where
  "diagnostics_of source =
    (let timingsMs = numericRecord (opt_get source ''timingsMs'');
         modelCallCount = (if natural (opt_get source ''modelCallCount'') then opt_get source ''modelCallCount'' else None);
         cacheStatus = literal [''HIT'', ''MISS''] (opt_get source ''cacheStatus'');
         repairSource = literal [''scripted'', ''stagehand''] (opt_get source ''repairSource'')
     in if modelCallCount \<noteq> None \<or> cacheStatus \<noteq> None \<or> repairSource \<noteq> None \<or> timingsMs \<noteq> None
        then Some (JObj (put ''timingsMs'' (map_option JObj timingsMs) (put ''repairSource'' repairSource
          (put ''cacheStatus'' cacheStatus (put ''modelCallCount'' modelCallCount [])))))
        else None)"

definition normalizeExecution :: "web_env \<Rightarrow> json \<Rightarrow> web_error + json" where
  "normalizeExecution E raw =
     rbind (property (Some raw) ''result'') (\<lambda>result0.
     let result = asRecord result0;
         stored = Option.bind result (\<lambda>d. asRecord (obj_get d (js ''diagnostics'')));
         source = (case stored of Some d \<Rightarrow> Some (JObj d) | None \<Rightarrow> json_get raw ''diagnostics'') in
     rbind (with_duration E raw) (\<lambda>d. Inr (JObj (put ''diagnostics'' (diagnostics_of source) d))))"

section \<open>Operations\<close>

definition encoded :: "jsstr \<Rightarrow> web_error + jsstr" where
  "encoded s = (case encode_component s of None \<Rightarrow> Inl UriErr | Some t \<Rightarrow> Inr t)"

definition monitor_path :: "jsstr \<Rightarrow> jsstr \<Rightarrow> web_error + jsstr" where
  "monitor_path ident rest = rbind (encoded ident) (\<lambda>e. Inr (js ''/api/v1/monitors/'' @ e @ rest))"

definition request_monitor :: "web_env \<Rightarrow> jsstr \<Rightarrow> jsstr \<Rightarrow> request_init \<Rightarrow> json web" where
  "request_monitor E ident rest init =
     web_bind (web_lift (monitor_path ident rest)) (\<lambda>path.
     web_bind (request E path init) (\<lambda>value. web_lift (normalizeMonitor E value)))"

text \<open>\<open>None\<close> is \<open>undefined\<close>.\<close>

definition listMonitors :: "web_env \<Rightarrow> json option web" where
  "listMonitors E =
     web_bind (request E (js ''/api/v1/monitors'') no_init) (\<lambda>value.
     case value of
       JArr vs \<Rightarrow> web_lift (Inr (Some value))
     | _ \<Rightarrow> web_bind (web_lift (has_key value ''items'')) (\<lambda>paged.
         web_lift (Inr (if paged then json_get value ''items'' else json_get value ''monitors''))))"

definition getMonitor :: "web_env \<Rightarrow> jsstr \<Rightarrow> json web" where
  "getMonitor E ident = request_monitor E ident [] no_init"

definition created :: "json option \<Rightarrow> json option \<Rightarrow> json" where
  "created monitor executionId = JObj (put ''executionId'' executionId (put ''monitor'' monitor []))"

definition normalizeCreateResult :: "json \<Rightarrow> web_error + json" where
  "normalizeCreateResult raw =
     rbind (has_key raw ''monitor'') (\<lambda>nested.
     Inr (if nested then raw else created (Some raw) (json_get raw ''executionId'')))"

definition createMonitor :: "web_env \<Rightarrow> json \<Rightarrow> json web" where
  "createMonitor E input =
     web_bind (request E (js ''/api/v1/monitors'') (sending ''POST'' input)) (\<lambda>result.
     web_bind (web_lift (has_key result ''execution'')) (\<lambda>queued.
     if queued then web_lift (Inr (created (json_get result ''monitor'') (opt_get (json_get result ''execution'') ''id'')))
     else web_lift (normalizeCreateResult result)))"

definition updateMonitor :: "web_env \<Rightarrow> jsstr \<Rightarrow> json \<Rightarrow> json web" where
  "updateMonitor E ident input = request_monitor E ident [] (sending ''PATCH'' input)"

definition confirmMonitor :: "web_env \<Rightarrow> jsstr \<Rightarrow> json \<Rightarrow> json option \<Rightarrow> json web" where
  "confirmMonitor E ident revision condition =
     request_monitor E ident (js ''/confirm'')
       (sending ''POST'' (JObj (put ''condition'' condition (put ''revisionId'' (json_get revision ''id'') []))))"

definition runCheck :: "web_env \<Rightarrow> jsstr \<Rightarrow> json web" where
  "runCheck E ident =
     web_bind (web_lift (monitor_path ident (js ''/checks''))) (\<lambda>path.
     web_bind (\<lambda>w. request E path \<lparr>ri_method = js ''POST'',
         ri_headers = [(js ''idempotency-key'', we_uuid E w)], ri_body = None\<rparr> w) (\<lambda>value.
     web_bind (web_lift (has_key value ''execution'')) (\<lambda>queued.
     if queued
     then web_bind (web_lift (property (json_get value ''execution'') ''id'')) (\<lambda>i.
       web_lift (Inr (JObj (put ''executionId'' i []))))
     else web_lift (Inr value))))"

definition getExecution :: "web_env \<Rightarrow> jsstr \<Rightarrow> json web" where
  "getExecution E ident =
     web_bind (web_lift (encoded ident)) (\<lambda>e.
     web_bind (request E (js ''/api/v1/executions/'' @ e) no_init) (\<lambda>value.
     web_lift (normalizeExecution E value)))"

text \<open>
  \<open>getReview\<close>. The evidence is that of the newest succeeded execution of the revision's kind; the
  request for it may fail, the construction of its path may not.
\<close>

definition older_revision :: "json \<Rightarrow> json \<Rightarrow> web_error + bool" where
  "older_revision revision item =
     rbind (property (Some item) ''generation'') (\<lambda>g. converts (value_less g (json_get revision ''generation'')))"

definition previous_revision :: "json \<Rightarrow> json option \<Rightarrow> web_error + json option" where
  "previous_revision revision revisions =
     rbind (list_of revisions) (\<lambda>rs.
     case rs of
       None \<Rightarrow> Inr None
     | Some xs \<Rightarrow> rbind (filter_throw (older_revision revision) xs) (newest generation))"

definition completed_at :: "web_env \<Rightarrow> json \<Rightarrow> web_error + dbl" where
  "completed_at E item =
     rbind (property (Some item) ''completedAt'') (\<lambda>c. time_of E (coalesce c (json_get item ''createdAt'')))"

definition candidate_execution :: "web_env \<Rightarrow> json \<Rightarrow> json option \<Rightarrow> web_error + json option" where
  "candidate_execution E revision executions =
     rbind (list_of executions) (\<lambda>es.
     case es of
       None \<Rightarrow> Inr None
     | Some xs \<Rightarrow>
        rbind (filter_throw (\<lambda>item. rbind (property (Some item) ''kind'') (\<lambda>k.
            Inr (strict_eq k (json_get revision ''source'') \<and>
                 strict_eq (json_get item ''state'') (Some (JStr (js ''succeeded'')))))) xs) (newest (completed_at E)))"

definition plan_part :: "json option \<Rightarrow> string \<Rightarrow> json option" where
  "plan_part revision k = opt_get (opt_get revision ''plan'') k"

definition change :: "string \<Rightarrow> json option \<Rightarrow> json option \<Rightarrow> json" where
  "change field before after =
     JObj (put ''after'' after (put ''before'' before (put ''field'' (Some (JStr (js field))) [])))"

definition changed :: "string \<Rightarrow> json option \<Rightarrow> json option \<Rightarrow> json list" where
  "changed field before after = (if strict_eq before after then [] else [change field before after])"

definition changes :: "json option \<Rightarrow> json \<Rightarrow> web_error + json list" where
  "changes previous revision =
    (let before = plan_part previous; after = plan_part (Some revision);
         stepsBefore = js_length (before ''preparationSteps''); stepsAfter = js_length (after ''preparationSteps'');
         count = (\<lambda>n. to_text (coalesce n (Some (JNum (Fin 0)))))
     in rbind
       (if strict_eq stepsBefore stepsAfter then Inr []
        else rbind (count stepsBefore) (\<lambda>b. rbind (count stepsAfter) (\<lambda>a.
          Inr [change ''preparation actions'' (Some (JStr b)) (Some (JStr a))]))) (\<lambda>steps.
       Inr (changed ''product title'' (opt_get (before ''identity'') ''title'') (opt_get (after ''identity'') ''title'') @
            changed ''sku'' (opt_get (before ''identity'') ''sku'') (opt_get (after ''identity'') ''sku'') @
            changed ''currency'' (before ''expectedCurrency'') (after ''expectedCurrency'') @ steps)))"

definition review :: "json \<Rightarrow> json \<Rightarrow> json option \<Rightarrow> json option \<Rightarrow> json list \<Rightarrow> json" where
  "review monitor revision execution previous cs =
     JObj (put ''comparison'' (Some (JObj (put ''changes'' (Some (JArr cs)) (put ''previous'' previous []))))
       (put ''evidence'' (opt_get execution ''artifacts'')
       (put ''revision'' (Some revision) (put ''monitor'' (Some monitor) []))))"

definition getReview :: "web_env \<Rightarrow> jsstr \<Rightarrow> jsstr \<Rightarrow> json web" where
  "getReview E monitorId revisionId =
     web_bind (getMonitor E monitorId) (\<lambda>monitor.
     web_bind (web_lift (list_of (json_get monitor ''revisions''))) (\<lambda>listed.
     web_bind (web_lift (find_throw (same_id (Inr (Some (JStr revisionId)))) (case listed of None \<Rightarrow> [] | Some xs \<Rightarrow> xs)))
       (\<lambda>found.
     case found of
       None \<Rightarrow> web_lift (Inl (ApiError (js ''Revision was not found on this monitor'') 404 None))
     | Some revision \<Rightarrow>
        web_bind (web_lift (previous_revision revision (json_get monitor ''revisions''))) (\<lambda>previous.
        web_bind (web_lift (candidate_execution E revision (json_get monitor ''executions''))) (\<lambda>candidate.
        web_bind
          (case candidate of
             None \<Rightarrow> web_lift (Inr None)
           | Some c \<Rightarrow>
              web_bind (web_lift (rbind (to_text (json_get c ''id'')) (\<lambda>i. rbind (encoded i) (\<lambda>_. Inr i)))) (\<lambda>i.
              web_optional (getExecution E i))) (\<lambda>execution.
        web_bind (web_lift (changes previous revision)) (\<lambda>cs.
        web_lift (Inr (review monitor revision execution previous cs))))))))) "

definition reviewRevision :: "web_env \<Rightarrow> jsstr \<Rightarrow> jsstr \<Rightarrow> bool \<Rightarrow> json web" where
  "reviewRevision E monitorId revisionId accept =
     web_bind (web_lift (rbind (encoded monitorId) (\<lambda>_. encoded revisionId))) (\<lambda>r.
     request_monitor E monitorId (js ''/reviews/'' @ r @ js (if accept then ''/accept'' else ''/reject''))
       \<lparr>ri_method = js ''POST'', ri_headers = [], ri_body = None\<rparr>)"

text \<open>A bare \<open>fetch\<close> of a path, and the two probes of \<open>Promise.all\<close>, sent one after the other.\<close>

definition plain_get :: "web_env \<Rightarrow> string \<Rightarrow> web_request" where
  "plain_get E path = \<lparr>wq_url = baseUrl E @ js path, wq_method = js ''GET'', wq_headers = [], wq_body = None\<rparr>"

definition probe :: "web_env \<Rightarrow> string \<Rightarrow> bool web" where
  "probe E path = web_bind (web_optional (fetch E (plain_get E path))) (\<lambda>r.
     web_lift (Inr (case r of None \<Rightarrow> False | Some response \<Rightarrow> ok response)))"

definition getServiceStatus :: "web_env \<Rightarrow> json web" where
  "getServiceStatus E =
     web_bind (probe E ''/healthz'') (\<lambda>healthy.
     web_bind (probe E ''/readyz'') (\<lambda>ready.
     (\<lambda>w. (Inr (JObj
       [(js ''health'', JStr (js (if healthy then ''healthy'' else ''unhealthy''))),
        (js ''ready'', JStr (js (if ready then ''ready'' else ''not_ready''))),
        (js ''checkedAt'', JStr (we_now_iso E w))]), w))))"

definition getMetrics :: "web_env \<Rightarrow> jsstr web" where
  "getMetrics E =
     web_bind (fetch E (plain_get E ''/metrics'')) (\<lambda>response.
     if \<not> ok response
     then web_lift (Inl (ApiError (js ''Metrics endpoint is unavailable'') (wr_status response) None))
     else web_lift (case wr_body response of None \<Rightarrow> Inl NetworkErr | Some t \<Rightarrow> Inr t))"

definition eventStreamUrl :: "web_env \<Rightarrow> jsstr" where
  "eventStreamUrl E = baseUrl E @ js ''/api/v1/events''"

end
