(* ===== verification/WebLaws.thy ===== *)
theory WebLaws
  imports WebClient
begin

text \<open>
  What the client returns: on bodies of the declared types the normalisers never throw and return
  values of the declared types, with the newest observation, the current generation and validated
  diagnostics; what a review compares.
\<close>

section \<open>Values of a type\<close>

lemma interfaceD:
  assumes "interface required optional v"
  obtains d where "v = JObj d" "\<And>k P. (k, P) \<in> set required \<Longrightarrow> has_prop d k P"
    "\<And>k P. (k, P) \<in> set optional \<Longrightarrow> may_prop d k P"
  using assms by (cases v) (auto simp: list_all_iff)

lemma may_propD: "may_prop d k P \<Longrightarrow> obj_get d (js k) = Some v \<Longrightarrow> P v"
  by (simp add: may_prop_def)

lemma may_prop_cases:
  assumes "may_prop d k P"
  obtains "obj_get d (js k) = None" | v where "obj_get d (js k) = Some v" "P v"
  using assms by (auto simp: may_prop_def split: option.splits)

lemma is_arrayE: "is_array P v \<Longrightarrow> (\<And>vs. v = JArr vs \<Longrightarrow> list_all P vs \<Longrightarrow> R) \<Longrightarrow> R"
  and is_stringE: "is_string v \<Longrightarrow> (\<And>s. v = JStr s \<Longrightarrow> R) \<Longrightarrow> R"
  and is_numberE: "is_number v \<Longrightarrow> (\<And>x. v = JNum x \<Longrightarrow> R) \<Longrightarrow> R"
  by (cases v; auto)+

lemma nullish_simps [simp]: "nullish None" "nullish (Some JNull)" "\<not> nullish (Some (JStr s))" "\<not> nullish (Some (JNum x))"
    "\<not> nullish (Some (JArr vs))" "\<not> nullish (Some (JObj d))" "\<not> nullish (Some (JBool b))"
  by (simp_all add: nullish_def)

lemma property_JObj [simp]: "property (Some (JObj d)) k = Inr (obj_get d (js k))"
  by (simp add: property_def)

lemma interface_not_null: "interface req opt v \<Longrightarrow> v \<noteq> JNull"
  by (cases v) auto

section \<open>Loops that do not throw\<close>

lemma map_throw_total:
  assumes "\<And>x. x \<in> set xs \<Longrightarrow> \<exists>y. f x = Inr y \<and> Q y"
  shows "\<exists>ys. map_throw f xs = Inr ys \<and> list_all Q ys \<and> length ys = length xs"
  using assms by (induction xs) fastforce+

lemma find_throw_total:
  assumes "\<And>x. x \<in> set xs \<Longrightarrow> \<exists>b. P x = Inr b"
  shows "\<exists>r. find_throw P xs = Inr r \<and>
    (case r of None \<Rightarrow> \<forall>x \<in> set xs. P x = Inr False | Some x \<Rightarrow> x \<in> set xs \<and> P x = Inr True)"
  using assms
proof (induction xs)
  case (Cons x xs)
  then obtain b where b: "P x = Inr b" by auto
  show ?case
  proof (cases b)
    case False
    obtain r where "find_throw P xs = Inr r"
      "case r of None \<Rightarrow> \<forall>x \<in> set xs. P x = Inr False | Some x \<Rightarrow> x \<in> set xs \<and> P x = Inr True"
      using Cons by auto
    then show ?thesis using b False by (auto split: option.splits)
  qed (use b in auto)
qed simp

lemma filter_throw_total:
  assumes "\<And>x. x \<in> set xs \<Longrightarrow> P x = Inr (p x)"
  shows "filter_throw P xs = Inr (filter p xs)"
  using assms by (induction xs) auto

lemma newest_total:
  assumes "\<And>x. x \<in> set xs \<Longrightarrow> key x = Inr (k x)"
  shows "\<exists>r. newest key xs = Inr r \<and> (case r of None \<Rightarrow> xs = [] | Some x \<Rightarrow> x \<in> set xs)"
proof -
  have m: "map_throw key ys = Inr (map k ys)" if "set ys \<subseteq> set xs" for ys
    using that assms by (induction ys) auto
  show ?thesis
  proof (cases xs)
    case (Cons x ys)
    show ?thesis
    proof (cases ys)
      case (Cons y zs)
      let ?s = "js_sort (\<lambda>a b. dless (fst b) (fst a)) (zip (map k xs) xs)"
      have "?s \<noteq> []" using \<open>xs = x # ys\<close> by simp
      then have "hd ?s \<in> set (zip (map k xs) xs)" by (metis hd_in_set set_js_sort)
      then have "snd (hd ?s) \<in> set xs" by (metis in_set_zipE prod.collapse)
      then show ?thesis using m [of xs] \<open>xs = x # ys\<close> Cons by (simp add: newest_def)
    qed (use Cons in \<open>simp add: newest_def\<close>)
  qed (simp add: newest_def)
qed

lemma zip_map_self: "zip (map f xs) xs = map (\<lambda>x. (f x, x)) xs"
  by (induction xs) auto

text \<open>With finite keys the newest element has the greatest key.\<close>

lemma newest_max:
  assumes k: "\<And>x. x \<in> set xs \<Longrightarrow> key x = Inr (Fin (k x))" and r: "newest key xs = Inr (Some y)" and x: "x \<in> set xs"
  shows "k x \<le> k y"
proof -
  have m: "map_throw key ys = Inr (map (\<lambda>x. Fin (k x)) ys)" if "set ys \<subseteq> set xs" for ys
    using that k by (induction ys) auto
  consider "xs = [y]" | a b zs where "xs = a # b # zs"
    using r x by (cases xs rule: list.exhaust; cases "tl xs") (auto simp: newest_def)
  then show ?thesis
  proof cases
    case 2
    let ?ps = "zip (map (\<lambda>x. Fin (k x)) xs) xs"
    let ?lt = "\<lambda>a b :: dbl \<times> json. dless (fst b) (fst a)"
    let ?f = "\<lambda>p :: dbl \<times> json. - k (snd p)"
    have p: "fst p = Fin (k (snd p))" if "p \<in> set ?ps" for p
      using that by (auto simp: set_zip)
    have "js_sort ?lt ?ps \<noteq> []" using 2 by (simp only: js_sort_Nil) simp
    then obtain p ps where s: "js_sort ?lt ?ps = p # ps" by (cases "js_sort ?lt ?ps") auto
    have y: "y = snd p" using r m [of xs] 2 s by (simp add: newest_def)
    have lt: "?lt a b \<longleftrightarrow> ?f a < ?f b" if "a \<in> set ?ps" "b \<in> set ?ps" for a b
      using p that by simp
    have "(Fin (k x), x) \<in> set ?ps" using x by (simp add: zip_map_self)
    then have "?f p \<le> ?f (Fin (k x), x)" using js_sort_hd(2) [of ?ps ?lt ?f p ps] lt s by blast
    then show ?thesis by (simp add: y)
  qed (use x in simp)
qed

section \<open>Parts of a monitor\<close>

lemma time_of_string: "may_prop d k is_string \<Longrightarrow> \<exists>t. time_of E (obj_get d (js k)) = Inr t"
  by (erule may_prop_cases) (auto simp: time_of_def converts_def elim!: is_stringE)

lemma durationBetween_total:
  assumes "may_prop d ''startedAt'' is_string" "may_prop d ''completedAt'' is_string"
  shows "\<exists>r. durationBetween E (obj_get d (js ''startedAt'')) (obj_get d (js ''completedAt'')) = Inr r \<and>
    (case r of None \<Rightarrow> True | Some v \<Rightarrow> is_number v)"
proof -
  obtain a b where "time_of E (obj_get d (js ''startedAt'')) = Inr a" "time_of E (obj_get d (js ''completedAt'')) = Inr b"
    using assms time_of_string by meson
  then show ?thesis by (simp add: durationBetween_def Let_def)
qed

lemma with_duration_total:
  assumes v: "interface summary_required (summary_optional @ extra) v" and new: "''durationMs'' \<notin> fst ` set extra"
  shows "\<exists>d. with_duration E v = Inr d \<and> interface summary_required (summary_optional @ extra) (JObj d) \<and>
    (\<forall>k. k \<noteq> ''durationMs'' \<longrightarrow> obj_get d (js k) = json_get v k)"
proof -
  from v obtain d where d: "v = JObj d" and opt: "\<And>k P. (k, P) \<in> set (summary_optional @ extra) \<Longrightarrow> may_prop d k P"
    by (rule interfaceD) blast
  have given: "may_prop d ''durationMs'' is_number" "may_prop d ''startedAt'' is_string" "may_prop d ''completedAt'' is_string"
    by (rule opt, simp add: summary_optional_def)+
  obtain r where r: "durationBetween E (obj_get d (js ''startedAt'')) (obj_get d (js ''completedAt'')) = Inr r"
    "case r of None \<Rightarrow> True | Some v \<Rightarrow> is_number v"
    using durationBetween_total [OF given(2,3)] by blast
  define out where "out = (if nullish (obj_get d (js ''durationMs'')) then r else obj_get d (js ''durationMs''))"
  have w: "with_duration E v = Inr (put ''durationMs'' out d)"
    by (simp add: with_duration_def d out_def r(1))
  have num: "case out of None \<Rightarrow> True | Some v \<Rightarrow> is_number v"
    using r(2) given(1) by (auto simp: out_def elim!: may_prop_cases split: option.splits)
  have "interface summary_required (summary_optional @ extra) (JObj (put ''durationMs'' out d))"
  proof (rule interface_put)
    show "interface summary_required (summary_optional @ extra) (JObj d)" using v d by simp
    fix P assume "(''durationMs'', P) \<in> set summary_required \<union> set (summary_optional @ extra)"
    then have "P = is_number" "(''durationMs'', P) \<notin> set summary_required"
      using new by (force simp: summary_required_def summary_optional_def image_iff)+
    then show "case out of None \<Rightarrow> (''durationMs'', P) \<notin> set summary_required | Some x \<Rightarrow> P x"
      using num by (auto split: option.splits)
  qed
  with w d show ?thesis by auto
qed

lemma list_of_array: "may_prop d k (is_array P) \<Longrightarrow>
    \<exists>r. list_of (obj_get d (js k)) = Inr r \<and> r = map_option (\<lambda>v. case v of JArr vs \<Rightarrow> vs | _ \<Rightarrow> []) (obj_get d (js k))"
  by (erule may_prop_cases) (auto simp: list_of_def elim!: is_arrayE)

text \<open>An optional list of a type, as the normaliser has it.\<close>

definition lists :: "(json \<Rightarrow> bool) \<Rightarrow> json option \<Rightarrow> bool" where
  "lists P v \<longleftrightarrow> (case v of None \<Rightarrow> True | Some x \<Rightarrow> is_array P x)"

lemma lists_cases:
  assumes "lists P v"
  obtains "v = None" | vs where "v = Some (JArr vs)" "list_all P vs"
  using assms by (auto simp: lists_def elim!: is_arrayE split: option.splits)

lemma lists_list_of: "lists P v \<Longrightarrow> \<exists>r. list_of v = Inr r \<and> (case r of None \<Rightarrow> v = None | Some vs \<Rightarrow> v = Some (JArr vs) \<and> list_all P vs)"
  by (erule lists_cases) (auto simp: list_of_def)

lemma lists_may_prop: "may_prop d k (is_array P) \<longleftrightarrow> lists P (obj_get d (js k))"
  by (simp add: lists_def may_prop_def)

text \<open>The key a value is sorted by.\<close>

definition key_of :: "(json \<Rightarrow> web_error + dbl) \<Rightarrow> json \<Rightarrow> dbl" where
  "key_of key x = (case key x of Inl e \<Rightarrow> NaN | Inr k \<Rightarrow> k)"

lemma key_of: "\<exists>k. key x = Inr k \<Longrightarrow> key x = Inr (key_of key x)"
  by (auto simp: key_of_def)

lemma observed_at_total: "WebObservation v \<Longrightarrow> observed_at E v = Inr (key_of (observed_at E) v)"
proof (rule key_of)
  assume "WebObservation v"
  then obtain d where d: "v = JObj d" and "has_prop d ''observedAt'' is_string"
    unfolding WebObservation_def by (rule interfaceD) simp
  then obtain s where "obj_get d (js ''observedAt'') = Some (JStr s)"
    by (auto simp: has_prop_def elim!: is_stringE split: option.splits)
  then show "\<exists>k. observed_at E v = Inr k" by (simp add: observed_at_def d time_of_def converts_def)
qed

lemma generation_total:
  assumes "MonitorRevision v"
  obtains x where "json_get v ''generation'' = Some (JNum x)" "generation v = Inr x"
proof -
  from assms obtain d where d: "v = JObj d" and "has_prop d ''generation'' is_number"
    unfolding MonitorRevision_def by (rule interfaceD) simp
  then obtain x where "obj_get d (js ''generation'') = Some (JNum x)"
    by (auto simp: has_prop_def elim!: is_numberE split: option.splits)
  then show thesis by (intro that [of x]) (simp_all add: generation_def d converts_def)
qed

lemma revision_property: "MonitorRevision v \<Longrightarrow> property (Some v) k = Inr (json_get v k)"
  unfolding MonitorRevision_def by (erule interfaceD) simp

lemma same_id_revision: "MonitorRevision v \<Longrightarrow> same_id (Inr q) v = Inr (strict_eq (json_get v ''id'') q)"
  by (simp add: same_id_def revision_property)

text \<open>The generation of the current revision, or else the greatest of the activated ones.\<close>

lemma current_generation_total:
  assumes rs: "lists MonitorRevision revisions" and m: "property monitor ''currentRevisionId'' = Inr current"
  shows "\<exists>g. current_generation revisions monitor = Inr g \<and> (case g of None \<Rightarrow> True | Some v \<Rightarrow> is_number v)"
  using rs
proof (cases rule: lists_cases)
  case (2 xs)
  then have rev: "MonitorRevision x" if "x \<in> set xs" for x using that by (simp add: list_all_iff)
  obtain found where f: "find_throw (same_id (Inr current)) xs = Inr found"
    "case found of None \<Rightarrow> True | Some x \<Rightarrow> x \<in> set xs"
    using find_throw_total [of xs "same_id (Inr current)"] rev same_id_revision by (fastforce split: option.splits)
  let ?active = "filter (\<lambda>r. truthy (json_get r ''activatedAt'')) xs"
  have a: "filter_throw (\<lambda>r. rbind (property (Some r) ''activatedAt'') (\<lambda>a. Inr (truthy a))) xs = Inr ?active"
    by (rule filter_throw_total) (simp add: revision_property rev)
  have "\<exists>t. newest generation ?active = Inr t \<and> (case t of None \<Rightarrow> ?active = [] | Some x \<Rightarrow> x \<in> set ?active)"
    using rev by (intro newest_total [of _ _ "key_of generation"] key_of) (auto elim!: generation_total)
  then obtain t where t: "newest generation ?active = Inr t" "case t of None \<Rightarrow> True | Some x \<Rightarrow> x \<in> set xs"
    by (auto split: option.splits)
  have num: "case opt_get v ''generation'' of None \<Rightarrow> True | Some g \<Rightarrow> is_number g"
    if "case v of None \<Rightarrow> True | Some x \<Rightarrow> x \<in> set xs" for v
  proof (cases v)
    case (Some x)
    then have "MonitorRevision x" using that rev by simp
    then show ?thesis by (rule generation_total) (simp add: opt_get_def Some)
  qed (simp add: opt_get_def)
  show ?thesis
    using 2 f a t num [OF f(2)] num [OF t(2)] by (simp add: current_generation_def list_of_def m)
qed (simp add: current_generation_def list_of_def)

section \<open>The normalised monitor\<close>

text \<open>What the control plane answers about a monitor: the monitor, or the monitor beside its collections.\<close>

definition monitor_payload :: "json \<Rightarrow> bool" where
  "monitor_payload raw \<longleftrightarrow> Monitor raw \<and> json_get raw ''monitor'' = None \<or>
     interface [(''monitor'', Monitor)]
       [(''revisions'', is_array MonitorRevision), (''executions'', is_array ExecutionSummary),
        (''observations'', is_array WebObservation)] raw"

definition payload_monitor :: "json \<Rightarrow> json" where
  "payload_monitor raw = (case json_get raw ''monitor'' of None \<Rightarrow> raw | Some m \<Rightarrow> m)"

definition payload_part :: "json \<Rightarrow> string \<Rightarrow> json option" where
  "payload_part raw k = (if json_get raw ''monitor'' \<noteq> None then coalesce (json_get raw k) (json_get (payload_monitor raw) k)
     else json_get raw k)"

lemma monitor_dict:
  assumes "Monitor m"
  obtains d where "m = JObj d" "lists MonitorRevision (obj_get d (js ''revisions''))"
    "lists ExecutionSummary (obj_get d (js ''executions''))" "lists WebObservation (obj_get d (js ''observations''))"
    "may_prop d ''latestObservation'' WebObservation"
proof -
  from assms obtain d where d: "m = JObj d" and opt: "\<And>k P. (k, P) \<in> set monitor_optional \<Longrightarrow> may_prop d k P"
    unfolding Monitor_def by (rule interfaceD) blast
  show thesis
    by (rule that [OF d]) (simp_all add: opt monitor_optional_def flip: lists_may_prop)
qed

lemma payload_dict:
  assumes "monitor_payload raw"
  obtains r d where "raw = JObj r" "payload_monitor raw = JObj d" "Monitor (JObj d)"
    "lists MonitorRevision (payload_part raw ''revisions'')" "lists ExecutionSummary (payload_part raw ''executions'')"
    "lists WebObservation (payload_part raw ''observations'')" "may_prop d ''latestObservation'' WebObservation"
    "has_key raw ''monitor'' = Inr (json_get raw ''monitor'' \<noteq> None)"
  using assms unfolding monitor_payload_def
proof
  assume m: "Monitor raw \<and> json_get raw ''monitor'' = None"
  then obtain d where d: "raw = JObj d" "lists MonitorRevision (obj_get d (js ''revisions''))"
    "lists ExecutionSummary (obj_get d (js ''executions''))" "lists WebObservation (obj_get d (js ''observations''))"
    "may_prop d ''latestObservation'' WebObservation"
    using monitor_dict by blast
  then show thesis using m by (intro that [of d d]) (simp_all add: payload_monitor_def payload_part_def)
next
  let ?opt = "[(''revisions'', is_array MonitorRevision), (''executions'', is_array ExecutionSummary),
        (''observations'', is_array WebObservation)]"
  assume "interface [(''monitor'', Monitor)] ?opt raw"
  then obtain r where r: "raw = JObj r" "has_prop r ''monitor'' Monitor" "\<And>k P. (k, P) \<in> set ?opt \<Longrightarrow> may_prop r k P"
    by (rule interfaceD) simp
  then obtain m where m: "obj_get r (js ''monitor'') = Some m" "Monitor m"
    by (auto simp: has_prop_def split: option.splits)
  obtain d where d: "m = JObj d" "lists MonitorRevision (obj_get d (js ''revisions''))"
    "lists ExecutionSummary (obj_get d (js ''executions''))" "lists WebObservation (obj_get d (js ''observations''))"
    "may_prop d ''latestObservation'' WebObservation"
    using monitor_dict [OF m(2)] by blast
  have "lists P (coalesce (obj_get r (js k)) (obj_get d (js k)))"
    if "may_prop r k (is_array P)" "lists P (obj_get d (js k))" for P k
    using that by (auto simp: coalesce_def lists_may_prop)
  then show thesis using r(1) m d r(3)
    by (intro that [of r d]) (simp_all add: payload_monitor_def payload_part_def)
qed

lemma executions_total:
  assumes "lists ExecutionSummary v"
  shows "\<exists>ex. rbind (list_of v) (\<lambda>listed. case listed of None \<Rightarrow> Inr None
      | Some xs \<Rightarrow> rbind (map_throw (with_duration E) xs) (\<lambda>ds. Inr (Some (JArr (map JObj ds))))) = Inr ex \<and>
    lists ExecutionSummary ex"
  using assms
proof (cases rule: lists_cases)
  case (2 xs)
  have "\<exists>d. with_duration E x = Inr d \<and> ExecutionSummary (JObj d)" if "x \<in> set xs" for x
    using with_duration_total [of "[]" x E] 2 that
    by (auto simp: ExecutionSummary_def list_all_iff simp del: interface.simps)
  then have "\<exists>ds. map_throw (with_duration E) xs = Inr ds \<and> list_all (\<lambda>d. ExecutionSummary (JObj d)) ds \<and> length ds = length xs"
    by (intro map_throw_total)
  then show ?thesis using 2 by (auto simp: list_of_def lists_def list_all_iff)
qed (simp add: list_of_def lists_def)

lemma newest_observation_total:
  assumes "lists WebObservation v"
  shows "\<exists>seen latest. (if nullish v then Inr [] else iterate v) = Inr seen \<and> newest (observed_at E) seen = Inr latest \<and>
    (case latest of None \<Rightarrow> seen = [] | Some x \<Rightarrow> WebObservation x \<and> x \<in> set seen) \<and>
    (v = None \<and> seen = [] \<or> v = Some (JArr seen))"
  using assms
proof (cases rule: lists_cases)
  case (2 xs)
  then have w: "WebObservation x" if "x \<in> set xs" for x using that by (simp add: list_all_iff)
  obtain latest where "newest (observed_at E) xs = Inr latest" "case latest of None \<Rightarrow> xs = [] | Some x \<Rightarrow> x \<in> set xs"
    using newest_total [of xs "observed_at E" "key_of (observed_at E)"] observed_at_total w by blast
  then show ?thesis using 2 w by (auto split: option.splits)
qed (simp add: newest_def)

lemma put_monitor:
  assumes "Monitor (JObj d)" "case v of None \<Rightarrow> True | Some x \<Rightarrow> P x" "(k, P) \<in> set monitor_optional"
  shows "Monitor (JObj (put k v d))"
  unfolding Monitor_def
proof (rule interface_put)
  show "interface monitor_required monitor_optional (JObj d)" using assms(1) by (simp add: Monitor_def)
  fix Q assume "(k, Q) \<in> set monitor_required \<union> set monitor_optional"
  then have "Q = P" "(k, Q) \<notin> set monitor_required"
    using assms(3) by (auto simp: monitor_required_def monitor_optional_def)
  then show "case v of None \<Rightarrow> (k, Q) \<notin> set monitor_required | Some x \<Rightarrow> Q x"
    using assms(2) by (auto split: option.splits)
qed

text \<open>Everything the normaliser computes, on a typed payload.\<close>

lemma normalizeMonitor_total:
  assumes "monitor_payload raw"
  obtains d ex seen latest cg where "payload_monitor raw = JObj d" "Monitor (JObj d)"
    "normalizeMonitor E raw = Inr (JObj (put ''currentGeneration'' cg
       (put ''latestObservation'' (if latest = None then obj_get d (js ''latestObservation'') else latest)
       (put ''observations'' (payload_part raw ''observations'') (put ''executions'' ex
       (put ''revisions'' (payload_part raw ''revisions'') d))))))"
    "lists ExecutionSummary ex" "newest (observed_at E) seen = Inr latest"
    "payload_part raw ''observations'' = None \<and> seen = [] \<or> payload_part raw ''observations'' = Some (JArr seen)"
    "case latest of None \<Rightarrow> seen = [] | Some x \<Rightarrow> WebObservation x \<and> x \<in> set seen"
    "current_generation (payload_part raw ''revisions'') (Some (JObj d)) = Inr cg"
    "case cg of None \<Rightarrow> True | Some v \<Rightarrow> is_number v" "lists MonitorRevision (payload_part raw ''revisions'')"
    "lists WebObservation (payload_part raw ''observations'')" "may_prop d ''latestObservation'' WebObservation"
proof -
  obtain r d where p: "raw = JObj r" "payload_monitor raw = JObj d" "Monitor (JObj d)"
    "lists MonitorRevision (payload_part raw ''revisions'')" "lists ExecutionSummary (payload_part raw ''executions'')"
    "lists WebObservation (payload_part raw ''observations'')" "may_prop d ''latestObservation'' WebObservation"
    "has_key raw ''monitor'' = Inr (json_get raw ''monitor'' \<noteq> None)"
    using payload_dict [OF assms] by metis
  let ?nested = "json_get raw ''monitor'' \<noteq> None"
  have m: "(if ?nested then json_get raw ''monitor'' else Some raw) = Some (JObj d)"
    using p(2) by (auto simp: payload_monitor_def split: option.splits)
  have part: "(if ?nested \<and> \<not> nullish (json_get raw k) then Inr (json_get raw k) else property (Some (JObj d)) k)
      = Inr (payload_part raw k)" for k
    using p(2) m by (auto simp: payload_part_def coalesce_def payload_monitor_def)
  obtain ex where ex: "rbind (list_of (payload_part raw ''executions'')) (\<lambda>listed. case listed of None \<Rightarrow> Inr None
      | Some xs \<Rightarrow> rbind (map_throw (with_duration E) xs) (\<lambda>ds. Inr (Some (JArr (map JObj ds))))) = Inr ex"
    "lists ExecutionSummary ex"
    using executions_total [OF p(5)] by blast
  then obtain listed where l: "list_of (payload_part raw ''executions'') = Inr listed"
    "(case listed of None \<Rightarrow> Inr None
      | Some xs \<Rightarrow> rbind (map_throw (with_duration E) xs) (\<lambda>ds. Inr (Some (JArr (map JObj ds))))) = Inr ex"
    by (auto simp: rbind_Inr_iff)
  obtain seen latest where s: "(if nullish (payload_part raw ''observations'') then Inr []
      else iterate (payload_part raw ''observations'')) = Inr seen" "newest (observed_at E) seen = Inr latest"
    "case latest of None \<Rightarrow> seen = [] | Some x \<Rightarrow> WebObservation x \<and> x \<in> set seen"
    "payload_part raw ''observations'' = None \<and> seen = [] \<or> payload_part raw ''observations'' = Some (JArr seen)"
    using newest_observation_total [OF p(6), of E] by blast
  have null: "nullish latest \<longleftrightarrow> latest = None"
    using s(3) by (auto simp: nullish_def WebObservation_def split: option.splits)
  obtain cg where cg: "current_generation (payload_part raw ''revisions'') (Some (JObj d)) = Inr cg"
    "case cg of None \<Rightarrow> True | Some v \<Rightarrow> is_number v"
    using current_generation_total [OF p(4) property_JObj] by blast
  have "normalizeMonitor E raw = Inr (JObj (put ''currentGeneration'' cg
       (put ''latestObservation'' (if latest = None then obj_get d (js ''latestObservation'') else latest)
       (put ''observations'' (payload_part raw ''observations'') (put ''executions'' ex
       (put ''revisions'' (payload_part raw ''revisions'') d))))))"
    by (simp only: normalizeMonitor_def p(8) rbind_simps Let_def m part l s(1,2) cg(1)) (simp add: null)
  then show thesis using that p ex(2) s cg by blast
qed

text \<open>
  C20. On an answer of the declared type, the client's normalisation of a monitor never throws and
  returns a value of the declared type \<open>Monitor\<close> that keeps every property of the answer's monitor but
  the five it computes.
\<close>

theorem monitor_normalised:
  assumes "monitor_payload raw"
  shows "\<exists>m. normalizeMonitor E raw = Inr m \<and> Monitor m \<and>
    (\<forall>k. k \<notin> {''revisions'', ''executions'', ''observations'', ''latestObservation'', ''currentGeneration''} \<longrightarrow>
       json_get m k = json_get (payload_monitor raw) k)"
  using assms
proof (rule normalizeMonitor_total [where E = E])
  fix d ex seen latest cg
  assume d: "payload_monitor raw = JObj d" "Monitor (JObj d)" and n: "normalizeMonitor E raw =
      Inr (JObj (put ''currentGeneration'' cg
       (put ''latestObservation'' (if latest = None then obj_get d (js ''latestObservation'') else latest)
       (put ''observations'' (payload_part raw ''observations'') (put ''executions'' ex
       (put ''revisions'' (payload_part raw ''revisions'') d))))))"
    and t: "lists ExecutionSummary ex" "case latest of None \<Rightarrow> seen = [] | Some x \<Rightarrow> WebObservation x \<and> x \<in> set seen"
      "case cg of None \<Rightarrow> True | Some v \<Rightarrow> is_number v" "lists MonitorRevision (payload_part raw ''revisions'')"
      "lists WebObservation (payload_part raw ''observations'')" "may_prop d ''latestObservation'' WebObservation"
  have "case (if latest = None then obj_get d (js ''latestObservation'') else latest) of None \<Rightarrow> True | Some x \<Rightarrow> WebObservation x"
    using t(2,6) by (auto simp: may_prop_def split: option.splits)
  then have "Monitor (JObj (put ''currentGeneration'' cg
       (put ''latestObservation'' (if latest = None then obj_get d (js ''latestObservation'') else latest)
       (put ''observations'' (payload_part raw ''observations'') (put ''executions'' ex
       (put ''revisions'' (payload_part raw ''revisions'') d)))))) "
    using t by (intro put_monitor d(2)) (simp_all add: monitor_optional_def lists_def)
  then show ?thesis using n d(1) by simp
qed

section \<open>The latest observation and the current generation\<close>

lemma find_throw_find: "(\<And>x. x \<in> set xs \<Longrightarrow> P x = Inr (p x)) \<Longrightarrow> find_throw P xs = Inr (find p xs)"
  by (induction xs) auto

lemma newest_greatest:
  assumes "\<And>x. x \<in> set xs \<Longrightarrow> key x = Inr (Fin (k x))"
  shows "if xs = [] then newest key xs = Inr None
    else \<exists>y \<in> set xs. newest key xs = Inr (Some y) \<and> (\<forall>x \<in> set xs. k x \<le> k y)"
proof -
  obtain r where r: "newest key xs = Inr r" "case r of None \<Rightarrow> xs = [] | Some x \<Rightarrow> x \<in> set xs"
    using newest_total [of xs key "\<lambda>x. Fin (k x)"] assms by auto
  show ?thesis
  proof (cases r)
    case (Some y)
    then have "y \<in> set xs" "newest key xs = Inr (Some y)" using r by simp_all
    then show ?thesis using newest_max [of xs key k y] assms by (cases xs) auto
  qed (use r in simp)
qed

definition named_revision :: "json option \<Rightarrow> json list \<Rightarrow> json option" where
  "named_revision current rs = find (\<lambda>r. strict_eq (json_get r ''id'') current) rs"

definition activated :: "json list \<Rightarrow> json list" where
  "activated rs = filter (\<lambda>r. truthy (json_get r ''activatedAt'')) rs"

lemma finite_generation:
  assumes "MonitorRevision r" "generation r = Inr (Fin x)"
  shows "json_get r ''generation'' = Some (JNum (Fin x))"
  using generation_total [OF assms(1)] assms(2) by (metis sum.inject(2))

lemma current_generation_value:
  assumes rev: "list_all MonitorRevision rs" and gen: "\<And>r. r \<in> set rs \<Longrightarrow> generation r = Inr (Fin (gen r))"
    and m: "property monitor ''currentRevisionId'' = Inr current"
    and c: "current_generation (Some (JArr rs)) monitor = Inr g"
  shows "case named_revision current rs of Some r \<Rightarrow> r \<in> set rs \<and> g = Some (JNum (Fin (gen r)))
    | None \<Rightarrow> if activated rs = [] then g = None
        else \<exists>r \<in> set (activated rs). g = Some (JNum (Fin (gen r))) \<and> (\<forall>q \<in> set (activated rs). gen q \<le> gen r)"
proof -
  have r: "MonitorRevision x" if "x \<in> set rs" for x using rev that by (simp add: list_all_iff)
  have f: "find_throw (same_id (Inr current)) rs = Inr (named_revision current rs)"
    unfolding named_revision_def by (rule find_throw_find) (rule same_id_revision [OF r])
  have g: "json_get x ''generation'' = Some (JNum (Fin (gen x)))" if "x \<in> set rs" for x
    using finite_generation [OF r gen] that by simp
  have a: "filter_throw (\<lambda>r. rbind (property (Some r) ''activatedAt'') (\<lambda>a. Inr (truthy a))) rs = Inr (activated rs)"
    unfolding activated_def by (rule filter_throw_total) (simp add: revision_property r)
  have sub: "set (activated rs) \<subseteq> set rs" by (auto simp: activated_def)
  show ?thesis
  proof (cases "named_revision current rs")
    case (Some x)
    then have "x \<in> set rs" by (auto simp: named_revision_def find_Some_iff)
    then show ?thesis using c f Some g by (simp add: current_generation_def list_of_def m opt_get_def)
  next
    case None
    have n: "if activated rs = [] then newest generation (activated rs) = Inr None
      else \<exists>y \<in> set (activated rs). newest generation (activated rs) = Inr (Some y) \<and> (\<forall>x \<in> set (activated rs). gen x \<le> gen y)"
      using sub gen by (intro newest_greatest) blast
    show ?thesis
    proof (cases "activated rs = []")
      case True
      then show ?thesis using c f a n None by (simp add: current_generation_def list_of_def m opt_get_def newest_def)
    next
      case False
      then obtain y where y: "y \<in> set (activated rs)" "newest generation (activated rs) = Inr (Some y)"
        "\<forall>x \<in> set (activated rs). gen x \<le> gen y" using n by auto
      then have "g = Some (JNum (Fin (gen y)))"
        using c f a None g [of y] sub by (auto simp: current_generation_def list_of_def m opt_get_def)
      then show ?thesis using None False y by auto
    qed
  qed
qed

text \<open>
  C21. The observation the client calls the latest of a monitor is one of its observations, and none was
  observed later; without observations the monitor's own is kept. The current generation is that of
  the revision the monitor names, or, when it names none of them, the greatest of the activated ones.
\<close>

theorem latest_and_current:
  assumes "monitor_payload raw" "normalizeMonitor E raw = Inr m"
    and obs: "payload_part raw ''observations'' = Some (JArr seen)"
      "\<And>x. x \<in> set seen \<Longrightarrow> observed_at E x = Inr (Fin (time x))"
    and rev: "payload_part raw ''revisions'' = Some (JArr rs)" "\<And>r. r \<in> set rs \<Longrightarrow> generation r = Inr (Fin (gen r))"
  shows "(if seen = [] then json_get m ''latestObservation'' = json_get (payload_monitor raw) ''latestObservation''
      else \<exists>x \<in> set seen. json_get m ''latestObservation'' = Some x \<and> (\<forall>y \<in> set seen. time y \<le> time x)) \<and>
    (case named_revision (json_get (payload_monitor raw) ''currentRevisionId'') rs of
      Some r \<Rightarrow> json_get m ''currentGeneration'' = Some (JNum (Fin (gen r)))
    | None \<Rightarrow>
        if activated rs = [] then json_get m ''currentGeneration'' = None
        else \<exists>r \<in> set (activated rs). json_get m ''currentGeneration'' = Some (JNum (Fin (gen r))) \<and>
               (\<forall>q \<in> set (activated rs). gen q \<le> gen r))"
  using assms(1)
proof (rule normalizeMonitor_total [where E = E])
  fix d ex seen' latest cg
  assume d: "payload_monitor raw = JObj d" and n: "normalizeMonitor E raw = Inr (JObj (put ''currentGeneration'' cg
       (put ''latestObservation'' (if latest = None then obj_get d (js ''latestObservation'') else latest)
       (put ''observations'' (payload_part raw ''observations'') (put ''executions'' ex
       (put ''revisions'' (payload_part raw ''revisions'') d))))))"
    and s: "newest (observed_at E) seen' = Inr latest"
      "payload_part raw ''observations'' = None \<and> seen' = [] \<or> payload_part raw ''observations'' = Some (JArr seen')"
    and c: "current_generation (payload_part raw ''revisions'') (Some (JObj d)) = Inr cg"
    and l: "lists MonitorRevision (payload_part raw ''revisions'')"
  have "seen' = seen" "list_all MonitorRevision rs" using s(2) obs(1) l rev(1) by (auto simp: lists_def)
  moreover note newest_greatest [of seen "observed_at E" time, OF obs(2)]
    current_generation_value [of rs gen "Some (JObj d)", OF _ rev(2) property_JObj]
  ultimately show ?thesis
    using s(1) c n d assms(2) rev(1) by (auto split: if_splits option.splits)
qed

section \<open>The normalised execution\<close>

lemma literal_one_of: "literal names v = Some x \<Longrightarrow> one_of names x"
  by (auto simp: literal_def one_of_def split: if_splits)

lemma numericRecord_record: "numericRecord v = Some d \<Longrightarrow> list_all (\<lambda>(k, x). \<exists>q. x = JNum (Fin q) \<and> 0 \<le> q) d"
  by (fastforce simp: numericRecord_def list_all_iff dle_def Let_def split: option.splits if_splits json.splits dbl.splits
      elim!: is_finite.elims)

lemma diagnostics_typed:
  assumes "diagnostics_of source = Some v"
  shows "ExecutionDiagnostics v \<and> (\<forall>n. json_get v ''modelCallCount'' = Some n \<longrightarrow> natural (Some n)) \<and>
    (\<forall>t. json_get v ''timingsMs'' = Some t \<longrightarrow> is_record (\<lambda>x. \<exists>q. x = JNum (Fin q) \<and> 0 \<le> q) t)"
proof -
  define t r c n where "t = numericRecord (opt_get source ''timingsMs'')"
    and "r = literal [''scripted'', ''stagehand''] (opt_get source ''repairSource'')"
    and "c = literal [''HIT'', ''MISS''] (opt_get source ''cacheStatus'')"
    and "n = (if natural (opt_get source ''modelCallCount'') then opt_get source ''modelCallCount'' else None)"
  have v: "v = JObj (put ''timingsMs'' (map_option JObj t) (put ''repairSource'' r (put ''cacheStatus'' c
      (put ''modelCallCount'' n []))))"
    using assms unfolding diagnostics_of_def Let_def t_def [symmetric] r_def [symmetric] c_def [symmetric]
      n_def [symmetric] by (simp split: if_splits)
  have n: "case n of None \<Rightarrow> True | Some x \<Rightarrow> is_number x \<and> natural (Some x)"
    by (auto simp: n_def natural_def split: option.splits json.splits)
  have r: "case r of None \<Rightarrow> True | Some x \<Rightarrow> one_of [''scripted'', ''stagehand''] x"
    and c: "case c of None \<Rightarrow> True | Some x \<Rightarrow> one_of [''HIT'', ''MISS''] x"
    using literal_one_of by (auto simp: r_def c_def split: option.splits)
  have t: "case t of None \<Rightarrow> True | Some d \<Rightarrow> list_all (\<lambda>(k, x). \<exists>q. x = JNum (Fin q) \<and> 0 \<le> q) d"
    using numericRecord_record by (auto simp: t_def split: option.splits)
  then have t': "case map_option JObj t of None \<Rightarrow> True | Some x \<Rightarrow> is_record is_number x"
    by (fastforce simp: list_all_iff split: option.splits)
  have "ExecutionDiagnostics v"
    unfolding v ExecutionDiagnostics_def using n r c t'
    by (simp add: may_prop_put split: option.splits)
  then show ?thesis using n t by (auto simp: v split: option.splits)
qed

text \<open>
  C23. On an answer of the declared type, whatever its undeclared \<open>result\<close> holds, the normalisation of an
  execution never throws and returns an \<open>Execution\<close> that keeps every property but the duration and
  the diagnostics; the diagnostics have a natural number of model calls and finite, non-negative timings.
\<close>

theorem execution_normalised:
  assumes "Execution raw"
  shows "\<exists>e. normalizeExecution E raw = Inr e \<and> Execution e \<and>
    (\<forall>k. k \<notin> {''durationMs'', ''diagnostics''} \<longrightarrow> json_get e k = json_get raw k) \<and>
    (\<forall>v. json_get e ''diagnostics'' = Some v \<longrightarrow>
       (\<forall>n. json_get v ''modelCallCount'' = Some n \<longrightarrow> natural (Some n)) \<and>
       (\<forall>t. json_get v ''timingsMs'' = Some t \<longrightarrow> is_record (\<lambda>x. \<exists>q. x = JNum (Fin q) \<and> 0 \<le> q) t))"
proof -
  let ?extra = "[(''observation'', WebObservation), (''artifacts'', is_array Artifact), (''steps'', is_array TraceStep),
      (''error'', error_view), (''browserSessionUrl'', is_string), (''traceId'', is_string),
      (''diagnostics'', ExecutionDiagnostics)]"
  have v: "interface summary_required (summary_optional @ ?extra) raw" using assms by (simp add: Execution_def)
  obtain d where d: "with_duration E raw = Inr d" "interface summary_required (summary_optional @ ?extra) (JObj d)"
    "\<forall>k. k \<noteq> ''durationMs'' \<longrightarrow> obj_get d (js k) = json_get raw k"
    using with_duration_total [OF v] by auto
  obtain r where r: "raw = JObj r" using v by (rule interfaceD)
  obtain src where n: "normalizeExecution E raw = Inr (JObj (put ''diagnostics'' (diagnostics_of src) d))"
    using d(1) by (simp add: normalizeExecution_def r Let_def)
  have "Execution (JObj (put ''diagnostics'' (diagnostics_of src) d))"
    unfolding Execution_def
  proof (rule interface_put [OF d(2)])
    fix P assume "(''diagnostics'', P) \<in> set summary_required \<union> set (summary_optional @ ?extra)"
    then have "P = ExecutionDiagnostics" "(''diagnostics'', P) \<notin> set summary_required"
      by (auto simp: summary_required_def summary_optional_def)
    then show "case diagnostics_of src of None \<Rightarrow> (''diagnostics'', P) \<notin> set summary_required | Some x \<Rightarrow> P x"
      using diagnostics_typed by (auto split: option.splits)
  qed
  then show ?thesis using n d(3) diagnostics_typed by auto
qed

end
