(* ===== verification/WebRequests.thy ===== *)
theory WebRequests
  imports WebLaws UrlPath
begin

text \<open>
  What the client sends and what it makes of refusals, and the review of a revision, with a concrete
  server on which the operations run.
\<close>

section \<open>Rules\<close>

lemma web_lift_run [simp]: "web_lift r w = (r, w)"
  by (simp add: web_lift_def)

lemma web_bind_Inr: "web_bind m f w = (Inr y, w') \<longleftrightarrow> (\<exists>x w1. m w = (Inr x, w1) \<and> f x w1 = (Inr y, w'))"
  by (auto simp: web_bind_def split: prod.splits sum.splits)

lemma web_bind_lift [simp]: "web_bind (web_lift (Inr x)) f = f x"
  by (simp add: web_bind_def web_lift_def)

text \<open>\<open>sends Q m\<close>: the program only adds requests that satisfy \<open>Q\<close>.\<close>

definition sends :: "(web_request \<Rightarrow> bool) \<Rightarrow> 'a web \<Rightarrow> bool" where
  "sends Q m \<longleftrightarrow> (\<forall>w. \<exists>rqs. snd (m w) = w @ rqs \<and> list_all Q rqs)"

lemma sends_lift: "sends Q (web_lift r)"
  by (simp add: sends_def)

lemma sends_bind:
  assumes "sends Q m" "\<And>x. sends Q (f x)"
  shows "sends Q (web_bind m f)"
  unfolding sends_def
proof
  fix w
  obtain r w1 where m: "m w = (r, w1)" by fastforce
  then obtain rqs where a: "w1 = w @ rqs" "list_all Q rqs" using assms(1) unfolding sends_def by (metis snd_conv)
  show "\<exists>rqs. snd (web_bind m f w) = w @ rqs \<and> list_all Q rqs"
  proof (cases r)
    case (Inr x)
    obtain more where "snd (f x w1) = w1 @ more" "list_all Q more" using assms(2) unfolding sends_def by blast
    then show ?thesis using a m Inr by (intro exI [of _ "rqs @ more"]) (simp add: web_bind_def)
  qed (use a m in \<open>auto simp: web_bind_def\<close>)
qed

lemma sends_bind_lift:
  assumes "\<And>x. r = Inr x \<Longrightarrow> sends Q (f x)"
  shows "sends Q (web_bind (web_lift r) f)"
  using assms by (cases r) (auto simp: sends_def web_bind_def)

definition request_of :: "web_env \<Rightarrow> jsstr \<Rightarrow> request_init \<Rightarrow> web_request" where
  "request_of E path init = \<lparr>wq_url = baseUrl E @ path, wq_method = ri_method init,
     wq_headers = request_headers init, wq_body = ri_body init\<rparr>"

lemma sends_request: "Q (request_of E path init) \<Longrightarrow> sends Q (request E path init)"
  unfolding request_def request_of_def [symmetric]
  by (intro sends_bind) (auto simp: sends_def fetch_def web_body_def)

section \<open>Refusals\<close>

lemma request_run:
  "request E path init w =
    (case we_fetch E w (request_of E path init) of
       None \<Rightarrow> Inl NetworkErr
     | Some response \<Rightarrow>
        rbind (fst (web_body response w)) (\<lambda>body.
          if \<not> ok response then Inl (api_error (wr_status response) body) else Inr (unwrap body)),
     w @ [request_of E path init])"
  unfolding request_def request_of_def [symmetric]
  by (auto simp: web_bind_def fetch_def web_body_def Let_def split: option.splits sum.splits)

text \<open>
  A request to the control plane that is refused never yields a value: it throws an \<open>ApiError\<close> with
  the status, whose message is the message the control plane put under \<open>error\<close>, or the text of an
  answer that is not JSON. A request that yields a value was answered with a success.
\<close>

theorem refusals_reported:
  assumes "we_fetch E w (request_of E path init) = Some response" "wr_body response = Some t"
  shows "(\<not> ok response \<longrightarrow>
      (\<nexists>v. fst (request E path init w) = Inr v) \<and>
      (\<not> str_includes (case wr_content_type response of None \<Rightarrow> [] | Some c \<Rightarrow> c) (js ''application/json'') \<longrightarrow>
         fst (request E path init w) = Inl (ApiError t (wr_status response) None)) \<and>
      (\<forall>v m. wr_content_type response = Some (js ''application/json'') \<and> json_parse t = Some v \<and>
         json_get v ''message'' = None \<and> opt_get (json_get v ''error'') ''message'' = Some (JStr m) \<longrightarrow>
         (\<exists>d. fst (request E path init w) = Inl (ApiError m (wr_status response) d)))) \<and>
    (\<forall>v. fst (request E path init w) = Inr v \<longrightarrow> ok response)"
proof -
  have i: "str_includes (js ''application/json'') (js ''application/json'')"
    by (auto simp: str_includes_iff intro: exI [of _ "[]"])
  have m: "api_error n v = ApiError m n (coalesce (json_get v ''details'') (opt_get (json_get v ''error'') ''details''))"
    if a: "json_get v ''message'' = None" "opt_get (json_get v ''error'') ''message'' = Some (JStr m)" for n v m
  proof -
    obtain d e where "v = JObj d" "obj_get d (js ''error'') = Some (JObj e)"
      using a(2) by (cases v; cases "json_get v ''error''") (auto simp: opt_get_def elim!: json_get.elims)
    then show ?thesis using a
      by (simp add: api_error_def Let_def opt_get_def coalesce_def to_text_def)
  qed
  have t: "api_error n (JStr u) = ApiError u n None" for n u
    by (simp add: api_error_def Let_def opt_get_def coalesce_def to_text_def)
  show ?thesis
    using assms i by (auto simp: request_run web_body_def Let_def m t rbind_Inr_iff)
qed

text \<open>
  The fallback \<open>Request failed (status)\<close> is for a refusal without a message, but only the JSON value
  \<open>null\<close> reaches it: an empty answer gives an empty message, and an object without a message its type.
\<close>

lemma empty_refusal_without_message:
  "api_error 502 (JStr []) = ApiError [] 502 None"
  "api_error 500 (JObj [(js ''code'', JStr (js ''x''))]) = ApiError (js ''[object Object]'') 500 None"
  "api_error 500 JNull = ApiError (js ''Request failed (500)'') 500 None"
  by code_simp+

section \<open>Requests about a monitor\<close>

text \<open>
  A program that sends exactly one request, whatever the answer: the initialisation given, to the
  path of the segments given below the configured base, which \<open>fetch\<close> keeps as it is.
\<close>

definition asks_once :: "web_env \<Rightarrow> jsstr list \<Rightarrow> (web_request list \<Rightarrow> request_init) \<Rightarrow> 'a web \<Rightarrow> bool" where
  "asks_once E segs init m \<longleftrightarrow> (\<forall>w. snd (m w) = w @ [request_of E (slashed segs) (init w)]) \<and>
     (\<forall>address. fetched_segments (address @ segs) = resolve_dots [] address @ segs)"

lemma snd_request: "snd (request E path init w) = w @ [request_of E path init]"
  by (simp add: request_run)

lemma snd_bind_silent:
  assumes "\<And>x v. snd (f x v) = v"
  shows "snd (web_bind m f w) = snd (m w)"
  using assms by (auto simp: web_bind_def split: prod.splits sum.splits)

lemma snd_bind_lift: "snd (web_bind (web_lift r) f w) = (case r of Inl e \<Rightarrow> w | Inr x \<Rightarrow> snd (f x w))"
  by (simp add: web_bind_def web_lift_def split: sum.splits)

lemma snd_lift [simp]: "snd (web_lift r w) = w"
  by (simp add: web_lift_def)

text \<open>The parts of the paths that are fixed.\<close>

lemma path_words:
  "list_all plain_segment (map js [''api'', ''v1'', ''monitors'', ''executions'', ''confirm'', ''checks'', ''reviews'',
     ''accept'', ''reject''])"
  by code_simp

lemma asks_onceI:
  assumes "\<And>w. snd (m w) = w @ [request_of E path (init w)]" "path = slashed segs" "list_all plain_segment segs" "segs \<noteq> []"
  shows "asks_once E segs init m"
  using assms fetched_plain by (auto simp: asks_once_def)

lemma request_monitor_once:
  assumes e: "encode_component ident = Some i" "path_id ident" and rest: "list_all plain_segment tail" "rest = slashed tail"
  shows "asks_once E ([js ''api'', js ''v1'', js ''monitors'', i] @ tail) (\<lambda>_. init) (request_monitor E ident rest init)"
proof (rule asks_onceI)
  show "snd (request_monitor E ident rest init w) = w @ [request_of E (js ''/api/v1/monitors/'' @ i @ rest) init]" for w
    by (simp add: request_monitor_def monitor_path_def encoded_def e(1) snd_bind_silent snd_request)
  show "js ''/api/v1/monitors/'' @ i @ rest = slashed ([js ''api'', js ''v1'', js ''monitors'', i] @ tail)"
    unfolding rest(2) by (simp add: js_def slashed_def)
  show "list_all plain_segment ([js ''api'', js ''v1'', js ''monitors'', i] @ tail)"
    using rest(1) encoded_plain [OF e] path_words by simp
qed simp

lemma runCheck_once:
  assumes e: "encode_component ident = Some i" "path_id ident"
  shows "asks_once E [js ''api'', js ''v1'', js ''monitors'', i, js ''checks'']
    (\<lambda>w. \<lparr>ri_method = js ''POST'', ri_headers = [(js ''idempotency-key'', we_uuid E w)], ri_body = None\<rparr>) (runCheck E ident)"
proof (rule asks_onceI)
  have silent: "snd (web_bind (web_lift (has_key x ''execution'')) (\<lambda>queued.
     if queued
     then web_bind (web_lift (property (json_get x ''execution'') ''id'')) (\<lambda>i.
       web_lift (Inr (JObj (put ''executionId'' i []))))
     else web_lift (Inr x)) v) = v" for x v
    by (simp add: snd_bind_lift split: sum.splits)
  show "snd (runCheck E ident w) = w @ [request_of E (js ''/api/v1/monitors/'' @ i @ js ''/checks'')
      \<lparr>ri_method = js ''POST'', ri_headers = [(js ''idempotency-key'', we_uuid E w)], ri_body = None\<rparr>]" for w
    by (simp add: runCheck_def monitor_path_def encoded_def e(1) snd_bind_silent silent snd_request)
  show "js ''/api/v1/monitors/'' @ i @ js ''/checks'' = slashed [js ''api'', js ''v1'', js ''monitors'', i, js ''checks'']"
    by (simp add: js_def)
  show "list_all plain_segment [js ''api'', js ''v1'', js ''monitors'', i, js ''checks'']"
    using encoded_plain [OF e] path_words by simp
qed simp

lemma getExecution_once:
  assumes e: "encode_component ident = Some i" "path_id ident"
  shows "asks_once E [js ''api'', js ''v1'', js ''executions'', i] (\<lambda>_. no_init) (getExecution E ident)"
proof (rule asks_onceI)
  show "snd (getExecution E ident w) = w @ [request_of E (js ''/api/v1/executions/'' @ i) no_init]" for w
    by (simp add: getExecution_def encoded_def e(1) snd_bind_silent snd_request)
  show "js ''/api/v1/executions/'' @ i = slashed [js ''api'', js ''v1'', js ''executions'', i]"
    by (simp add: js_def)
  show "list_all plain_segment [js ''api'', js ''v1'', js ''executions'', i]"
    using encoded_plain [OF e] path_words by simp
qed simp

text \<open>
  C24. The operations on a monitor, a candidate revision and an execution each send exactly one
  request, whatever comes back, for every identifier but the empty one, \<open>.\<close> and \<open>..\<close>: a GET, PATCH
  or POST of the path that belongs to the operation, in which the monitor, the revision and the
  execution are the encodings of the identifiers given and the verdict is the one given, below
  the configured base; an update with the changes as its body, a confirmation with the id of
  the revision and the condition, a check with a fresh idempotency key. The path is what \<open>fetch\<close>
  requests: its removal of dot segments leaves it as it is.
\<close>

theorem client_requests_contained:
  assumes "encode_component ident = Some i" "path_id ident" "encode_component revision = Some v" "path_id revision"
  shows "asks_once E [js ''api'', js ''v1'', js ''monitors'', i]
      (\<lambda>_. \<lparr>ri_method = js ''GET'', ri_headers = [], ri_body = None\<rparr>) (getMonitor E ident) \<and>
    asks_once E [js ''api'', js ''v1'', js ''monitors'', i]
      (\<lambda>_. \<lparr>ri_method = js ''PATCH'', ri_headers = [], ri_body = Some (json_stringify input)\<rparr>)
      (updateMonitor E ident input) \<and>
    asks_once E [js ''api'', js ''v1'', js ''monitors'', i, js ''confirm'']
      (\<lambda>_. \<lparr>ri_method = js ''POST'', ri_headers = [], ri_body = Some (json_stringify
         (JObj (put ''condition'' condition (put ''revisionId'' (json_get r ''id'') []))))\<rparr>)
      (confirmMonitor E ident r condition) \<and>
    asks_once E [js ''api'', js ''v1'', js ''monitors'', i, js ''reviews'', v, js (if accept then ''accept'' else ''reject'')]
      (\<lambda>_. \<lparr>ri_method = js ''POST'', ri_headers = [], ri_body = None\<rparr>) (reviewRevision E ident revision accept) \<and>
    asks_once E [js ''api'', js ''v1'', js ''monitors'', i, js ''checks'']
      (\<lambda>w. \<lparr>ri_method = js ''POST'', ri_headers = [(js ''idempotency-key'', we_uuid E w)], ri_body = None\<rparr>)
      (runCheck E ident) \<and>
    asks_once E [js ''api'', js ''v1'', js ''executions'', i]
      (\<lambda>_. \<lparr>ri_method = js ''GET'', ri_headers = [], ri_body = None\<rparr>) (getExecution E ident)"
proof -
  note once = request_monitor_once [OF assms(1,2)]
  have "list_all plain_segment [js ''reviews'', v, js (if accept then ''accept'' else ''reject'')]"
    using encoded_plain [OF assms(3,4)] path_words by simp
  moreover have "js ''/reviews/'' @ v @ js (if accept then ''/accept'' else ''/reject'') =
      slashed [js ''reviews'', v, js (if accept then ''accept'' else ''reject'')]"
    by (simp add: js_def)
  ultimately have "asks_once E [js ''api'', js ''v1'', js ''monitors'', i, js ''reviews'', v, js (if accept then ''accept'' else ''reject'')]
      (\<lambda>_. \<lparr>ri_method = js ''POST'', ri_headers = [], ri_body = None\<rparr>) (reviewRevision E ident revision accept)"
    using once [of "[js ''reviews'', v, js (if accept then ''accept'' else ''reject'')]"]
    by (simp add: reviewRevision_def encoded_def assms(1,3))
  moreover have "js ''/confirm'' = slashed [js ''confirm'']" by (simp add: js_def)
  then have "asks_once E [js ''api'', js ''v1'', js ''monitors'', i, js ''confirm'']
      (\<lambda>_. \<lparr>ri_method = js ''POST'', ri_headers = [], ri_body = Some (json_stringify
         (JObj (put ''condition'' condition (put ''revisionId'' (json_get r ''id'') []))))\<rparr>)
      (confirmMonitor E ident r condition)"
    using once [of "[js ''confirm'']"] path_words
    by (simp add: confirmMonitor_def sending_def del: json_stringify.simps)
  moreover have "asks_once E [js ''api'', js ''v1'', js ''monitors'', i]
      (\<lambda>_. \<lparr>ri_method = js ''GET'', ri_headers = [], ri_body = None\<rparr>) (getMonitor E ident)"
    "asks_once E [js ''api'', js ''v1'', js ''monitors'', i]
      (\<lambda>_. \<lparr>ri_method = js ''PATCH'', ri_headers = [], ri_body = Some (json_stringify input)\<rparr>)
      (updateMonitor E ident input)"
    using once [of "[]" "[]" E] by (simp_all add: getMonitor_def updateMonitor_def no_init_def sending_def del: json_stringify.simps)
  ultimately show ?thesis
    using runCheck_once [OF assms(1,2)] getExecution_once [OF assms(1,2)] by (simp add: no_init_def)
qed

text \<open>The identifier \<open>..\<close> takes the collection away from the path.\<close>

lemma parent_monitor_escapes:
  "monitor_path (js ''..'') (js ''/checks'') = Inr (slashed [js ''api'', js ''v1'', js ''monitors'', js ''..'', js ''checks'']) \<and>
   fetched_segments [js ''api'', js ''v1'', js ''monitors'', js ''..'', js ''checks''] = [js ''api'', js ''v1'', js ''checks'']"
  by code_simp

section \<open>The review\<close>

definition evidence_of :: "web_env \<Rightarrow> json option \<Rightarrow> json option web" where
  "evidence_of E candidate =
     (case candidate of
        None \<Rightarrow> web_lift (Inr None)
      | Some c \<Rightarrow>
         web_bind (web_lift (rbind (to_text (json_get c ''id'')) (\<lambda>i. rbind (encoded i) (\<lambda>_. Inr i)))) (\<lambda>i.
         web_optional (getExecution E i)))"

lemma getReview_run:
  assumes "getReview E monitorId revisionId w = (Inr rv, w')"
  obtains m w1 listed r previous candidate execution w2 cs where
    "getMonitor E monitorId w = (Inr m, w1)" "list_of (json_get m ''revisions'') = Inr listed"
    "find_throw (same_id (Inr (Some (JStr revisionId)))) (case listed of None \<Rightarrow> [] | Some xs \<Rightarrow> xs) = Inr (Some r)"
    "previous_revision r (json_get m ''revisions'') = Inr previous"
    "candidate_execution E r (json_get m ''executions'') = Inr candidate"
    "evidence_of E candidate w1 = (Inr execution, w2)"
    "changes previous r = Inr cs" "rv = review m r execution previous cs"
proof -
  obtain m w1 listed found where m: "getMonitor E monitorId w = (Inr m, w1)" "list_of (json_get m ''revisions'') = Inr listed"
    "find_throw (same_id (Inr (Some (JStr revisionId)))) (case listed of None \<Rightarrow> [] | Some xs \<Rightarrow> xs) = Inr found"
    and f: "(case found of
       None \<Rightarrow> web_lift (Inl (ApiError (js ''Revision was not found on this monitor'') 404 None))
     | Some revision \<Rightarrow>
        web_bind (web_lift (previous_revision revision (json_get m ''revisions''))) (\<lambda>previous.
        web_bind (web_lift (candidate_execution E revision (json_get m ''executions''))) (\<lambda>candidate.
        web_bind (evidence_of E candidate) (\<lambda>execution.
        web_bind (web_lift (changes previous revision)) (\<lambda>cs.
        web_lift (Inr (review m revision execution previous cs))))))) w1 = (Inr rv, w')"
    using assms unfolding getReview_def evidence_of_def [symmetric]
    by (simp only: web_bind_Inr web_lift_run prod.inject) blast
  then obtain r where "found = Some r" by (cases found) auto
  then show thesis using that m f by (simp add: web_bind_Inr) blast
qed

lemma map_throw_length: "map_throw f xs = Inr ys \<Longrightarrow> length ys = length xs"
  by (induction xs arbitrary: ys) (auto simp: rbind_Inr_iff)

lemma strict_eq_string: "strict_eq (Some (JStr s)) v \<longleftrightarrow> v = Some (JStr s)"
  by (cases "(Some (JStr s), v)" rule: strict_eq.cases) auto

lemma strict_eq_sym: "strict_eq a b = strict_eq b a"
  by (cases "(a, b)" rule: strict_eq.cases) auto

lemma newest_in:
  assumes "newest key xs = Inr (Some y)"
  shows "y \<in> set xs"
proof -
  consider "xs = [y]" | a b zs ks where "xs = a # b # zs" "map_throw key xs = Inr ks"
      "y = snd (hd (js_sort (\<lambda>a b. dless (fst b) (fst a)) (zip ks xs)))"
    using assms by (auto simp: newest_def rbind_Inr_iff split: list.splits)
  then show ?thesis
  proof cases
    case 2
    have "length ks = length xs" using 2(2) map_throw_length by blast
    then have "js_sort (\<lambda>a b. dless (fst b) (fst a)) (zip ks xs) \<noteq> []" using 2(1) by auto
    then show ?thesis using 2(3) by (metis hd_in_set set_js_sort in_set_zipE prod.collapse)
  qed simp
qed

lemma previous_revision_spec:
  assumes rev: "list_all MonitorRevision rs" and gen: "\<And>q. q \<in> set rs \<Longrightarrow> generation q = Inr (Fin (gen q))"
    and r: "r \<in> set rs" and p: "previous_revision r (Some (JArr rs)) = Inr previous"
  shows "case previous of None \<Rightarrow> \<forall>q \<in> set rs. gen r \<le> gen q
    | Some p \<Rightarrow> p \<in> set rs \<and> gen p < gen r \<and> (\<forall>q \<in> set rs. gen q < gen r \<longrightarrow> gen q \<le> gen p)"
proof -
  let ?older = "filter (\<lambda>q. gen q < gen r) rs"
  have g: "MonitorRevision q \<and> json_get q ''generation'' = Some (JNum (Fin (gen q)))" if "q \<in> set rs" for q
    using finite_generation gen rev that by (auto simp: list_all_iff)
  have "filter_throw (older_revision r) rs = Inr ?older"
    by (rule filter_throw_total)
      (use g r in \<open>simp add: older_revision_def revision_property value_less_def converts_def\<close>)
  then have n: "newest generation ?older = Inr previous" using p by (simp add: previous_revision_def list_of_def)
  have "if ?older = [] then newest generation ?older = Inr None
    else \<exists>y \<in> set ?older. newest generation ?older = Inr (Some y) \<and> (\<forall>x \<in> set ?older. gen x \<le> gen y)"
    using gen by (intro newest_greatest) simp
  then show ?thesis using n
    by (auto simp: filter_empty_conv not_less split: if_splits)
qed

lemma candidate_execution_spec:
  assumes es: "lists ExecutionSummary v" and c: "candidate_execution E r v = Inr (Some c)"
  shows "\<exists>es. v = Some (JArr es) \<and> c \<in> set es \<and> json_get c ''kind'' = json_get r ''source'' \<and>
    json_get c ''state'' = Some (JStr (js ''succeeded''))"
  using es
proof (cases rule: lists_cases)
  case (2 es)
  let ?p = "\<lambda>item. strict_eq (json_get item ''kind'') (json_get r ''source'') \<and>
                 strict_eq (json_get item ''state'') (Some (JStr (js ''succeeded'')))"
  have x: "property (Some x) k = Inr (json_get x k) \<and> (\<exists>s. json_get x ''kind'' = Some (JStr s)) \<and> (\<exists>s. json_get x ''state'' = Some (JStr s))"
    if "x \<in> set es" for x k
  proof -
    have "interface summary_required summary_optional x" using 2 that by (simp add: list_all_iff ExecutionSummary_def)
    then obtain e where "x = JObj e" "has_prop e ''kind'' is_string" "has_prop e ''state'' ExecutionState"
      by (rule interfaceD) (simp add: summary_required_def)
    then show ?thesis by (auto simp: has_prop_def ExecutionState_def one_of_def elim!: is_stringE split: option.splits)
  qed
  then have "filter_throw (\<lambda>item. rbind (property (Some item) ''kind'') (\<lambda>k.
            Inr (strict_eq k (json_get r ''source'') \<and>
                 strict_eq (json_get item ''state'') (Some (JStr (js ''succeeded'')))))) es = Inr (filter ?p es)"
    by (intro filter_throw_total) simp
  then have "newest (completed_at E) (filter ?p es) = Inr (Some c)"
    using c 2 by (simp add: candidate_execution_def list_of_def)
  then have "c \<in> set es" "?p c" using newest_in by fastforce+
  moreover obtain k z where "json_get c ''kind'' = Some (JStr k)" "json_get c ''state'' = Some (JStr z)"
    using x calculation(1) by blast
  ultimately show ?thesis using 2 by (simp add: strict_eq_string)
qed (use c in \<open>simp add: candidate_execution_def list_of_def\<close>)

lemma web_optional_Some: "web_optional m w = (Inr (Some x), w') \<longleftrightarrow> m w = (Inr x, w')"
  by (auto simp: web_optional_def split: prod.splits sum.splits)

lemma evidence_of_spec:
  assumes "evidence_of E candidate w = (Inr (Some x), w')"
  shows "\<exists>c i. candidate = Some c \<and> to_text (json_get c ''id'') = Inr i \<and> fst (getExecution E i w) = Inr x"
  using assms
  by (auto simp: evidence_of_def web_bind_Inr rbind_Inr_iff web_optional_Some split: option.splits)

definition same_plan :: "json option \<Rightarrow> json option \<Rightarrow> bool" where
  "same_plan a b \<longleftrightarrow>
     strict_eq (opt_get (plan_part a ''identity'') ''title'') (opt_get (plan_part b ''identity'') ''title'') \<and>
     strict_eq (opt_get (plan_part a ''identity'') ''sku'') (opt_get (plan_part b ''identity'') ''sku'') \<and>
     strict_eq (plan_part a ''expectedCurrency'') (plan_part b ''expectedCurrency'') \<and>
     strict_eq (js_length (plan_part a ''preparationSteps'')) (js_length (plan_part b ''preparationSteps''))"

lemma changes_empty: "changes p r = Inr cs \<Longrightarrow> cs = [] \<longleftrightarrow> same_plan p (Some r)"
  by (auto simp: changes_def same_plan_def Let_def changed_def rbind_Inr_iff split: if_splits)

text \<open>
  The rows a comparison is made of: field, value in the earlier revision, value in the candidate;
  and the object a difference is listed as.
\<close>

definition compared_values :: "json option \<Rightarrow> json option \<Rightarrow> (string \<times> json option \<times> json option) list" where
  "compared_values a b =
     [(''product title'', opt_get (plan_part a ''identity'') ''title'', opt_get (plan_part b ''identity'') ''title''),
      (''sku'', opt_get (plan_part a ''identity'') ''sku'', opt_get (plan_part b ''identity'') ''sku''),
      (''currency'', plan_part a ''expectedCurrency'', plan_part b ''expectedCurrency'')]"

definition lists_row :: "string \<times> json option \<times> json option \<Rightarrow> json \<Rightarrow> bool" where
  "lists_row = (\<lambda>(field, before, after) c. json_get c ''field'' = Some (JStr (js field)) \<and>
     json_get c ''before'' = before \<and> json_get c ''after'' = after)"

text \<open>The row of the preparation actions, whose numbers are shown as texts.\<close>

definition steps_row :: "json option \<Rightarrow> json option \<Rightarrow> (string \<times> json option \<times> json option) list \<Rightarrow> bool" where
  "steps_row a b rows \<longleftrightarrow>
    (let before = js_length (plan_part a ''preparationSteps''); after = js_length (plan_part b ''preparationSteps'') in
     if strict_eq before after then rows = []
     else \<exists>m n. to_text (coalesce before (Some (JNum (Fin 0)))) = Inr m \<and>
       to_text (coalesce after (Some (JNum (Fin 0)))) = Inr n \<and>
       rows = [(''preparation actions'', Some (JStr m), Some (JStr n))])"

lemma lists_row_change: "lists_row (field, before, after) (change field before after)"
  by (simp add: lists_row_def change_def)

lemma changes_rows:
  assumes "changes p r = Inr cs"
  shows "\<exists>steps. steps_row p (Some r) steps \<and>
    list_all2 lists_row (filter (\<lambda>(_, before, after). \<not> strict_eq before after) (compared_values p (Some r)) @ steps) cs"
proof -
  obtain st where st: "cs = changed ''product title'' (opt_get (plan_part p ''identity'') ''title'') (opt_get (plan_part (Some r) ''identity'') ''title'') @
        changed ''sku'' (opt_get (plan_part p ''identity'') ''sku'') (opt_get (plan_part (Some r) ''identity'') ''sku'') @
        changed ''currency'' (plan_part p ''expectedCurrency'') (plan_part (Some r) ''expectedCurrency'') @ st"
    and steps: "if strict_eq (js_length (plan_part p ''preparationSteps'')) (js_length (plan_part (Some r) ''preparationSteps''))
      then st = []
      else \<exists>m n. to_text (coalesce (js_length (plan_part p ''preparationSteps'')) (Some (JNum (Fin 0)))) = Inr m \<and>
        to_text (coalesce (js_length (plan_part (Some r) ''preparationSteps'')) (Some (JNum (Fin 0)))) = Inr n \<and>
        st = [change ''preparation actions'' (Some (JStr m)) (Some (JStr n))]"
    using assms unfolding changes_def Let_def by (auto simp: rbind_Inr_iff split: if_splits)
  have c: "list_all2 lists_row (if strict_eq before after then [] else [(field, before, after)]) (changed field before after)"
    for field before after
    by (simp add: changed_def lists_row_change)
  obtain rows where "steps_row p (Some r) rows" "list_all2 lists_row rows st"
  proof (cases "strict_eq (js_length (plan_part p ''preparationSteps'')) (js_length (plan_part (Some r) ''preparationSteps''))")
    case True
    then show thesis using that [of "[]"] steps by (simp add: steps_row_def)
  next
    case False
    then obtain m n where mn: "to_text (coalesce (js_length (plan_part p ''preparationSteps'')) (Some (JNum (Fin 0)))) = Inr m"
      "to_text (coalesce (js_length (plan_part (Some r) ''preparationSteps'')) (Some (JNum (Fin 0)))) = Inr n"
      "st = [change ''preparation actions'' (Some (JStr m)) (Some (JStr n))]"
      using steps by auto
    show thesis
      by (rule that [of "[(''preparation actions'', Some (JStr m), Some (JStr n))]"])
        (use False mn in \<open>simp_all add: steps_row_def Let_def lists_row_change\<close>)
  qed
  moreover have "filter (\<lambda>(_, before, after). \<not> strict_eq before after) (compared_values p (Some r)) =
      concat (map (\<lambda>(field, before, after). if strict_eq before after then [] else [(field, before, after)])
        (compared_values p (Some r)))"
    by (simp add: compared_values_def)
  ultimately show ?thesis
    unfolding st by (intro exI [of _ rows]) (simp add: compared_values_def list_all2_appendI c)
qed

text \<open>
  C22. What \<open>getReview\<close> compares. It returns the revision that was asked for, of the monitor it
  belongs to, beside the revision of the greatest generation below it, if there is one. The
  differences are, in this order, those of product title, SKU and currency that are not equal,
  each with its field, its value in the earlier revision as \<open>before\<close> and its value in the candidate
  as \<open>after\<close>, and the numbers of preparation actions if they differ; so none is listed exactly when
  all four agree. The evidence is that of a succeeded execution of the kind that produces such a
  revision. (The page labels these results otherwise: \<open>ReviewPage.tsx\<close> calls the earlier revision
  the active generation and the evidence that of the browser that produced the candidate.)
\<close>

theorem review_compares:
  assumes "getReview E monitorId revisionId w = (Inr rv, w')" "getMonitor E monitorId w = (Inr m, w1)"
    and "Monitor m" "json_get m ''revisions'' = Some (JArr rs)" "\<And>q. q \<in> set rs \<Longrightarrow> generation q = Inr (Fin (gen q))"
  shows "\<exists>r cs previous. r \<in> set rs \<and> json_get r ''id'' = Some (JStr revisionId) \<and>
    json_get rv ''monitor'' = Some m \<and> json_get rv ''revision'' = Some r \<and>
    opt_get (json_get rv ''comparison'') ''previous'' = previous \<and>
    (case previous of None \<Rightarrow> \<forall>q \<in> set rs. gen r \<le> gen q
     | Some p \<Rightarrow> p \<in> set rs \<and> gen p < gen r \<and> (\<forall>q \<in> set rs. gen q < gen r \<longrightarrow> gen q \<le> gen p)) \<and>
    opt_get (json_get rv ''comparison'') ''changes'' = Some (JArr cs) \<and> (cs = [] \<longleftrightarrow> same_plan previous (Some r)) \<and>
    (\<exists>steps. steps_row previous (Some r) steps \<and>
       list_all2 lists_row
         (filter (\<lambda>(_, before, after). \<not> strict_eq before after) (compared_values previous (Some r)) @ steps) cs) \<and>
    (\<forall>a. json_get rv ''evidence'' = Some a \<longrightarrow> (\<exists>es c i x. json_get m ''executions'' = Some (JArr es) \<and> c \<in> set es \<and>
       json_get c ''kind'' = json_get r ''source'' \<and> json_get c ''state'' = Some (JStr (js ''succeeded'')) \<and>
       to_text (json_get c ''id'') = Inr i \<and> fst (getExecution E i w1) = Inr x \<and> json_get x ''artifacts'' = Some a))"
  using assms(1)
proof (rule getReview_run)
  fix m' w1' listed r previous candidate execution w2 cs
  assume m: "getMonitor E monitorId w = (Inr m', w1')" and l: "list_of (json_get m' ''revisions'') = Inr listed"
    and f: "find_throw (same_id (Inr (Some (JStr revisionId)))) (case listed of None \<Rightarrow> [] | Some xs \<Rightarrow> xs) = Inr (Some r)"
    and p: "previous_revision r (json_get m' ''revisions'') = Inr previous"
    and c: "candidate_execution E r (json_get m' ''executions'') = Inr candidate"
    and e: "evidence_of E candidate w1' = (Inr execution, w2)"
    and cs: "changes previous r = Inr cs" and rv: "rv = review m' r execution previous cs"
  have m': "m' = m" "w1' = w1" using m assms(2) by auto
  have d: "list_all MonitorRevision rs" "lists ExecutionSummary (json_get m ''executions'')"
    by (rule monitor_dict [OF assms(3)], use assms(4) in \<open>simp add: lists_def\<close>)+
  have s: "\<exists>b. same_id (Inr (Some (JStr revisionId))) q = Inr b" if "q \<in> set rs" for q
    using that d(1) by (simp add: same_id_revision list_all_iff)
  have "listed = Some rs" using l assms(4) by (simp add: m' list_of_def)
  then have "find_throw (same_id (Inr (Some (JStr revisionId)))) rs = Inr (Some r)" using f by simp
  then have r: "r \<in> set rs" "same_id (Inr (Some (JStr revisionId))) r = Inr True"
    using find_throw_total [of rs "same_id (Inr (Some (JStr revisionId)))"] s by auto
  then have "strict_eq (json_get r ''id'') (Some (JStr revisionId))" using d(1) by (simp add: same_id_revision list_all_iff)
  then have id: "json_get r ''id'' = Some (JStr revisionId)" by (metis strict_eq_sym strict_eq_string)
  note prev = previous_revision_spec [OF d(1) assms(5) r(1), of previous]
  have "\<exists>es c i x. json_get m ''executions'' = Some (JArr es) \<and> c \<in> set es \<and>
       json_get c ''kind'' = json_get r ''source'' \<and> json_get c ''state'' = Some (JStr (js ''succeeded'')) \<and>
       to_text (json_get c ''id'') = Inr i \<and> fst (getExecution E i w1) = Inr x \<and> json_get x ''artifacts'' = Some a"
    if a: "opt_get execution ''artifacts'' = Some a" for a
  proof -
    obtain x where x: "execution = Some x" "json_get x ''artifacts'' = Some a"
      using a by (cases execution) (auto simp: opt_get_def)
    then obtain c0 i where "candidate = Some c0" "to_text (json_get c0 ''id'') = Inr i" "fst (getExecution E i w1) = Inr x"
      using evidence_of_spec e m' by blast
    then show ?thesis using candidate_execution_spec [OF d(2)] c x m' by blast
  qed
  then show ?thesis using r(1) id prev p assms(4) changes_empty [OF cs] changes_rows [OF cs]
    by (intro exI [of _ r] exI [of _ cs] exI [of _ previous]) (simp add: rv m' review_def opt_get_def)
qed

end
