(* ===== verification/JsonText.thy ===== *)
theory JsonText
  imports JsValue
begin

text \<open>
  \<open>JSON.parse\<close> reads back what \<open>JSON.stringify\<close> writes: strings of any code units, lone surrogates
  and control characters included, arrays, objects in the order the language gives their members,
  and integers of at most fourteen digits.
\<close>

section \<open>Strings\<close>

lemma hex_digit: "0 \<le> n \<Longrightarrow> n < 16 \<Longrightarrow> digit_in_base 16 (hex_lower n) = Some n"
  by (auto simp: digit_in_base_def hex_lower_def is_digit_def is_ascii_lower_def is_ascii_upper_def)

lemma hex4_escape:
  assumes "0 \<le> c" "c < 65536"
  shows "hex4 [hex_lower (c div 4096 mod 16), hex_lower (c div 256 mod 16), hex_lower (c div 16 mod 16), hex_lower (c mod 16)] = Some c"
proof -
  define a b where "a = c div 16" and "b = a div 16"
  have q: "c div 256 = b" "c div 4096 = b div 16"
    by (simp_all add: a_def b_def flip: zdiv_zmult2_eq)
  have "0 \<le> b div 16" "b div 16 < 16" using assms by (simp_all flip: q)
  then have "b div 16 mod 16 = b div 16" by (rule mod_pos_pos_trivial)
  then have "16 * (16 * (16 * (b div 16 mod 16) + b mod 16) + a mod 16) + c mod 16 = c"
    by (simp only: mult_div_mod_eq b_def) (simp only: mult_div_mod_eq a_def)
  then show ?thesis by (simp add: hex_digit q flip: a_def)
qed

lemma json_string_escape:
  assumes "0 \<le> c" "c < 65536" "json_string s = Some (t, r)"
  shows "json_string (unicode_escape c @ s) = Some (c # t, r)"
  using hex4_escape [OF assms(1,2)] assms(3) by (simp add: unicode_escape_def del: hex4.simps)

lemma json_string_quoted: "unit_list s \<Longrightarrow> json_string (quote_units s @ 34 # r) = Some (s, r)"
proof (induction s rule: length_induct)
  case (1 s')
  show ?case
  proof (cases s')
    case (Cons c s)
    have c: "0 \<le> c" "c < 65536" and s: "json_string (quote_units s @ 34 # r) = Some (s, r)"
      using 1 by (auto simp: unit_list_def Cons)
    note e = json_string_escape [OF c s, unfolded append_assoc [symmetric]]
    consider "c = 34 \<or> c = 92 \<or> c = 8 \<or> c = 12 \<or> c = 10 \<or> c = 13 \<or> c = 9" | "c < 32" "c \<notin> {8, 12, 10, 13, 9}"
      | "is_high c" "32 \<le> c" "c \<noteq> 34" "c \<noteq> 92" | "is_low c" "\<not> is_high c" "32 \<le> c" "c \<noteq> 34" "c \<noteq> 92"
      | "32 \<le> c" "c \<noteq> 34" "c \<noteq> 92" "\<not> is_high c" "\<not> is_low c"
      by force
    then show ?thesis
    proof cases
      case 1
      then show ?thesis using s by (elim disjE) (simp_all add: Cons simple_escape_def)
    next
      case 3
      show ?thesis
      proof (cases s)
        case Nil
        have "json_string (34 # r) = Some ([], r)" by simp
        from json_string_escape [OF c this] show ?thesis using 3 by (simp add: Nil Cons)
      next
        case (Cons d u)
        have u: "json_string (quote_units u @ 34 # r) = Some (u, r)"
          using "1" by (auto simp: unit_list_def \<open>s' = c # s\<close> Cons)
        show ?thesis
        proof (cases "is_low d")
          case True
          then have "\<not> d < 32" "d \<noteq> 34" "d \<noteq> 92" by (auto simp: is_low_def)
          then show ?thesis using 3 True u by (simp add: Cons \<open>s' = c # s\<close>)
        qed (use e 3 in \<open>simp add: Cons \<open>s' = c # s\<close>\<close>)
      qed
    qed (use e s in \<open>simp_all add: Cons\<close>)
  qed simp
qed

section \<open>Numbers\<close>

text \<open>An integer the round trip covers.\<close>

fun short_integer :: "dbl \<Rightarrow> bool" where
  "short_integer (Fin x) \<longleftrightarrow> of_int \<lfloor>x\<rfloor> = x \<and> \<bar>x\<bar> < 10 ^ 14"
| "short_integer _ \<longleftrightarrow> False"

text \<open>What may follow a value.\<close>

definition delimited :: "jsstr \<Rightarrow> bool" where
  "delimited r \<longleftrightarrow> (case r of [] \<Rightarrow> True | c # _ \<Rightarrow> c = 44 \<or> c = 93 \<or> c = 125)"

lemma json_number_digits:
  assumes D: "list_all is_digit D" "D \<noteq> []" "hd D = 48 \<longrightarrow> D = [48]" and r: "delimited r"
  shows "json_number (D @ r) = Some (JNum (js_number D), r)"
    and "json_number (45 # D @ r) = Some (JNum (js_number (45 # D)), r)"
proof -
  obtain a D' where a: "D = a # D'" "is_digit a" using D by (cases D) auto
  have f: "json_frac r = Some ([], r)" and e: "json_exp r = Some ([], r)"
    using r by (auto simp: delimited_def json_frac_def json_exp_def split: list.splits)
  have w: "takeWhile is_digit (D @ r) = D"
    using D(1) r digits_of_append [of D r] by (auto simp: delimited_def digits_of_def is_digit_def split: list.splits)
  define ds where "ds = (case D @ r of c # _ \<Rightarrow> if c = 48 then [c] else takeWhile is_digit (D @ r) | [] \<Rightarrow> [])"
  have ds: "ds = D" unfolding ds_def w using D(3) a by auto
  have m: "a \<noteq> 45" using a by (auto simp: is_digit_def)
  have "json_number (D @ r) = (if ds = [] then None
        else Option.bind (json_frac (drop (length ds) (D @ r))) (\<lambda>(f, r1).
             Option.bind (json_exp r1) (\<lambda>(e, r2). Some (JNum (js_number (ds @ f @ e)), r2))))"
    unfolding json_number_def ds_def using a(1) m by (simp add: Let_def)
  then show "json_number (D @ r) = Some (JNum (js_number D), r)" using f e D(2) by (simp add: ds)
  have "json_number (45 # D @ r) = (if ds = [] then None
        else Option.bind (json_frac (drop (length ds) (D @ r))) (\<lambda>(f, r1).
             Option.bind (json_exp r1) (\<lambda>(e, r2). Some (JNum (js_number (45 # ds @ f @ e)), r2))))"
    by (simp add: json_number_def ds_def a(1) Let_def cong: if_cong del: takeWhile.simps)
  then show "json_number (45 # D @ r) = Some (JNum (js_number (45 # D)), r)" using f e D(2) by (simp add: ds)
qed

lemma show_nat_length: "0 < k \<Longrightarrow> n < 10 ^ k \<Longrightarrow> 10 ^ (k - 1) \<le> n \<or> k = 1 \<Longrightarrow> length (show_nat n) = k"
proof (induction n arbitrary: k rule: show_nat.induct)
  case (1 n)
  show ?case
  proof (cases "n < 10")
    case True
    then have "k = 1"
      using 1 self_le_power [of "10::nat" "k - 1"] by (cases "k - 1 = 0") auto
    then show ?thesis using True by (simp add: show_nat.simps)
  next
    case False
    then have "k \<noteq> 1" using "1.prems" by auto
    then obtain j where k: "k = Suc (Suc j)" using "1.prems" by (metis Suc_pred One_nat_def not_gr0)
    have "length (show_nat (n div 10)) = Suc j"
      using "1.prems" k False by (intro "1.IH") (auto simp: less_mult_imp_div_less mult.commute)
    then show ?thesis using False k by (simp add: show_nat.simps [of n])
  qed
qed

lemma show_nat_bounds: "n < 10 ^ length (show_nat n) \<and> (10 ^ (length (show_nat n) - 1) \<le> n \<or> n = 0)"
proof (induction n rule: show_nat.induct)
  case (1 n)
  show ?case
  proof (cases "n < 10")
    case False
    then obtain j where j: "length (show_nat (n div 10)) = Suc j" using show_nat_digits [of "n div 10"] by (cases "show_nat (n div 10)") auto
    have "n div 10 < 10 ^ Suc j" "10 ^ j \<le> n div 10" using 1 False j by auto
    then have "n < 10 ^ Suc j * 10" "10 ^ j * 10 \<le> n" by (simp_all only: div_less_iff_less_mult less_eq_div_iff_mult_less_eq)
    then show ?thesis using False j by (simp add: show_nat.simps [of n])
  qed (auto simp: show_nat.simps [of n])
qed

lemma show_nat_hd: "0 < n \<Longrightarrow> hd (show_nat n) \<noteq> 48"
proof (induction n rule: show_nat.induct)
  case (1 n)
  then show ?case using show_nat_digits [of "n div 10"] by (auto simp: show_nat.simps [of n])
qed

lemma dec_val_zeros: "dec_val (ds @ replicate j 48) = dec_val ds * 10 ^ j"
  by (induction j) (simp_all add: replicate_append_same [symmetric] del: replicate_append_same flip: append_assoc)

lemma decimal_candidate_Some:
  assumes "decimal_candidate x n k = Some (s, m)"
  shows "m = n \<and> 10 ^ (k - 1) \<le> s \<and> s < 10 ^ k \<and> fl (of_int s * 10 powi (n - int k)) = Fin x"
  using assms by (auto simp: decimal_candidate_def Let_def find_Some_iff)

lemma shortest_from_found:
  assumes "\<exists>k \<in> set ks. decimal_candidate x n k \<noteq> None"
  shows "\<exists>k \<in> set ks. \<exists>s m. shortest_from x n (ks @ ks') = (show_int s, m) \<and>
    (decimal_candidate x n k = Some (s, m) \<or> decimal_candidate x (n + 1) k = Some (s, m))"
  using assms by (induction ks) (fastforce split: option.splits)+

lemma show_pos_nat:
  assumes "0 < n" "n < 10 ^ 14"
  shows "\<exists>D. show_pos (of_nat n) = D \<and> list_all is_digit D \<and> D \<noteq> [] \<and> hd D \<noteq> 48 \<and> dec_val D = int n"
proof -
  define L where "L = length (show_nat n)"
  have L: "n < 10 ^ L" "10 ^ (L - 1) \<le> n" "0 < L" using show_nat_bounds [of n] show_nat_digits [of n] assms by (auto simp: L_def)
  have "L \<le> 14"
  proof (rule ccontr)
    assume "\<not> L \<le> 14"
    then have "(10::nat) ^ 14 \<le> 10 ^ (L - 1)" by (intro power_increasing) auto
    then show False using L assms by linarith
  qed
  have e: "dec_exponent (of_nat n) = int L" using assms by (simp add: dec_exponent_def L_def show_int_nat)
  have "(10::int) ^ (L - 1) \<le> int n" "int n < 10 ^ L" using L by (simp_all flip: of_nat_power of_nat_less_iff of_nat_le_iff)
  moreover have "fl (of_nat n) = Fin (of_nat n)" using assms by (intro fl_of_nat) simp
  ultimately have "decimal_candidate (of_nat n) (int L) L = Some (int n, int L)"
    by (simp add: decimal_candidate_def)
  then obtain k s m where k: "k \<in> set [1..<Suc L]"
    and sh: "shortest_from (of_nat n) (int L) ([1..<Suc L] @ [Suc L..<18]) = (show_int s, m)"
    and c: "decimal_candidate (of_nat n) (int L) k = Some (s, m) \<or> decimal_candidate (of_nat n) (int L + 1) k = Some (s, m)"
    using shortest_from_found [of "[1..<Suc L]" "of_nat n" "int L" "[Suc L..<18]"] L(3) by force
  have m: "m = int L \<or> m = int L + 1" "10 ^ (k - 1) \<le> s" "s < 10 ^ k" "fl (of_int s * 10 powi (m - int k)) = Fin (of_nat n)"
    using c decimal_candidate_Some by blast+
  have k': "0 < k" "k \<le> L" using k by auto
  define j where "j = nat (m - int k)"
  have j: "m = int k + int j" "k + j \<le> 15" using m(1) k' \<open>L \<le> 14\<close> by (auto simp: j_def)
  have s: "0 < s" using m(2) by (rule less_le_trans [rotated]) simp
  then obtain S where S: "s = int S" "0 < S" by (metis pos_int_cases)
  have "S < 10 ^ k" "10 ^ (k - 1) \<le> S" using m(2,3) by (simp_all add: S(1) flip: of_nat_power of_nat_less_iff of_nat_le_iff)
  then have len: "length (show_nat S) = k" using show_nat_length k' by blast
  have "S * 10 ^ j < 10 ^ k * 10 ^ j" using \<open>S < 10 ^ k\<close> by simp
  also have "\<dots> \<le> 10 ^ 15" using power_increasing [OF j(2), of "10 :: nat"] by (simp add: power_add)
  finally have "fl (of_nat (S * 10 ^ j)) = Fin (of_nat (S * 10 ^ j))" by (intro fl_of_nat) simp
  moreover have "fl (of_nat S * 10 ^ j) = Fin (of_nat n)" using m(4) by (simp add: S(1) j(1))
  moreover have "rat_of_nat S * 10 ^ j = of_nat (S * 10 ^ j)" by simp
  ultimately have n: "S * 10 ^ j = n" by (metis dbl.inject(2) of_nat_eq_iff)
  have "[1..<18] = [1..<Suc L] @ [Suc L..<18]" using \<open>L \<le> 14\<close> upt_add_eq_append [of 1 "Suc L" "17 - L"] by simp
  then have "show_pos (of_nat n) = show_nat S @ replicate j 48"
    using sh len j m(1) by (simp add: show_pos_def e S(1) show_int_nat)
  moreover have "list_all is_digit (show_nat S @ replicate j 48)" using show_nat_digits [of S] by (auto simp: is_digit_def list_all_iff)
  moreover have "hd (show_nat S @ replicate j 48) \<noteq> 48" using show_nat_hd [OF S(2)] show_nat_digits by simp
  ultimately show ?thesis using n show_nat_digits [of S] by (auto simp: dec_val_zeros)
qed

lemma short_integer_cases:
  assumes "short_integer x"
  obtains n where "x = Fin (of_nat n)" "n < 10 ^ 14" | n where "x = Fin (- of_nat n)" "0 < n" "n < 10 ^ 14"
proof -
  obtain q where x: "x = Fin q" using assms by (cases x) auto
  then have q: "of_int \<lfloor>q\<rfloor> = q" "\<bar>q\<bar> < 10 ^ 14" using assms unfolding x short_integer.simps by blast+
  define i where "i = \<lfloor>q\<rfloor>"
  have i: "q = of_int i" using q(1) by (simp only: i_def)
  then have b: "\<bar>i\<bar> < 10 ^ 14" using q(2) by (simp flip: of_int_abs)
  show thesis
  proof (cases "0 \<le> i")
    case True
    then show thesis using that(1) [of "nat i"] b x i by simp
  next
    case False
    then show thesis using that(2) [of "nat (- i)"] b x i by simp
  qed
qed

lemma js_number_minus:
  assumes D: "list_all is_digit D" "D \<noteq> []"
  shows "js_number (45 # D) = dneg (fl (of_int (dec_val D)))"
proof -
  obtain a D' where D': "D = a # D'" using D(2) by (cases D) auto
  have a: "is_digit a" using D D' by simp
  have "trim (45 # D) = 45 # D"
    using D last_in_set [of D] by (intro trim_id)
      (auto simp: is_digit_not_space list_all_iff is_space_def [of 45] space_ranges_def in_ranges_def)
  moreover have "base_of_prefix (45 # D) = None"
    using D D' by (auto simp: base_of_prefix_def)
  moreover have "D \<noteq> js ''Infinity''"
    using a D' by (auto simp: is_digit_def js_def)
  moreover have "unsigned_decimal D = Some (of_int (dec_val D))"
    using digits_of_append [OF D(1), of "[]"] D(2)
    by (simp add: unsigned_decimal_def exponent_part_def)
  ultimately show ?thesis by (simp add: js_number_def)
qed

lemma json_number_short:
  assumes "short_integer x" "delimited r"
  shows "json_number (show_dbl x @ r) = Some (JNum x, r)"
  using assms(1)
proof (cases rule: short_integer_cases)
  case (1 n)
  show ?thesis
  proof (cases "n = 0")
    case True
    then show ?thesis using json_number_digits(1) [of "[48]" r] assms(2) 1
      by (simp add: is_digit_def js_number_digits js_def dec_val_def fl_def)
  next
    case False
    then obtain D where "show_pos (of_nat n) = D" "list_all is_digit D" "D \<noteq> []" "hd D \<noteq> 48" "dec_val D = int n"
      using show_pos_nat 1 by blast
    then show ?thesis using json_number_digits(1) [of D r] assms(2) 1 False
      by (simp add: js_number_digits fl_of_nat)
  qed
next
  case (2 n)
  then obtain D where "show_pos (of_nat n) = D" "list_all is_digit D" "D \<noteq> []" "hd D \<noteq> 48" "dec_val D = int n"
    using show_pos_nat by blast
  then show ?thesis using json_number_digits(2) [of D r] assms(2) 2
    by (simp add: js_number_minus fl_of_nat)
qed

lemma show_dbl_short_head: "short_integer x \<Longrightarrow> \<exists>c s. show_dbl x = c # s \<and> (is_digit c \<or> c = 45)"
proof (erule short_integer_cases)
  fix n assume n: "x = Fin (of_nat n)" "n < 10 ^ 14"
  show ?thesis
  proof (cases "n = 0")
    case False
    then obtain D where "show_pos (of_nat n) = D" "list_all is_digit D" "D \<noteq> []" using show_pos_nat n by blast
    then show ?thesis using n False by (cases D) auto
  qed (simp add: n js_def is_digit_def)
qed simp

section \<open>Values\<close>

text \<open>
  The values of the round trip. The members of an object are in the order in which the language
  enumerates them, each once.
\<close>

fun plain :: "json \<Rightarrow> bool" where
  "plain JNull \<longleftrightarrow> True"
| "plain (JBool b) \<longleftrightarrow> True"
| "plain (JNum x) \<longleftrightarrow> short_integer x"
| "plain (JStr s) \<longleftrightarrow> unit_list s"
| "plain (JArr vs) \<longleftrightarrow> list_all plain vs"
| "plain (JObj d) \<longleftrightarrow> list_all (\<lambda>(k, v). unit_list k \<and> plain v) d \<and> fold (\<lambda>(k, v). obj_set k v) d [] = d"

lemma stringify_head:
  "plain v \<Longrightarrow> \<exists>c s. json_stringify v = c # s \<and> c \<notin> {32, 9, 10, 13, 93, 125, 44}"
proof (cases v)
  case (JNum x)
  assume "plain v"
  then show ?thesis using show_dbl_short_head [of x] JNum by (auto simp: is_digit_def elim!: short_integer.elims)
qed (auto simp: js_def quote_def)

lemma skip_ws_head [simp]: "c \<notin> {32, 9, 10, 13} \<Longrightarrow> skip_ws (c # s) = c # s"
  by simp

definition reads :: "json \<Rightarrow> bool" where
  "reads v \<longleftrightarrow> (\<forall>r. delimited r \<longrightarrow> json_value (json_stringify v @ r) = Some (v, r))"

lemma delimited_simps [simp]: "delimited (44 # r)" "delimited (93 # r)" "delimited (125 # r)" "delimited []"
  by (simp_all add: delimited_def)

lemma json_elems_join:
  assumes "vs \<noteq> []" "\<forall>v \<in> set vs. reads v \<and> plain v"
  shows "json_elems (join [44] (map json_stringify vs) @ 93 # r) = Some (vs, r)"
  using assms
proof (induction vs)
  case (Cons v vs)
  have v: "json_value (json_stringify v @ q) = Some (v, q)" if "delimited q" for q
    using Cons.prems that by (simp add: reads_def)
  show ?case
  proof (cases vs)
    case Nil
    then show ?thesis using v by simp
  next
    case (Cons w ws)
    then show ?thesis using v Cons.prems Cons.IH by (simp del: json_value.simps json_elems.simps add: json_elems.simps [of "json_stringify v @ _"])
  qed
qed simp

abbreviation member_text :: "jsstr \<times> json \<Rightarrow> jsstr" where
  "member_text \<equiv> \<lambda>(k, v). quote k @ [58] @ json_stringify v"

lemma json_members_join:
  assumes "kvs \<noteq> []" "\<forall>(k, v) \<in> set kvs. unit_list k \<and> reads v \<and> plain v"
  shows "json_members d (join [44] (map member_text kvs) @ 125 # r) = Some (fold (\<lambda>(k, v). obj_set k v) kvs d, r)"
  using assms
proof (induction kvs arbitrary: d)
  case (Cons kv kvs)
  obtain k v where kv: "kv = (k, v)" by fastforce
  have v: "json_value (json_stringify v @ q) = Some (v, q)" if "delimited q" for q
    using Cons.prems that by (simp add: reads_def kv)
  have k: "json_string (quote_units k @ 34 # q) = Some (k, q)" for q
    using Cons.prems json_string_quoted by (simp add: kv)
  show ?case
  proof (cases kvs)
    case Nil
    then show ?thesis using v k
      by (simp del: json_value.simps json_members.simps json_string.simps add: kv quote_def json_members.simps [of d "34 # _"])
  next
    case (Cons w ws)
    then show ?thesis using v k Cons.prems Cons.IH
      by (simp del: json_value.simps json_members.simps json_string.simps add: kv quote_def json_members.simps [of d "34 # _"])
  qed
qed simp

lemma json_value_array:
  "c \<notin> {32, 9, 10, 13, 93} \<Longrightarrow> json_value (91 # c # u) = map_option (\<lambda>(vs, q). (JArr vs, q)) (json_elems (c # u))"
  by (subst json_value.simps) (simp del: json_value.simps json_elems.simps)

lemma json_value_object:
  "json_value (123 # 34 # u) = map_option (\<lambda>(d, q). (JObj d, q)) (json_members [] (34 # u))"
  by (subst json_value.simps) (simp del: json_value.simps json_members.simps)

lemma value_reads: "plain v \<Longrightarrow> reads v"
proof (induction v)
  case (JNum x)
  then obtain c s where h: "show_dbl x = c # s" "is_digit c \<or> c = 45" using show_dbl_short_head [of x] by auto
  have "json_number (c # s @ r) = Some (JNum x, r)" if "delimited r" for r
    using json_number_short [of x r] JNum that h by simp
  then show ?case using JNum h
    by (auto simp: reads_def js_def is_digit_def starts_with_def elim!: short_integer.elims)
next
  case (JStr s)
  then show ?case using json_string_quoted by (simp add: reads_def quote_def del: json_string.simps)
next
  case (JArr vs)
  then have e: "\<forall>v \<in> set vs. reads v \<and> plain v" by (simp add: list_all_iff)
  show ?case
  proof (cases vs)
    case (Cons w ws)
    obtain c s where c: "json_stringify w = c # s" "c \<notin> {32, 9, 10, 13, 93, 125, 44}" using e Cons stringify_head by force
    have h: "\<exists>u. join [44] (map json_stringify vs) @ 93 # r = c # u" for r
      using Cons c(1) by (cases ws) auto
    have "json_value (91 # join [44] (map json_stringify vs) @ 93 # r) = Some (JArr vs, r)" for r
      using h [of r] json_elems_join [of vs r] e Cons json_value_array [of c] c(2)
      by (auto simp del: json_value.simps json_elems.simps)
    then show ?thesis by (simp add: reads_def del: json_value.simps)
  qed (simp add: reads_def)
next
  case (JObj d)
  then have e: "\<forall>(k, v) \<in> set d. unit_list k \<and> reads v \<and> plain v" by (fastforce simp: list_all_iff)
  show ?case
  proof (cases d)
    case (Cons w ws)
    then have h: "\<exists>u. join [44] (map member_text d) @ 125 # r = 34 # u" for r
      by (cases ws) (auto simp: quote_def split: prod.splits)
    have "fold (\<lambda>(k, v). obj_set k v) d [] = d" using JObj by simp
    then have "json_value (123 # join [44] (map member_text d) @ 125 # r) = Some (JObj d, r)" for r
      using h [of r] json_members_join [of d "[]" r] e Cons json_value_object
      by (auto simp del: json_value.simps json_members.simps)
    then show ?thesis by (simp add: reads_def del: json_value.simps)
  qed (simp add: reads_def)
qed (simp_all add: reads_def js_def starts_with_def)

lemma json_parse_stringify:
  assumes "plain v"
  shows "json_parse (json_stringify v) = Some v"
proof -
  have "json_value (json_stringify v @ []) = Some (v, [])" using value_reads [OF assms] delimited_simps(4) unfolding reads_def by blast
  then show ?thesis by (simp add: json_parse_def del: json_value.simps)
qed

text \<open>
  \<open>JSON.parse(JSON.stringify(v))\<close> is \<open>v\<close> for every value of strings, booleans, \<open>null\<close>, integers of at most
  fourteen digits, arrays and objects, whatever units its strings hold; so both sides of a connection
  see the same value, and no two values have the same text.
\<close>

theorem json_round_trip:
  assumes "plain v"
  shows "json_parse (json_stringify v) = Some v \<and> (\<forall>u. plain u \<and> json_stringify u = json_stringify v \<longrightarrow> u = v)"
  using json_parse_stringify assms by (metis option.inject)

theorem json_round_trip_witness:
  "json_parse (json_stringify (JObj [(js ''b'', JArr [JStr [55357, 34], JNum (Fin (- 42))]), (js ''a'', JNull)])) =
    Some (JObj [(js ''b'', JArr [JStr [55357, 34], JNum (Fin (- 42))]), (js ''a'', JNull)])"
proof -
  have "plain (JObj [(js ''b'', JArr [JStr [55357, 34], JNum (Fin (- 42))]), (js ''a'', JNull)])" by code_simp
  then show ?thesis using json_round_trip by metis
qed

end
