(* ===== verification/WebDemo.thy ===== *)
theory WebDemo
  imports WebRequests JsonText
begin

text \<open>
  A concrete control plane on which the operations of the web client run: a monitor whose first
  generation is active, whose second was rejected and whose third waits for a review.
\<close>

section \<open>Answers\<close>

definition jnum :: "rat \<Rightarrow> json" where
  "jnum x = JNum (Fin x)"

definition jstr :: "string \<Rightarrow> json" where
  "jstr s = JStr (js s)"

definition jobj :: "(string \<times> json) list \<Rightarrow> json" where
  "jobj kvs = JObj (map (\<lambda>(k, v). (js k, v)) kvs)"

definition demo_revision :: "string \<Rightarrow> rat \<Rightarrow> string \<Rightarrow> (string \<times> json) list \<Rightarrow> json" where
  "demo_revision i g title others = jobj
     ([(''id'', jstr i), (''generation'', jnum g), (''createdAt'', jstr ''2026-01-01''), (''source'', jstr ''repair''),
       (''plan'', jobj [(''identity'', jobj [(''title'', jstr title)])])] @ others)"

definition demo_revisions :: "json list" where
  "demo_revisions =
     [demo_revision ''r1'' 1 ''Lamp'' [(''activatedAt'', jstr ''2026-01-01'')],
      demo_revision ''r2'' 2 ''Desk'' [(''validationState'', jstr ''rejected'')],
      demo_revision ''r3'' 3 ''Lamp'' []]"

definition demo_observation :: "string \<Rightarrow> string \<Rightarrow> rat \<Rightarrow> json" where
  "demo_observation i t price = jobj [(''id'', jstr i), (''observedAt'', jstr t), (''priceMinor'', jnum price)]"

definition demo_observations :: "json list" where
  "demo_observations = [demo_observation ''o1'' ''2026-01-01T01:00:00Z'' 4900, demo_observation ''o2'' ''2026-01-02T01:00:00Z'' 4500]"

definition demo_summary :: json where
  "demo_summary = jobj [(''id'', jstr ''e3''), (''kind'', jstr ''repair''), (''state'', jstr ''succeeded''), (''createdAt'', jstr ''2026-01-03'')]"

definition demo_execution :: json where
  "demo_execution = jobj
     [(''id'', jstr ''e3''), (''kind'', jstr ''repair''), (''state'', jstr ''succeeded''), (''createdAt'', jstr ''2026-01-03''),
      (''startedAt'', jstr ''2026-01-03T00:00:01Z''), (''completedAt'', jstr ''2026-01-03T00:00:04Z''),
      (''artifacts'', JArr [jobj [(''id'', jstr ''a1''), (''kind'', jstr ''screenshot''), (''url'', jstr ''/a1.png'')]]),
      (''result'', jobj [(''diagnostics'', jobj [(''modelCallCount'', jnum 2), (''cacheStatus'', jstr ''MISS''),
         (''timingsMs'', jobj [(''open'', jnum 120), (''broken'', jnum (- 1))])])])]"

definition demo_monitor :: json where
  "demo_monitor = jobj
     [(''id'', jstr ''m1''), (''url'', jstr ''https://a.example''), (''intent'', jstr ''Watch''),
      (''status'', jstr ''needs_review''), (''createdAt'', jstr ''2026-01-01''), (''currentRevisionId'', jstr ''r1'')]"

definition demo_answer :: json where
  "demo_answer = jobj
     [(''monitor'', demo_monitor), (''revisions'', JArr demo_revisions), (''observations'', JArr demo_observations),
      (''executions'', JArr [demo_summary])]"

definition json_answer :: "int \<Rightarrow> json \<Rightarrow> web_response" where
  "json_answer status v = \<lparr>wr_status = status, wr_content_type = Some (js ''application/json''), wr_body = Some (json_stringify v)\<rparr>"

definition demo_refusal :: web_response where
  "demo_refusal = json_answer 404 (jobj [(''error'', jobj [(''code'', jstr ''NOT_FOUND''), (''message'', jstr ''Monitor not found'')])])"

definition demo_web :: web_env where
  "demo_web = \<lparr>we_base = None,
     we_fetch = (\<lambda>w rq.
       if wq_url rq = js ''/api/v1/monitors/m1'' then Some (json_answer 200 demo_answer)
       else if wq_url rq = js ''/api/v1/executions/e3'' then Some (json_answer 200 demo_execution)
       else Some demo_refusal),
     we_uuid = (\<lambda>w. js ''key''), we_now_iso = (\<lambda>w. js ''2026-01-03T00:00:05.000Z''), we_date = (\<lambda>s. NaN)\<rparr>"

section \<open>Runs\<close>

theorem monitor_normalised_witness: "monitor_payload demo_answer \<and> (\<exists>m. normalizeMonitor demo_web demo_answer = Inr m \<and> Monitor m)"
proof -
  have p: "monitor_payload demo_answer" by code_simp
  then show ?thesis using monitor_normalised [OF p, of demo_web] by metis
qed

theorem execution_normalised_witness:
  "Execution demo_execution \<and> (\<exists>e. normalizeExecution demo_web demo_execution = Inr e \<and> Execution e)"
proof -
  have p: "Execution demo_execution" by code_simp
  then show ?thesis using execution_normalised [OF p, of demo_web] by metis
qed

lemma demo_execution_normalised:
  "(case normalizeExecution demo_web demo_execution of Inl e \<Rightarrow> False | Inr e \<Rightarrow>
      json_get e ''durationMs'' = Some (jnum 3000) \<and>
      json_get e ''diagnostics'' = Some (jobj [(''modelCallCount'', jnum 2), (''cacheStatus'', jstr ''MISS''),
        (''timingsMs'', jobj [(''open'', jnum 120)])]))"
  by code_simp

definition demo_generation :: "json \<Rightarrow> rat" where
  "demo_generation r = (case json_get r ''generation'' of Some (JNum (Fin x)) \<Rightarrow> x | _ \<Rightarrow> 0)"

definition demo_time :: "json \<Rightarrow> rat" where
  "demo_time x = (case observed_at demo_web x of Inr (Fin t) \<Rightarrow> t | _ \<Rightarrow> 0)"

definition demo_normalised :: json where
  "demo_normalised = (case normalizeMonitor demo_web demo_answer of Inr m \<Rightarrow> m | Inl e \<Rightarrow> JNull)"

lemma demo_keys:
  "list_all (\<lambda>q. generation q = Inr (Fin (demo_generation q))) demo_revisions"
  "list_all (\<lambda>x. observed_at demo_web x = Inr (Fin (demo_time x))) demo_observations"
  by code_simp+

theorem latest_and_current_witness:
  "normalizeMonitor demo_web demo_answer = Inr demo_normalised \<and>
   (\<exists>x \<in> set demo_observations. json_get demo_normalised ''latestObservation'' = Some x \<and>
      (\<forall>y \<in> set demo_observations. demo_time y \<le> demo_time x))"
proof -
  have p: "monitor_payload demo_answer" "normalizeMonitor demo_web demo_answer = Inr demo_normalised"
    "payload_part demo_answer ''observations'' = Some (JArr demo_observations)"
    "payload_part demo_answer ''revisions'' = Some (JArr demo_revisions)" "demo_observations \<noteq> []"
    by code_simp+
  then show ?thesis
    using latest_and_current [OF p(1,2,3) _ p(4), of demo_time demo_generation] demo_keys by (auto simp: list_all_iff)
qed

definition missing_init :: request_init where
  "missing_init = sending ''PATCH'' (jobj [(''status'', jstr ''paused'')])"

theorem refusals_reported_witness:
  "\<not> ok demo_refusal \<and> (\<nexists>v. fst (request demo_web (js ''/api/v1/monitors/m2'') missing_init []) = Inr v)"
proof -
  have p: "we_fetch demo_web [] (request_of demo_web (js ''/api/v1/monitors/m2'') missing_init) = Some demo_refusal"
    "wr_body demo_refusal = Some (json_stringify (jobj [(''error'', jobj [(''code'', jstr ''NOT_FOUND''), (''message'', jstr ''Monitor not found'')])]))"
    "\<not> ok demo_refusal"
    by code_simp+
  then show ?thesis using refusals_reported [OF p(1,2)] by blast
qed

theorem client_requests_contained_witness:
  "asks_once demo_web [js ''api'', js ''v1'', js ''monitors'', js ''..%2Fadmin%3Fx'', js ''reviews'', js ''r1'', js ''reject'']
     (\<lambda>_. \<lparr>ri_method = js ''POST'', ri_headers = [], ri_body = None\<rparr>)
     (reviewRevision demo_web (js ''../admin?x'') (js ''r1'') False)"
proof -
  have p: "encode_component (js ''../admin?x'') = Some (js ''..%2Fadmin%3Fx'')" "path_id (js ''../admin?x'')"
    "encode_component (js ''r1'') = Some (js ''r1'')" "path_id (js ''r1'')"
    by (code_simp+)
  show ?thesis using client_requests_contained [OF p, of demo_web undefined undefined undefined False] by simp
qed

definition demo_requests :: "string list \<Rightarrow> web_request list" where
  "demo_requests paths = map (\<lambda>p. request_of demo_web (js p) no_init) paths"

lemma demo_plain: "plain demo_answer" "plain demo_execution"
  by code_simp+

lemma json_answer_request:
  assumes "we_fetch E w (request_of E path init) = Some (json_answer 200 v)" "plain v"
  shows "request E path init w = (Inr (unwrap v), w @ [request_of E path init])"
proof -
  have "str_includes (js ''application/json'') (js ''application/json'')" "ok (json_answer 200 v)"
    by (auto simp: str_includes_iff ok_def json_answer_def intro: exI [of _ "[]"])
  moreover have "fst (web_body (json_answer 200 v) w) = Inr v"
    using calculation(1) json_parse_stringify [OF assms(2)] by (simp add: web_body_def json_answer_def)
  ultimately show ?thesis by (simp add: request_run assms(1))
qed

lemma demo_request:
  "request demo_web (js ''/api/v1/monitors/m1'') no_init w = (Inr demo_answer, w @ demo_requests [''/api/v1/monitors/m1''])"
  "request demo_web (js ''/api/v1/executions/e3'') no_init w = (Inr demo_execution, w @ demo_requests [''/api/v1/executions/e3''])"
proof -
  have u: "unwrap demo_answer = demo_answer" "unwrap demo_execution = demo_execution" by code_simp+
  have "we_fetch demo_web w (request_of demo_web (js ''/api/v1/monitors/m1'') no_init) = Some (json_answer 200 demo_answer)"
    "we_fetch demo_web w (request_of demo_web (js ''/api/v1/executions/e3'') no_init) = Some (json_answer 200 demo_execution)"
    by (simp_all add: demo_web_def request_of_def baseUrl_def)
  then show "request demo_web (js ''/api/v1/monitors/m1'') no_init w = (Inr demo_answer, w @ demo_requests [''/api/v1/monitors/m1''])"
    "request demo_web (js ''/api/v1/executions/e3'') no_init w = (Inr demo_execution, w @ demo_requests [''/api/v1/executions/e3''])"
    using json_answer_request demo_plain u by (simp_all add: demo_requests_def)
qed

lemma demo_paths:
  "monitor_path (js ''m1'') [] = Inr (js ''/api/v1/monitors/m1'')" "encoded (js ''e3'') = Inr (js ''e3'')"
  "js ''/api/v1/executions/'' @ js ''e3'' = js ''/api/v1/executions/e3''"
  by code_simp+

definition demo_normal_execution :: json where
  "demo_normal_execution = (case normalizeExecution demo_web demo_execution of Inr e \<Rightarrow> e | Inl e \<Rightarrow> JNull)"

lemma demo_normal:
  "normalizeMonitor demo_web demo_answer = Inr demo_normalised" "normalizeExecution demo_web demo_execution = Inr demo_normal_execution"
  by code_simp+

lemma demo_runs:
  "getMonitor demo_web (js ''m1'') w = (Inr demo_normalised, w @ demo_requests [''/api/v1/monitors/m1''])"
  "getExecution demo_web (js ''e3'') w = (Inr demo_normal_execution, w @ demo_requests [''/api/v1/executions/e3''])"
  by (simp_all add: getMonitor_def getExecution_def request_monitor_def demo_paths demo_request demo_normal web_bind_def)

definition demo_review :: json where
  "demo_review = review demo_normalised (demo_revisions ! 2) (Some demo_normal_execution) (Some (demo_revisions ! Suc 0))
     [change ''product title'' (Some (jstr ''Desk'')) (Some (jstr ''Lamp''))]"

lemma demo_review_parts:
  "list_of (json_get demo_normalised ''revisions'') = Inr (Some demo_revisions)"
  "find_throw (same_id (Inr (Some (JStr (js ''r3''))))) demo_revisions = Inr (Some (demo_revisions ! 2))"
  "previous_revision (demo_revisions ! 2) (json_get demo_normalised ''revisions'') = Inr (Some (demo_revisions ! Suc 0))"
  "candidate_execution demo_web (demo_revisions ! 2) (json_get demo_normalised ''executions'') = Inr (Some demo_summary)"
  "to_text (json_get demo_summary ''id'') = Inr (js ''e3'')"
  "changes (Some (demo_revisions ! Suc 0)) (demo_revisions ! 2) = Inr [change ''product title'' (Some (jstr ''Desk'')) (Some (jstr ''Lamp''))]"
  by code_simp+

lemma demo_review_run:
  "getReview demo_web (js ''m1'') (js ''r3'') [] = (Inr demo_review, demo_requests [''/api/v1/monitors/m1'', ''/api/v1/executions/e3''])"
  unfolding getReview_def demo_review_def
  by (simp add: web_bind_def demo_runs demo_review_parts demo_paths web_optional_def demo_requests_def)

text \<open>
  The third generation is compared with the rejected second one, whose title differs, and not with the active first one.
\<close>

lemma demo_review_baseline:
  "opt_get (opt_get (json_get demo_review ''comparison'') ''previous'') ''id'' = Some (jstr ''r2'')"
  "json_get demo_normalised ''currentRevisionId'' = Some (jstr ''r1'')"
  by code_simp+

theorem review_compares_witness:
  "getReview demo_web (js ''m1'') (js ''r3'') [] = (Inr demo_review, demo_requests [''/api/v1/monitors/m1'', ''/api/v1/executions/e3'']) \<and>
   (\<exists>r \<in> set demo_revisions. json_get r ''id'' = Some (JStr (js ''r3'')) \<and> json_get demo_review ''revision'' = Some r)"
proof -
  have p: "Monitor demo_normalised" "json_get demo_normalised ''revisions'' = Some (JArr demo_revisions)"
    by code_simp+
  have gen: "generation q = Inr (Fin (demo_generation q))" if "q \<in> set demo_revisions" for q
    using demo_keys(1) that by (simp add: list_all_iff)
  show ?thesis
    using demo_review_run review_compares [OF demo_review_run demo_runs(1) p gen] by blast
qed

end
