(* ===== verification/WebQueries.thy ===== *)
theory WebQueries
  imports WebDemo "HOL-Library.Sublist"
begin

text \<open>
  The queries and mutations of the web application (\<open>web/src/api/queries.ts\<close>). A query is what a hook
  gives to the query client: its key, its function, whether it runs and how often. The query client
  is not under \<open>src/\<close>: its cache is any type, with \<open>invalidate\<close> the effect of \<open>invalidateQueries\<close>.
\<close>

type_synonym query_key = "json list"

section \<open>Keys\<close>

definition key_monitors :: query_key where
  "key_monitors = [JStr (js ''monitors'')]"

definition key_monitor :: "json \<Rightarrow> query_key" where
  "key_monitor i = [JStr (js ''monitor''), i]"

definition key_execution :: "json \<Rightarrow> query_key" where
  "key_execution i = [JStr (js ''execution''), i]"

definition key_review :: "json \<Rightarrow> json \<Rightarrow> query_key" where
  "key_review monitorId revisionId = [JStr (js ''review''), monitorId, revisionId]"

definition key_status :: query_key where
  "key_status = [JStr (js ''system''), JStr (js ''status'')]"

definition key_metrics :: query_key where
  "key_metrics = [JStr (js ''system''), JStr (js ''metrics'')]"

section \<open>Queries\<close>

text \<open>The interval of \<open>refetchInterval\<close> in milliseconds, from the data the query has; \<open>None\<close> is \<open>false\<close>.\<close>

record 'a query =
  q_key :: query_key
  q_fn :: "'a web"
  q_enabled :: bool
  q_interval :: "'a option \<Rightarrow> nat option"

definition useMonitors :: "web_env \<Rightarrow> json option query" where
  "useMonitors E = \<lparr>q_key = key_monitors, q_fn = listMonitors E, q_enabled = True, q_interval = (\<lambda>_. Some 30000)\<rparr>"

definition useMonitor :: "web_env \<Rightarrow> jsstr \<Rightarrow> json query" where
  "useMonitor E i = \<lparr>q_key = key_monitor (JStr i), q_fn = getMonitor E i, q_enabled = (i \<noteq> []), q_interval = (\<lambda>_. None)\<rparr>"

definition useExecution :: "web_env \<Rightarrow> jsstr \<Rightarrow> json query" where
  "useExecution E i = \<lparr>q_key = key_execution (JStr i), q_fn = getExecution E i, q_enabled = (i \<noteq> []),
     q_interval = (\<lambda>data. let state = opt_get data ''state'' in
       if strict_eq state (Some (JStr (js ''queued''))) \<or> strict_eq state (Some (JStr (js ''running''))) then Some 2000 else None)\<rparr>"

definition useReview :: "web_env \<Rightarrow> jsstr \<Rightarrow> jsstr \<Rightarrow> json query" where
  "useReview E monitorId revisionId = \<lparr>q_key = key_review (JStr monitorId) (JStr revisionId),
     q_fn = getReview E monitorId revisionId, q_enabled = (monitorId \<noteq> [] \<and> revisionId \<noteq> []), q_interval = (\<lambda>_. None)\<rparr>"

definition useServiceStatus :: "web_env \<Rightarrow> json query" where
  "useServiceStatus E = \<lparr>q_key = key_status, q_fn = getServiceStatus E, q_enabled = True, q_interval = (\<lambda>_. Some 15000)\<rparr>"

definition useMetrics :: "web_env \<Rightarrow> bool \<Rightarrow> jsstr query" where
  "useMetrics E enabled = \<lparr>q_key = key_metrics, q_fn = getMetrics E, q_enabled = enabled, q_interval = (\<lambda>_. Some 15000)\<rparr>"

section \<open>Mutations\<close>

record ('i, 'a) mutation =
  m_fn :: "'i \<Rightarrow> 'a web"
  m_invalidated :: "query_key list"

definition useCreateMonitor :: "web_env \<Rightarrow> (json, json) mutation" where
  "useCreateMonitor E = \<lparr>m_fn = createMonitor E, m_invalidated = [key_monitors]\<rparr>"

definition useUpdateMonitor :: "web_env \<Rightarrow> jsstr \<Rightarrow> (json, json) mutation" where
  "useUpdateMonitor E i = \<lparr>m_fn = updateMonitor E i, m_invalidated = [key_monitor (JStr i), key_monitors]\<rparr>"

definition useConfirmMonitor :: "web_env \<Rightarrow> jsstr \<Rightarrow> (json \<times> json option, json) mutation" where
  "useConfirmMonitor E i = \<lparr>m_fn = (\<lambda>(revision, condition). confirmMonitor E i revision condition),
     m_invalidated = [key_monitor (JStr i), key_monitors]\<rparr>"

definition useRunCheck :: "web_env \<Rightarrow> jsstr \<Rightarrow> (unit, json) mutation" where
  "useRunCheck E i = \<lparr>m_fn = (\<lambda>_. runCheck E i), m_invalidated = [key_monitor (JStr i)]\<rparr>"

definition useReviewDecision :: "web_env \<Rightarrow> jsstr \<Rightarrow> jsstr \<Rightarrow> (bool, json) mutation" where
  "useReviewDecision E monitorId revisionId = \<lparr>m_fn = reviewRevision E monitorId revisionId,
     m_invalidated = [key_monitor (JStr monitorId), key_monitors]\<rparr>"

text \<open>\<open>mutateAsync\<close>: the function, and after a success the handler \<open>onSuccess\<close>.\<close>

definition mutate :: "(query_key \<Rightarrow> 'c \<Rightarrow> 'c) \<Rightarrow> ('i, 'a) mutation \<Rightarrow> 'i \<Rightarrow> web_request list \<Rightarrow> 'c \<Rightarrow>
    (web_error + 'a) \<times> web_request list \<times> 'c" where
  "mutate invalidate m input w c =
    (case m_fn m input w of
       (Inl e, w') \<Rightarrow> (Inl e, w', c)
     | (Inr v, w') \<Rightarrow> (Inr v, w', fold invalidate (m_invalidated m) c))"

section \<open>What becomes stale\<close>

text \<open>
  What the application relies on of the query client: \<open>invalidateQueries({ queryKey })\<close> makes every query
  stale whose key begins with the given one, and no other.
\<close>

definition invalidates :: "(query_key \<Rightarrow> 'c \<Rightarrow> 'c) \<Rightarrow> ('c \<Rightarrow> query_key \<Rightarrow> bool) \<Rightarrow> bool" where
  "invalidates invalidate stale \<longleftrightarrow> (\<forall>f c k. stale (invalidate f c) k \<longleftrightarrow> stale c k \<or> prefix f k)"

lemma stale_fold:
  "invalidates invalidate stale \<Longrightarrow> stale (fold invalidate fs c) k \<longleftrightarrow> stale c k \<or> (\<exists>f \<in> set fs. prefix f k)"
  by (induction fs arbitrary: c) (auto simp: invalidates_def)

lemma mutate_stale:
  assumes "invalidates invalidate stale" "mutate invalidate m input w c = (r, w', c')"
  shows "stale c' k \<longleftrightarrow> stale c k \<or> (\<exists>v. r = Inr v) \<and> (\<exists>f \<in> set (m_invalidated m). prefix f k)"
  using assms(2) stale_fold [OF assms(1)] by (auto simp: mutate_def split: prod.splits sum.splits)

lemma prefix_keys:
  "prefix key_monitors (q_key (useMonitors E))"
  "prefix (key_monitor i) (q_key (useMonitor E j)) \<longleftrightarrow> i = JStr j"
  "\<not> prefix key_monitors (q_key (useMonitor E j))" "\<not> prefix (key_monitor i) (q_key (useMonitors E))"
  "\<not> prefix key_monitors (q_key (useExecution E j))" "\<not> prefix (key_monitor i) (q_key (useExecution E j))"
  "\<not> prefix key_monitors (q_key (useReview E j k))" "\<not> prefix (key_monitor i) (q_key (useReview E j k))"
  "prefix (key_execution i) (q_key (useExecution E j)) \<longleftrightarrow> i = JStr j"
  "\<not> prefix (key_execution i) (q_key (useMonitors E))" "\<not> prefix (key_execution i) (q_key (useMonitor E j))"
  by (auto simp: key_monitors_def key_monitor_def key_execution_def key_review_def useMonitors_def useMonitor_def
      useExecution_def useReview_def js_inject)

text \<open>
  A change of a monitor that the control plane accepted makes the list of monitors and the queries of
  this monitor stale, and of the application's queries no other monitor's, execution's or review's; a
  check makes only its monitor stale; a change that was refused makes nothing stale.
\<close>

theorem changes_refresh:
  assumes "invalidates invalidate stale" "\<And>k. \<not> stale c k"
    and "mutate invalidate (useUpdateMonitor E i) input w c = (r1, w1, c1)"
    and "mutate invalidate (useConfirmMonitor E i) confirmed w c = (r2, w2, c2)"
    and "mutate invalidate (useReviewDecision E i rid) accept w c = (r3, w3, c3)"
    and "mutate invalidate (useRunCheck E i) () w c = (r4, w4, c4)"
  shows "list_all (\<lambda>(r, c').
      (stale c' (q_key (useMonitors E)) \<longleftrightarrow> (\<exists>v. r = Inr v)) \<and>
      (\<forall>j. stale c' (q_key (useMonitor E j)) \<longleftrightarrow> (\<exists>v. r = Inr v) \<and> j = i) \<and>
      (\<forall>j. \<not> stale c' (q_key (useExecution E j))) \<and> (\<forall>j k. \<not> stale c' (q_key (useReview E j k))))
      [(r1, c1), (r2, c2), (r3, c3)] \<and>
    \<not> stale c4 (q_key (useMonitors E)) \<and>
    (\<forall>j. stale c4 (q_key (useMonitor E j)) \<longleftrightarrow> (\<exists>v. r4 = Inr v) \<and> j = i)"
  using assms(2) mutate_stale [OF assms(1,3)] mutate_stale [OF assms(1,4)] mutate_stale [OF assms(1,5)]
    mutate_stale [OF assms(1,6)]
  by (auto simp: useUpdateMonitor_def useConfirmMonitor_def useReviewDecision_def useRunCheck_def prefix_keys)

text \<open>A cache that records the filters given to \<open>invalidateQueries\<close>.\<close>

definition demo_stale :: "query_key list \<Rightarrow> query_key \<Rightarrow> bool" where
  "demo_stale c k \<longleftrightarrow> list_ex (\<lambda>f. prefix f k) c"

lemma demo_invalidates: "invalidates (\<lambda>f c. f # c) demo_stale"
  by (auto simp: invalidates_def demo_stale_def)

theorem changes_refresh_witness:
  "invalidates (\<lambda>f c. f # c) demo_stale \<and>
   \<not> demo_stale (snd (snd (mutate (\<lambda>f c. f # c) (useRunCheck demo_web (js ''m1'')) () [] []))) (q_key (useMonitors demo_web))"
proof -
  have n: "\<not> demo_stale [] k" for k by (simp add: demo_stale_def)
  obtain r1 w1 c1 r2 w2 c2 r3 w3 c3 r4 w4 c4 where
    "mutate (\<lambda>f c. f # c) (useUpdateMonitor demo_web (js ''m1'')) JNull [] [] = (r1, w1, c1)"
    "mutate (\<lambda>f c. f # c) (useConfirmMonitor demo_web (js ''m1'')) (JNull, None) [] [] = (r2, w2, c2)"
    "mutate (\<lambda>f c. f # c) (useReviewDecision demo_web (js ''m1'') (js ''r3'')) True [] [] = (r3, w3, c3)"
    "mutate (\<lambda>f c. f # c) (useRunCheck demo_web (js ''m1'')) () [] [] = (r4, w4, c4)"
    by (metis prod_cases3)
  from changes_refresh [OF demo_invalidates n this] this(4) show ?thesis using demo_invalidates by simp
qed

text \<open>An execution is fetched again every two seconds exactly until it has ended.\<close>

lemma execution_polled:
  assumes "Execution e"
  shows "q_interval (useExecution E i) (Some e) =
    (if json_get e ''state'' \<in> {Some (JStr (js ''queued'')), Some (JStr (js ''running''))} then Some 2000 else None)"
proof -
  have "\<exists>s. json_get e ''state'' = Some (JStr s)"
    using assms by (cases e) (auto simp: Execution_def summary_required_def has_prop_def ExecutionState_def one_of_def split: option.splits)
  then show ?thesis by (auto simp: useExecution_def opt_get_def Let_def strict_eq_string)
qed

end
