(* ===== verification/LiveEvents.thy ===== *)
theory LiveEvents
  imports WebQueries
begin

text \<open>
  The live event feed (\<open>web/src/live-events.tsx\<close>): one run of the effect of \<open>LiveEventsProvider\<close>, from
  its start to its cleanup. The browser's event sources and timeouts are part of the state: which of
  the sources created so far are open, which timeouts are pending. A closed source has no more
  events, and identifiers of timeouts are positive. An abstract feed says what the provider promises.
\<close>

section \<open>Decoding\<close>

record message_event =
  me_type :: jsstr
  me_data :: jsstr

definition string_part :: "json option \<Rightarrow> string \<Rightarrow> json option" where
  "string_part data k = (case opt_get data k of Some (JStr s) \<Rightarrow> Some (JStr s) | _ \<Rightarrow> None)"

text \<open>\<open>uuid\<close> and \<open>now\<close> are what \<open>crypto.randomUUID()\<close> and \<open>new Date().toISOString()\<close> give.\<close>

definition undecoded :: "jsstr \<Rightarrow> jsstr \<Rightarrow> message_event \<Rightarrow> json" where
  "undecoded uuid now m = JObj
     [(js ''id'', JStr uuid), (js ''type'', JStr (if me_type m = [] then js ''system.event'' else me_type m)),
      (js ''occurredAt'', JStr now), (js ''message'', JStr (me_data m))]"

definition decodeEvent :: "jsstr \<Rightarrow> jsstr \<Rightarrow> message_event \<Rightarrow> json" where
  "decodeEvent uuid now m =
     (case json_parse (me_data m) of
        None \<Rightarrow> undecoded uuid now m
      | Some JNull \<Rightarrow> undecoded uuid now m
      | Some parsed \<Rightarrow>
         let data = (if truthy (json_get parsed ''data'') \<and> is_object (json_get parsed ''data'') then json_get parsed ''data'' else None)
         in JObj
           (put ''data'' data
           (put ''message'' (coalesce (json_get parsed ''message'') (string_part data ''message''))
           (put ''executionId'' (coalesce (json_get parsed ''executionId'') (string_part data ''executionId''))
           (put ''monitorId'' (coalesce (json_get parsed ''monitorId'') (string_part data ''monitorId''))
           (put ''occurredAt'' (coalesce (json_get parsed ''occurredAt'') (coalesce (json_get parsed ''at'') (Some (JStr now))))
           (put ''type'' (coalesce (json_get parsed ''type'') (coalesce (Some (JStr (me_type m))) (Some (JStr (js ''system.event'')))))
           (put ''id'' (coalesce (json_get parsed ''id'') (Some (JStr uuid))) []))))))))"

section \<open>State\<close>

datatype connection = Connecting | Live | Offline

record live =
  le_events :: "json list"
  le_connection :: connection
  le_sources :: "bool list"
  le_source :: "nat option"
  le_timers :: "nat list"
  le_timer :: "nat option"
  le_next :: nat
  le_stopped :: bool
  le_invalidated :: "query_key list"

definition connect :: "live \<Rightarrow> live" where
  "connect s = (if le_stopped s then s else s
     \<lparr>le_connection := Connecting, le_sources := le_sources s @ [True], le_source := Some (length (le_sources s))\<rparr>)"

definition close_source :: "live \<Rightarrow> live" where
  "close_source s = (case le_source s of None \<Rightarrow> s | Some i \<Rightarrow> s\<lparr>le_sources := (le_sources s)[i := False]\<rparr>)"

definition on_open :: "live \<Rightarrow> live" where
  "on_open s = s\<lparr>le_connection := Live\<rparr>"

definition event_keys :: "json \<Rightarrow> query_key list" where
  "event_keys event = key_monitors #
     (case json_get event ''monitorId'' of Some i \<Rightarrow> if truthy (Some i) then [key_monitor i] else [] | None \<Rightarrow> []) @
     (case json_get event ''executionId'' of Some i \<Rightarrow> if truthy (Some i) then [key_execution i] else [] | None \<Rightarrow> [])"

definition handleMessage :: "jsstr \<Rightarrow> jsstr \<Rightarrow> message_event \<Rightarrow> live \<Rightarrow> live" where
  "handleMessage uuid now m s =
    (let event = decodeEvent uuid now m in
     s\<lparr>le_events := take 100 (event # le_events s), le_invalidated := le_invalidated s @ event_keys event\<rparr>)"

definition on_error :: "live \<Rightarrow> live" where
  "on_error s =
    (let s1 = close_source (s\<lparr>le_connection := Offline\<rparr>) in
     s1\<lparr>le_timers := le_timers s1 @ [le_next s1], le_timer := Some (le_next s1), le_next := Suc (le_next s1)\<rparr>)"

definition cleanup :: "live \<Rightarrow> live" where
  "cleanup s =
    (let s1 = close_source (s\<lparr>le_stopped := True\<rparr>) in
     case le_timer s1 of
       None \<Rightarrow> s1
     | Some t \<Rightarrow> if t = 0 then s1 else s1\<lparr>le_timers := remove1 t (le_timers s1)\<rparr>)"

text \<open>The effect, with or without \<open>EventSource\<close> in the browser.\<close>

definition idle :: live where
  "idle = \<lparr>le_events = [], le_connection = Connecting, le_sources = [], le_source = None, le_timers = [], le_timer = None,
     le_next = 1, le_stopped = False, le_invalidated = []\<rparr>"

definition start :: "bool \<Rightarrow> live" where
  "start supported = (if supported then connect idle else idle\<lparr>le_connection := Offline\<rparr>)"

section \<open>Steps\<close>

datatype live_action =
    Opened nat
  | Message nat message_event jsstr jsstr
  | Failed nat
  | Fired nat
  | Cleanup

definition source_open :: "live \<Rightarrow> nat \<Rightarrow> bool" where
  "source_open s i \<longleftrightarrow> i < length (le_sources s) \<and> le_sources s ! i"

text \<open>An effect that returned early has no cleanup.\<close>

inductive live_step :: "live \<Rightarrow> live_action \<Rightarrow> live \<Rightarrow> bool" where
  opened: "source_open s i \<Longrightarrow> live_step s (Opened i) (on_open s)"
| message: "source_open s i \<Longrightarrow> live_step s (Message i m uuid now) (handleMessage uuid now m s)"
| failed: "source_open s i \<Longrightarrow> live_step s (Failed i) (on_error s)"
| fired: "t \<in> set (le_timers s) \<Longrightarrow> live_step s (Fired t) (connect (s\<lparr>le_timers := remove1 t (le_timers s)\<rparr>))"
| ended: "le_source s \<noteq> None \<Longrightarrow> \<not> le_stopped s \<Longrightarrow> live_step s Cleanup (cleanup s)"

inductive live_run :: "live \<Rightarrow> live_action list \<Rightarrow> live \<Rightarrow> bool" where
  none: "live_run s [] s"
| snoc: "live_run s as s' \<Longrightarrow> live_step s' a s'' \<Longrightarrow> live_run s (as @ [a]) s''"

inductive_cases live_stepE: "live_step s a s'"
inductive_simps live_step_simps:
  "live_step s (Opened i) s'" "live_step s (Message i m uuid now) s'" "live_step s (Failed i) s'" "live_step s (Fired t) s'"
  "live_step s Cleanup s'"

section \<open>The abstract feed\<close>

datatype phase = Unsupported | Trying | Up | Waiting | Ended

record feed =
  fd_phase :: phase
  fd_events :: "json list"

definition fresh_feed :: "bool \<Rightarrow> feed" where
  "fresh_feed supported = \<lparr>fd_phase = (if supported then Trying else Unsupported), fd_events = []\<rparr>"

fun feed_next :: "live_action \<Rightarrow> feed \<Rightarrow> feed option" where
  "feed_next (Opened i) f = (if fd_phase f \<in> {Trying, Up} then Some (f\<lparr>fd_phase := Up\<rparr>) else None)"
| "feed_next (Message i m uuid now) f =
    (if fd_phase f \<in> {Trying, Up} then Some (f\<lparr>fd_events := decodeEvent uuid now m # fd_events f\<rparr>) else None)"
| "feed_next (Failed i) f = (if fd_phase f \<in> {Trying, Up} then Some (f\<lparr>fd_phase := Waiting\<rparr>) else None)"
| "feed_next (Fired t) f = (if fd_phase f = Waiting then Some (f\<lparr>fd_phase := Trying\<rparr>) else None)"
| "feed_next Cleanup f = (if fd_phase f \<in> {Trying, Up, Waiting} then Some (f\<lparr>fd_phase := Ended\<rparr>) else None)"

fun feed_run :: "live_action list \<Rightarrow> feed \<Rightarrow> feed option" where
  "feed_run [] f = Some f"
| "feed_run (a # as) f = Option.bind (feed_next a f) (feed_run as)"

definition phase_of :: "live \<Rightarrow> phase" where
  "phase_of s = (if le_stopped s then Ended else if le_source s = None then Unsupported
     else case le_connection s of Connecting \<Rightarrow> Trying | Live \<Rightarrow> Up | Offline \<Rightarrow> Waiting)"

section \<open>The invariant\<close>

text \<open>
  While it runs, the source in use is the only open one and no timeout is pending, or no source is
  open and one timeout is pending; afterwards nothing is left.
\<close>

definition live_ok :: "live \<Rightarrow> bool" where
  "live_ok s \<longleftrightarrow>
     0 < le_next s \<and> (\<forall>t \<in> set (le_timers s). t < le_next s) \<and> le_timer s \<noteq> Some 0 \<and>
     (if le_source s = None then le_sources s = [] \<and> le_timers s = [] \<and> le_connection s = Offline \<and> \<not> le_stopped s
      else
        (\<exists>i. le_source s = Some i \<and> i < length (le_sources s) \<and>
          (\<forall>j < length (le_sources s). le_sources s ! j \<longleftrightarrow> j = i \<and> \<not> le_stopped s \<and> le_connection s \<noteq> Offline)) \<and>
        (if le_stopped s \<or> le_connection s \<noteq> Offline then le_timers s = []
         else \<exists>t. le_timer s = Some t \<and> le_timers s = [t]))"

lemma start_ok: "live_ok (start supported)"
  by (simp add: live_ok_def start_def idle_def connect_def)

lemma source_open_ok:
  assumes "live_ok s" "source_open s i"
  shows "le_source s = Some i \<and> \<not> le_stopped s \<and> le_connection s \<noteq> Offline"
  using assms by (auto simp: live_ok_def source_open_def split: if_splits)

lemma step_ok: "live_step s a s' \<Longrightarrow> live_ok s \<Longrightarrow> live_ok s'"
proof (induction rule: live_step.induct)
  case (opened s i)
  then have "le_source s = Some i" "\<not> le_stopped s" "le_connection s \<noteq> Offline" using source_open_ok by blast+
  then show ?case using opened(2) by (simp add: live_ok_def on_open_def)
next
  case (message s i m uuid now)
  then show ?case by (simp add: live_ok_def handleMessage_def Let_def)
next
  case (failed s i)
  then have i: "le_source s = Some i" "\<not> le_stopped s" "le_connection s \<noteq> Offline" using source_open_ok by blast+
  then have ok: "0 < le_next s" "i < length (le_sources s)" "\<forall>j < length (le_sources s). le_sources s ! j \<longleftrightarrow> j = i" "le_timers s = []"
    using failed(2) by (simp_all add: live_ok_def)
  have "on_error s = s\<lparr>le_connection := Offline, le_sources := (le_sources s)[i := False], le_timers := [le_next s],
      le_timer := Some (le_next s), le_next := Suc (le_next s)\<rparr>"
    by (simp add: on_error_def close_source_def i ok)
  then show ?case using i ok by (simp add: live_ok_def nth_list_update)
next
  case (fired t s)
  then show ?case by (auto simp: live_ok_def connect_def nth_append less_Suc_eq split: if_splits)
next
  case (ended s)
  then show ?case
    by (auto simp: live_ok_def cleanup_def close_source_def Let_def nth_list_update split: if_splits option.splits)
qed

lemma run_ok: "live_run (start supported) as s \<Longrightarrow> live_ok s"
  by (induction "start supported" as s rule: live_run.induct) (auto simp: start_ok intro: step_ok)

section \<open>What the provider promises\<close>

lemma phase_step:
  assumes "live_step s a s'" "live_ok s"
  shows "feed_next a \<lparr>fd_phase = phase_of s, fd_events = es\<rparr> =
    Some \<lparr>fd_phase = phase_of s', fd_events = (case a of Message i m uuid now \<Rightarrow> decodeEvent uuid now m # es | _ \<Rightarrow> es)\<rparr>"
  using assms
proof cases
  case (opened i)
  then have "le_source s = Some i" "\<not> le_stopped s" "le_connection s \<noteq> Offline" using source_open_ok assms by blast+
  then show ?thesis using opened by (simp add: phase_of_def on_open_def split: connection.splits)
next
  case (message i m uuid now)
  then have "le_source s = Some i" "\<not> le_stopped s" "le_connection s \<noteq> Offline" using source_open_ok assms by blast+
  then show ?thesis using message by (simp add: phase_of_def handleMessage_def Let_def split: connection.splits)
next
  case (failed i)
  then have "le_source s = Some i" "\<not> le_stopped s" "le_connection s \<noteq> Offline" using source_open_ok assms by blast+
  then show ?thesis using failed by (simp add: phase_of_def on_error_def close_source_def Let_def split: connection.splits)
next
  case (fired t)
  then have "le_source s \<noteq> None" "\<not> le_stopped s" "le_connection s = Offline"
    using assms(2) by (auto simp: live_ok_def split: if_splits)
  then show ?thesis using fired by (simp add: phase_of_def connect_def)
next
  case ended
  then show ?thesis
    by (auto simp: phase_of_def cleanup_def close_source_def Let_def split: connection.splits option.splits)
qed

lemma feed_run_snoc: "feed_run (as @ [a]) f = Option.bind (feed_run as f) (feed_next a)"
  by (induction as f rule: feed_run.induct) (auto split: Option.bind_splits)

lemma events_step: "live_step s a s' \<Longrightarrow>
    le_events s' = (case a of Message i m uuid now \<Rightarrow> take 100 (decodeEvent uuid now m # le_events s) | _ \<Rightarrow> le_events s)"
  by (erule live_stepE)
    (auto simp: on_open_def handleMessage_def on_error_def close_source_def connect_def cleanup_def Let_def split: option.splits)

text \<open>
  C10. Every run of the provider is a run of the abstract feed, whatever sources and timeouts there are:
  a feed that is trying, up, waiting or ended. What the application shows are the hundred newest
  events of the feed, newest first.
\<close>

theorem live_refines_feed:
  assumes "live_run (start supported) as s"
  shows "\<exists>es. feed_run as (fresh_feed supported) = Some \<lparr>fd_phase = phase_of s, fd_events = es\<rparr> \<and> le_events s = take 100 es"
  using assms
proof (induction "start supported" as s rule: live_run.induct)
  case none
  show ?case by (simp add: fresh_feed_def start_def phase_of_def connect_def idle_def)
next
  case (snoc as s a s')
  then obtain es where "feed_run as (fresh_feed supported) = Some \<lparr>fd_phase = phase_of s, fd_events = es\<rparr>"
    "le_events s = take 100 es" by blast
  then show ?case using phase_step [OF snoc(3) run_ok [OF snoc(1)], of es] events_step [OF snoc(3)]
    by (auto simp: feed_run_snoc split: live_action.splits)
qed

lemma run_supported: "live_run (start True) as s \<Longrightarrow> le_source s \<noteq> None"
proof (induction "start True" as s rule: live_run.induct)
  case (snoc as s a s')
  then show ?case
    by (auto elim!: live_stepE simp: on_open_def handleMessage_def on_error_def close_source_def connect_def cleanup_def Let_def
      split: option.splits if_splits)
qed (simp add: start_def connect_def idle_def)

lemma run_unsupported: "live_run (start False) as s \<Longrightarrow> as = [] \<and> s = start False"
  by (induction "start False" as s rule: live_run.induct)
    (auto elim!: live_stepE simp: start_def idle_def source_open_def)

text \<open>
  C11. The provider never has two connections: at any time at most one event source is open, and the
  feed is offline exactly when it waits with one pending timeout or cannot connect at all; after
  the cleanup no source is open and no timeout pending.
\<close>

theorem one_connection:
  assumes "live_run (start supported) as s"
  shows "card {i. source_open s i} \<le> 1 \<and>
    (supported \<and> \<not> le_stopped s \<longrightarrow>
       (if le_connection s = Offline then (\<exists>t. le_timers s = [t]) \<and> (\<forall>i. \<not> source_open s i)
        else le_timers s = [] \<and> (\<exists>i. le_source s = Some i \<and> source_open s i))) \<and>
    (\<not> supported \<longrightarrow> as = [] \<and> le_connection s = Offline) \<and>
    (le_stopped s \<longrightarrow> le_timers s = [] \<and> (\<forall>i. \<not> source_open s i))"
proof -
  have ok: "live_ok s" using assms run_ok by blast
  show ?thesis
  proof (cases supported)
    case True
    then have "le_source s \<noteq> None" using assms run_supported by simp
    then obtain i where i: "le_source s = Some i" "i < length (le_sources s)"
      "\<forall>j < length (le_sources s). le_sources s ! j \<longleftrightarrow> j = i \<and> \<not> le_stopped s \<and> le_connection s \<noteq> Offline"
      and t: "if le_stopped s \<or> le_connection s \<noteq> Offline then le_timers s = [] else \<exists>t. le_timer s = Some t \<and> le_timers s = [t]"
      using ok by (auto simp: live_ok_def)
    have o: "source_open s j \<longleftrightarrow> j = i \<and> \<not> le_stopped s \<and> le_connection s \<noteq> Offline" for j
      using i by (auto simp: source_open_def)
    have "card {j. source_open s j} \<le> card {i}" by (intro card_mono) (auto simp: o)
    then show ?thesis using True i(1) t by (auto simp: o)
  next
    case False
    then have "as = []" "s = start False" using assms run_unsupported by auto
    then show ?thesis using False by (simp add: start_def idle_def source_open_def)
  qed
qed

text \<open>
  C12. Offline is never final: while the provider runs and is offline, all that can happen is its cleanup
  or the pending timeout, which opens a new connection.
\<close>

theorem offline_recovers:
  assumes "live_run (start True) as s" "\<not> le_stopped s" "le_connection s = Offline"
  shows "\<exists>t s'. live_step s (Fired t) s' \<and> le_connection s' = Connecting \<and> (\<exists>i. source_open s' i) \<and>
    (\<forall>a s''. live_step s a s'' \<longrightarrow> a = Cleanup \<or> a = Fired t)"
proof -
  have ok: "live_ok s" using assms(1) run_ok by blast
  have "le_source s \<noteq> None" using assms(1) run_supported by simp
  then obtain t where t: "le_timers s = [t]" using ok assms(2,3) by (auto simp: live_ok_def)
  let ?s = "connect (s\<lparr>le_timers := remove1 t (le_timers s)\<rparr>)"
  have step: "live_step s (Fired t) ?s" by (rule fired) (simp add: t)
  have "source_open ?s (length (le_sources s))" "le_connection ?s = Connecting"
    using assms(2) by (simp_all add: connect_def source_open_def)
  moreover have "a = Cleanup \<or> a = Fired t" if "live_step s a s''" for a s''
    using that t source_open_ok [OF ok] assms(3) by (auto elim!: live_stepE)
  ultimately show ?thesis using step by blast
qed

lemma set_event_keys: "f \<in> set (event_keys event) \<longleftrightarrow> f = key_monitors \<or>
    (\<exists>i. json_get event ''monitorId'' = Some i \<and> truthy (Some i) \<and> f = key_monitor i) \<or>
    (\<exists>i. json_get event ''executionId'' = Some i \<and> truthy (Some i) \<and> f = key_execution i)"
  by (cases "json_get event ''monitorId''"; cases "json_get event ''executionId''") (auto simp: event_keys_def)

text \<open>
  Every message makes the list of monitors stale, and the monitor and the execution it names, and
  nothing else; an event that names its monitor or execution only inside its data counts too.
\<close>

theorem message_refreshes:
  assumes "live_step s (Message i m uuid now) s'" "invalidates invalidate stale" "\<And>k. \<not> stale c k"
    and "le_invalidated s' = le_invalidated s @ fs"
    and "event = decodeEvent uuid now m"
  shows "stale (fold invalidate fs c) (q_key (useMonitors E)) \<and>
    (\<forall>j. stale (fold invalidate fs c) (q_key (useMonitor E j)) \<longleftrightarrow> j \<noteq> [] \<and> json_get event ''monitorId'' = Some (JStr j)) \<and>
    (\<forall>j. stale (fold invalidate fs c) (q_key (useExecution E j)) \<longleftrightarrow> j \<noteq> [] \<and> json_get event ''executionId'' = Some (JStr j)) \<and>
    (\<forall>parsed j. json_parse (me_data m) = Some parsed \<and> json_get parsed ''monitorId'' = None \<and>
        opt_get (json_get parsed ''data'') ''monitorId'' = Some (JStr j) \<longrightarrow> json_get event ''monitorId'' = Some (JStr j))"
proof -
  have fs: "fs = event_keys event"
    using assms(1,4,5) by (auto simp: live_step_simps handleMessage_def Let_def)
  have d: "json_get event ''monitorId'' = Some (JStr j)"
    if p: "json_parse (me_data m) = Some parsed" "json_get parsed ''monitorId'' = None"
      "opt_get (json_get parsed ''data'') ''monitorId'' = Some (JStr j)" for parsed j
  proof -
    obtain r q where "parsed = JObj r" "json_get parsed ''data'' = Some (JObj q)"
      using p(3) by (cases parsed; cases "json_get parsed ''data''") (auto simp: opt_get_def elim!: json_get.elims)
    then show ?thesis using p by (simp add: assms(5) decodeEvent_def Let_def string_part_def opt_get_def coalesce_def)
  qed
  have st: "stale (fold invalidate fs c) k \<longleftrightarrow> prefix key_monitors k \<or>
      (\<exists>i. json_get event ''monitorId'' = Some i \<and> truthy (Some i) \<and> prefix (key_monitor i) k) \<or>
      (\<exists>i. json_get event ''executionId'' = Some i \<and> truthy (Some i) \<and> prefix (key_execution i) k)" for k
    by (auto simp: stale_fold [OF assms(2)] fs assms(3) set_event_keys)
  show ?thesis
    using d by (simp add: st prefix_keys cong: conj_cong) auto
qed

theorem offline_recovers_witness:
  "\<exists>s t s'. live_run (start True) [Failed 0] s \<and> le_connection s = Offline \<and> live_step s (Fired t) s' \<and> le_connection s' = Connecting"
proof -
  have "live_run (start True) ([] @ [Failed 0]) (on_error (start True))"
    by (rule snoc [OF none], rule failed) (simp add: source_open_def start_def connect_def idle_def)
  then have r: "live_run (start True) [Failed 0] (on_error (start True))" by simp
  moreover have o: "\<not> le_stopped (on_error (start True))" "le_connection (on_error (start True)) = Offline" by code_simp+
  ultimately show ?thesis using offline_recovers [OF r o] by blast
qed

definition demo_message :: message_event where
  "demo_message = \<lparr>me_type = js ''update'', me_data = json_stringify (jobj
     [(''type'', jstr ''execution.completed''), (''data'', jobj [(''monitorId'', jstr ''m1''), (''executionId'', jstr ''e3'')])])\<rparr>"

definition demo_event :: json where
  "demo_event = decodeEvent (js ''u'') (js ''t'') demo_message"

lemma demo_live_run:
  "live_run (start True) [Opened 0, Message 0 demo_message (js ''u'') (js ''t'')]
    (handleMessage (js ''u'') (js ''t'') demo_message (on_open (start True)))"
proof -
  have o: "source_open (start True) 0" "source_open (on_open (start True)) 0"
    by (simp_all add: source_open_def start_def connect_def idle_def on_open_def)
  have "live_run (start True) (([] @ [Opened 0]) @ [Message 0 demo_message (js ''u'') (js ''t'')])
    (handleMessage (js ''u'') (js ''t'') demo_message (on_open (start True)))"
    by (rule snoc [OF snoc [OF none opened [OF o(1)]] message [OF o(2)]])
  then show ?thesis by simp
qed

theorem live_refines_feed_witness:
  "\<exists>s es. live_run (start True) [Opened 0, Message 0 demo_message (js ''u'') (js ''t'')] s \<and>
    feed_run [Opened 0, Message 0 demo_message (js ''u'') (js ''t'')] (fresh_feed True) = Some \<lparr>fd_phase = phase_of s, fd_events = es\<rparr> \<and>
    le_events s = take 100 es"
  using live_refines_feed [OF demo_live_run] demo_live_run by blast

theorem one_connection_witness:
  "\<exists>s. live_run (start True) [Opened 0, Message 0 demo_message (js ''u'') (js ''t'')] s \<and> card {i. source_open s i} \<le> 1"
  using one_connection [OF demo_live_run] demo_live_run by blast

theorem message_refreshes_witness:
  "demo_stale (fold (\<lambda>f c. f # c) (event_keys demo_event) []) (q_key (useMonitors demo_web)) \<and>
   demo_stale (fold (\<lambda>f c. f # c) (event_keys demo_event) []) (q_key (useMonitor demo_web (js ''m1'')))"
proof -
  have "source_open (start True) 0" by (simp add: source_open_def start_def connect_def idle_def)
  then have st: "live_step (start True) (Message 0 demo_message (js ''u'') (js ''t''))
    (handleMessage (js ''u'') (js ''t'') demo_message (start True))" by (rule message)
  have n: "\<not> demo_stale [] k" for k by (simp add: demo_stale_def)
  have i: "le_invalidated (handleMessage (js ''u'') (js ''t'') demo_message (start True)) = le_invalidated (start True) @ event_keys demo_event"
    by (simp add: handleMessage_def demo_event_def Let_def)
  have "json_get demo_event ''monitorId'' = Some (JStr (js ''m1''))" by code_simp
  then show ?thesis using message_refreshes [OF st demo_invalidates n i demo_event_def, of demo_web] by simp
qed

end
