(* ===== verification/WebFormat.thy ===== *)
theory WebFormat
  imports JsDate JsRegex
begin

text \<open>
  How the web application shows values (\<open>web/src/lib/format.ts\<close>). The formats that depend on the
  reader's locale (\<open>Intl.NumberFormat\<close>, \<open>Intl.DateTimeFormat\<close>), the strings only an engine can read
  as a date, the clock and the URL parser are a record of arguments; \<open>Intl.NumberFormat\<close> throws, here
  \<open>None\<close>, on a currency it does not take for a code.
\<close>

record web_platform =
  wp_currency_format :: "jsstr \<Rightarrow> dbl \<Rightarrow> jsstr option"
  wp_date_format :: "dbl \<Rightarrow> jsstr"
  wp_date_other :: "jsstr \<Rightarrow> dbl"
  wp_now :: dbl
  wp_hostname :: "jsstr \<Rightarrow> jsstr option"
  wp_protocol :: "jsstr \<Rightarrow> jsstr option"

definition dash :: jsstr where
  "dash = [8212]"

definition formatMoney :: "web_platform \<Rightarrow> dbl option \<Rightarrow> jsstr option \<Rightarrow> jsstr" where
  "formatMoney W value currency0 =
    (let currency = (case currency0 of None \<Rightarrow> js ''USD'' | Some c \<Rightarrow> c) in
     case value of
       None \<Rightarrow> dash
     | Some v \<Rightarrow>
        if v = NaN then dash
        else case wp_currency_format W currency (dquot v 100) of
          Some t \<Rightarrow> t
        | None \<Rightarrow> currency @ [32] @ to_fixed 2 (dquot v 100))"

definition formatDate :: "web_platform \<Rightarrow> jsstr option \<Rightarrow> jsstr" where
  "formatDate W value =
    (case value of
       None \<Rightarrow> dash
     | Some v \<Rightarrow>
        if v = [] then dash
        else let date = date_parse (wp_date_other W) v in
          if date = NaN then dash else wp_date_format W date)"

definition formatRelative :: "web_platform \<Rightarrow> jsstr option \<Rightarrow> jsstr" where
  "formatRelative W value =
    (case value of
       None \<Rightarrow> js ''Not scheduled''
     | Some v \<Rightarrow>
        if v = [] then js ''Not scheduled''
        else
          let delta = dsub (date_parse (wp_date_other W) v) (wp_now W) in
          if delta = NaN then js ''Unknown''
          else
            let abs = dabs delta; ahead = dle (Fin 0) delta;
                suffix = (if ahead then js ''from now'' else js ''ago'') in
            if dless abs (Fin 60000) then (if ahead then js ''in a moment'' else js ''just now'')
            else if dless abs (Fin 3600000) then show_dbl (math_round (dquot abs 60000)) @ js ''m '' @ suffix
            else if dless abs (Fin 86400000) then show_dbl (math_round (dquot abs 3600000)) @ js ''h '' @ suffix
            else show_dbl (math_round (dquot abs 86400000)) @ js ''d '' @ suffix)"

definition formatDuration :: "dbl option \<Rightarrow> jsstr" where
  "formatDuration ms0 =
    (case ms0 of
       None \<Rightarrow> dash
     | Some ms \<Rightarrow>
        if dless ms (Fin 1000) then show_dbl ms @ js ''ms''
        else if dless ms (Fin 60000) then to_fixed 1 (dquot ms 1000) @ js ''s''
        else show_dbl (math_floor (dquot ms 60000)) @ js ''m '' @
          show_dbl (math_round (dquot (dmod ms 60000) 1000)) @ js ''s'')"

definition hostname :: "web_platform \<Rightarrow> jsstr \<Rightarrow> jsstr" where
  "hostname W url =
    (case wp_hostname W url of
       None \<Rightarrow> url
     | Some h \<Rightarrow> if starts_with h (js ''www.'') then drop 4 h else h)"

text \<open>The pattern \<open>\b\w\<close>, and the label of a name such as \<open>needs_review\<close>.\<close>

definition word_start_re :: re where
  "word_start_re = Seq WordB (Cls [(65, 90), (97, 122), (48, 57), (95, 95)])"

definition labelize :: "jsstr option \<Rightarrow> jsstr" where
  "labelize value =
    (case value of
       None \<Rightarrow> js ''Unknown''
     | Some v \<Rightarrow>
        if v = [] then js ''Unknown''
        else replace_all False word_start_re (map upper_unit) (map (\<lambda>c. if c = 95 then 32 else c) v))"

lemma format_examples:
  "formatDuration (Some (Fin 480)) = js ''480ms''"
  "formatDuration (Some (Fin 1250)) = js ''1.3s''"
  "formatDuration (Some (Fin 125000)) = js ''2m 5s''"
  "formatDuration (Some (Fin 119999)) = js ''1m 60s''"
  "formatDuration (Some (Fin 59990)) = js ''60.0s''"
  "labelize (Some (js ''needs_review'')) = js ''Needs Review''"
  by code_simp+

end
