(* ===== verification/WebPages.thy ===== *)
theory WebPages
  imports WebFormat WebQueries Platform
begin

text \<open>
  What the pages compute and send (\<open>web/src/pages\<close>, \<open>web/src/components\<close>): the form of a new monitor, the
  confirmation of a condition, the actions of a monitor, and the values the dashboard, the execution
  page, the operations page and the chart show. The markup around them is not modelled.
\<close>

section \<open>Helpers\<close>

text \<open>\<open>a ?? d\<close> for a default that is not nullish, and a number of a value that may be one.\<close>

definition value_or :: "json option \<Rightarrow> json \<Rightarrow> json" where
  "value_or v d = (case v of Some x \<Rightarrow> if x = JNull then d else x | None \<Rightarrow> d)"

fun ddiv :: "dbl \<Rightarrow> dbl \<Rightarrow> dbl" where
  "ddiv (Fin x) (Fin y) = (if y = 0 then if x = 0 then NaN else Inf (x < 0) else fl (x / y))"
| "ddiv (Fin x) (Inf s) = Fin 0"
| "ddiv (Inf s) (Fin y) = Inf (s \<noteq> (y < 0))"
| "ddiv _ _ = NaN"

text \<open>\<open>[...xs].sort((a, b) => key(a) - key(b))\<close>: a single element is not compared.\<close>

definition sorted_by :: "(json \<Rightarrow> web_error + dbl) \<Rightarrow> json list \<Rightarrow> web_error + json list" where
  "sorted_by key xs =
    (if length xs < 2 then Inr xs
     else rbind (map_throw key xs) (\<lambda>ks. Inr (map snd (js_sort (\<lambda>a b. dless (fst a) (fst b)) (zip ks xs)))))"

definition items_of :: "json option \<Rightarrow> json list" where
  "items_of v = (case v of Some (JArr vs) \<Rightarrow> vs | _ \<Rightarrow> [])"

definition is_value :: "string \<Rightarrow> json option \<Rightarrow> bool" where
  "is_value s v \<longleftrightarrow> v = Some (JStr (js s))"

section \<open>Status badges\<close>

definition tones :: "(string \<times> string) list" where
  "tones =
     [(''active'', ''success''), (''healthy'', ''success''), (''ready'', ''success''), (''succeeded'', ''success''),
      (''verified'', ''success''), (''live'', ''success''), (''awaiting_confirmation'', ''warning''),
      (''needs_review'', ''warning''), (''compiling'', ''info''), (''queued'', ''info''), (''running'', ''info''),
      (''connecting'', ''info''), (''paused'', ''neutral''), (''cancelled'', ''neutral''), (''offline'', ''danger''),
      (''unhealthy'', ''danger''), (''not_ready'', ''danger''), (''blocked'', ''danger''), (''failed'', ''danger'')]"

definition status_badge :: "jsstr option \<Rightarrow> jsstr \<times> jsstr" where
  "status_badge status =
    (let name = (case status of None \<Rightarrow> [] | Some s \<Rightarrow> s) in
     (case map_of (map (\<lambda>(k, t). (js k, js t)) tones) name of None \<Rightarrow> js ''neutral'' | Some t \<Rightarrow> t, labelize status))"

section \<open>A new monitor\<close>

text \<open>What \<open>submit\<close> leaves: the text shown under the form, or the page the browser goes to.\<close>

datatype submitted = FieldError jsstr | Navigated jsstr

definition public_url :: "web_platform \<Rightarrow> jsstr \<Rightarrow> bool" where
  "public_url W url \<longleftrightarrow> (case wp_protocol W url of None \<Rightarrow> False | Some p \<Rightarrow> p = js ''http:'' \<or> p = js ''https:'')"

definition new_monitor_input :: "jsstr \<Rightarrow> jsstr \<Rightarrow> dbl \<Rightarrow> json" where
  "new_monitor_input url intent intervalMinutes = JObj
     [(js ''url'', JStr (trim url)), (js ''intent'', JStr (trim intent)), (js ''intervalMinutes'', JNum intervalMinutes)]"

definition submit_monitor :: "web_env \<Rightarrow> web_platform \<Rightarrow> jsstr \<Rightarrow> jsstr \<Rightarrow> dbl \<Rightarrow> submitted web" where
  "submit_monitor E W url intent intervalMinutes =
    (if \<not> public_url W url then web_lift (Inr (FieldError (js ''Enter a complete public http or https product URL.'')))
     else if length (trim intent) < 8
     then web_lift (Inr (FieldError (js ''Describe the product, variant, and condition in a little more detail.'')))
     else
       web_bind (m_fn (useCreateMonitor E) (new_monitor_input url intent intervalMinutes)) (\<lambda>result.
       web_bind (web_lift (rbind (property (json_get result ''monitor'') ''id'') to_text)) (\<lambda>i.
       web_lift (Inr (Navigated (js ''/monitors/'' @ i))))))"

section \<open>Confirmation\<close>

record confirm_state =
  cs_price :: jsstr
  cs_currency :: json
  cs_in_stock :: json

definition confirm_initial :: "json \<Rightarrow> json \<Rightarrow> web_error + confirm_state" where
  "confirm_initial monitor revision =
    (let condition = json_get monitor ''condition''; below = opt_get condition ''priceBelowMinor'' in
     rbind (if truthy below then rbind (converts (to_number below)) (\<lambda>x. Inr (show_dbl (dquot x 100))) else Inr []) (\<lambda>price.
     Inr \<lparr>cs_price = price,
       cs_currency = value_or (opt_get condition ''currency'')
         (value_or (plan_part (Some revision) ''expectedCurrency'') (JStr (js ''USD''))),
       cs_in_stock = value_or (opt_get condition ''requireInStock'') (JBool True)\<rparr>))"

definition confirm_condition :: "platform \<Rightarrow> json \<Rightarrow> json \<Rightarrow> confirm_state \<Rightarrow> web_error + json" where
  "confirm_condition P monitor revision s =
    (case cs_currency s of
       JStr currency \<Rightarrow>
         Inr (JObj
           (put ''requestedVariant'' (Some (value_or (opt_get (json_get monitor ''condition'') ''requestedVariant'')
             (value_or (opt_get (plan_part (Some revision) ''identity'') ''requestedVariant'') (JObj []))))
           (put ''requireInStock'' (Some (cs_in_stock s))
           (put ''currency'' (Some (JStr (to_upper P currency)))
           (put ''priceBelowMinor''
             (if cs_price s = [] then None else Some (JNum (math_round (dmul (js_number (cs_price s)) 100)))) [])))))
     | _ \<Rightarrow> Inl TypeErr)"

definition confirm_enabled :: "bool \<Rightarrow> confirm_state \<Rightarrow> bool" where
  "confirm_enabled pending s \<longleftrightarrow> \<not> pending \<and> cs_price s \<noteq> [] \<and> \<not> dle (js_number (cs_price s)) (Fin 0)"

section \<open>A monitor\<close>

definition needs_decision :: "json \<Rightarrow> bool" where
  "needs_decision item \<longleftrightarrow>
     \<not> truthy (json_get item ''activatedAt'') \<or> is_value ''needs_review'' (json_get item ''validationState'')"

text \<open>Newest generation first.\<close>

definition newest_first :: "json list \<Rightarrow> web_error + json list" where
  "newest_first revisions = sorted_by (\<lambda>r. rbind (generation r) (\<lambda>g. Inr (dneg g))) revisions"

definition latest_candidate :: "json \<Rightarrow> web_error + json option" where
  "latest_candidate monitor =
     rbind (newest_first (items_of (json_get monitor ''revisions''))) (\<lambda>rs. Inr (find needs_decision rs))"

definition shown_observations :: "json \<Rightarrow> json list" where
  "shown_observations item =
    (case coalesce (json_get item ''observations'') None of
       Some v \<Rightarrow> items_of (Some v)
     | None \<Rightarrow> if truthy (json_get item ''latestObservation'') then [the (json_get item ''latestObservation'')] else [])"

definition shown_latest :: "json \<Rightarrow> json option" where
  "shown_latest item = coalesce (json_get item ''latestObservation'')
     (case shown_observations item of [] \<Rightarrow> None | x # _ \<Rightarrow> Some x)"

definition shown_currency :: "json \<Rightarrow> json option \<Rightarrow> json" where
  "shown_currency item latest =
     value_or (opt_get latest ''currency'') (value_or (opt_get (json_get item ''condition'') ''currency'') (JStr (js ''USD'')))"

definition target_met :: "json \<Rightarrow> web_error + bool" where
  "target_met item =
    (let latest = shown_latest item; price = opt_get latest ''priceMinor'';
         target = opt_get (json_get item ''condition'') ''priceBelowMinor'' in
     if price = None \<or> target = None then Inr False
     else rbind (converts (value_less price target)) (\<lambda>below.
       Inr (below \<and> (\<not> truthy (opt_get (json_get item ''condition'') ''requireInStock'') \<or> truthy (opt_get latest ''inStock'')))))"

definition pause_disabled :: "bool \<Rightarrow> json \<Rightarrow> bool" where
  "pause_disabled pending item \<longleftrightarrow> pending \<or>
     is_value ''compiling'' (json_get item ''status'') \<or> is_value ''awaiting_confirmation'' (json_get item ''status'')"

definition check_disabled :: "bool \<Rightarrow> json \<Rightarrow> bool" where
  "check_disabled pending item \<longleftrightarrow> pending \<or> \<not> is_value ''active'' (json_get item ''status'')"

definition confirmation_shown :: "json \<Rightarrow> json option \<Rightarrow> bool" where
  "confirmation_shown item candidate \<longleftrightarrow>
     (is_value ''awaiting_confirmation'' (json_get item ''status'') \<or> is_value ''needs_review'' (json_get item ''status'')) \<and>
     candidate \<noteq> None"

text \<open>The two actions; each leaves a message or the page the browser goes to.\<close>

definition toggle_pause :: "web_env \<Rightarrow> jsstr \<Rightarrow> json \<Rightarrow> jsstr web" where
  "toggle_pause E monitorId item =
    (let paused = is_value ''paused'' (json_get item ''status'') in
     web_bind (m_fn (useUpdateMonitor E monitorId)
         (JObj [(js ''action'', JStr (if paused then js ''resume'' else js ''pause''))])) (\<lambda>_.
     web_lift (Inr (if paused then js ''Monitor resumed.'' else js ''Monitor paused.''))))"

definition check_now :: "web_env \<Rightarrow> jsstr \<Rightarrow> jsstr option web" where
  "check_now E monitorId =
     web_bind (m_fn (useRunCheck E monitorId) ()) (\<lambda>result.
     web_bind (web_lift (property (Some result) ''executionId'')) (\<lambda>i.
     if truthy i then web_bind (web_lift (to_text i)) (\<lambda>t. web_lift (Inr (Some (js ''/executions/'' @ t))))
     else web_lift (Inr None)))"

text \<open>The decision on a candidate; the browser goes back to the monitor.\<close>

definition decide :: "web_env \<Rightarrow> jsstr \<Rightarrow> jsstr \<Rightarrow> bool \<Rightarrow> jsstr web" where
  "decide E monitorId revisionId accept =
     web_bind (m_fn (useReviewDecision E monitorId revisionId) accept) (\<lambda>_. web_lift (Inr (js ''/monitors/'' @ monitorId)))"

definition revision_status :: "json \<Rightarrow> json \<Rightarrow> json option" where
  "revision_status item revision =
    (if strict_eq (json_get revision ''id'') (json_get item ''currentRevisionId'') then Some (JStr (js ''active''))
     else if truthy (json_get revision ''activatedAt'') then Some (JStr (js ''superseded''))
     else json_get revision ''validationState'')"

section \<open>The dashboard\<close>

definition with_status :: "string list \<Rightarrow> json list \<Rightarrow> nat" where
  "with_status names items = length (filter (\<lambda>m. list_ex (\<lambda>n. is_value n (json_get m ''status'')) names) items)"

text \<open>Active monitors, monitors that need attention, and monitors with an observation.\<close>

definition dashboard_counts :: "json list \<Rightarrow> nat \<times> nat \<times> nat" where
  "dashboard_counts items = (with_status [''active''] items, with_status [''needs_review'', ''awaiting_confirmation''] items,
     length (filter (\<lambda>m. truthy (json_get m ''latestObservation'')) items))"

fun dmin :: "dbl \<Rightarrow> dbl \<Rightarrow> dbl" where
  "dmin NaN y = NaN"
| "dmin x NaN = NaN"
| "dmin x y = (if dless y x then y else x)"

definition price_progress :: "json \<Rightarrow> web_error + dbl option" where
  "price_progress monitor =
    (let target = opt_get (json_get monitor ''condition'') ''priceBelowMinor'';
         price = opt_get (json_get monitor ''latestObservation'') ''priceMinor'' in
     if truthy target \<and> truthy price
     then rbind (converts (to_number target)) (\<lambda>t. rbind (converts (to_number price)) (\<lambda>p.
       Inr (Some (dmin (Fin 100) (math_round (dmul (ddiv t p) 100))))))
     else Inr None)"

section \<open>An execution\<close>

definition error_text :: "json \<Rightarrow> json option" where
  "error_text item = (case json_get item ''error'' of Some (JStr s) \<Rightarrow> Some (JStr s) | e \<Rightarrow> opt_get e ''message'')"

definition screenshots :: "json \<Rightarrow> json list" where
  "screenshots item = filter (\<lambda>a. is_value ''screenshot'' (json_get a ''kind'')) (items_of (json_get item ''artifacts''))"

definition otherArtifacts :: "json \<Rightarrow> json list" where
  "otherArtifacts item = filter (\<lambda>a. \<not> is_value ''screenshot'' (json_get a ''kind'')) (items_of (json_get item ''artifacts''))"

definition timings :: "json \<Rightarrow> json dict" where
  "timings item = (case opt_get (json_get item ''diagnostics'') ''timingsMs'' of Some (JObj d) \<Rightarrow> d | _ \<Rightarrow> [])"

definition hasPlanSignals :: "json \<Rightarrow> bool" where
  "hasPlanSignals item \<longleftrightarrow>
    (let diagnostics = json_get item ''diagnostics'' in
     opt_get diagnostics ''cacheStatus'' \<noteq> None \<or> opt_get diagnostics ''modelCallCount'' \<noteq> None \<or>
     opt_get diagnostics ''repairSource'' \<noteq> None)"

text \<open>\<open>labelize(key.replace(/([a-z0-9])([A-Z])/g, "$1_$2"))\<close>.\<close>

definition camel_re :: re where
  "camel_re = Seq (Cls [(97, 122), (48, 57)]) (Cls [(65, 90)])"

definition timing_label :: "jsstr \<Rightarrow> jsstr" where
  "timing_label key = labelize (Some (replace_all False camel_re (\<lambda>w. take 1 w @ 95 # drop 1 w) key))"

section \<open>Operations\<close>

record metric_sample =
  ms_name :: jsstr
  ms_value :: dbl
  ms_labels :: "jsstr option"

text \<open>The pattern of a sample, with one of its groups captured.\<close>

definition metric_re :: "nat \<Rightarrow> re" where
  "metric_re g =
    (let grp = (\<lambda>k r. if k = g then Grp r else r) in
     seqs [Bol, grp 1 (Seq (Cls [(97, 122), (65, 90), (95, 95), (58, 58)])
                 (Star (Cls [(97, 122), (65, 90), (48, 57), (95, 95), (58, 58)]))),
       opt_re (grp 2 (seqs [ch 123, plus_re (NotCls [(125, 125)]), ch 125])),
       plus_re space_re,
       grp 3 (Seq (opt_re (ch 45)) (plus_re (Cls [(48, 57), (46, 46), (101, 101), (69, 69), (43, 43)]))), Eol])"

definition metric_of :: "jsstr \<Rightarrow> metric_sample list" where
  "metric_of line =
    (case (re_group False (metric_re 1) line, re_group False (metric_re 3) line) of
       (Some name, Some v) \<Rightarrow> [\<lparr>ms_name = name, ms_value = js_number v, ms_labels = re_group False (metric_re 2) line\<rparr>]
     | _ \<Rightarrow> [])"

definition parseMetrics :: "jsstr option \<Rightarrow> metric_sample list" where
  "parseMetrics raw =
    (case raw of
       None \<Rightarrow> []
     | Some t \<Rightarrow> if t = [] then [] else concat (map metric_of (filter (\<lambda>line. line \<noteq> [] \<and> \<not> starts_with line [35]) (split_on 10 t))))"

definition featuredMetricNames :: "string list" where
  "featuredMetricNames = [''scout_execution_results_total'', ''scout_outbox_published_total'', ''scout_alert_deliveries_total'',
     ''scout_sse_connections'', ''scout_http_requests_total'']"

definition featured :: "metric_sample list \<Rightarrow> (jsstr \<times> metric_sample list) list" where
  "featured parsed = filter (\<lambda>(n, samples). samples \<noteq> [])
     (map (\<lambda>n. (js n, filter (\<lambda>s. ms_name s = js n) parsed)) featuredMetricNames)"

definition metric_total :: "metric_sample list \<Rightarrow> dbl" where
  "metric_total samples = foldl (\<lambda>t s. dadd t (ms_value s)) (Fin 0) samples"

lemma metrics_examples:
  "map (\<lambda>s. (ms_name s, ms_value s, ms_labels s)) (parseMetrics (Some (js ''# HELP x'' @ [10] @ js ''scout_a{b=''
      @ [34] @ js ''c d'' @ [34] @ js ''} 12.5'' @ [10] @ js ''scout_b 1e+06'' @ [10]))) =
    [(js ''scout_a'', Fin (25 / 2), Some (js ''{b='' @ [34] @ js ''c d'' @ [34] @ js ''}'')), (js ''scout_b'', Fin 1000000, None)]"
  "parseMetrics (Some (js ''scout_latency 1.5e-05'')) = []"
  by code_simp+

section \<open>The chart\<close>

text \<open>The thirty newest observations with a price, oldest first; with fewer than two there is no chart.\<close>

definition chart_points :: "web_env \<Rightarrow> json list \<Rightarrow> web_error + json list" where
  "chart_points E observations =
     rbind (sorted_by (observed_at E) (filter (\<lambda>x. json_get x ''priceMinor'' \<noteq> None) observations)) (\<lambda>xs.
     Inr (drop (length xs - 30) xs))"

lemma page_examples:
  "fst (status_badge (Some (js ''needs_review''))) = js ''warning''"
  "timing_label (js ''pageLoadMs'') = js ''Page Load Ms''"
  by code_simp+

end
