(* ===== verification/WebViews.thy ===== *)
theory WebViews
  imports WebPages
begin

text \<open>
  What the pages of the web application show (\<open>web/src/pages\<close>, \<open>web/src/components\<close>), and the frame and
  the page for unknown locations: a page is a function of the state of its hooks to a tree of elements.
  Elements keep the attributes that carry meaning: targets of links, handlers, what is disabled, roles,
  sources of images, values of fields, and class names that depend on the state. Other class names and
  labels, placeholders, keys of lists, the way a link opens, styles and the drawings of icons are left out; an
  icon is an element of its name. Values are of the declared types, and the state of a query or mutation is
  what its hook returns.
\<close>

section \<open>Elements\<close>

datatype handler =
    TogglePause | CheckNow | ConfirmCondition | SetPrice | SetCurrency | SetInStock
  | Accept | AskReject | Reject | CancelReject
  | SetUrl | SetIntent | UseExample jsstr | SetInterval | SubmitForm | ToggleRaw | ToggleNav | CloseNav

datatype attribute = S jsstr | B bool | On handler

datatype view = Text jsstr | El string "(string \<times> attribute) list" "view list"

definition el :: "string \<Rightarrow> view list \<Rightarrow> view" where
  "el tag kids = El tag [] kids"

definition tx :: "string \<Rightarrow> view" where
  "tx s = Text (js s)"

definition only :: "bool \<Rightarrow> view list \<Rightarrow> view list" where
  "only c vs = (if c then vs else [])"

text \<open>An expression in braces: strings and numbers are text, anything else of the values shown is nothing.\<close>

definition shown :: "json option \<Rightarrow> view list" where
  "shown v = (case v of Some (JStr s) \<Rightarrow> [Text s] | Some (JNum x) \<Rightarrow> [Text (show_dbl x)] | _ \<Rightarrow> [])"

definition str_of :: "json option \<Rightarrow> jsstr option" where
  "str_of v = (case v of Some (JStr s) \<Rightarrow> Some s | _ \<Rightarrow> None)"

definition num_of :: "json option \<Rightarrow> dbl option" where
  "num_of v = (case v of Some (JNum x) \<Rightarrow> Some x | _ \<Rightarrow> None)"

text \<open>A string in a template, and the text of \<open>v ?? d\<close>.\<close>

definition str_text :: "json option \<Rightarrow> jsstr" where
  "str_text v = (case v of Some j \<Rightarrow> json_to_string j | None \<Rightarrow> js ''undefined'')"

definition str_or :: "json option \<Rightarrow> jsstr \<Rightarrow> jsstr" where
  "str_or v d = (if nullish v then d else str_text v)"

text \<open>Links of the router and plain links, and a button.\<close>

definition link :: "jsstr \<Rightarrow> view list \<Rightarrow> view" where
  "link target kids = El ''Link'' [(''to'', S target)] kids"

definition anchor :: "jsstr \<Rightarrow> view list \<Rightarrow> view" where
  "anchor target kids = El ''a'' [(''href'', S target)] kids"

definition action_button :: "handler \<Rightarrow> bool \<Rightarrow> view list \<Rightarrow> view" where
  "action_button h disabled kids = El ''button'' [(''onClick'', On h), (''disabled'', B disabled)] kids"

text \<open>A button that is never disabled.\<close>

definition plain_button :: "handler \<Rightarrow> view list \<Rightarrow> view" where
  "plain_button h kids = El ''button'' [(''onClick'', On h)] kids"

section \<open>What a user can do\<close>

definition attr :: "string \<Rightarrow> (string \<times> attribute) list \<Rightarrow> attribute option" where
  "attr k as = map_of as k"

definition handler_of :: "string \<Rightarrow> (string \<times> attribute) list \<Rightarrow> handler option" where
  "handler_of k as = (case attr k as of Some (On h) \<Rightarrow> Some h | _ \<Rightarrow> None)"

text \<open>
  A disabled button does nothing; another one runs its handler, and one without a handler of its own submits
  the form it is in.
\<close>

definition pressed :: "handler option \<Rightarrow> string \<Rightarrow> (string \<times> attribute) list \<Rightarrow> handler list" where
  "pressed form tag as = (if tag = ''button'' \<and> attr ''disabled'' as \<noteq> Some (B True)
     then case handler_of ''onClick'' as of Some h \<Rightarrow> [h] | None \<Rightarrow> (case form of Some h \<Rightarrow> [h] | None \<Rightarrow> []) else [])"

text \<open>What the buttons do, and the targets of the links of a kind, \<open>Link\<close> or \<open>a\<close>, in the order of the page.\<close>

fun pressable :: "handler option \<Rightarrow> view \<Rightarrow> handler list" where
  "pressable form (Text s) = []"
| "pressable form (El tag as kids) = pressed form tag as @
     concat (map (pressable (if tag = ''form'' then handler_of ''onSubmit'' as else form)) kids)"

definition target_of :: "string \<Rightarrow> string \<Rightarrow> (string \<times> attribute) list \<Rightarrow> jsstr list" where
  "target_of kind tag as = (if tag = kind
     then case attr (if kind = ''Link'' then ''to'' else ''href'') as of Some (S t) \<Rightarrow> [t] | _ \<Rightarrow> [] else [])"

fun targets :: "string \<Rightarrow> view \<Rightarrow> jsstr list" where
  "targets kind (Text s) = []"
| "targets kind (El tag as kids) = target_of kind tag as @ concat (map (targets kind) kids)"

section \<open>Shared components\<close>

definition StatusBadge :: "jsstr option \<Rightarrow> bool \<Rightarrow> view" where
  "StatusBadge status small =
    (let (tone, label) = status_badge status in
     El ''span'' [(''className'', S (js ''status-badge status-'' @ tone @ (if small then js '' status-compact'' else [])))]
       [el ''span'' [], Text label])"

definition PageHeader :: "jsstr \<Rightarrow> view list \<Rightarrow> view list \<Rightarrow> view list \<Rightarrow> view" where
  "PageHeader eyebrow title description actions = el ''header''
     ([el ''div'' (only (eyebrow \<noteq> []) [el ''p'' [Text eyebrow]] @ [el ''h1'' title] @
        only (description \<noteq> []) [el ''div'' description])] @
      only (actions \<noteq> []) [el ''div'' actions])"

definition PageSpinner :: "string \<Rightarrow> view" where
  "PageSpinner label = El ''div'' [(''role'', S (js ''status''))] [el ''span'' [], el ''p'' [tx label]]"

text \<open>What was thrown: the message of an \<open>Error\<close>, or something else.\<close>

type_synonym page_error = "jsstr option"

definition ErrorState :: "page_error \<Rightarrow> view" where
  "ErrorState err = El ''div'' [(''role'', S (js ''alert''))]
     [el ''span'' [tx ''!''], el ''h2'' [Text (js ''We couldn'' @ 8217 # js ''t load this view'')],
      el ''p'' [Text (case err of Some m \<Rightarrow> m | None \<Rightarrow> js ''Something went wrong.'')]]"

definition InlineError :: "page_error option \<Rightarrow> view list" where
  "InlineError err = (case err of None \<Rightarrow> []
     | Some e \<Rightarrow> [El ''div'' [(''role'', S (js ''alert''))]
         [Text (case e of Some m \<Rightarrow> m | None \<Rightarrow> js ''The request could not be completed.'')]])"

definition EmptyState :: "string \<Rightarrow> string \<Rightarrow> view list \<Rightarrow> view" where
  "EmptyState title body action = el ''div'' ([el ''span'' [el ''span'' []], el ''h3'' [tx title], el ''p'' [tx body]] @ action)"

text \<open>The state of a query: an error without data, or the data.\<close>

record fetched =
  ft_loading :: bool
  ft_error :: "page_error option"
  ft_data :: "json option"

section \<open>The dashboard\<close>

definition monitor_name :: "web_platform \<Rightarrow> json \<Rightarrow> jsstr" where
  "monitor_name W monitor = str_or (json_get monitor ''name'') (hostname W (str_text (json_get monitor ''url'')))"

definition monitor_link :: "json option \<Rightarrow> jsstr" where
  "monitor_link i = js ''/monitors/'' @ str_text i"

definition execution_link :: "json option \<Rightarrow> jsstr" where
  "execution_link i = js ''/executions/'' @ str_text i"

definition progress_of :: "json \<Rightarrow> dbl option" where
  "progress_of monitor = (case price_progress monitor of Inr p \<Rightarrow> p | Inl e \<Rightarrow> None)"

definition monitor_row :: "platform \<Rightarrow> web_platform \<Rightarrow> json \<Rightarrow> view" where
  "monitor_row P W monitor =
    (let observation = json_get monitor ''latestObservation''; condition = json_get monitor ''condition'';
         target = opt_get condition ''priceBelowMinor'';
         currency = str_of (Some (value_or (opt_get observation ''currency'')
           (value_or (opt_get condition ''currency'') (JStr (js ''USD'')))));
         host = hostname W (str_text (json_get monitor ''url'')) in
     link (monitor_link (json_get monitor ''id''))
      [el ''div'' [Text (to_upper P (take 1 (monitor_name W monitor)))],
       el ''div''
        [el ''div'' [el ''h3'' [Text (str_or (json_get monitor ''name'') (str_or (opt_get observation ''title'') host))],
           StatusBadge (str_of (json_get monitor ''status'')) True],
         el ''p'' (shown (json_get monitor ''intent'')), el ''span'' [Text host]],
       el ''div''
        ([el ''span'' [tx ''Latest price''], el ''strong'' [Text (formatMoney W (num_of (opt_get observation ''priceMinor'')) currency)]] @
         only (target \<noteq> None) [el ''small'' [tx ''Target '', Text (formatMoney W (num_of target) currency)]] @
         (case progress_of monitor of None \<Rightarrow> []
          | Some p \<Rightarrow> [el ''span'' [El ''i'' [(''width'', S (show_dbl p @ js ''%''))] []]])),
       el ''div''
        [el ''span'' [tx ''Next check''],
         el ''strong'' [Text (if is_value ''active'' (json_get monitor ''status'')
            then formatRelative W (str_of (json_get monitor ''nextRunAt'')) else js ''On hold'')],
         el ''small'' [tx (if opt_get observation ''inStock'' = Some (JBool False) then ''Out of stock''
            else if truthy observation then ''In stock'' else ''Awaiting first check'')]],
       el ''ArrowIcon'' []])"

definition DashboardPage :: "platform \<Rightarrow> web_platform \<Rightarrow> fetched \<Rightarrow> view" where
  "DashboardPage P W monitors =
    (if ft_loading monitors then PageSpinner ''Loading monitors''
     else case ft_error monitors of Some e \<Rightarrow> ErrorState e
     | None \<Rightarrow>
        let items = items_of (ft_data monitors); (active, reviews, observations) = dashboard_counts items;
            total = length items in
        el ''div''
         [PageHeader (js ''Command center'') [tx ''Product monitors'']
            [tx ''Evidence-backed prices, compiled into repeatable browser checks.'']
            [link (js ''/monitors/new'') [el ''PlusIcon'' [], tx ''New monitor'']],
          el ''section''
           [el ''article'' [el ''span'' [tx ''Active monitors''], el ''strong'' [Text (show_nat active)],
              el ''small'' [Text (show_nat total), tx '' total configured'']],
            el ''article'' [el ''span'' [tx ''Verified products''], el ''strong'' [Text (show_nat observations)],
              el ''small'' [tx ''With a validated observation'']],
            el ''article'' [el ''span'' [tx ''Needs attention''], el ''strong'' [Text (show_nat reviews)],
              el ''small'' [tx (if reviews \<noteq> 0 then ''Review before monitoring continues'' else ''No interventions pending'')]],
            el ''article'' [el ''span'' [el ''ShieldIcon'' [], tx ''Browser policy''], el ''strong'' [tx ''Read-only policy''],
              el ''small'' [tx ''Action allowlist + result validation'']]],
          el ''div'' [el ''div'' [el ''h2'' [tx ''All monitors''], el ''p'' [tx ''Latest validated state from each product page.'']]],
          (if total = 0
           then EmptyState ''No products on the radar yet''
             ''Describe what matters to you. Price Scout will compile the page into a repeatable monitor and show you the evidence before it starts.''
             [link (js ''/monitors/new'') [el ''PlusIcon'' [], tx ''Create your first monitor'']]
           else el ''section'' (map (monitor_row P W) items))])"

section \<open>The frame of the pages\<close>

definition navItems :: "(string \<times> string \<times> string) list" where
  "navItems = [(''/'', ''Monitors'', ''GridIcon''), (''/monitors/new'', ''New monitor'', ''PlusIcon''), (''/operations'', ''Operations'', ''PulseIcon'')]"

definition nav_link :: "(string \<times> attribute) list \<Rightarrow> string \<Rightarrow> view list \<Rightarrow> view" where
  "nav_link as target kids = El ''Link'' ((''to'', S (js target)) # as) kids"

text \<open>\<open>outlet\<close> is the page inside, and \<open>connection\<close> the state of the event stream.\<close>

definition Layout :: "bool \<Rightarrow> jsstr \<Rightarrow> view \<Rightarrow> view" where
  "Layout mobileOpen connection outlet = el ''div''
     ([el ''header''
        [nav_link [] ''/'' [el ''RadarIcon'' [], el ''span'' [tx ''Price Scout'']],
         El ''button'' [(''onClick'', On ToggleNav), (''aria-label'', S (js ''Toggle navigation'')), (''aria-expanded'', B mobileOpen)]
           [if mobileOpen then el ''XIcon'' [] else el ''MenuIcon'' []]],
       El ''aside'' [(''className'', S (js ''sidebar'' @ (if mobileOpen then js '' sidebar-open'' else [])))]
        [nav_link [(''onClick'', On CloseNav)] ''/''
           [el ''span'' [el ''RadarIcon'' []], el ''span'' [el ''strong'' [tx ''Price Scout''], el ''small'' [tx ''Agentic monitoring'']]],
         el ''nav'' (el ''span'' [tx ''Workspace''] #
           map (\<lambda>(target, label, icon). nav_link [(''onClick'', On CloseNav)] target [el icon [], el ''span'' [tx label]]) navItems),
         el ''div''
          [el ''div'' [el ''div'' [el ''span'' [tx ''Event stream''], el ''small'' [tx ''Live execution updates'']],
             StatusBadge (Some connection) True],
           el ''p'' [Text (js ''Self-hosted '' @ 183 # js '' your data stays here'')]]]] @
      only mobileOpen [El ''button'' [(''aria-label'', S (js ''Close navigation'')), (''onClick'', On CloseNav)] []] @
      [el ''main'' [outlet]])"

text \<open>What the buttons and links of the frame do to its menu.\<close>

fun nav_press :: "handler \<Rightarrow> bool \<Rightarrow> bool" where
  "nav_press ToggleNav mobileOpen = (\<not> mobileOpen)"
| "nav_press CloseNav mobileOpen = False"
| "nav_press h mobileOpen = mobileOpen"

definition NotFoundPage :: view where
  "NotFoundPage = el ''div'' [el ''RadarIcon'' [], el ''span'' [tx ''404''], el ''h1'' [tx ''Signal not found''],
     el ''p'' [Text (js ''This page isn'' @ 8217 # js ''t on Price Scout'' @ 8217 # js ''s radar.'')],
     link (js ''/'') [tx ''Return to monitors'']]"

end
