(* ===== verification/MonitorViews.thy ===== *)
theory MonitorViews
  imports WebViews
begin

text \<open>
  The page of a monitor (\<open>web/src/pages/MonitorDetailPage.tsx\<close>) and the chart of its prices
  (\<open>web/src/components/PriceChart.tsx\<close>). Where the code compares generations or dates, a value that is not of
  its declared type would throw; the model shows nothing of it.
\<close>

section \<open>The chart\<close>

text \<open>What \<open>toLocaleString\<close> and its variants give is a parameter.\<close>

record locale_text =
  lt_number :: "dbl \<Rightarrow> jsstr"
  lt_date :: "dbl \<Rightarrow> jsstr"
  lt_time :: "dbl \<Rightarrow> jsstr"

fun dmax :: "dbl \<Rightarrow> dbl \<Rightarrow> dbl" where
  "dmax NaN y = NaN"
| "dmax x NaN = NaN"
| "dmax x y = (if dless x y then y else x)"

text \<open>The number a decimal literal stands for.\<close>

definition decimal :: "rat \<Rightarrow> rat" where
  "decimal r = (case fl r of Fin x \<Rightarrow> x | _ \<Rightarrow> 0)"

definition raw_min :: "dbl list \<Rightarrow> dbl" where
  "raw_min values = foldl dmin (Inf False) values"

definition raw_max :: "dbl list \<Rightarrow> dbl" where
  "raw_max values = foldl dmax (Inf True) values"

definition chart_spread :: "dbl list \<Rightarrow> dbl" where
  "chart_spread values = dmax (dsub (raw_max values) (raw_min values)) (dmax (dmul (raw_max values) (decimal (2 / 100))) (Fin 100))"

definition chart_min :: "dbl list \<Rightarrow> dbl" where
  "chart_min values = dsub (raw_min values) (dmul (chart_spread values) (decimal (15 / 100)))"

definition chart_max :: "dbl list \<Rightarrow> dbl" where
  "chart_max values = dadd (raw_max values) (dmul (chart_spread values) (decimal (15 / 100)))"

definition coord_x :: "nat \<Rightarrow> nat \<Rightarrow> dbl" where
  "coord_x n index = dadd (Fin 12) (dmul (ddiv_nat index (n - 1)) 696)"

definition coord_y :: "rat \<Rightarrow> dbl list \<Rightarrow> dbl \<Rightarrow> dbl" where
  "coord_y height values price = dadd (Fin 16)
     (dmul (ddiv (dsub (chart_max values) price) (dsub (chart_max values) (chart_min values))) (height - 32))"

definition coords :: "rat \<Rightarrow> dbl list \<Rightarrow> (dbl \<times> dbl) list" where
  "coords height values = map (\<lambda>(index, price). (coord_x (length values) index, coord_y height values price))
     (zip [0 ..< length values] values)"

definition join_with :: "jsstr \<Rightarrow> jsstr list \<Rightarrow> jsstr" where
  "join_with sep ws = (case ws of [] \<Rightarrow> [] | w # rest \<Rightarrow> w @ concat (map (\<lambda>v. sep @ v) rest))"

definition point_text :: "dbl \<times> dbl \<Rightarrow> jsstr" where
  "point_text p = show_dbl (fst p) @ js '','' @ show_dbl (snd p)"

definition price_values :: "json list \<Rightarrow> dbl list" where
  "price_values points = concat (map (\<lambda>p. case num_of (json_get p ''priceMinor'') of Some v \<Rightarrow> [v] | None \<Rightarrow> []) points)"

definition grid_line :: "rat \<Rightarrow> rat \<Rightarrow> view" where
  "grid_line height part = (let y = show_dbl (fl (height * part)) in
     El ''line'' [(''x1'', S (js ''0'')), (''y1'', S y), (''x2'', S (js ''720'')), (''y2'', S y)] [])"

definition PriceChart :: "web_env \<Rightarrow> web_platform \<Rightarrow> locale_text \<Rightarrow> json list \<Rightarrow> rat \<Rightarrow> view" where
  "PriceChart E W L observations height =
    (let points = (case chart_points E observations of Inr ps \<Rightarrow> ps | Inl e \<Rightarrow> []) in
     if length points < 2
     then El ''div'' [(''height'', S (show_dbl (Fin height)))]
       [el ''span'' (replicate 5 (el ''i'' [])), el ''p'' [tx ''Price history appears after two verified checks.'']]
     else
       let values = price_values points; cs = coords height values;
           line = join_with (js '' '') (map point_text cs); bottom = js '','' @ show_dbl (Fin height);
           currency = str_of (Some (value_or (json_get (last points) ''currency'') (JStr (js ''USD'')))) in
       el ''div''
        [el ''div'' [el ''span'' [Text (formatMoney W (Some (raw_max values)) currency)],
           el ''span'' [Text (formatMoney W (Some (raw_min values)) currency)]],
         El ''svg'' [(''viewBox'', S (js ''0 0 720 '' @ show_dbl (Fin height))), (''role'', S (js ''img'')), (''aria-label'', S (js ''Price history chart''))]
          ([grid_line height (1 / 4), grid_line height (1 / 2), grid_line height (3 / 4),
            El ''polygon'' [(''points'', S (js ''12'' @ bottom @ js '' '' @ line @ js '' 708'' @ bottom))] [],
            El ''polyline'' [(''points'', S line)] []] @
           map (\<lambda>((x, y), point). El ''circle'' [(''cx'', S (show_dbl x)), (''cy'', S (show_dbl y)), (''r'', S (js ''4''))]
             [el ''title'' [Text (formatMoney W (num_of (json_get point ''priceMinor'')) (str_of (json_get point ''currency''))),
                Text (js '' '' @ 183 # js '' ''), Text (lt_date L (date_parse (wp_date_other W) (str_text (json_get point ''observedAt''))))]])
             (zip cs points))])"

section \<open>A monitor\<close>

definition dot :: jsstr where
  "dot = js '' '' @ [183] @ js '' ''"

definition entries_of :: "json option \<Rightarrow> json dict" where
  "entries_of v = (case v of Some (JObj d) \<Rightarrow> d | _ \<Rightarrow> [])"

definition variant_pills :: "json dict \<Rightarrow> view list" where
  "variant_pills variant = only (variant \<noteq> [])
     [el ''div'' [el ''span'' [tx ''Requested variant''],
        el ''div'' (map (\<lambda>(k, v). el ''span'' ([Text (labelize (Some k)), tx '': ''] @ [el ''strong'' (shown (Some v))])) variant)]]"

text \<open>The state of the panel: what was entered, and its mutation.\<close>

record panel =
  pn_entered :: confirm_state
  pn_pending :: bool
  pn_error :: "page_error option"

definition ConfirmationPanel :: "json \<Rightarrow> json \<Rightarrow> panel \<Rightarrow> view" where
  "ConfirmationPanel monitor revision pn =
    (let identity = plan_part (Some revision) ''identity''; observation = json_get monitor ''latestObservation'';
         s = pn_entered pn in
     el ''section''
      ([el ''div''
        [el ''div'' [el ''ShieldIcon'' []],
         el ''div'' [el ''span'' [tx ''Confirmation required''], el ''h2'' [tx ''Did Price Scout understand this product?''],
           el ''p'' [tx ''Review the extracted identity and rule. Monitoring starts only after you approve it.'']]],
       el ''div''
        [el ''div''
          [el ''span'' [tx ''Detected product''],
           el ''strong'' [Text (str_or (opt_get identity ''title'') (str_or (opt_get observation ''title'') (js ''Product identity pending'')))],
           el ''dl''
            (only (truthy (opt_get identity ''brand'')) [el ''dt'' [tx ''Brand''], el ''dd'' (shown (opt_get identity ''brand''))] @
             only (truthy (opt_get identity ''sku'')) [el ''dt'' [tx ''SKU''], el ''dd'' (shown (opt_get identity ''sku''))] @
             map (\<lambda>(k, v). el ''span'' [el ''dt'' [Text (labelize (Some k))], el ''dd'' (shown (Some v))])
               (entries_of (opt_get identity ''requestedVariant'')))],
         el ''div''
          [el ''label''
            [el ''span'' [tx ''Alert below''],
             el ''div''
              [El ''select'' [(''value'', S (json_to_string (cs_currency s))), (''onChange'', On SetCurrency)]
                 (map (\<lambda>c. el ''option'' [tx c]) [''USD'', ''CAD'', ''EUR'', ''GBP'', ''AUD'']),
               El ''input'' [(''type'', S (js ''number'')), (''min'', S (js ''0.01'')), (''step'', S (js ''0.01'')),
                 (''value'', S (cs_price s)), (''onChange'', On SetPrice)] []]],
           el ''label''
            [El ''input'' [(''type'', S (js ''checkbox'')), (''checked'', B (truthy (Some (cs_in_stock s)))), (''onChange'', On SetInStock)] [],
             el ''span'' [el ''strong'' [tx ''Require in-stock status''], el ''small'' [tx ''Do not alert for unavailable inventory.'']]]]]] @
       InlineError (pn_error pn) @
       [el ''div''
         (only (truthy (opt_get observation ''executionId''))
            [link (execution_link (opt_get observation ''executionId'')) [el ''CameraIcon'' [], tx ''Inspect evidence'']] @
          [action_button ConfirmCondition (\<not> confirm_enabled (pn_pending pn) s)
            (if pn_pending pn then [Text (js ''Activating'' @ [8230])] else [el ''CheckIcon'' [], tx ''Confirm and activate''])])]))"

definition execution_row :: "web_platform \<Rightarrow> json \<Rightarrow> view" where
  "execution_row W execution = el ''tr''
     [el ''td'' [el ''strong'' [Text (labelize (str_of (json_get execution ''kind'')))],
        el ''small'' [Text (str_or (json_get execution ''provider'') (js ''local'')), tx '' browser'']],
      el ''td'' [StatusBadge (str_of (json_get execution ''state'')) True],
      el ''td'' [Text (formatDuration (num_of (json_get execution ''durationMs'')))],
      el ''td'' [Text (formatDate W (str_of (coalesce (json_get execution ''startedAt'') (json_get execution ''createdAt''))))],
      el ''td'' [link (execution_link (json_get execution ''id'')) [tx ''Inspect'']]]"

definition review_link :: "json \<Rightarrow> json \<Rightarrow> jsstr" where
  "review_link item revision = js ''/monitors/'' @ str_text (json_get item ''id'') @ js ''/reviews/'' @ str_text (json_get revision ''id'')"

definition revision_row :: "web_platform \<Rightarrow> json \<Rightarrow> json \<Rightarrow> view" where
  "revision_row W item revision = el ''div''
     ([el ''span'' (tx ''G'' # shown (json_get revision ''generation'')),
       el ''div''
        [el ''strong'' [tx (if is_value ''repair'' (json_get revision ''source'') then ''Self-healed plan'' else ''Initial compilation'')],
         el ''small'' [Text (formatDate W (str_of (coalesce (json_get revision ''activatedAt'') (json_get revision ''createdAt''))))]],
       StatusBadge (str_of (revision_status item revision)) True] @
      only (\<not> truthy (json_get revision ''activatedAt'')) [link (review_link item revision) [tx ''Review'']])"

text \<open>The state of the page: its two mutations, the toast and the panel.\<close>

record detail =
  dt_updating :: bool
  dt_update_error :: "page_error option"
  dt_checking :: bool
  dt_check_error :: "page_error option"
  dt_message :: "jsstr option"
  dt_panel :: panel

definition first_error :: "page_error option \<Rightarrow> page_error option \<Rightarrow> page_error option" where
  "first_error a b = (case a of None \<Rightarrow> b | Some e \<Rightarrow> Some e)"

definition sorted_revisions :: "json \<Rightarrow> json list" where
  "sorted_revisions item = (case newest_first (items_of (json_get item ''revisions'')) of Inr rs \<Rightarrow> rs | Inl e \<Rightarrow> [])"

definition candidate_of :: "json \<Rightarrow> json option" where
  "candidate_of item = (case latest_candidate item of Inr c \<Rightarrow> c | Inl e \<Rightarrow> None)"

definition monitor_actions :: "detail \<Rightarrow> json \<Rightarrow> view list" where
  "monitor_actions st item =
     [action_button TogglePause (pause_disabled (dt_updating st) item)
        (if is_value ''paused'' (json_get item ''status'') then [el ''PlayIcon'' [], tx ''Resume''] else [el ''PauseIcon'' [], tx ''Pause'']),
      action_button CheckNow (check_disabled (dt_checking st) item)
        (if dt_checking st then [Text (js ''Queuing'' @ [8230])] else [el ''PlayIcon'' [], tx ''Check now''])]"

definition price_panel :: "web_env \<Rightarrow> web_platform \<Rightarrow> locale_text \<Rightarrow> json \<Rightarrow> view" where
  "price_panel E W L item =
    (let latest = shown_latest item; currency = str_of (Some (shown_currency item latest));
         target = opt_get (json_get item ''condition'') ''priceBelowMinor''; generation = json_get item ''currentGeneration'' in
     el ''article''
      ([el ''div''
         ([el ''div'' [el ''span'' [tx ''Verified price''],
             el ''h2'' [Text (formatMoney W (num_of (opt_get latest ''priceMinor'')) currency)]]] @
          only (truthy latest) [StatusBadge (Some (str_or (opt_get latest ''verificationState'') (js ''verified''))) True]),
        el ''div''
         [el ''span'' [el ''strong'' [tx (if opt_get latest ''inStock'' = None then ''Unknown''
              else if truthy (opt_get latest ''inStock'') then ''In stock'' else ''Out of stock'')], tx ''Availability''],
          el ''span'' [el ''strong'' [Text (if target = None then js ''No target'' else formatMoney W (num_of target) currency)],
            tx ''Alert threshold''],
          el ''span'' [el ''strong'' [Text (if truthy generation then js ''Generation '' @ str_text generation else js ''Not compiled'')],
            tx ''Monitor plan'']]] @
       only (target_met item = Inr True)
         [el ''div'' [el ''CheckIcon'' [], el ''span'' [el ''strong'' [tx ''Target condition is currently met''],
            tx ''The alert evaluator will confirm this in a fresh browser before delivery.'']]] @
       [PriceChart E W L (shown_observations item) 180]))"

definition rule_panel :: "web_platform \<Rightarrow> json \<Rightarrow> view" where
  "rule_panel W item =
    (let condition = json_get item ''condition'' in
     el ''aside''
      ([el ''div'' [el ''div'' [el ''span'' [tx ''Monitoring rule''], el ''h3'' (shown (json_get item ''intent''))]],
        el ''dl''
         [el ''div'' [el ''dt'' [tx ''Schedule''], el ''dd'' [tx ''Every '', Text (str_or (json_get item ''intervalMinutes'') (js ''360'')), tx '' minutes'']],
          el ''div'' [el ''dt'' [tx ''Next check''], el ''dd'' [Text (if is_value ''active'' (json_get item ''status'')
             then formatRelative W (str_of (json_get item ''nextRunAt'')) else js ''Not scheduled'')]],
          el ''div'' [el ''dt'' [tx ''Stock required''], el ''dd'' [tx (if truthy (opt_get condition ''requireInStock'') then ''Yes'' else ''No'')]],
          el ''div'' [el ''dt'' [tx ''Browser policy''], el ''dd'' [tx ''Read-only action allowlist'']]]] @
       variant_pills (entries_of (opt_get condition ''requestedVariant'')) @
       [el ''div'' [el ''ShieldIcon'' [], el ''p'' [el ''strong'' [tx ''Policy + validation''],
          tx ''Preparation actions use an allowlist; identity, variant, price semantics, and currency are validated before any alert. This is not a general browser sandbox.'']]]))"

definition MonitorDetailPage :: "web_env \<Rightarrow> web_platform \<Rightarrow> locale_text \<Rightarrow> fetched \<Rightarrow> detail \<Rightarrow> view" where
  "MonitorDetailPage E W L monitor st =
    (if ft_loading monitor then PageSpinner ''Loading product monitor''
     else case (ft_error monitor, ft_data monitor) of
       (None, Some item) \<Rightarrow>
         let url = str_text (json_get item ''url''); host = hostname W url; latest = shown_latest item; candidate = candidate_of item;
             executions = items_of (json_get item ''executions''); revisions = items_of (json_get item ''revisions'') in
         el ''div''
          ([el ''div'' [link (js ''/'') [tx ''Monitors''], el ''span'' [tx ''/''], el ''span'' [Text (monitor_name W item)]],
            PageHeader host
              [Text (str_or (json_get item ''name'') (str_or (opt_get latest ''title'') (js ''Product monitor''))), tx '' '',
               StatusBadge (str_of (json_get item ''status'')) False]
              [anchor url [Text url, el ''ExternalIcon'' []]] (monitor_actions st item)] @
           (case dt_message st of None \<Rightarrow> [] | Some m \<Rightarrow> only (m \<noteq> []) [el ''div'' [el ''CheckIcon'' [], Text m]]) @
           InlineError (first_error (dt_update_error st) (dt_check_error st)) @
           (case candidate of None \<Rightarrow> []
            | Some c \<Rightarrow> only (confirmation_shown item candidate) [ConfirmationPanel item c (dt_panel st)]) @
           only (is_value ''compiling'' (json_get item ''status''))
             [el ''section'' [el ''span'' [], el ''div'' [el ''strong'' [tx ''Browser compiling this page''],
                el ''p'' [Text (js ''We'' @ 8217 # js ''re discovering the product, selecting your requested variant, and collecting evidence for review.'')]]]] @
           [el ''section'' [price_panel E W L item, rule_panel W item],
            el ''section''
             [el ''div''
               [el ''div'' [el ''div'' [el ''h2'' [tx ''Recent checks''], el ''p'' [tx ''Browser work and its outcome.'']]],
                el ''div'' [if executions \<noteq> []
                  then el ''table''
                    [el ''thead'' [el ''tr'' (map (\<lambda>h. el ''th'' [tx h]) [''Type'', ''State'', ''Duration'', ''Started''] @ [el ''th'' []])],
                     el ''tbody'' (map (execution_row W) executions)]
                  else el ''p'' [tx ''No checks have run yet.'']]],
              el ''div''
               [el ''div'' [el ''div'' [el ''h2'' [tx ''Plan revisions''], el ''p'' [tx ''Compiled and repaired monitor generations.'']]],
                el ''div'' (if revisions \<noteq> [] then map (revision_row W item) (sorted_revisions item)
                  else [el ''p'' [tx ''No compiled plan yet.'']])]],
            el ''footer'' [el ''ClockIcon'' [], tx ''Created '', Text (formatDate W (str_of (json_get item ''createdAt''))), Text dot,
              tx ''Last updated '', Text (formatDate W (str_of (json_get item ''updatedAt'')))]])
     | (err, _) \<Rightarrow> ErrorState (case err of Some e \<Rightarrow> e | None \<Rightarrow> Some (js ''Monitor not found'')))"

end
