(* ===== verification/RunViews.thy ===== *)
theory RunViews
  imports MonitorViews LiveEvents
begin

text \<open>
  The pages of an execution, of a review, of the operations and of a new monitor (\<open>web/src/pages\<close>), each
  split as the page is: what they compute is in \<open>WebPages\<close>, and the elements are those of \<open>WebViews\<close>.
\<close>

section \<open>An execution\<close>

definition slice_or :: "nat \<Rightarrow> json option \<Rightarrow> jsstr \<Rightarrow> jsstr" where
  "slice_or n v d = (case str_of v of Some s \<Rightarrow> take n s | None \<Rightarrow> d)"

definition execution_error :: "json \<Rightarrow> view list" where
  "execution_error item =
    (let text = error_text item; error = json_get item ''error'' in
     only (truthy text)
      [el ''section''
        [el ''XIcon'' [],
         el ''div''
          ([el ''strong'' [Text (labelize (Some (str_or (json_get item ''failureClassification'') (js ''Execution failed''))))],
            el ''p'' (shown text)] @
           only (is_object error \<and> truthy (opt_get error ''detail'')) [el ''pre'' (shown (opt_get error ''detail''))])]])"

definition execution_observation :: "web_platform \<Rightarrow> json \<Rightarrow> view list" where
  "execution_observation W item =
    (let observation = json_get item ''observation'' in
     only (truthy observation)
      [el ''section''
        [el ''div'' [el ''span'' [tx ''Observation''],
           el ''h2'' [Text (formatMoney W (num_of (opt_get observation ''priceMinor'')) (str_of (opt_get observation ''currency'')))],
           el ''p'' (shown (opt_get observation ''title''))],
         el ''div'' [el ''span'' [el ''CheckIcon'' [], tx ''Identity matched''],
           el ''span'' [el ''CheckIcon'' [], tx (if truthy (opt_get observation ''inStock'') then ''In stock'' else ''Out of stock'')],
           StatusBadge (Some (str_or (opt_get observation ''verificationState'') (js ''verified''))) False]]])"

definition timeline_step :: "web_platform \<Rightarrow> json \<Rightarrow> view" where
  "timeline_step W step = el ''div''
     [El ''span'' [(''className'', S (js ''timeline-node timeline-'' @ str_or (json_get step ''status'') (js ''succeeded'')))]
        [if is_value ''failed'' (json_get step ''status'') then el ''XIcon'' [] else el ''CheckIcon'' []],
      el ''div''
       ([el ''strong'' (shown (json_get step ''label''))] @
        only (truthy (json_get step ''detail'')) [el ''p'' (shown (json_get step ''detail''))] @
        [el ''small'' [Text (formatDate W (str_of (json_get step ''timestamp''))),
           Text (if json_get step ''durationMs'' = None then []
             else js '' '' @ 183 # js '' '' @ formatDuration (num_of (json_get step ''durationMs'')))]])]"

definition screenshot_card :: "json \<Rightarrow> view" where
  "screenshot_card artifact =
    (let url = str_text (json_get artifact ''url'') in
     anchor url
      [El ''img'' [(''src'', S url), (''alt'', S (str_or (json_get artifact ''label'') (js ''Browser screenshot evidence'')))] [],
       el ''span'' [el ''CameraIcon'' [], Text (str_or (json_get artifact ''label'') (js ''Browser screenshot'')), el ''ExternalIcon'' []]])"

definition artifact_label :: "json \<Rightarrow> jsstr" where
  "artifact_label artifact = str_or (json_get artifact ''label'') (labelize (str_of (json_get artifact ''kind'')))"

definition artifact_link :: "json \<Rightarrow> view" where
  "artifact_link artifact = anchor (str_text (json_get artifact ''url''))
     [el ''PulseIcon'' [], Text (artifact_label artifact), el ''ExternalIcon'' []]"

definition evidence_section :: "json \<Rightarrow> view" where
  "evidence_section item = el ''div''
     ([el ''div'' [el ''div'' [el ''h2'' [tx ''Evidence''], el ''p'' [tx ''Evidence captured during the browser run.'']]],
       el ''div'' (map screenshot_card (screenshots item) @
         only (screenshots item = []) [el ''div'' [el ''CameraIcon'' [], el ''p'' [tx ''No screenshot evidence attached.'']]])] @
      only (otherArtifacts item \<noteq> []) [el ''div'' (map artifact_link (otherArtifacts item))])"

definition metric_card :: "jsstr \<Rightarrow> jsstr \<Rightarrow> jsstr \<Rightarrow> view" where
  "metric_card label value note = el ''article'' [el ''span'' [Text label], el ''strong'' [Text value], el ''small'' [Text note]]"

definition locale_number :: "locale_text \<Rightarrow> json option \<Rightarrow> jsstr" where
  "locale_number L v = (case num_of v of Some x \<Rightarrow> lt_number L x | None \<Rightarrow> [])"

definition plan_signals :: "locale_text \<Rightarrow> json \<Rightarrow> view list" where
  "plan_signals L item =
    (let diagnostics = json_get item ''diagnostics''; status = opt_get diagnostics ''cacheStatus'';
         calls = opt_get diagnostics ''modelCallCount''; source = opt_get diagnostics ''repairSource'' in
     only (hasPlanSignals item)
      [el ''section''
        [el ''div'' [el ''div'' [el ''h2'' [tx ''Plan execution''],
           el ''p'' [tx ''Price Scout compiled-plan replay and worker inference signals. This is separate from Stagehand ActCache.'']]],
         el ''div''
          (only (truthy status) [metric_card (js ''Price Scout compiled plan'')
             (js (if is_value ''HIT'' status then ''Replayed'' else ''Not replayed''))
             (js (if is_value ''HIT'' status then ''Reused the stored compiled plan'' else ''Compile or repair execution; no compiled-plan replay''))] @
           only (calls \<noteq> None) [metric_card (js ''Inference operations'') (locale_number L calls)
             (js (if calls = Some (JNum (Fin 0)) then ''No inference initiated by Price Scout''
                  else ''Logical Price Scout operations; not provider HTTP requests''))] @
           only (truthy source) [metric_card (js ''Repair source'') (labelize (str_of source)) (js ''How this repair plan was produced'')])]])"

definition timing_cards :: "locale_text \<Rightarrow> json \<Rightarrow> view list" where
  "timing_cards L item = only (timings item \<noteq> [])
     [el ''section''
       [el ''div'' [el ''div'' [el ''h2'' [tx ''Execution timings''],
          el ''p'' [tx ''Worker stage durations reported with the execution result.'']]],
        el ''div'' (map (\<lambda>(k, v). el ''article''
          [el ''span'' [Text (timing_label k)], el ''strong'' [Text (formatDuration (num_of (Some v)))],
           el ''small'' [Text (locale_number L (Some v)), tx '' ms'']]) (timings item))]]"

definition ExecutionPage :: "web_platform \<Rightarrow> locale_text \<Rightarrow> fetched \<Rightarrow> view" where
  "ExecutionPage W L execution =
    (if ft_loading execution then PageSpinner ''Loading execution trace''
     else case (ft_error execution, ft_data execution) of
       (None, Some item) \<Rightarrow>
         let monitor = json_get item ''monitorId''; session = json_get item ''browserSessionUrl''; gen = json_get item ''requestedGeneration'';
             steps = items_of (json_get item ''steps'') in
         el ''div''
          ([el ''div'' [link (if truthy monitor then monitor_link monitor else js ''/'') [tx ''Monitor''], el ''span'' [tx ''/''],
              el ''span'' [tx ''Execution '', Text (slice_or 8 (json_get item ''id'') [])]],
            PageHeader (labelize (str_of (json_get item ''kind'')) @ js '' execution'')
              [tx ''Execution trace '', StatusBadge (str_of (json_get item ''state'')) False]
              [Text (js ''Attempt '' @ str_or (json_get item ''attempt'') (js ''1'') @ dot @
                 str_or (json_get item ''provider'') (js ''local'') @ js '' browser'' @ dot @
                 formatDate W (str_of (coalesce (json_get item ''startedAt'') (json_get item ''createdAt''))))]
              (only (truthy session) [anchor (str_text session) [tx ''Browser session'', el ''ExternalIcon'' []]]),
            el ''section''
             [el ''article'' [el ''span'' [tx ''Duration''], el ''strong'' [Text (formatDuration (num_of (json_get item ''durationMs'')))]],
              el ''article'' [el ''span'' [tx ''Generation''], el ''strong'' [Text (if truthy gen then js ''G'' @ str_text gen else dash)]],
              el ''article'' [el ''span'' [tx ''Trace ID''], el ''strong'' [Text (slice_or 12 (json_get item ''traceId'') dash)]],
              el ''article'' [el ''span'' [tx ''Result''], el ''strong'' [Text (labelize (str_of (json_get item ''state'')))]]]] @
           execution_error item @ execution_observation W item @
           [el ''section''
             [el ''div''
               [el ''div'' [el ''div'' [el ''h2'' [tx ''Browser timeline''], el ''p'' [tx ''Each meaningful stage of the execution.'']]],
                el ''div'' (if steps \<noteq> [] then map (timeline_step W) steps
                  else [el ''p'' [tx ''Detailed steps were not recorded for this execution.'']])],
              evidence_section item]] @
           plan_signals L item @ timing_cards L item)
     | (err, _) \<Rightarrow> ErrorState (case err of Some e \<Rightarrow> e | None \<Rightarrow> Some (js ''Execution not found'')))"

section \<open>A review\<close>

text \<open>The state of the page: whether the rejection is being confirmed, and the mutation that decides.\<close>

record review_state =
  rv_confirm :: bool
  rv_pending :: bool
  rv_error :: "page_error option"

definition detail_row :: "string \<Rightarrow> view list \<Rightarrow> view" where
  "detail_row name kids = el ''div'' [el ''dt'' [tx name], el ''dd'' kids]"

definition proposed_identity :: "web_platform \<Rightarrow> json \<Rightarrow> view" where
  "proposed_identity W revision =
    (let identity = plan_part (Some revision) ''identity'' in
     el ''section''
      ([el ''div'' [el ''div'' [el ''span'' [tx ''Proposed identity''],
          el ''h2'' [Text (str_or (opt_get identity ''title'') (js ''Identity not included''))]]],
        el ''dl''
         [detail_row ''Generation'' (tx ''G'' # shown (json_get revision ''generation'')),
          detail_row ''Source'' [Text (labelize (str_of (json_get revision ''source'')))],
          detail_row ''Brand'' [Text (str_or (opt_get identity ''brand'') dash)],
          detail_row ''SKU'' [Text (str_or (opt_get identity ''sku'') dash)],
          detail_row ''Currency'' [Text (str_or (plan_part (Some revision) ''expectedCurrency'') dash)],
          detail_row ''Created'' [Text (formatDate W (str_of (json_get revision ''createdAt'')))]]] @
       variant_pills (entries_of (opt_get identity ''requestedVariant''))))"

definition preparation :: "json \<Rightarrow> view" where
  "preparation revision =
    (let steps = items_of (plan_part (Some revision) ''preparationSteps'') in
     el ''section''
      [el ''div'' [el ''div'' [el ''span'' [tx ''Deterministic preparation''],
         el ''h2'' [Text (show_nat (length steps)), tx '' browser actions'']]],
       if steps \<noteq> []
       then el ''ol'' (map (\<lambda>(index, step). el ''li''
         [el ''span'' [Text (show_nat (index + 1))],
          el ''div'' [el ''strong'' [Text (labelize (str_of (json_get step ''purpose'')))], el ''p'' (shown (json_get step ''instruction''))]])
         (zip [0 ..< length steps] steps))
       else el ''p'' [tx ''No preparation actions are required.'']])"

definition evidence_card :: "json \<Rightarrow> view" where
  "evidence_card artifact =
    (let url = str_text (json_get artifact ''url'') in
     anchor url
      [if is_value ''screenshot'' (json_get artifact ''kind'')
       then El ''img'' [(''src'', S url), (''alt'', S (str_or (json_get artifact ''label'') (js ''Candidate validation screenshot'')))] []
       else el ''div'' [el ''CameraIcon'' []],
       el ''span'' [el ''CameraIcon'' [], Text (artifact_label artifact), el ''ExternalIcon'' []]])"

definition change_row :: "json \<Rightarrow> view" where
  "change_row d = el ''div''
     [el ''strong'' [Text (labelize (str_of (json_get d ''field'')))], el ''span'' [Text (str_or (json_get d ''before'') dash)],
      el ''span'' [Text [8594]], el ''span'' [Text (str_or (json_get d ''after'') dash)]]"

definition decision_panel :: "review_state \<Rightarrow> view" where
  "decision_panel st = el ''section''
     ([el ''div'' [el ''h2'' [tx ''Approve this monitor plan?''],
         el ''p'' [tx ''Accept only if the product identity, requested variant, and currency still match your intent.'']]] @
      InlineError (rv_error st) @
      [el ''div''
        [if \<not> rv_confirm st then plain_button AskReject [el ''XIcon'' [], tx ''Reject candidate'']
         else el ''div'' [el ''span'' [tx ''Keep the prior plan and block this candidate?''],
           action_button Reject (rv_pending st) [tx ''Yes, reject''], plain_button CancelReject [tx ''Cancel'']],
         action_button Accept (rv_pending st) [el ''CheckIcon'' [],
           Text (if rv_pending st then js ''Applying'' @ [8230] else js ''Accept repaired plan'')]]])"

definition ReviewPage :: "web_platform \<Rightarrow> fetched \<Rightarrow> review_state \<Rightarrow> view" where
  "ReviewPage W rv st =
    (if ft_loading rv then PageSpinner ''Loading repair candidate''
     else case (ft_error rv, ft_data rv) of
       (None, Some data) \<Rightarrow>
         let monitor = opt_get (Some data) ''monitor''; revision = (case json_get data ''revision'' of Some r \<Rightarrow> r | None \<Rightarrow> JNull);
             evidence = items_of (json_get data ''evidence''); chs = items_of (opt_get (json_get data ''comparison'') ''changes'') in
         el ''div''
          ([el ''div'' [link (js ''/'') [tx ''Monitors''], el ''span'' [tx ''/''],
              link (monitor_link (opt_get monitor ''id'')) [Text (monitor_name W (case monitor of Some m \<Rightarrow> m | None \<Rightarrow> JNull))],
              el ''span'' [tx ''/''], el ''span'' (tx ''Review generation '' # shown (json_get revision ''generation''))],
            PageHeader (js (if is_value ''repair'' (json_get revision ''source'') then ''Self-heal review'' else ''Compilation review''))
              ([tx ''Review candidate G''] @ shown (json_get revision ''generation'') @
               [tx '' '', StatusBadge (Some (str_or (json_get revision ''validationState'') (js ''needs_review''))) False])
              [tx ''This plan is quarantined. Scheduled checks continue only after the new identity and actions are reviewed.''] [],
            el ''section'' [el ''ShieldIcon'' [], el ''div'' [el ''strong'' [tx ''No alert can fire from this candidate''],
              el ''p'' [tx ''Price Scout requires a normal, deterministic check after activation before evaluating the price condition.'']]],
            el ''div'' [proposed_identity W revision, preparation revision]] @
           only (evidence \<noteq> [])
            [el ''section'' [el ''div'' [el ''div'' [el ''h2'' [tx ''Validation evidence''],
               el ''p'' [tx ''Captured by the browser that produced this candidate.'']]], el ''div'' (map evidence_card evidence)]] @
           only (chs \<noteq> [])
            [el ''section'' [el ''div'' [el ''div'' [el ''h2'' [tx ''What changed''],
               el ''p'' [tx ''Difference from the active generation.'']]], el ''div'' (map change_row chs)]] @
           [decision_panel st])
     | (err, _) \<Rightarrow> ErrorState (case err of Some e \<Rightarrow> e | None \<Rightarrow> Some (js ''Review not found'')))"

section \<open>Operations\<close>

definition connection_text :: "connection \<Rightarrow> jsstr" where
  "connection_text c = (case c of Connecting \<Rightarrow> js ''connecting'' | Live \<Rightarrow> js ''live'' | Offline \<Rightarrow> js ''offline'')"

definition probe_status :: "fetched \<Rightarrow> string \<Rightarrow> jsstr" where
  "probe_status status k = str_or (opt_get (ft_data status) k) (if ft_loading status then js ''connecting'' else js ''unknown'')"

definition service_card :: "string \<Rightarrow> string \<Rightarrow> view list \<Rightarrow> view \<Rightarrow> view" where
  "service_card icon note title badge = el ''article''
     [el ''span'' [el icon []], el ''div'' [el ''small'' [tx note], el ''strong'' title], badge]"

definition metric_group :: "locale_text \<Rightarrow> jsstr \<times> metric_sample list \<Rightarrow> view" where
  "metric_group L g =
    (let (name, samples) = g in
     metric_card (labelize (Some (if starts_with name (js ''scout_'') then drop 6 name else name))) (lt_number L (metric_total samples))
       (if length samples > 1 then show_nat (length samples) @ js '' labeled series''
        else case samples of s # _ \<Rightarrow> (case ms_labels s of Some l \<Rightarrow> l | None \<Rightarrow> js ''Current value'') | [] \<Rightarrow> js ''Current value''))"

definition metrics_view :: "locale_text \<Rightarrow> fetched \<Rightarrow> bool \<Rightarrow> view" where
  "metrics_view L metrics showRaw =
    (let groups = featured (parseMetrics (str_of (ft_data metrics))) in
     if showRaw
     then el ''pre'' [Text (str_or (ft_data metrics)
       (if ft_loading metrics then js ''Loading metrics'' @ [8230] else js ''Metrics endpoint unavailable''))]
     else if groups \<noteq> [] then el ''div'' (map (metric_group L) groups)
     else el ''div'' [el ''PulseIcon'' [], el ''p'' [Text (if ft_loading metrics then js ''Loading runtime metrics'' @ [8230]
       else js ''No Price Scout metrics have been emitted yet.'')]])"

definition event_row :: "web_platform \<Rightarrow> json \<Rightarrow> view" where
  "event_row W event = el ''div''
     [el ''span'' [],
      el ''div'' [el ''strong'' [Text (labelize (str_of (json_get event ''type'')))],
        el ''p'' [Text (str_or (json_get event ''message'') (js ''System state changed''))]],
      el ''div'' (only (truthy (json_get event ''monitorId'')) [link (monitor_link (json_get event ''monitorId'')) [tx ''Monitor'']] @
        only (truthy (json_get event ''executionId'')) [link (execution_link (json_get event ''executionId'')) [tx ''Execution'']]),
      el ''time'' [Text (formatDate W (str_of (json_get event ''occurredAt'')))]]"

definition OperationsPage :: "web_platform \<Rightarrow> locale_text \<Rightarrow> fetched \<Rightarrow> fetched \<Rightarrow> live \<Rightarrow> bool \<Rightarrow> view" where
  "OperationsPage W L status metrics feed showRaw =
    (let badge = StatusBadge (Some (connection_text (le_connection feed))) True; events = le_events feed in
     el ''div''
      [PageHeader (js ''System operations'') [tx ''Control plane health'']
         [tx ''API health, API-local metrics, and live execution events from this installation.'']
         [anchor (js ''/metrics'') [tx ''API /metrics'', el ''ExternalIcon'' []]],
       el ''section''
        [service_card ''PulseIcon'' ''API liveness'' [tx ''Control plane''] (StatusBadge (Some (probe_status status ''health'')) True),
         service_card ''ShieldIcon'' ''Readiness'' [tx ''Dependencies''] (StatusBadge (Some (probe_status status ''ready'')) True),
         service_card ''RadarIcon'' ''SSE connection'' [tx ''Event stream''] badge,
         service_card ''BoxIcon'' ''Last probe''
           [Text (case ft_data status of None \<Rightarrow> dash
              | Some d \<Rightarrow> lt_time L (date_parse (wp_date_other W) (str_text (json_get d ''checkedAt''))))]
           (el ''span'' [tx ''15s interval''])],
       el ''section''
        [el ''div'' [el ''div'' [el ''h2'' [tx ''API runtime signals''], el ''p'' [tx ''Prometheus samples from this API process only.'']],
           plain_button ToggleRaw [tx (if showRaw then ''Show cards'' else ''Inspect raw metrics'')]],
         metrics_view L metrics showRaw],
       el ''section'' [el ''PulseIcon'' [], el ''div'' [el ''strong'' [tx ''Cross-service metrics''],
         el ''p'' [tx ''Run '', el ''code'' [tx ''make ops-up''], tx '', then use '',
           anchor (js ''http://127.0.0.1:3001'') [tx ''Grafana on port 3001''],
           tx '' for Prometheus aggregation across the API, scheduler, and NATS exporter. Worker-specific diagnostics remain on execution pages and in worker logs.'']]],
       el ''section''
        [el ''div'' [el ''div'' [el ''h2'' [tx ''Live event log''],
           el ''p'' [tx ''Most recent events appear first and remain in this browser session.'']], badge],
         el ''div'' (if events \<noteq> [] then map (event_row W) events
           else [el ''div'' [el ''RadarIcon'' [], el ''div'' [el ''strong'' [tx ''Waiting for system activity''],
             el ''p'' [tx ''Compile or check a monitor to see live events here.'']]]])],
       el ''section'' [el ''ShieldIcon'' [], el ''div'' [el ''strong'' [tx ''Local operator console''],
         el ''p'' [tx ''This UI is unauthenticated and should remain bound to '', el ''code'' [tx ''127.0.0.1''],
           tx '', or sit behind an authenticated reverse proxy.'']]]])"

section \<open>A new monitor\<close>

definition example_instructions :: "string list" where
  "example_instructions =
     [''Alert me when the black 2 TB version is in stock and under $130'', ''Tell me when this drops below $500'',
      ''Watch the 32 GB model and alert me at $899 or less'']"

definition interval_options :: "(nat \<times> string) list" where
  "interval_options = [(15, ''Every 15 minutes''), (60, ''Every hour''), (360, ''Every 6 hours (recommended)''),
     (720, ''Every 12 hours''), (1440, ''Daily'')]"

record new_form =
  nf_url :: jsstr
  nf_intent :: jsstr
  nf_interval :: dbl
  nf_field_error :: "jsstr option"
  nf_pending :: bool
  nf_error :: "page_error option"

definition empty_form :: new_form where
  "empty_form = \<lparr>nf_url = [], nf_intent = [], nf_interval = Fin 360, nf_field_error = None, nf_pending = False, nf_error = None\<rparr>"

definition form_step :: "nat \<Rightarrow> string \<Rightarrow> string \<Rightarrow> view" where
  "form_step n title note = el ''div'' [el ''span'' [Text (show_nat n)], el ''div'' [el ''strong'' [tx title], el ''small'' [tx note]]]"

definition create_form :: "new_form \<Rightarrow> view" where
  "create_form f = El ''form'' [(''onSubmit'', On SubmitForm)]
     ([form_step 1 ''Product page'' ''Public pages only; the monitor policy excludes login, cart, and checkout workflows.'',
       el ''label'' [el ''span'' [tx ''Product URL''],
         El ''input'' [(''type'', S (js ''url'')), (''value'', S (nf_url f)), (''onChange'', On SetUrl), (''required'', B True)] []],
       form_step 2 ''What should we watch for?'' ''Include the variant, stock requirement, and target price.'',
       el ''label'' [el ''span'' [tx ''Tracking instruction''],
         El ''textarea'' [(''value'', S (nf_intent f)), (''onChange'', On SetIntent), (''required'', B True)] []],
       el ''div'' (map (\<lambda>e. El ''button'' [(''type'', S (js ''button'')), (''onClick'', On (UseExample (js e)))] [tx e]) example_instructions),
       form_step 3 ''Check cadence'' ''Choose a conservative interval; each monitor's executions are serialized.'',
       el ''label'' [el ''span'' [tx ''Frequency''],
         El ''select'' [(''value'', S (show_dbl (nf_interval f))), (''onChange'', On SetInterval)]
           (map (\<lambda>(n, label). El ''option'' [(''value'', S (show_nat n))] [tx label]) interval_options)]] @
      (case nf_field_error f of None \<Rightarrow> []
       | Some m \<Rightarrow> only (m \<noteq> []) [El ''div'' [(''role'', S (js ''alert''))] [Text m]]) @
      InlineError (nf_error f) @
      [el ''div'' [link (js ''/'') [tx ''Cancel''],
         El ''button'' [(''disabled'', B (nf_pending f))]
           (if nf_pending f then [el ''span'' [], Text (js ''Opening browser'' @ [8230])]
            else [tx ''Compile monitor'', el ''ArrowIcon'' []])]])"

definition NewMonitorPage :: "new_form \<Rightarrow> view" where
  "NewMonitorPage f = el ''div''
     [PageHeader (js ''Monitor compiler'') [tx ''Track any public product page'']
        [tx ''Price Scout opens the page, understands your condition, and asks you to verify the evidence before scheduled checks begin.''] [],
      el ''div''
       [create_form f,
        el ''aside''
         [el ''div'' [el ''RadarIcon'' [], el ''span'' [], el ''span'' []],
          el ''h2'' [tx ''Agentic once.'', el ''br'' [], tx ''Deterministic after.''],
          el ''p'' [tx ''An AI-guided browser discovers the product and variant. Once confirmed, checks replay Price Scout compiled-plan actions without inference.''],
          el ''ul'' (map (\<lambda>t. el ''li'' [el ''CheckIcon'' [], tx t])
            [''Price and variant verification'', ''Screenshot evidence for every change'', ''Coordinated repair after redesigns'']),
          el ''div'' [el ''ShieldIcon'' [], el ''span'' [el ''strong'' [tx ''Read-only action policy''],
            tx ''Preparation action types are allowlisted and extracted product facts are validated. This is not a general browser sandbox.'']]]]]"

end
