(* ===== verification/PageLaws.thy ===== *)
theory PageLaws
  imports WebPages
begin

text \<open>
  What the pages send: a new monitor reaches the control plane as it was entered, a confirmed threshold keeps
  its cents, and what a threshold shows is read back as the same threshold.
\<close>

section \<open>A new monitor\<close>

lemma unit_list_trim: "unit_list s \<Longrightarrow> unit_list (trim s)"
  unfolding unit_list_def list_all_iff trim_def trim_start_def trim_end_def
  by (metis set_dropWhileD set_rev)

lemma sends_mono: "sends Q m \<Longrightarrow> (\<And>rq. Q rq \<Longrightarrow> R rq) \<Longrightarrow> sends R m"
  by (fastforce simp: sends_def list_all_iff)

lemma plain_new_monitor:
  assumes "unit_list url" "unit_list intent" "short_integer n"
  shows "plain (new_monitor_input url intent n)"
proof -
  have k: "unit_list (js ''url'')" "unit_list (js ''intent'')" "unit_list (js ''intervalMinutes'')"
    "\<not> is_index (js ''url'')" "\<not> is_index (js ''intent'')" "\<not> is_index (js ''intervalMinutes'')"
    by code_simp+
  then show ?thesis using assms
    by (simp add: new_monitor_input_def unit_list_trim obj_set_def)
qed

text \<open>
  C13. Submitting the form sends at most requests that create a monitor, and then only for a URL the
  browser reads as http or https and an instruction of at least eight units; the control plane
  parses the body to exactly the trimmed URL and instruction and the interval that was chosen.
\<close>

theorem submit_creates:
  assumes "unit_list url" "unit_list intent" "short_integer n"
  shows "sends (\<lambda>rq. public_url W url \<and> 8 \<le> length (trim intent) \<and>
      wq_url rq = baseUrl E @ js ''/api/v1/monitors'' \<and> wq_method rq = js ''POST'' \<and>
      wq_headers rq = [(js ''content-type'', js ''application/json'')] \<and>
      (\<exists>body. wq_body rq = Some body \<and> json_parse body = Some (JObj
         [(js ''url'', JStr (trim url)), (js ''intent'', JStr (trim intent)), (js ''intervalMinutes'', JNum n)])))
    (submit_monitor E W url intent n)"
proof -
  let ?body = "json_stringify (new_monitor_input url intent n)"
  have p: "json_parse ?body = Some (new_monitor_input url intent n)"
    by (rule json_parse_stringify [OF plain_new_monitor [OF assms]])
  have ne: "?body \<noteq> []" by (simp add: new_monitor_input_def)
  show ?thesis
  proof (cases "public_url W url \<and> 8 \<le> length (trim intent)")
    case True
    have "sends (\<lambda>rq. rq = request_of E (js ''/api/v1/monitors'') (sending ''POST'' (new_monitor_input url intent n)))
        (submit_monitor E W url intent n)"
      using True by (auto simp: submit_monitor_def useCreateMonitor_def createMonitor_def not_less
          intro!: sends_bind sends_request sends_lift sends_bind_lift)
    moreover have "wq_headers (request_of E (js ''/api/v1/monitors'') (sending ''POST'' (new_monitor_input url intent n))) =
        [(js ''content-type'', js ''application/json'')]"
      using ne by (simp add: request_of_def sending_def request_headers_def del: json_stringify.simps)
    moreover have "wq_body (request_of E (js ''/api/v1/monitors'') (sending ''POST'' (new_monitor_input url intent n))) = Some ?body"
      "wq_url (request_of E (js ''/api/v1/monitors'') (sending ''POST'' (new_monitor_input url intent n))) = baseUrl E @ js ''/api/v1/monitors''"
      "wq_method (request_of E (js ''/api/v1/monitors'') (sending ''POST'' (new_monitor_input url intent n))) = js ''POST''"
      by (simp_all add: request_of_def sending_def)
    ultimately show ?thesis
      using True p by (elim sends_mono) (auto simp: new_monitor_input_def simp del: json_stringify.simps)
  qed (auto simp: submit_monitor_def sends_lift)
qed

definition demo_pages :: web_platform where
  "demo_pages = \<lparr>wp_currency_format = (\<lambda>c v. None), wp_date_format = show_dbl, wp_date_other = (\<lambda>s. NaN), wp_now = Fin 0,
     wp_hostname = (\<lambda>u. Some (js ''a.example'')), wp_protocol = (\<lambda>u. if starts_with u (js ''https:'') then Some (js ''https:'') else None)\<rparr>"

theorem submit_creates_witness:
  "unit_list (js '' https://a.example'') \<and> short_integer (Fin 60) \<and>
   sends (\<lambda>rq. wq_method rq = js ''POST'') (submit_monitor demo_web demo_pages (js ''https://a.example '') (js ''watch the lamp'') (Fin 60))"
proof -
  have p: "unit_list (js ''https://a.example '')" "unit_list (js ''watch the lamp'')" "short_integer (Fin 60)" "unit_list (js '' https://a.example'')"
    by code_simp+
  have "sends (\<lambda>rq. wq_method rq = js ''POST'') (submit_monitor demo_web demo_pages (js ''https://a.example '') (js ''watch the lamp'') (Fin 60))"
    by (rule sends_mono [OF submit_creates [OF p(1-3)]]) (elim conjE)
  then show ?thesis using p(3,4) by (intro conjI)
qed

section \<open>A confirmed threshold\<close>

lemma fl_cents:
  assumes k: "100 \<le> k" "k < 10 ^ 14"
  obtains v where "fl (of_nat k / 100) = Fin v" "\<bar>v * 100 - of_nat k\<bar> < 1 / 4"
    "10 ^ (length (show_nat k) - 3) \<le> v" "v < 10 ^ (length (show_nat k) - 2)" "3 \<le> length (show_nat k)"
proof -
  define K where "K = length (show_nat k)"
  have b: "k < 10 ^ K" "10 ^ (K - 1) \<le> k" using show_nat_bounds [of k] k by (auto simp: K_def)
  have K: "3 \<le> K"
  proof (rule ccontr)
    assume "\<not> 3 \<le> K"
    then have "(10::nat) ^ K \<le> 10 ^ 2" by (intro power_increasing) auto
    then show False using b k by simp
  qed
  define r :: rat where "r = of_nat k"
  have r: "100 \<le> r" "r < 10 ^ 14" using k by (simp_all add: r_def flip: of_nat_power of_nat_less_iff)
  obtain v where v: "fl (r / 100) = Fin v" "\<bar>v - r / 100\<bar> \<le> r / 100 / 2 ^ 53"
    using fl_error [of "r / 100"] r by (fastforce simp: field_simps)
  have e: "\<bar>v * 100 - r\<bar> < 1 / 4"
    using v(2) r by (simp add: abs_if field_simps split: if_splits)
  have p: "(10::rat) ^ K = 100 * 10 ^ (K - 2)" "(10::rat) ^ (K - 1) = 100 * 10 ^ (K - 3)"
    using K by (auto simp: le_iff_add power_add)
  have "rat_of_nat (Suc k) \<le> of_nat (10 ^ K)" using b(1) by (simp only: of_nat_le_iff Suc_le_eq)
  then have up: "r + 1 \<le> 10 ^ K" by (simp add: r_def)
  have hi: "v < 10 ^ (K - 2)" using up e p(1) by (simp add: abs_if split: if_splits)
  have lo: "10 ^ (K - 3) \<le> v"
  proof (cases "k = 10 ^ (K - 1)")
    case True
    then have "r / 100 = of_nat (10 ^ (K - 3))" using p(2) by (simp add: r_def)
    moreover have "(10::nat) ^ (K - 3) < 2 ^ 53"
    proof (rule le_less_trans)
      show "(10::nat) ^ (K - 3) \<le> 10 ^ (K - 1)" by (intro power_increasing) auto
      show "(10::nat) ^ (K - 1) < 2 ^ 53" using True k by simp
    qed
    ultimately have "fl (r / 100) = Fin (of_nat (10 ^ (K - 3)))" using fl_of_nat by presburger
    then show ?thesis using v(1) by simp
  next
    case False
    then have "10 ^ (K - 1) + 1 \<le> k" using b(2) by simp
    then have "rat_of_nat (10 ^ (K - 1) + 1) \<le> of_nat k" by (simp only: of_nat_le_iff)
    then have "10 ^ (K - 1) + 1 \<le> r" by (simp add: r_def)
    then show ?thesis using e p(2) by (simp add: abs_if split: if_splits)
  qed
  show thesis using that v(1) e hi lo K by (simp add: r_def K_def)
qed

lemma show_cents:
  assumes k: "100 \<le> k" "k < 10 ^ 14"
  shows "\<exists>v. fl (of_nat k / 100) = Fin v \<and> 0 < v \<and> js_number (show_dbl (Fin v)) = Fin v"
proof -
  define K where "K = length (show_nat k)"
  obtain v where v: "fl (of_nat k / 100) = Fin v" "\<bar>v * 100 - of_nat k\<bar> < 1 / 4"
    "10 ^ (K - 3) \<le> v" "v < 10 ^ (K - 2)" "3 \<le> K"
    using fl_cents [OF k] unfolding K_def by blast
  have b: "k < 10 ^ K" "10 ^ (K - 1) \<le> k" using show_nat_bounds [of k] k by (auto simp: K_def)
  have "1 \<le> v" by (rule order_trans [OF _ v(3)]) simp
  obtain F where F: "\<lfloor>v\<rfloor> = int F" using \<open>1 \<le> v\<close> by (metis nonneg_int_cases zero_le_floor zero_le_one order_trans)
  have "(10::int) ^ (K - 3) \<le> \<lfloor>v\<rfloor>" "\<lfloor>v\<rfloor> < 10 ^ (K - 2)" using v by (simp_all add: le_floor_iff floor_less_iff)
  then have "10 ^ (K - 3) \<le> F" "F < 10 ^ (K - 2)" unfolding F by (simp_all flip: of_nat_power of_nat_less_iff of_nat_le_iff)
  then have "length (show_nat F) = K - 2" using v(5) by (intro show_nat_length) (simp_all add: numeral_eq_Suc)
  then have n: "dec_exponent v = int (K - 2)" using \<open>1 \<le> v\<close> by (simp add: dec_exponent_def F show_int_nat)
  have "K \<le> 14"
  proof (rule ccontr)
    assume "\<not> K \<le> 14"
    then have "(10::nat) ^ 14 \<le> 10 ^ (K - 1)" by (intro power_increasing) auto
    then show False using b k by linarith
  qed
  have t: "(10::rat) powi (int (K - 2) - int K) = 1 / 100" using v(5) by (simp add: power_int_def numeral_eq_Suc)
  define lo where "lo = \<lfloor>v * 100\<rfloor>"
  have "int k = lo \<or> int k = lo + 1"
  proof -
    have "of_int lo \<le> v * 100" "v * 100 < of_int lo + 1" unfolding lo_def by linarith+
    then have "of_int lo - 1 / 4 < (of_int (int k) :: rat)" "of_int (int k) < (of_int lo + 1 + 1 / 4 :: rat)"
      using v(2) by (simp_all add: abs_if split: if_splits)
    then have "rat_of_int (lo - 1) < of_int (int k)" "rat_of_int (int k) < of_int (lo + 2)" by simp_all
    then show ?thesis unfolding of_int_less_iff by linarith
  qed
  then have lo: "int k \<in> set (if q - of_int lo \<le> of_int (lo + 1) - q then [lo, lo + 1] else [lo + 1, lo])" for q :: rat
    by auto
  have "10 ^ (K - 1) \<le> int k \<and> int k < 10 ^ K \<and> fl (of_int (int k) * 10 powi (int (K - 2) - int K)) = Fin v"
    using b v(1) by (simp add: t flip: of_nat_power of_nat_less_iff of_nat_le_iff)
  then have "find (\<lambda>s. 10 ^ (K - 1) \<le> s \<and> s < 10 ^ K \<and> fl (of_int s * 10 powi (int (K - 2) - int K)) = Fin v)
      (if q - of_int lo \<le> of_int (lo + 1) - q then [lo, lo + 1] else [lo + 1, lo]) \<noteq> None" for q :: rat
    unfolding find_None_iff using lo [of q] by blast
  moreover have "v / 10 powi (int (K - 2) - int K) = v * 100" by (simp add: t)
  ultimately have "decimal_candidate v (int (K - 2)) K \<noteq> None"
    by (simp only: decimal_candidate_def Let_def lo_def [symmetric] map_option_is_None simp_thms)
  moreover have "K \<in> set [1..<Suc K]" using v(5) by simp
  ultimately obtain d s m where d: "d \<in> set [1..<Suc K]"
    and sh: "shortest_from v (int (K - 2)) ([1..<Suc K] @ [Suc K..<18]) = (show_int s, m)"
    and c: "decimal_candidate v (int (K - 2)) d = Some (s, m) \<or> decimal_candidate v (int (K - 2) + 1) d = Some (s, m)"
    using shortest_from_found [of "[1..<Suc K]" v "int (K - 2)" "[Suc K..<18]"] by blast
  have m: "m = int (K - 2) \<or> m = int (K - 2) + 1" "10 ^ (d - 1) \<le> s" "s < 10 ^ d" "fl (of_int s * 10 powi (m - int d)) = Fin v"
    using c decimal_candidate_Some by blast+
  have d': "0 < d" "d \<le> K" using d by auto
  have "0 < s" using m(2) by (rule less_le_trans [rotated]) simp
  then obtain S where S: "s = int S" "0 < S" by (metis pos_int_cases)
  have "S < 10 ^ d" "10 ^ (d - 1) \<le> S" using m(2,3) by (simp_all add: S(1) flip: of_nat_power of_nat_less_iff of_nat_le_iff)
  then have len: "length (show_nat S) = d" using show_nat_length d' by blast
  have m': "0 < m" "m \<le> 21" using m(1) v(5) \<open>K \<le> 14\<close> by auto
  have "[1..<18] = [1..<Suc K] @ [Suc K..<18]" using \<open>K \<le> 14\<close> upt_add_eq_append [of 1 "Suc K" "17 - K"] by simp
  then have pos: "show_pos v = (if int d \<le> m then show_nat S @ replicate (nat (m - int d)) 48
      else take (nat m) (show_nat S) @ 46 # drop (nat m) (show_nat S))"
    using sh len m' by (simp add: show_pos_def n S(1) show_int_nat)
  have "js_number (show_pos v) = Fin v"
  proof (cases "int d \<le> m")
    case True
    have "list_all is_digit (show_nat S @ replicate (nat (m - int d)) 48)" using show_nat_digits [of S] by (auto simp: is_digit_def list_all_iff)
    then have "js_number (show_pos v) = fl (of_int (dec_val (show_nat S @ replicate (nat (m - int d)) 48)))"
      using show_nat_digits [of S] True pos by (simp add: js_number_digits)
    then show ?thesis using m(4) True by (simp add: dec_val_zeros S(1) power_int_def)
  next
    case False
    have "list_all is_digit (take (nat m) (show_nat S))" "list_all is_digit (drop (nat m) (show_nat S))"
      using show_nat_digits [of S] by (auto simp: list_all_iff dest: in_set_takeD in_set_dropD)
    moreover have "take (nat m) (show_nat S) \<noteq> []" "drop (nat m) (show_nat S) \<noteq> []"
      using m' False len show_nat_digits [of S] by auto
    ultimately have "js_number (show_pos v) = fl (of_int (dec_val (show_nat S)) / 10 ^ (d - nat m))"
      using pos False len by (simp add: js_number_fraction)
    moreover have "m - int d = - int (d - nat m)" using False m' by simp
    then have "of_int s * 10 powi (m - int d) = of_int (dec_val (show_nat S)) / (10::rat) ^ (d - nat m)"
      by (simp only: power_int_minus power_int_of_nat S(1) dec_val_show_nat divide_inverse)
    ultimately show ?thesis using m(4) by simp
  qed
  then show ?thesis using v(1) \<open>1 \<le> v\<close> by simp
qed

lemma plan_currency:
  assumes "MonitorRevision revision"
  shows "case plan_part (Some revision) ''expectedCurrency'' of None \<Rightarrow> True | Some v \<Rightarrow> is_string v"
proof -
  obtain r where r: "revision = JObj r" "may_prop r ''plan'' plan_view"
    using assms unfolding MonitorRevision_def by (rule interfaceD) simp
  show ?thesis using r(2)
  proof (cases rule: may_prop_cases)
    case (2 p)
    then obtain d where "p = JObj d" "may_prop d ''expectedCurrency'' is_string"
      unfolding plan_view_def by (elim interfaceD) simp
    then show ?thesis using r 2 by (simp add: plan_part_def opt_get_def may_prop_def)
  qed (simp add: r plan_part_def opt_get_def)
qed

lemma value_or_string:
  "case v of None \<Rightarrow> True | Some x \<Rightarrow> is_string x \<Longrightarrow> is_string d \<Longrightarrow> is_string (value_or v d)"
  by (auto simp: value_or_def split: option.splits)

text \<open>
  C14. When the panel of a monitor with a threshold of \<open>k\<close> cents opens and is confirmed unchanged, the button is
  enabled and the condition sent is a \<open>PriceCondition\<close> with exactly the threshold, the stock rule and
  the variant the monitor had, for every threshold from one to a trillion units of currency.
\<close>

theorem confirm_unchanged:
  assumes "Monitor monitor" "MonitorRevision revision" "json_get monitor ''condition'' = Some condition"
    and k: "json_get condition ''priceBelowMinor'' = Some (JNum (Fin (of_nat k)))" "100 \<le> k" "k < 10 ^ 14"
  shows "\<exists>s c. confirm_initial monitor revision = Inr s \<and> confirm_enabled False s \<and>
    confirm_condition P monitor revision s = Inr c \<and> PriceCondition c \<and>
    (\<forall>p \<in> {''priceBelowMinor'', ''requireInStock'', ''requestedVariant''}. json_get c p = json_get condition p)"
proof -
  obtain v where v: "fl (of_nat k / 100) = Fin v" "0 < v" "js_number (show_dbl (Fin v)) = Fin v"
    using show_cents [OF k(2,3)] by blast
  have round: "math_round (dmul (Fin v) 100) = Fin (of_nat k)"
    using round_cents [of "int k"] v(1) k by auto
  have ne: "show_dbl (Fin v) \<noteq> []"
  proof
    assume e: "show_dbl (Fin v) = []"
    have "js_number [] = Fin 0" by code_simp
    then show False using v(2,3) e by (simp only: dbl.inject)
  qed
  obtain md where "monitor = JObj md" "may_prop md ''condition'' PriceCondition"
    using assms(1) unfolding Monitor_def by (rule interfaceD) (simp add: monitor_optional_def)
  then have "PriceCondition condition" using assms(3) may_propD by simp
  then obtain d where d: "condition = JObj d" "has_prop d ''requireInStock'' is_boolean" "has_prop d ''requestedVariant'' (is_record is_string)"
    "may_prop d ''currency'' is_string"
    unfolding PriceCondition_def by (rule interfaceD) simp
  then obtain stock variant where t: "obj_get d (js ''requireInStock'') = Some stock" "is_boolean stock"
    "obj_get d (js ''requestedVariant'') = Some variant" "is_record is_string variant"
    by (auto simp: has_prop_def split: option.splits)
  then have o: "stock \<noteq> JNull" "variant \<noteq> JNull" by auto
  have "is_string (value_or (obj_get d (js ''currency'')) (value_or (plan_part (Some revision) ''expectedCurrency'') (JStr (js ''USD''))))"
    using d(4) plan_currency [OF assms(2)] by (intro value_or_string) (simp_all add: may_prop_def)
  then obtain cur where cur: "value_or (obj_get d (js ''currency'')) (value_or (plan_part (Some revision) ''expectedCurrency'') (JStr (js ''USD''))) = JStr cur"
    by (elim is_stringE)
  define s where "s = \<lparr>cs_price = show_dbl (Fin v), cs_currency = JStr cur, cs_in_stock = stock\<rparr>"
  define c where "c = JObj (put ''requestedVariant'' (Some variant) (put ''requireInStock'' (Some stock)
      (put ''currency'' (Some (JStr (to_upper P cur))) (put ''priceBelowMinor'' (Some (JNum (Fin (of_nat k)))) []))))"
  have "confirm_initial monitor revision = Inr s"
    using k o t v(1) assms(3) cur by (simp add: confirm_initial_def opt_get_def d(1) s_def converts_def value_or_def [of "Some _"])
  moreover have "confirm_enabled False s"
    using ne v by (simp add: confirm_enabled_def s_def dle_def)
  moreover have "confirm_condition P monitor revision s = Inr c"
    using o t ne round assms(3)
    by (simp add: confirm_condition_def s_def c_def opt_get_def d(1) value_or_def v(3) del: show_dbl.simps dmul.simps math_round.simps)
  moreover have "PriceCondition c"
    unfolding PriceCondition_def c_def using t(2,4) by (simp add: has_prop_put may_prop_put)
  ultimately show ?thesis using t k(1) by (intro exI [of _ s] exI [of _ c]) (simp add: c_def d(1))
qed

definition demo_rule :: json where
  "demo_rule = jobj [(''priceBelowMinor'', jnum 12999), (''currency'', jstr ''usd''), (''requireInStock'', JBool True),
     (''requestedVariant'', jobj [(''color'', jstr ''black'')])]"

definition demo_ruled_monitor :: json where
  "demo_ruled_monitor = (case demo_monitor of JObj d \<Rightarrow> JObj (put ''condition'' (Some demo_rule) d) | m \<Rightarrow> m)"

theorem confirm_unchanged_witness:
  "Monitor demo_ruled_monitor \<and> (\<exists>s c. confirm_initial demo_ruled_monitor (demo_revisions ! 0) = Inr s \<and>
     confirm_condition ascii_platform demo_ruled_monitor (demo_revisions ! 0) s = Inr c \<and> json_get c ''priceBelowMinor'' = Some (jnum 12999))"
proof -
  have p: "Monitor demo_ruled_monitor" "MonitorRevision (demo_revisions ! 0)" "json_get demo_ruled_monitor ''condition'' = Some demo_rule"
    by code_simp+
  have r: "json_get demo_rule ''priceBelowMinor'' = Some (jnum 12999)" by code_simp
  then have k: "json_get demo_rule ''priceBelowMinor'' = Some (JNum (Fin (of_nat 12999)))" by (simp add: jnum_def)
  have "\<exists>s c. confirm_initial demo_ruled_monitor (demo_revisions ! 0) = Inr s \<and>
     confirm_condition ascii_platform demo_ruled_monitor (demo_revisions ! 0) s = Inr c \<and>
     json_get c ''priceBelowMinor'' = json_get demo_rule ''priceBelowMinor''"
    using confirm_unchanged [OF p k, of ascii_platform] by auto
  then show ?thesis using p(1) r by simp
qed

section \<open>The dashboard\<close>

lemma round_even_nonneg: "0 \<le> q \<Longrightarrow> 0 \<le> round_even q"
proof -
  assume "0 \<le> q"
  then have "0 \<le> \<lfloor>q\<rfloor>" by simp
  then show ?thesis by (simp add: round_even_def Let_def)
qed

lemma fl_nonneg: "0 \<le> x \<Longrightarrow> fl x = Inf False \<or> (\<exists>y. fl x = Fin y \<and> 0 \<le> y)"
  using round_even_nonneg [of "x / _"] by (auto simp: fl_def fl_pos_def Let_def)

text \<open>
  The meter of a monitor with a positive target and price is a whole number of percent from 0 to
  100.
\<close>

theorem progress_in_range:
  assumes "opt_get (json_get monitor ''condition'') ''priceBelowMinor'' = Some (JNum (Fin t))" "0 < t"
    and "opt_get (json_get monitor ''latestObservation'') ''priceMinor'' = Some (JNum (Fin p))" "0 < p"
  shows "\<exists>n :: nat. n \<le> 100 \<and> price_progress monitor = Inr (Some (Fin (of_nat n)))"
proof -
  have p: "price_progress monitor = Inr (Some (dmin (Fin 100) (math_round (dmul (ddiv (Fin t) (Fin p)) 100))))"
    using assms by (simp add: price_progress_def converts_def)
  have m: "\<exists>n :: nat. n \<le> 100 \<and> dmin (Fin 100) (math_round d) = Fin (of_nat n)"
    if d: "d = Inf False \<or> (\<exists>y. d = Fin y \<and> 0 \<le> y)" for d
    using d
  proof
    assume "d = Inf False"
    then show ?thesis by (intro exI [of _ 100]) simp
  next
    assume "\<exists>y. d = Fin y \<and> 0 \<le> y"
    then obtain y where y: "d = Fin y" "0 \<le> y" by blast
    then have "0 \<le> \<lfloor>y + 1 / 2\<rfloor>" by simp
    then obtain n where n: "\<lfloor>y + 1 / 2\<rfloor> = int n" by (rule nonneg_int_cases)
    show ?thesis
    proof (cases "n < 100")
      case True
      then show ?thesis using y n by (intro exI [of _ n]) simp
    qed (use y n in \<open>intro exI [of _ 100], simp\<close>)
  qed
  have "ddiv (Fin t) (Fin p) = fl (t / p)" using assms(4) by simp
  moreover have "dmul d 100 = Inf False \<or> (\<exists>y. dmul d 100 = Fin y \<and> 0 \<le> y)"
    if "d = Inf False \<or> (\<exists>y. d = Fin y \<and> 0 \<le> y)" for d
    using that
  proof
    assume "\<exists>y. d = Fin y \<and> 0 \<le> y"
    then obtain y where "d = Fin y" "0 \<le> y" by blast
    then show ?thesis using fl_nonneg [of "y * 100"] by simp
  qed simp
  ultimately show ?thesis using m fl_nonneg [of "t / p"] assms(2,4) p by simp
qed

theorem progress_in_range_witness:
  "\<exists>n :: nat. n \<le> 100 \<and> price_progress (jobj [(''condition'', jobj [(''priceBelowMinor'', jnum 900)]),
     (''latestObservation'', jobj [(''priceMinor'', jnum 1200)])]) = Inr (Some (Fin (of_nat n)))"
  by (rule progress_in_range [of _ 900 1200]) (code_simp, simp, code_simp, simp)

section \<open>Candidates and charts\<close>

lemma sorted_by_spec:
  assumes "\<And>x. x \<in> set xs \<Longrightarrow> key x = Inr (Fin (k x))"
  shows "\<exists>ys. sorted_by key xs = Inr ys \<and> set ys = set xs \<and> length ys = length xs \<and> sorted (map k ys)"
proof (cases "length xs < 2")
  case True
  then have "sorted (map k xs)" by (cases xs rule: remdups_adj.cases) auto
  then show ?thesis using True by (simp add: sorted_by_def)
next
  case False
  have m: "map_throw key ys = Inr (map (\<lambda>x. Fin (k x)) ys)" if "set ys \<subseteq> set xs" for ys
    using that assms by (induction ys) auto
  let ?ps = "map (\<lambda>x. (Fin (k x), x)) xs"
  let ?s = "js_sort (\<lambda>a b. dless (fst a) (fst b)) ?ps"
  have "sorted (map (\<lambda>p. k (snd p)) ?s)"
    by (rule js_sort_key(1)) auto
  moreover have "set ?s = set ?ps" "length ?s = length ?ps" by (rule set_js_sort, rule length_js_sort)
  ultimately show ?thesis using False m [of xs]
    by (intro exI [of _ "map snd ?s"]) (simp add: sorted_by_def zip_map_self comp_def image_image)
qed

lemma find_sorted:
  "sorted (map f xs) \<Longrightarrow> find P xs = Some y \<Longrightarrow> x \<in> set xs \<Longrightarrow> P x \<Longrightarrow> f y \<le> f x"
  by (induction xs) (auto split: if_splits)

text \<open>
  The candidate the page of a monitor asks about is a revision that is not active yet or waits for a
  review, none of a greater generation does, and there is one whenever any revision does.
\<close>

theorem candidate_newest:
  assumes "json_get monitor ''revisions'' = Some (JArr rs)" "\<And>r. r \<in> set rs \<Longrightarrow> generation r = Inr (Fin (gen r))"
  shows "\<exists>c. latest_candidate monitor = Inr c \<and>
    (case c of None \<Rightarrow> \<forall>r \<in> set rs. \<not> needs_decision r
     | Some r \<Rightarrow> r \<in> set rs \<and> needs_decision r \<and> (\<forall>q \<in> set rs. needs_decision q \<longrightarrow> gen q \<le> gen r))"
proof -
  obtain ys where ys: "newest_first rs = Inr ys" "set ys = set rs" "sorted (map (\<lambda>r. - gen r) ys)"
    using sorted_by_spec [of rs "\<lambda>r. rbind (generation r) (\<lambda>g. Inr (dneg g))" "\<lambda>r. - gen r"] assms(2)
    unfolding newest_first_def by auto
  have "latest_candidate monitor = Inr (find needs_decision ys)"
    using assms(1) ys(1) by (simp add: latest_candidate_def items_of_def)
  moreover have "case find needs_decision ys of None \<Rightarrow> \<forall>r \<in> set rs. \<not> needs_decision r
     | Some r \<Rightarrow> r \<in> set rs \<and> needs_decision r \<and> (\<forall>q \<in> set rs. needs_decision q \<longrightarrow> gen q \<le> gen r)"
    using find_sorted [OF ys(3), of needs_decision] ys(2) find_Some_iff [of needs_decision ys] find_None_iff [of needs_decision ys]
    by (auto split: option.splits)
  ultimately show ?thesis by blast
qed

theorem candidate_newest_witness:
  "\<exists>r. latest_candidate demo_normalised = Inr (Some r) \<and> (\<forall>q \<in> set demo_revisions. needs_decision q \<longrightarrow> demo_generation q \<le> demo_generation r)"
proof -
  have p: "json_get demo_normalised ''revisions'' = Some (JArr demo_revisions)" "list_ex needs_decision demo_revisions"
    by code_simp+
  have gen: "generation q = Inr (Fin (demo_generation q))" if "q \<in> set demo_revisions" for q
    using demo_keys(1) that by (simp add: list_all_iff)
  show ?thesis using candidate_newest [OF p(1) gen] p(2) by (auto simp: list_ex_iff split: option.splits)
qed

end
