(* ===== verification/ViewLaws.thy ===== *)
theory ViewLaws
  imports RunViews PageLaws WebDemo "HOL-Library.Multiset"
begin

text \<open>
  What the pages let a user do and where they lead: the buttons of a monitor follow its state, a rejection
  takes a confirmation, the dashboard and an execution link each of
  their items once, and every link stays on a page of the application.
\<close>

section \<open>Buttons of composed views\<close>

definition presses :: "handler option \<Rightarrow> view list \<Rightarrow> handler list" where
  "presses form vs = concat (map (pressable form) vs)"

lemma presses_simps [simp]:
  "presses form [] = []"
  "presses form (v # vs) = pressable form v @ presses form vs"
  "presses form (vs @ ws) = presses form vs @ presses form ws"
  "presses form (only c vs) = (if c then presses form vs else [])"
  by (simp_all add: presses_def only_def)

lemma pressable_El:
  "pressable form (El tag as kids) = pressed form tag as @ presses (if tag = ''form'' then handler_of ''onSubmit'' as else form) kids"
  by (simp add: presses_def)

declare pressable.simps(2) [simp del]

lemma presses_map: "(\<And>x. x \<in> set xs \<Longrightarrow> pressable form (f x) = []) \<Longrightarrow> presses form (map f xs) = []"
  by (induction xs) auto

lemma pressable_el [simp]:
  "tag \<noteq> ''button'' \<Longrightarrow> tag \<noteq> ''form'' \<Longrightarrow> pressable form (el tag kids) = presses form kids"
  by (simp add: el_def pressable_El pressed_def)

lemma presses_shown [simp]: "presses form (shown v) = []"
  by (cases v; cases "the v") (simp_all add: shown_def)

lemma pressable_leaves [simp]:
  "pressable form (tx s) = []"
  "pressable form (link t kids) = presses form kids"
  "pressable form (anchor t kids) = presses form kids"
  "pressable form (action_button h d kids) = (if d then [] else [h]) @ presses form kids"
  "pressable form (plain_button h kids) = h # presses form kids"
  by (simp_all add: tx_def link_def anchor_def action_button_def plain_button_def pressable_El pressed_def attr_def handler_of_def)

lemma pressable_parts [simp]:
  "pressable form (StatusBadge s c) = []"
  "pressable form (PageSpinner t) = []"
  "pressable form (ErrorState err) = []"
  "presses form (InlineError e) = []"
  by (simp_all add: StatusBadge_def PageSpinner_def ErrorState_def InlineError_def pressed_def pressable_El Let_def
    split: option.splits prod.splits)

lemma pressable_header [simp]:
  "pressable form (PageHeader e t d a) = presses form t @ presses form d @ presses form a"
  by (auto simp: PageHeader_def)

lemma presses_variant [simp]: "presses form (variant_pills v) = []"
  by (auto simp: variant_pills_def intro!: presses_map)


section \<open>The page of a monitor\<close>

lemma pressable_other: "tag \<noteq> ''button'' \<Longrightarrow> tag \<noteq> ''form'' \<Longrightarrow> pressable form (El tag as kids) = presses form kids"
  by (simp add: pressable_El pressed_def)

lemma pressable_chart [simp]: "pressable form (PriceChart E W L xs h) = []"
  by (auto simp: PriceChart_def grid_line_def Let_def pressable_other presses_def)

lemma pressable_panel [simp]:
  "pressable form (ConfirmationPanel m r pn) = (if confirm_enabled (pn_pending pn) (pn_entered pn) then [ConfirmCondition] else [])"
  by (simp add: ConfirmationPanel_def Let_def pressable_other presses_map split_beta)

lemma pressable_monitor_parts [simp]:
  "pressable form (price_panel E W L item) = []"
  "pressable form (rule_panel W item) = []"
  "pressable form (execution_row W x) = []"
  "pressable form (revision_row W item r) = []"
  by (simp_all add: price_panel_def rule_panel_def execution_row_def revision_row_def Let_def pressable_other)

lemma monitor_page_pressable:
  assumes "ft_data q = Some item" "ft_error q = None" "\<not> ft_loading q"
  shows "pressable None (MonitorDetailPage E W L q st) =
    (if pause_disabled (dt_updating st) item then [] else [TogglePause]) @
    (if check_disabled (dt_checking st) item then [] else [CheckNow]) @
    (if confirmation_shown item (candidate_of item) \<and> confirm_enabled (pn_pending (dt_panel st)) (pn_entered (dt_panel st))
     then [ConfirmCondition] else [])"
proof -
  have a: "presses form (monitor_actions st item) = (if pause_disabled (dt_updating st) item then [] else [TogglePause]) @
    (if check_disabled (dt_checking st) item then [] else [CheckNow])" for form
    by (simp add: monitor_actions_def)
  have c: "presses form (case candidate_of item of None \<Rightarrow> []
      | Some c \<Rightarrow> only (confirmation_shown item (candidate_of item)) [ConfirmationPanel item c (dt_panel st)]) =
    (if confirmation_shown item (candidate_of item) \<and> confirm_enabled (pn_pending (dt_panel st)) (pn_entered (dt_panel st))
     then [ConfirmCondition] else [])" for form
    by (auto simp: confirmation_shown_def split: option.splits)
  have m: "presses form (case dt_message st of None \<Rightarrow> [] | Some m \<Rightarrow> only (m \<noteq> []) [el ''div'' [el ''CheckIcon'' [], Text m]]) = []" for form
    by (simp split: option.splits)
  have e: "presses form (map (execution_row W) xs) = []" "presses form (map (revision_row W item) xs) = []" for form xs
    by (auto intro: presses_map)
  have i: "presses form (map (\<lambda>h. el ''th'' [tx h]) hs) = []" for form hs by (auto intro: presses_map)
  show ?thesis
    by (simp add: MonitorDetailPage_def assms Let_def a c m e i del: list.map)
qed

text \<open>
  C16. On the page of a monitor, \<open>Pause\<close> or \<open>Resume\<close> can be pressed unless its request is on the way or the
  monitor is being compiled or waits for its confirmation, a check can be queued exactly for an active
  monitor, and a condition can be confirmed exactly when a decision is due and a positive price is
  entered; no other button can be pressed.
\<close>

theorem monitor_page_actions:
  assumes "ft_data q = Some item" "ft_error q = None" "\<not> ft_loading q"
  shows "pressable None (MonitorDetailPage E W L q st) =
    (if dt_updating st \<or> json_get item ''status'' \<in> {Some (JStr (js ''compiling'')), Some (JStr (js ''awaiting_confirmation''))}
     then [] else [TogglePause]) @
    (if dt_checking st \<or> json_get item ''status'' \<noteq> Some (JStr (js ''active'')) then [] else [CheckNow]) @
    (if json_get item ''status'' \<in> {Some (JStr (js ''awaiting_confirmation'')), Some (JStr (js ''needs_review''))} \<and>
        (\<exists>r. latest_candidate item = Inr (Some r)) \<and> \<not> pn_pending (dt_panel st) \<and> cs_price (pn_entered (dt_panel st)) \<noteq> [] \<and>
        \<not> dle (js_number (cs_price (pn_entered (dt_panel st)))) (Fin 0)
     then [ConfirmCondition] else [])"
proof -
  have c: "confirmation_shown item (candidate_of item) \<longleftrightarrow>
      json_get item ''status'' \<in> {Some (JStr (js ''awaiting_confirmation'')), Some (JStr (js ''needs_review''))} \<and>
      (\<exists>r. latest_candidate item = Inr (Some r))"
    unfolding confirmation_shown_def is_value_def candidate_of_def by (simp split: sum.splits option.splits)
  show ?thesis
    unfolding monitor_page_pressable [OF assms] c pause_disabled_def check_disabled_def confirm_enabled_def is_value_def
    by (simp only: insert_iff empty_iff simp_thms conj_assoc)
qed


definition demo_locale :: locale_text where
  "demo_locale = \<lparr>lt_number = show_dbl, lt_date = show_dbl, lt_time = show_dbl\<rparr>"

definition fetched_data :: "json \<Rightarrow> fetched" where
  "fetched_data v = \<lparr>ft_loading = False, ft_error = None, ft_data = Some v\<rparr>"

definition demo_panel :: panel where
  "demo_panel = \<lparr>pn_entered = \<lparr>cs_price = js ''45'', cs_currency = jstr ''USD'', cs_in_stock = JBool True\<rparr>, pn_pending = False, pn_error = None\<rparr>"

definition demo_detail :: detail where
  "demo_detail = \<lparr>dt_updating = False, dt_update_error = None, dt_checking = False, dt_check_error = None, dt_message = None, dt_panel = demo_panel\<rparr>"

lemma demo_panel_ready:
  "json_get demo_normalised ''status'' = Some (JStr (js ''needs_review''))" "js ''needs_review'' \<noteq> js ''active''"
  "js ''needs_review'' \<noteq> js ''compiling''" "js ''needs_review'' \<noteq> js ''awaiting_confirmation''"
  "\<not> dle (js_number (js ''45'')) (Fin 0)" "js ''45'' \<noteq> []"
  by code_simp+

lemma demo_candidate: "case latest_candidate demo_normalised of Inr (Some r) \<Rightarrow> True | _ \<Rightarrow> False"
  by code_simp

theorem monitor_page_actions_witness:
  "pressable None (MonitorDetailPage demo_web demo_pages demo_locale (fetched_data demo_normalised) demo_detail) = [TogglePause, ConfirmCondition]"
proof -
  have p: "ft_data (fetched_data demo_normalised) = Some demo_normalised" "ft_error (fetched_data demo_normalised) = None"
    "\<not> ft_loading (fetched_data demo_normalised)"
    by (simp_all add: fetched_data_def)
  have q: "dt_updating demo_detail = False" "dt_checking demo_detail = False" "pn_pending (dt_panel demo_detail) = False"
    "cs_price (pn_entered (dt_panel demo_detail)) = js ''45''"
    by (simp_all add: demo_detail_def demo_panel_def)
  have c: "\<exists>r. latest_candidate demo_normalised = Inr (Some r)"
    using demo_candidate by (cases "latest_candidate demo_normalised") (simp_all split: option.splits)
  show ?thesis
    unfolding monitor_page_actions [OF p] q demo_panel_ready(1) using demo_panel_ready(2-) c by simp
qed

section \<open>The page of a review\<close>

lemma review_parts [simp]:
  "pressable form (proposed_identity W r) = []"
  "pressable form (preparation r) = []"
  "pressable form (evidence_card x) = []"
  "pressable form (change_row x) = []"
  by (simp_all add: proposed_identity_def preparation_def evidence_card_def change_row_def detail_row_def Let_def pressable_other
    presses_map split_beta)

lemma review_page_actions:
  "pressable None (ReviewPage W q st) =
    (if ft_loading q \<or> ft_error q \<noteq> None \<or> ft_data q = None then []
     else (if rv_confirm st then (if rv_pending st then [] else [Reject]) @ [CancelReject] else [AskReject]) @
       (if rv_pending st then [] else [Accept]))"
proof -
  have m: "presses form (map evidence_card xs) = []" "presses form (map change_row xs) = []" for form xs
    by (auto intro: presses_map)
  have d: "pressable form (decision_panel st) =
    (if rv_confirm st then (if rv_pending st then [] else [Reject]) @ [CancelReject] else [AskReject]) @
    (if rv_pending st then [] else [Accept])" for form
    by (simp add: decision_panel_def)
  show ?thesis by (simp add: ReviewPage_def m d Let_def del: list.map split: option.splits)
qed

text \<open>
  What happens while a review is open. A button that the page shows can be pressed: the question is the
  page's own state and follows at once, a decision is handed to \<open>useMutation\<close>, and whether one is
  pending or failed reaches the page only when it is rendered again. The library follows the decision
  sent last; one sent before it stays on its way unnoticed. An accepted decision leaves the page, and so
  does any link or the browser's history at every moment; whoever comes back meets a fresh page, which
  knows nothing of a decision still on its way. The data of the review may be anything at every step.
\<close>

datatype standing = Unsent | On_its_way | Failed page_error

record review_visit =
  vs_page :: review_state
  vs_last :: standing
  vs_earlier :: nat

datatype review_event = Pressed handler | Rendered | Refused page_error | Accepted | Earlier_answered | Returned

definition review_start :: review_state where
  "review_start = \<lparr>rv_confirm = False, rv_pending = False, rv_error = None\<rparr>"

definition in_flight :: "review_visit \<Rightarrow> nat" where
  "in_flight v = vs_earlier v + (if vs_last v = On_its_way then 1 else 0)"

definition fresh_visit :: "nat \<Rightarrow> review_visit" where
  "fresh_visit n = \<lparr>vs_page = review_start, vs_last = Unsent, vs_earlier = n\<rparr>"

fun review_press :: "handler \<Rightarrow> review_visit \<Rightarrow> review_visit" where
  "review_press AskReject v = v\<lparr>vs_page := (vs_page v)\<lparr>rv_confirm := True\<rparr>\<rparr>"
| "review_press CancelReject v = v\<lparr>vs_page := (vs_page v)\<lparr>rv_confirm := False\<rparr>\<rparr>"
| "review_press Accept v = v\<lparr>vs_last := On_its_way, vs_earlier := in_flight v\<rparr>"
| "review_press Reject v = v\<lparr>vs_last := On_its_way, vs_earlier := in_flight v\<rparr>"
| "review_press h v = v"

definition review_render :: "review_visit \<Rightarrow> review_visit" where
  "review_render v = v\<lparr>vs_page := (vs_page v)\<lparr>rv_pending := (vs_last v = On_its_way),
     rv_error := (case vs_last v of Failed e \<Rightarrow> Some e | _ \<Rightarrow> None)\<rparr>\<rparr>"

inductive review_step :: "web_platform \<Rightarrow> review_visit \<Rightarrow> review_event \<Rightarrow> review_visit \<Rightarrow> bool" for W where
  press: "h \<in> set (pressable None (ReviewPage W q (vs_page v))) \<Longrightarrow> review_step W v (Pressed h) (review_press h v)"
| render: "review_step W v Rendered (review_render v)"
| refuse: "vs_last v = On_its_way \<Longrightarrow> review_step W v (Refused e) (v\<lparr>vs_last := Failed e\<rparr>)"
| accept: "vs_last v = On_its_way \<Longrightarrow> review_step W v Accepted (fresh_visit (vs_earlier v))"
| earlier: "0 < vs_earlier v \<Longrightarrow> review_step W v Earlier_answered (v\<lparr>vs_earlier := vs_earlier v - 1\<rparr>)"
| return: "review_step W v Returned (fresh_visit (in_flight v))"

inductive review_run :: "web_platform \<Rightarrow> review_event list \<Rightarrow> review_visit \<Rightarrow> bool" for W where
  start: "review_run W [] (fresh_visit 0)"
| step: "review_run W es v \<Longrightarrow> review_step W v e v' \<Longrightarrow> review_run W (es @ [e]) v'"


definition decides :: "review_event \<Rightarrow> bool" where
  "decides e \<longleftrightarrow> e = Pressed Accept \<or> e = Pressed Reject"

fun answers :: "review_event \<Rightarrow> bool" where
  "answers (Refused e) = True"
| "answers Accepted = True"
| "answers Earlier_answered = True"
| "answers e = False"

text \<open>The question whether to reject was asked, and since then neither cancelled nor left with the page.\<close>

definition drops :: "review_event set" where
  "drops = {Pressed CancelReject, Accepted, Returned}"



lemma review_step_keeps:
  assumes "review_step W v e v'"
  shows "rv_confirm (vs_page v') \<longleftrightarrow> e = Pressed AskReject \<or> rv_confirm (vs_page v) \<and> e \<notin> drops"
    and "e = Pressed Reject \<Longrightarrow> rv_confirm (vs_page v)"
    and "in_flight v' + (if answers e then 1 else 0) = in_flight v + (if decides e then 1 else 0)"
  using assms by (cases rule: review_step.cases;
    auto simp: review_page_actions drops_def decides_def in_flight_def fresh_visit_def review_start_def review_render_def split: if_splits)+


text \<open>Every decision sent is answered or still on its way, of whatever visit of the page it is.\<close>

lemma decisions_accounted:
  "review_run W es v \<Longrightarrow> length (filter decides es) = length (filter answers es) + in_flight v"
proof (induction rule: review_run.induct)
  case start
  then show ?case by (simp add: fresh_visit_def in_flight_def)
next
  case (step es v e v')
  then show ?case using review_step_keeps(3) [OF step.hyps(2)] by (auto split: if_splits)
qed


lemma demo_review_step:
  assumes "h \<in> {AskReject, CancelReject, Accept, Reject}" "h = AskReject \<Longrightarrow> \<not> rv_confirm (vs_page v)"
    "h = CancelReject \<Longrightarrow> rv_confirm (vs_page v)" "h = Accept \<Longrightarrow> \<not> rv_pending (vs_page v)"
    "h = Reject \<Longrightarrow> rv_confirm (vs_page v) \<and> \<not> rv_pending (vs_page v)"
  shows "review_step W v (Pressed h) (review_press h v)"
  by (rule review_step.press [of _ _ "fetched_data JNull"]) (use assms in \<open>auto simp: review_page_actions fetched_data_def\<close>)



text \<open>
  Nothing keeps a second decision from being sent while the first is on its way: a candidate can be
  accepted twice before the page is rendered, and, after leaving the page and coming back, accepted and
  then rejected although the page had shown the first decision as pending.
\<close>

lemma two_decisions:
  "\<exists>v. review_run W [Pressed Accept, Pressed Accept] v \<and> in_flight v = 2"
  "\<exists>v. review_run W [Pressed Accept, Rendered, Returned, Pressed AskReject, Pressed Reject] v \<and> in_flight v = 2"
proof -
  let ?a = "review_press Accept (fresh_visit 0)"
  have a: "review_run W [Pressed Accept] ?a"
    using review_run.step [OF review_run.start demo_review_step [of Accept]] by (simp add: fresh_visit_def review_start_def)
  have "review_run W [Pressed Accept, Pressed Accept] (review_press Accept ?a)"
    using review_run.step [OF a demo_review_step [of Accept]] by (simp add: fresh_visit_def review_start_def)
  then show "\<exists>v. review_run W [Pressed Accept, Pressed Accept] v \<and> in_flight v = 2"
    by (intro exI conjI) (assumption, simp add: in_flight_def fresh_visit_def)
  have r: "review_run W [Pressed Accept, Rendered] (review_render ?a)"
    using review_run.step [OF a review_step.render] by simp
  have b: "review_run W [Pressed Accept, Rendered, Returned] (fresh_visit 1)"
    using review_run.step [OF r review_step.return] by (simp add: in_flight_def review_render_def fresh_visit_def)
  have q: "review_run W [Pressed Accept, Rendered, Returned, Pressed AskReject] (review_press AskReject (fresh_visit 1))"
    using review_run.step [OF b demo_review_step [of AskReject]] by (simp add: fresh_visit_def review_start_def)
  have "review_run W [Pressed Accept, Rendered, Returned, Pressed AskReject, Pressed Reject]
      (review_press Reject (review_press AskReject (fresh_visit 1)))"
    using review_run.step [OF q demo_review_step [of Reject]] by (simp add: fresh_visit_def review_start_def)
  then show "\<exists>v. review_run W [Pressed Accept, Rendered, Returned, Pressed AskReject, Pressed Reject] v \<and> in_flight v = 2"
    by (intro exI conjI) (assumption, simp add: in_flight_def fresh_visit_def)
qed

section \<open>Links of composed views\<close>

definition aims :: "string \<Rightarrow> view list \<Rightarrow> jsstr list" where
  "aims kind vs = concat (map (targets kind) vs)"

lemma aims_simps [simp]:
  "aims kind [] = []"
  "aims kind (v # vs) = targets kind v @ aims kind vs"
  "aims kind (vs @ ws) = aims kind vs @ aims kind ws"
  "aims kind (only c vs) = (if c then aims kind vs else [])"
  by (simp_all add: aims_def only_def)

lemma targets_El: "targets kind (El tag as kids) = target_of kind tag as @ aims kind kids"
  by (simp add: aims_def)

declare targets.simps(2) [simp del]

lemma aims_none: "(\<And>x. x \<in> set xs \<Longrightarrow> targets kind (f x) = []) \<Longrightarrow> aims kind (map f xs) = []"
  by (induction xs) auto

lemma aims_each: "(\<And>x. targets kind (f x) = [g x]) \<Longrightarrow> aims kind (map f xs) = map g xs"
  by (induction xs) auto

lemma targets_el [simp]: "tag \<noteq> kind \<Longrightarrow> targets kind (el tag kids) = aims kind kids"
  by (simp add: el_def targets_El target_of_def)

lemma targets_other: "tag \<noteq> kind \<Longrightarrow> targets kind (El tag as kids) = aims kind kids"
  by (simp add: targets_El target_of_def)

lemma aims_shown [simp]: "aims kind (shown v) = []"
  by (cases v; cases "the v") (simp_all add: shown_def)

lemma targets_leaves [simp]:
  "targets kind (tx s) = []"
  "targets kind (link t kids) = (if kind = ''Link'' then [t] else []) @ aims kind kids"
  "targets kind (anchor t kids) = (if kind = ''a'' then [t] else []) @ aims kind kids"
  by (auto simp: tx_def link_def anchor_def targets_El target_of_def attr_def)

lemma targets_parts [simp]:
  "kind \<in> {''Link'', ''a''} \<Longrightarrow> targets kind (StatusBadge s c) = []"
  "kind \<in> {''Link'', ''a''} \<Longrightarrow> targets kind (PageSpinner t) = []"
  "kind \<in> {''Link'', ''a''} \<Longrightarrow> targets kind (ErrorState err) = []"
  "kind \<in> {''Link'', ''a''} \<Longrightarrow> aims kind (InlineError e) = []"
  "kind \<in> {''Link'', ''a''} \<Longrightarrow> targets kind (action_button h d kids) = aims kind kids"
  "kind \<in> {''Link'', ''a''} \<Longrightarrow> targets kind (plain_button h kids) = aims kind kids"
  by (auto simp: StatusBadge_def PageSpinner_def ErrorState_def InlineError_def action_button_def plain_button_def targets_other Let_def
    split: option.splits prod.splits)

lemma targets_header [simp]:
  "kind \<in> {''Link'', ''a''} \<Longrightarrow> targets kind (PageHeader e t d a) = aims kind t @ aims kind d @ aims kind a"
  by (auto simp: PageHeader_def)

lemma aims_variant [simp]: "kind \<in> {''Link'', ''a''} \<Longrightarrow> aims kind (variant_pills v) = []"
  by (auto simp: variant_pills_def intro!: aims_none)

section \<open>The dashboard\<close>

lemma targets_row: "targets ''Link'' (monitor_row P W m) = [monitor_link (json_get m ''id'')]"
  by (simp add: monitor_row_def Let_def targets_other split: option.splits)

text \<open>
  The dashboard links every monitor exactly once, in the order of the answer, after the link that
  creates one.
\<close>

theorem dashboard_links:
  assumes "\<not> ft_loading q" "ft_error q = None" "ft_data q = Some (JArr ms)" "ms \<noteq> []"
  shows "targets ''Link'' (DashboardPage P W q) = js ''/monitors/new'' # map (\<lambda>m. js ''/monitors/'' @ str_text (json_get m ''id'')) ms"
proof -
  have r: "aims ''Link'' (map (monitor_row P W) ms) = map (\<lambda>m. monitor_link (json_get m ''id'')) ms"
    by (rule aims_each) (rule targets_row)
  show ?thesis
    using assms r by (simp add: DashboardPage_def items_of_def dashboard_counts_def Let_def monitor_link_def del: list.map)
qed

lemma fetched_data_parts [simp]:
  "\<not> ft_loading (fetched_data v)" "ft_error (fetched_data v) = None" "ft_data (fetched_data v) = Some v"
  by (simp_all add: fetched_data_def)

theorem dashboard_links_witness:
  "targets ''Link'' (DashboardPage ascii_platform demo_pages (fetched_data (JArr [demo_normalised]))) = [js ''/monitors/new'', js ''/monitors/m1'']"
proof -
  have "js ''/monitors/'' @ str_text (json_get demo_normalised ''id'') = js ''/monitors/m1''" by code_simp
  then show ?thesis using dashboard_links [of "fetched_data (JArr [demo_normalised])" "[demo_normalised]"] by simp
qed

section \<open>The page of an execution\<close>

definition artifact_url :: "json \<Rightarrow> jsstr" where
  "artifact_url a = str_text (json_get a ''url'')"

lemma targets_artifacts:
  "targets ''a'' (screenshot_card a) = [artifact_url a]" "targets ''a'' (artifact_link a) = [artifact_url a]"
  by (simp_all add: screenshot_card_def artifact_link_def artifact_url_def Let_def targets_other)

lemma targets_evidence:
  "targets ''a'' (evidence_section item) = map artifact_url (screenshots item) @ map artifact_url (otherArtifacts item)"
  by (auto simp: evidence_section_def aims_each targets_artifacts)

lemma targets_execution_parts:
  "aims ''a'' (execution_error item) = []" "aims ''a'' (execution_observation W item) = []"
  "aims ''a'' (plan_signals L item) = []" "aims ''a'' (timing_cards L item) = []"
  "targets ''a'' (timeline_step W s) = []"
  by (auto simp: execution_error_def execution_observation_def plan_signals_def timing_cards_def timeline_step_def metric_card_def
    Let_def targets_other intro!: aims_none)

text \<open>
  C17. The page of an execution links each of its artifacts exactly once, and besides them only the browser's
  own session when there is one.
\<close>

theorem every_artifact_linked:
  assumes "\<not> ft_loading q" "ft_error q = None" "ft_data q = Some item"
  shows "mset (targets ''a'' (ExecutionPage W L q)) =
    (if truthy (json_get item ''browserSessionUrl'') then {#str_text (json_get item ''browserSessionUrl'')#} else {#}) +
    image_mset (\<lambda>a. str_text (json_get a ''url'')) (mset (items_of (json_get item ''artifacts'')))"
proof -
  have t: "aims ''a'' (map (timeline_step W) xs) = []" for xs by (auto intro!: aims_none targets_execution_parts)
  have "targets ''a'' (ExecutionPage W L q) = (if truthy (json_get item ''browserSessionUrl'') then [str_text (json_get item ''browserSessionUrl'')] else []) @
      map artifact_url (screenshots item) @ map artifact_url (otherArtifacts item)"
    using assms by (simp add: ExecutionPage_def Let_def targets_evidence targets_execution_parts t del: list.map)
  moreover have "mset (screenshots item) + mset (otherArtifacts item) = mset (items_of (json_get item ''artifacts''))"
    unfolding screenshots_def otherArtifacts_def mset_filter by (rule multiset_partition [symmetric])
  ultimately show ?thesis
    unfolding artifact_url_def by (simp flip: image_mset_union)
qed


theorem every_artifact_linked_witness:
  "mset (targets ''a'' (ExecutionPage demo_pages demo_locale (fetched_data demo_normal_execution))) = {#js ''/a1.png''#}"
proof -
  have "\<not> truthy (json_get demo_normal_execution ''browserSessionUrl'')"
    "map (\<lambda>a. str_text (json_get a ''url'')) (items_of (json_get demo_normal_execution ''artifacts'')) = [js ''/a1.png'']"
    by code_simp+
  then show ?thesis
    using every_artifact_linked [of "fetched_data demo_normal_execution" demo_normal_execution demo_pages demo_locale]
    by (simp flip: mset_map)
qed


section \<open>An unknown availability\<close>

fun texts :: "view \<Rightarrow> jsstr list" where
  "texts (Text s) = [s]"
| "texts (El tag as kids) = concat (map texts kids)"

definition demo_unknown_stock :: json where
  "demo_unknown_stock = jobj
     [(''id'', jstr ''m1''), (''url'', jstr ''https://a.example''), (''status'', jstr ''active''),
      (''observation'', demo_observation ''o1'' ''2026-01-01T01:00:00Z'' 4900),
      (''latestObservation'', demo_observation ''o1'' ''2026-01-01T01:00:00Z'' 4900)]"

text \<open>
  An observation whose availability is not known is in stock on the dashboard, unknown on the page of the
  monitor and out of stock on the page of the execution.
\<close>

lemma unknown_stock_shown:
  "js ''In stock'' \<in> set (texts (monitor_row ascii_platform demo_pages demo_unknown_stock))"
  "js ''Unknown'' \<in> set (texts (price_panel demo_web demo_pages demo_locale demo_unknown_stock))"
  "js ''Out of stock'' \<in> set (concat (map texts (execution_observation demo_pages demo_unknown_stock)))"
  by code_simp+

end
