(* ===== verification/AppRoutes.thy ===== *)
theory AppRoutes
  imports ViewLaws UrlPath
begin

text \<open>
  The routes of the application (\<open>web/src/App.tsx\<close>) and where the links of its pages lead. How the router
  matches a location is the library's, of which only this is used: the location \<open>fill params path\<close>
  matches the route \<open>path\<close> when every parameter is one segment that is not empty, no dot segment and
  without a slash, question mark or number sign, which is what a parameter of a route matches.
\<close>

section \<open>Routes\<close>

datatype segment = Fixed string | Param string

datatype page = Dashboard | New_Monitor | Monitor_Detail | Review | Execution_Trace | Operations | Not_Found

text \<open>The paths below the layout; the last route, for any other location, has none.\<close>

definition app_routes :: "(segment list \<times> page) list" where
  "app_routes =
     [([], Dashboard), ([Fixed ''monitors'', Fixed ''new''], New_Monitor), ([Fixed ''monitors'', Param ''monitorId''], Monitor_Detail),
      ([Fixed ''monitors'', Param ''monitorId'', Fixed ''reviews'', Param ''revisionId''], Review),
      ([Fixed ''executions'', Param ''executionId''], Execution_Trace), ([Fixed ''operations''], Operations)]"

definition fill :: "(string \<Rightarrow> jsstr) \<Rightarrow> segment list \<Rightarrow> jsstr" where
  "fill params path = (if path = [] then [47]
     else concat (map (\<lambda>s. 47 # (case s of Fixed w \<Rightarrow> js w | Param n \<Rightarrow> params n)) path))"

definition leads :: "jsstr \<Rightarrow> bool" where
  "leads target \<longleftrightarrow> (\<exists>r \<in> set app_routes. \<exists>params. (\<forall>n. plain_segment (params n)) \<and> target = fill params (fst r))"

lemma leadsI: "(path, p) \<in> set app_routes \<Longrightarrow> (\<And>n. plain_segment (params n)) \<Longrightarrow> fill params path = target \<Longrightarrow> leads target"
  by (force simp: leads_def)

lemma plain_x: "plain_segment (js ''x'')"
  by code_simp

lemma leads_fixed [simp]:
  "leads (js ''/'')" "leads (js ''/monitors/new'')" "leads (js ''/operations'')"
proof -
  show "leads (js ''/'')" by (rule leadsI [of "[]" Dashboard "\<lambda>n. js ''x''"]) (simp add: app_routes_def, rule plain_x, code_simp)
  show "leads (js ''/monitors/new'')"
    by (rule leadsI [of "[Fixed ''monitors'', Fixed ''new'']" New_Monitor "\<lambda>n. js ''x''"]) (simp add: app_routes_def, rule plain_x, code_simp)
  show "leads (js ''/operations'')" by (rule leadsI [of "[Fixed ''operations'']" Operations "\<lambda>n. js ''x''"]) (simp add: app_routes_def, rule plain_x, code_simp)
qed

text \<open>An identifier that names something is a string that is one segment of a path, such as the UUIDs of the control plane.\<close>

definition good_id :: "json option \<Rightarrow> bool" where
  "good_id i \<longleftrightarrow> (case i of Some (JStr s) \<Rightarrow> plain_segment s | _ \<Rightarrow> False)"

lemma good_id_text: "good_id i \<Longrightarrow> plain_segment (str_text i)"
  by (auto simp: good_id_def str_text_def split: option.splits json.splits)

lemma leads_ids:
  "good_id i \<Longrightarrow> leads (monitor_link i)" "good_id i \<Longrightarrow> leads (execution_link i)"
  "good_id (json_get item ''id'') \<Longrightarrow> good_id (json_get r ''id'') \<Longrightarrow> leads (review_link item r)"
proof -
  show "leads (monitor_link i)" if "good_id i"
    by (rule leadsI [of "[Fixed ''monitors'', Param ''monitorId'']" Monitor_Detail "\<lambda>n. str_text i"])
      (use good_id_text that in \<open>simp_all add: app_routes_def fill_def monitor_link_def js_def\<close>)
  show "leads (execution_link i)" if "good_id i"
    by (rule leadsI [of "[Fixed ''executions'', Param ''executionId'']" Execution_Trace "\<lambda>n. str_text i"])
      (use good_id_text that in \<open>simp_all add: app_routes_def fill_def execution_link_def js_def\<close>)
  show "leads (review_link item r)" if "good_id (json_get item ''id'')" "good_id (json_get r ''id'')"
    by (rule leadsI [of "[Fixed ''monitors'', Param ''monitorId'', Fixed ''reviews'', Param ''revisionId'']" Review
        "\<lambda>n. if n = ''monitorId'' then str_text (json_get item ''id'') else str_text (json_get r ''id'')"])
      (use good_id_text that in \<open>simp_all add: app_routes_def fill_def review_link_def js_def\<close>)
qed

section \<open>Links\<close>

text \<open>The identifiers that the data of a page holds and its links are made of; an optional one may be absent.\<close>

definition optional_id :: "json option \<Rightarrow> bool" where
  "optional_id i \<longleftrightarrow> (truthy i \<longrightarrow> good_id i)"

definition items_have :: "json list \<Rightarrow> bool" where
  "items_have xs \<longleftrightarrow> (\<forall>x \<in> set xs. good_id (json_get x ''id''))"

definition monitor_ids :: "json \<Rightarrow> bool" where
  "monitor_ids item \<longleftrightarrow> good_id (json_get item ''id'') \<and> optional_id (opt_get (json_get item ''latestObservation'') ''executionId'') \<and>
     items_have (items_of (json_get item ''executions'')) \<and> items_have (items_of (json_get item ''revisions''))"

definition event_ids :: "json list \<Rightarrow> bool" where
  "event_ids es \<longleftrightarrow> (\<forall>e \<in> set es. optional_id (json_get e ''monitorId'') \<and> optional_id (json_get e ''executionId''))"

text \<open>What a location shows inside the layout, in whatever state its queries are.\<close>

inductive shown_page :: "view \<Rightarrow> bool" where
  "items_have (items_of (ft_data monitors)) \<Longrightarrow> shown_page (DashboardPage P W monitors)"
| "shown_page (NewMonitorPage f)"
| "(\<And>item. ft_data monitor = Some item \<Longrightarrow> monitor_ids item) \<Longrightarrow> shown_page (MonitorDetailPage E W L monitor st)"
| "(\<And>data. ft_data rv = Some data \<Longrightarrow> good_id (opt_get (opt_get (Some data) ''monitor'') ''id'')) \<Longrightarrow> shown_page (ReviewPage W rv rs)"
| "(\<And>item. ft_data execution = Some item \<Longrightarrow> optional_id (json_get item ''monitorId'')) \<Longrightarrow> shown_page (ExecutionPage W L execution)"
| "event_ids (le_events feed) \<Longrightarrow> shown_page (OperationsPage W L status metrics feed showRaw)"
| "shown_page NotFoundPage"

definition all_lead :: "view \<Rightarrow> bool" where
  "all_lead v \<longleftrightarrow> list_all leads (targets ''Link'' v)"

lemma aims_lead: "list_all leads (aims ''Link'' vs) \<longleftrightarrow> list_all all_lead vs"
  by (induction vs) (simp_all add: all_lead_def)

lemma lead_rows: "list_all leads (aims ''Link'' (map f xs)) \<longleftrightarrow> list_all (\<lambda>x. all_lead (f x)) xs"
  by (induction xs) (simp_all add: all_lead_def)

lemma lead_rowsI: "(\<And>x. x \<in> set xs \<Longrightarrow> all_lead (f x)) \<Longrightarrow> list_all leads (aims ''Link'' (map f xs))"
  unfolding lead_rows by (simp add: list_all_iff)

lemma lead_chart: "targets ''Link'' (PriceChart E W L xs h) = []"
  by (auto simp: PriceChart_def grid_line_def Let_def targets_other aims_def)

lemma lead_none:
  "targets ''Link'' (price_panel E W L item) = []" "targets ''Link'' (rule_panel W item) = []"
  "targets ''Link'' (proposed_identity W r) = []" "targets ''Link'' (preparation r) = []"
  "targets ''Link'' (evidence_card x) = []" "targets ''Link'' (change_row x) = []" "targets ''Link'' (decision_panel rs) = []"
  "aims ''Link'' (execution_error item) = []" "aims ''Link'' (execution_observation W item) = []"
  "aims ''Link'' (plan_signals L item) = []" "aims ''Link'' (timing_cards L item) = []" "targets ''Link'' (timeline_step W s) = []"
  "targets ''Link'' (screenshot_card x) = []" "targets ''Link'' (artifact_link x) = []" "targets ''Link'' (metric_group L g) = []"
  "aims ''Link'' (monitor_actions st item) = []"
  by (auto simp: price_panel_def rule_panel_def proposed_identity_def preparation_def evidence_card_def change_row_def detail_row_def
    decision_panel_def execution_error_def execution_observation_def plan_signals_def timing_cards_def timeline_step_def metric_card_def
    screenshot_card_def artifact_link_def metric_group_def monitor_actions_def lead_chart Let_def targets_other split_beta intro!: aims_none)

lemma lead_maps:
  "aims ''Link'' (map evidence_card xs) = []" "aims ''Link'' (map change_row xs) = []" "aims ''Link'' (map (timeline_step W) xs) = []"
  "aims ''Link'' (map screenshot_card xs) = []" "aims ''Link'' (map artifact_link xs) = []" "aims ''Link'' (map (metric_group L) gs) = []"
  by (rule aims_none, rule lead_none)+

lemma lead_panel:
  assumes "monitor_ids m"
  shows "all_lead (ConfirmationPanel m r pn)"
proof -
  have "leads (execution_link (opt_get (json_get m ''latestObservation'') ''executionId''))"
    if "truthy (opt_get (json_get m ''latestObservation'') ''executionId'')"
    using assms that leads_ids(2) by (simp add: monitor_ids_def optional_id_def)
  then show ?thesis
    by (auto simp: all_lead_def ConfirmationPanel_def Let_def targets_other aims_none split_beta)
qed

lemma lead_some:
  "good_id (json_get x ''id'') \<Longrightarrow> all_lead (execution_row W x)" "good_id (json_get m ''id'') \<Longrightarrow> all_lead (monitor_row P W m)"
  "good_id (json_get item ''id'') \<Longrightarrow> good_id (json_get r ''id'') \<Longrightarrow> all_lead (revision_row W item r)"
  "optional_id (json_get e ''monitorId'') \<Longrightarrow> optional_id (json_get e ''executionId'') \<Longrightarrow> all_lead (event_row W e)"
  by (auto simp: all_lead_def execution_row_def revision_row_def targets_row event_row_def leads_ids optional_id_def)

lemma sorted_revisions_sub: "set (sorted_revisions item) \<subseteq> set (items_of (json_get item ''revisions''))"
proof -
  have "set ys \<subseteq> set xs" if s: "sorted_by key xs = Inr ys" for key xs ys
  proof (cases "length xs < 2")
    case False
    then obtain ks where "ys = map snd (js_sort (\<lambda>a b. dless (fst a) (fst b)) (zip ks xs))"
      using s by (cases "map_throw key xs") (auto simp: sorted_by_def)
    then show ?thesis by (auto simp: set_js_sort dest: set_zip_rightD)
  qed (use s in \<open>simp add: sorted_by_def\<close>)
  then show ?thesis
    by (cases "newest_first (items_of (json_get item ''revisions''))") (simp_all add: sorted_revisions_def newest_first_def)
qed

lemma lead_lists:
  "items_have xs \<Longrightarrow> list_all leads (aims ''Link'' (map (execution_row W) xs))"
  "items_have xs \<Longrightarrow> list_all leads (aims ''Link'' (map (monitor_row P W) xs))"
  "monitor_ids item \<Longrightarrow> list_all leads (aims ''Link'' (map (revision_row W item) (sorted_revisions item)))"
  "event_ids xs \<Longrightarrow> list_all leads (aims ''Link'' (map (event_row W) xs))"
  by (auto simp: items_have_def event_ids_def monitor_ids_def dest: subsetD [OF sorted_revisions_sub] intro!: lead_rowsI lead_some)

lemma lead_optional:
  "monitor_ids m \<Longrightarrow> list_all leads (aims ''Link'' (case c of None \<Rightarrow> [] | Some r \<Rightarrow> only (b r) [ConfirmationPanel m r pn]))"
  using lead_panel by (simp add: all_lead_def split: option.splits)

lemma lead_dashboard: "items_have (items_of (ft_data monitors)) \<Longrightarrow> all_lead (DashboardPage P W monitors)"
  by (simp add: all_lead_def DashboardPage_def EmptyState_def Let_def lead_lists split: option.splits prod.splits del: list.map)

lemma lead_new: "all_lead (NewMonitorPage f)"
  by (simp add: all_lead_def NewMonitorPage_def create_form_def form_step_def targets_other aims_none split_beta split: option.splits)

lemma lead_operations: "event_ids (le_events feed) \<Longrightarrow> all_lead (OperationsPage W L status metrics feed showRaw)"
  by (simp add: all_lead_def OperationsPage_def service_card_def metrics_view_def lead_maps Let_def lead_lists del: list.map)

lemma lead_execution:
  assumes "\<And>item. ft_data q = Some item \<Longrightarrow> optional_id (json_get item ''monitorId'')"
  shows "all_lead (ExecutionPage W L q)"
proof -
  have "leads (if truthy (json_get item ''monitorId'') then monitor_link (json_get item ''monitorId'') else js ''/'')"
    if "ft_data q = Some item" for item
    using assms [OF that] leads_ids(1) by (simp add: optional_id_def)
  then show ?thesis
    by (simp add: all_lead_def ExecutionPage_def evidence_section_def lead_none lead_maps Let_def del: list.map split: option.splits)
qed

lemma lead_review:
  assumes "\<And>data. ft_data q = Some data \<Longrightarrow> good_id (opt_get (opt_get (Some data) ''monitor'') ''id'')"
  shows "all_lead (ReviewPage W q st)"
proof -
  have "leads (monitor_link (opt_get (opt_get (Some data) ''monitor'') ''id''))" if "ft_data q = Some data" for data
    by (rule leads_ids(1)) (rule assms [OF that])
  then show ?thesis
    by (simp add: all_lead_def ReviewPage_def lead_none lead_maps Let_def del: list.map split: option.splits)
qed

lemma lead_monitor:
  assumes "\<And>item. ft_data q = Some item \<Longrightarrow> monitor_ids item"
  shows "all_lead (MonitorDetailPage E W L q st)"
proof -
  have h: "aims ''Link'' (map (\<lambda>h. el ''th'' [tx h]) hs) = []" for hs by (rule aims_none) simp
  have m: "aims ''Link'' (case dt_message st of None \<Rightarrow> [] | Some m \<Rightarrow> only (m \<noteq> []) [el ''div'' [el ''CheckIcon'' [], Text m]]) = []"
    by (simp split: option.splits)
  have i: "items_have (items_of (json_get item ''executions''))" if "monitor_ids item" for item
    using that by (simp add: monitor_ids_def)
  show ?thesis
    using assms
    by (cases "ft_loading q"; cases "ft_error q"; cases "ft_data q")
       (simp_all add: all_lead_def MonitorDetailPage_def lead_none lead_lists lead_optional i h m Let_def del: list.map)
qed

lemma lead_not_found: "all_lead NotFoundPage"
  by (simp add: all_lead_def NotFoundPage_def)

text \<open>
  C18. No link of the application is dead: whatever page is open and whatever state its queries are in, every
  link of the page and of the layout around it is the path of a route other than the one for unknown
  locations, each parameter of it filled with one segment, provided the identifiers in the data of the page
  are single segments themselves.
\<close>

theorem links_lead:
  assumes "shown_page v"
  shows "\<forall>t \<in> set (targets ''Link'' (Layout mobileOpen connection v)).
    \<exists>r \<in> set app_routes. \<exists>params. (\<forall>n. plain_segment (params n)) \<and> t = fill params (fst r)"
proof -
  have v: "list_all leads (targets ''Link'' v)"
    using assms by cases (simp_all only: lead_dashboard lead_new lead_monitor lead_review lead_execution lead_operations lead_not_found
      flip: all_lead_def)
  have n: "targets ''Link'' (nav_link as t kids) = js t # aims ''Link'' kids" for as t kids
    by (simp add: nav_link_def targets_El target_of_def attr_def)
  have "list_all leads (targets ''Link'' (Layout mobileOpen connection v))"
    using v by (simp add: Layout_def navItems_def n targets_other)
  then show ?thesis by (simp add: list_all_iff leads_def)
qed

definition demo_dashboard :: view where
  "demo_dashboard = DashboardPage ascii_platform demo_pages (fetched_data (JArr [demo_normalised]))"

theorem links_lead_witness:
  "\<exists>r \<in> set app_routes. \<exists>params. (\<forall>n. plain_segment (params n)) \<and> js ''/monitors/m1'' = fill params (fst r)"
proof -
  have "js ''/monitors/m1'' \<in> set (targets ''Link'' (Layout False (js ''live'') demo_dashboard))" by code_simp
  moreover have "items_have (items_of (ft_data (fetched_data (JArr [demo_normalised]))))" by code_simp
  then have "shown_page demo_dashboard" unfolding demo_dashboard_def by (rule shown_page.intros(1))
  ultimately show ?thesis using links_lead by blast
qed

end
