(* ===== verification/ChartLaws.thy ===== *)
theory ChartLaws
  imports MonitorViews
begin

text \<open>
  The chart of the prices stays inside its frame. Rounding is monotone and exact on integers, so every
  intermediate value of the coordinates is bounded by the exact one at the ends of its range.
\<close>

section \<open>Rounding is monotone\<close>

lemma round_even_mono:
  assumes "p \<le> q"
  shows "round_even p \<le> round_even q"
proof (cases "\<lfloor>p\<rfloor> = \<lfloor>q\<rfloor>")
  case True
  then show ?thesis using assms by (simp add: round_even_def Let_def split: if_splits)
next
  case False
  then have "\<lfloor>p\<rfloor> + 1 \<le> \<lfloor>q\<rfloor>" using floor_mono [OF assms] by simp
  moreover have "round_even p \<le> \<lfloor>p\<rfloor> + 1" "\<lfloor>q\<rfloor> \<le> round_even q"
    by (simp_all add: round_even_def Let_def)
  ultimately show ?thesis by simp
qed

lemma ilog2_mono: "0 < x \<Longrightarrow> x \<le> y \<Longrightarrow> ilog2 x \<le> ilog2 y"
  using ilog2_bounds(1) [of x] by (intro powi_le_ilog2) auto

lemma fl_pos_Fin:
  "fl_pos x = Fin a \<Longrightarrow> a = of_int (round_even (x / 2 powi max (ilog2 x - 52) (- 1074))) * 2 powi max (ilog2 x - 52) (- 1074)"
  by (auto simp: fl_pos_def Let_def split: if_splits)

lemma round_even_le_int: "q \<le> of_int k \<Longrightarrow> round_even q \<le> k"
  using round_even_mono [of q "of_int k"] by simp

lemma round_even_ge_int: "of_int k \<le> q \<Longrightarrow> k \<le> round_even q"
  using round_even_mono [of "of_int k" q] by simp

lemma fl_pos_mono:
  assumes x: "0 < x" "x \<le> y" and ab: "fl_pos x = Fin a" "fl_pos y = Fin b"
  shows "a \<le> b"
proof -
  define d e where de: "d = max (ilog2 x - 52) (- 1074)" "e = max (ilog2 y - 52) (- 1074)"
  have a: "a = of_int (round_even (x / 2 powi d)) * 2 powi d" and b: "b = of_int (round_even (y / 2 powi e)) * 2 powi e"
    using fl_pos_Fin ab unfolding de by blast+
  have le: "d \<le> e" using ilog2_mono [OF x] by (auto simp: de)
  show ?thesis
  proof (cases "d = e")
    case True
    have "round_even (x / 2 powi d) \<le> round_even (y / 2 powi d)"
      using x by (intro round_even_mono divide_right_mono) auto
    then show ?thesis unfolding a b True [symmetric] by (intro mult_right_mono) auto
  next
    case False
    then have e: "d + 1 \<le> e" "e = ilog2 y - 52" using le by (auto simp: de)
    have y: "0 < y" using x by simp
    have "ilog2 x + 1 \<le> d + 53" by (simp add: de)
    then have "x \<le> 2 powi (d + 53)"
      using ilog2_bounds(2) [OF x(1)] power_int_increasing [of "ilog2 x + 1" "d + 53" "2::rat"] by linarith
    then have "x / 2 powi d \<le> of_int (2 ^ 53)"
      by (simp add: power_int_add field_simps)
    then have "round_even (x / 2 powi d) \<le> 2 ^ 53" by (rule round_even_le_int)
    then have "of_int (round_even (x / 2 powi d)) \<le> (of_int (2 ^ 53) :: rat)" by (simp only: of_int_le_iff)
    then have "a \<le> of_int (2 ^ 53) * 2 powi d" unfolding a by (intro mult_right_mono) auto
    also have "\<dots> = 2 powi (d + 53)" by (simp add: power_int_add)
    also have "\<dots> \<le> 2 powi (e + 52)" using e(1) by (intro power_int_increasing) auto
    also have "\<dots> = of_int (2 ^ 52) * 2 powi e" by (simp add: power_int_add)
    also have "\<dots> \<le> b"
    proof -
      have "of_int (2 ^ 52) \<le> y / 2 powi e"
        using ilog2_bounds(1) [OF y] unfolding e(2) by (simp add: power_int_diff field_simps)
      then have "2 ^ 52 \<le> round_even (y / 2 powi e)" by (rule round_even_ge_int)
      then have "of_int (2 ^ 52) \<le> (of_int (round_even (y / 2 powi e)) :: rat)" by (simp only: of_int_le_iff)
      then show ?thesis unfolding b by (intro mult_right_mono) auto
    qed
    finally show ?thesis .
  qed
qed

lemma fl_pos_nonneg: "0 < x \<Longrightarrow> fl_pos x = Fin a \<Longrightarrow> 0 \<le> a"
  using round_even_ge_int [of 0 "x / 2 powi max (ilog2 x - 52) (- 1074)"] by (auto dest!: fl_pos_Fin)

lemma fl_neg: "fl (- x) = dneg (fl x)"
  by (cases "fl_pos x"; cases "fl_pos (- x)") (auto simp: fl_def)

lemma dneg_Fin: "dneg d = Fin a \<longleftrightarrow> d = Fin (- a)"
  by (cases d) auto

lemma fl_mono:
  assumes "x \<le> y" "fl x = Fin a" "fl y = Fin b"
  shows "a \<le> b"
proof -
  have pos: "c \<le> e" if "0 < z" "z \<le> w" "fl z = Fin c" "fl w = Fin e" for z w c e
    using that fl_pos_mono [of z w c e] by (simp add: fl_def)
  have nonneg: "0 \<le> c" if "0 \<le> z" "fl z = Fin c" for z c
    using that fl_pos_nonneg [of z c] by (auto simp: fl_def split: if_splits)
  have neg: "fl (- x) = Fin (- a)" "fl (- y) = Fin (- b)" using assms(2,3) by (simp_all add: fl_neg)
  consider "0 < x" | "x \<le> 0" "0 \<le> y" | "y < 0" by linarith
  then show ?thesis
  proof cases
    case 1
    then show ?thesis using pos assms by blast
  next
    case 2
    then show ?thesis using nonneg [of "- x" "- a"] nonneg [of y b] neg assms by simp
  next
    case 3
    then show ?thesis using pos [of "- y" "- x" "- b" "- a"] neg assms by simp
  qed
qed

lemma fl_finite_nonneg:
  assumes "0 \<le> x" "x < 2 ^ 100"
  shows "\<exists>a. fl x = Fin a"
proof (cases "x = 0")
  case False
  then have "ilog2 x < 100" using assms by (intro ilog2_less_powi) auto
  then have "max (ilog2 x - 52) (- 1074) < 971" by simp
  then show ?thesis using False assms(1) by (simp add: fl_def fl_pos_def Let_def del: max_less_iff_conj)
qed (simp add: fl_def)

lemma fl_finite:
  assumes "\<bar>x\<bar> < 2 ^ 100"
  shows "\<exists>a. fl x = Fin a"
proof (cases "0 \<le> x")
  case True
  then show ?thesis using assms fl_finite_nonneg by simp
next
  case False
  then obtain a where "fl (- x) = Fin a" using assms fl_finite_nonneg [of "- x"] by auto
  then show ?thesis by (simp add: fl_neg dneg_Fin)
qed

lemma fl_of_int:
  assumes "\<bar>k\<bar> < 2 ^ 53"
  shows "fl (of_int k) = Fin (of_int k)"
proof (cases "0 \<le> k")
  case True
  then show ?thesis using fl_of_nat [of "nat k"] assms by (simp add: nat_less_iff)
next
  case False
  then have "fl (of_int (- k)) = Fin (of_int (- k))" using fl_of_nat [of "nat (- k)"] assms by (simp add: nat_less_iff)
  then show ?thesis by (simp add: fl_neg dneg_Fin)
qed

text \<open>A rounded value stays between integers that bound the exact one.\<close>

lemma fl_between:
  assumes "of_int l \<le> x" "x \<le> of_int u" "\<bar>l\<bar> < 2 ^ 53" "\<bar>u\<bar> < 2 ^ 53"
  shows "\<exists>a. fl x = Fin a \<and> of_int l \<le> a \<and> a \<le> of_int u"
proof -
  have "(of_int \<bar>l\<bar> :: rat) < of_int (2 ^ 53)" "(of_int \<bar>u\<bar> :: rat) < of_int (2 ^ 53)"
    using assms(3,4) by (simp_all only: of_int_less_iff)
  then have "\<bar>x\<bar> < 2 ^ 100" using assms(1,2) by simp
  then obtain a where a: "fl x = Fin a" using fl_finite by blast
  then show ?thesis using fl_mono assms(1,2) fl_of_int [OF assms(3)] fl_of_int [OF assms(4)] by blast
qed


section \<open>The least and the greatest price\<close>

abbreviation price :: "nat \<Rightarrow> dbl" where
  "price k \<equiv> Fin (of_nat k)"

lemma dmin_price [simp]: "dmin (price a) (price b) = price (min b a)"
  by (simp add: min_def)

lemma dmax_price [simp]: "dmax (price a) (price b) = price (max b a)"
  by (simp add: max_def)

lemma fold_prices:
  "foldl dmin (price a) (map price ks) = price (fold min ks a)"
  "foldl dmax (price a) (map price ks) = price (fold max ks a)"
  by (induction ks arbitrary: a) simp_all

lemma raw_prices:
  assumes "ks \<noteq> []"
  shows "raw_min (map price ks) = price (Min (set ks))" "raw_max (map price ks) = price (Max (set ks))"
proof -
  obtain k ts where ks: "ks = k # ts" using assms by (cases ks) auto
  have "raw_min (map price ks) = foldl dmin (price k) (map price ts)" "raw_max (map price ks) = foldl dmax (price k) (map price ts)"
    by (simp_all add: raw_min_def raw_max_def ks)
  then show "raw_min (map price ks) = price (Min (set ks))" "raw_max (map price ks) = price (Max (set ks))"
    unfolding fold_prices ks Min.set_eq_fold Max.set_eq_fold by simp_all
qed

section \<open>The frame\<close>

lemma decimal_error: "1 / 2 ^ 100 \<le> r \<Longrightarrow> r < 2 ^ 100 \<Longrightarrow> \<bar>decimal r - r\<bar> \<le> r / 2 ^ 53"
  using fl_error [of r] by (auto simp: decimal_def)

lemma decimal_bounds:
  "14 / 100 \<le> decimal (15 / 100)" "decimal (15 / 100) \<le> 16 / 100" "0 \<le> decimal (2 / 100)" "decimal (2 / 100) \<le> 3 / 100"
proof -
  have "\<bar>decimal (15 / 100) - 15 / 100\<bar> \<le> 1 / 100" "\<bar>decimal (2 / 100) - 2 / 100\<bar> \<le> 1 / 100"
    by (rule order_trans [OF decimal_error]; simp)+
  then show "14 / 100 \<le> decimal (15 / 100)" "decimal (15 / 100) \<le> 16 / 100" "0 \<le> decimal (2 / 100)" "decimal (2 / 100) \<le> 3 / 100"
    unfolding abs_le_iff by linarith+
qed

lemma dbl_diff: "dsub (Fin a) (Fin b) = fl (a - b)"
  by (simp add: dsub_def)

text \<open>What is added below the least and above the greatest price.\<close>

lemma spread_bounds:
  assumes "ks \<noteq> []" "\<And>k. k \<in> set ks \<Longrightarrow> k < 10 ^ 12"
  shows "\<exists>s. chart_spread (map price ks) = Fin s \<and> 100 \<le> s \<and> s \<le> 10 ^ 12"
proof -
  define lo hi where "lo = Min (set ks)" "hi = Max (set ks)"
  have h: "lo \<le> hi" "hi < 10 ^ 12" using assms by (simp_all add: lo_hi_def)
  then have r: "(of_nat lo :: rat) \<le> of_nat hi" "(of_nat hi :: rat) \<le> 10 ^ 12"
    by (simp_all flip: of_nat_power of_nat_le_iff) 
  obtain d where d: "fl (of_nat hi - of_nat lo) = Fin d" "0 \<le> d" "d \<le> 10 ^ 12"
    using fl_between [of 0 "of_nat hi - of_nat lo" "10 ^ 12"] r by auto
  have "of_nat hi * decimal (2 / 100) \<le> 10 ^ 12 * 1"
    using r decimal_bounds(3,4) by (intro mult_mono) auto
  then obtain e where e: "fl (of_nat hi * decimal (2 / 100)) = Fin e" "0 \<le> e" "e \<le> 10 ^ 12"
    using fl_between [of 0 "of_nat hi * decimal (2 / 100)" "10 ^ 12"] decimal_bounds(3) by auto
  show ?thesis
    using d e raw_prices [OF assms(1)] by (simp add: chart_spread_def dbl_diff flip: lo_hi_def)
qed

lemma chart_ends:
  assumes "ks \<noteq> []" "\<And>k. k \<in> set ks \<Longrightarrow> k < 10 ^ 12"
  shows "\<exists>l u. chart_min (map price ks) = Fin l \<and> chart_max (map price ks) = Fin u \<and> l + 1 \<le> u \<and> u \<le> 10 ^ 13 \<and> - (10 ^ 13) \<le> l \<and>
    (\<forall>k \<in> set ks. l \<le> of_nat k \<and> of_nat k \<le> u)"
proof -
  define lo hi where "lo = Min (set ks)" "hi = Max (set ks)"
  have h: "lo \<le> hi" "hi < 10 ^ 12" using assms by (simp_all add: lo_hi_def)
  then have r: "(of_nat lo :: rat) \<le> of_nat hi" "(of_nat hi :: rat) \<le> 10 ^ 12" "int hi \<le> 10 ^ 12"
    by (simp_all flip: of_nat_power of_nat_le_iff)
  have "int lo \<le> 10 ^ 12" using h r(3) by simp
  obtain s where s: "chart_spread (map price ks) = Fin s" "100 \<le> s" "s \<le> 10 ^ 12"
    using spread_bounds [OF assms] by blast
  have "100 * (14 / 100) \<le> s * decimal (15 / 100)" "s * decimal (15 / 100) \<le> 10 ^ 12 * 1"
    using s decimal_bounds(1,2) by (intro mult_mono; simp)+
  then obtain t where t: "fl (s * decimal (15 / 100)) = Fin t" "14 \<le> t" "t \<le> 10 ^ 12"
    using fl_between [of 14 "s * decimal (15 / 100)" "10 ^ 12"] by auto
  have "\<bar>int lo - 1\<bar> < 2 ^ 53" using \<open>int lo \<le> 10 ^ 12\<close> by (simp add: abs_if)
  then obtain l where l: "fl (of_nat lo - t) = Fin l" "- (10 ^ 13) \<le> l" "l \<le> of_nat lo - 1"
    using fl_between [of "- (10 ^ 13)" "of_nat lo - t" "int lo - 1"] t(2,3) r h by auto
  obtain u where u: "fl (of_nat hi + t) = Fin u" "of_nat hi \<le> u" "u \<le> 10 ^ 13"
    using fl_between [of "int hi" "of_nat hi + t" "10 ^ 13"] t(2,3) r by auto
  have "chart_min (map price ks) = Fin l" "chart_max (map price ks) = Fin u"
    using s(1) t(1) l(1) u(1) raw_prices [OF assms(1)] by (simp_all add: chart_min_def chart_max_def dbl_diff flip: lo_hi_def)
  moreover have "l \<le> of_nat k \<and> of_nat k \<le> u" if "k \<in> set ks" for k
  proof -
    have "lo \<le> k" "k \<le> hi" using that by (simp_all add: lo_hi_def)
    then have "(of_nat lo :: rat) \<le> of_nat k" "(of_nat k :: rat) \<le> of_nat hi" by simp_all
    then show ?thesis using l(3) u(2) by linarith
  qed
  moreover have "l + 1 \<le> u" using l(3) u(2) r(1) by linarith
  ultimately show ?thesis using l(2) u(3) by blast
qed

lemma scaled:
  assumes "0 \<le> x" "x \<le> 1" "0 \<le> m" "m < 2 ^ 50" "0 \<le> c" "c < 2 ^ 50"
  shows "\<exists>a. dadd (Fin (of_int c)) (dmul (fl x) (of_int m)) = Fin a \<and> of_int c \<le> a \<and> a \<le> of_int (c + m)"
proof -
  obtain y where y: "fl x = Fin y" "0 \<le> y" "y \<le> 1"
    using fl_between [of 0 x 1] assms(1,2) by auto
  have "0 \<le> y * of_int m" "y * of_int m \<le> of_int m"
    using y assms(3) by (simp_all add: mult_left_le_one_le)
  then obtain z where z: "fl (y * of_int m) = Fin z" "0 \<le> z" "z \<le> of_int m"
    using fl_between [of 0 "y * of_int m" m] assms(3,4) by auto
  then show ?thesis
    using fl_between [of c "of_int c + z" "c + m"] y(1) assms(3-6) by auto
qed

lemma coord_y_in_frame:
  assumes "ks \<noteq> []" "\<And>k. k \<in> set ks \<Longrightarrow> k < 10 ^ 12" "k \<in> set ks" and h: "32 \<le> h" "h < 2 ^ 50"
  shows "\<exists>b. coord_y (of_int h) (map price ks) (price k) = Fin b \<and> 16 \<le> b \<and> b \<le> of_int (h - 16)"
proof -
  obtain l u where lu: "chart_min (map price ks) = Fin l" "chart_max (map price ks) = Fin u" "l + 1 \<le> u" "u \<le> 10 ^ 13" "- (10 ^ 13) \<le> l"
    "l \<le> of_nat k" "of_nat k \<le> u"
    using chart_ends [OF assms(1,2)] assms(3) by blast
  have big: "\<bar>u - l\<bar> < 2 ^ 100" "\<bar>u - of_nat k\<bar> < 2 ^ 100" using lu by (simp_all add: abs_if)
  obtain d e where d: "fl (u - of_nat k) = Fin d" and e: "fl (u - l) = Fin e"
    using fl_finite big by meson
  have le: "d \<le> e" "0 \<le> d" using fl_mono [OF _ d e] fl_mono [of 0 "u - of_nat k" 0 d] d lu by (simp_all add: fl_def)
  have "fl 1 = Fin 1" using fl_of_nat [of 1] by simp
  then have "1 \<le> e" using fl_mono [of 1 "u - l" 1 e] e lu(3) by simp
  then have "ddiv (Fin d) (Fin e) = fl (d / e)" "0 \<le> d / e" "d / e \<le> 1"
    using le by (simp_all add: divide_le_eq_1)
  then show ?thesis
    using scaled [of "d / e" "h - 32" 16] h lu(1,2) d e by (simp add: coord_y_def dbl_diff)
qed


lemma coord_x_in_frame:
  assumes "i < n" "2 \<le> n"
  shows "\<exists>a. coord_x n i = Fin a \<and> 12 \<le> a \<and> a \<le> 708"
proof -
  have "(of_nat i :: rat) \<le> of_nat (n - 1)" using assms by simp
  then show ?thesis
    using scaled [of "of_nat i / of_nat (n - 1)" 696 12] assms by (simp add: coord_x_def ddiv_nat_def)
qed

text \<open>
  C19. Whatever whole prices below a trillion are drawn, every point of the line and every marker of the
  chart lies inside its frame, twelve units from its sides and sixteen from its top and bottom.
\<close>

theorem chart_in_frame:
  assumes "2 \<le> length ks" "\<And>k. k \<in> set ks \<Longrightarrow> k < 10 ^ 12" "32 \<le> h" "h < 2 ^ 50"
  shows "\<forall>c \<in> set (coords (of_int h) (map (\<lambda>k. Fin (of_nat k)) ks)).
    \<exists>a b. c = (Fin a, Fin b) \<and> 12 \<le> a \<and> a \<le> 708 \<and> 16 \<le> b \<and> b \<le> of_int (h - 16)"
proof
  fix c assume "c \<in> set (coords (of_int h) (map price ks))"
  then obtain i where i: "i < length ks" "c = (coord_x (length ks) i, coord_y (of_int h) (map price ks) (price (ks ! i)))"
    by (auto simp: coords_def set_zip)
  then show "\<exists>a b. c = (Fin a, Fin b) \<and> 12 \<le> a \<and> a \<le> 708 \<and> 16 \<le> b \<and> b \<le> of_int (h - 16)"
    using coord_x_in_frame [OF i(1) assms(1)] coord_y_in_frame [of ks "ks ! i" h] assms by fastforce
qed

theorem chart_in_frame_witness:
  "list_all (\<lambda>c. \<exists>a b. c = (Fin a, Fin b) \<and> 12 \<le> a \<and> a \<le> 708 \<and> 16 \<le> b \<and> b \<le> 164) (coords 180 [Fin 4900, Fin 4500])"
proof -
  have "2 \<le> length [4900::nat, 4500]" "\<And>k. k \<in> set [4900::nat, 4500] \<Longrightarrow> k < 10 ^ 12" by auto
  then show ?thesis using chart_in_frame [of "[4900, 4500]" 180] by (simp add: list_all_iff)
qed

end
