(* ===== verification/Spec2Isabelle.thy ===== *)
theory Spec2Isabelle
  imports FixturePage ValidationLaws JobLaws QueueLaws Deadline Worker LiveEvents AppRoutes ChartLaws
begin

text \<open>
  Price Scout watches the price of a product page. A control plane (Go services under
  \<open>cmd/\<close> and \<open>internal/\<close>) publishes work messages on a NATS stream; a browser worker
  (\<open>worker/src\<close>) takes a message, asks the control plane for the execution behind it, drives
  a browser (Stagehand) and sometimes a language model, and posts the result back. A web application
  (\<open>web/src\<close>) creates, confirms, reviews and shows monitors through the control plane's API and
  its event stream. The subject of this development are the worker, the web application and the
  fixture shop (\<open>fixture/src/server.ts\<close>), the deterministic retailer the system is tried against.

  \<^bold>\<open>How the worker works.\<close> \<open>index.ts\<close> starts a \<open>WorkerQueue\<close> and stops it on a signal.
  \<open>queue.ts\<close> makes sure its durable consumer exists, pulls one message after the other and
  settles each of them: it terminates malformed ones, acknowledges a message whose execution is
  finished or whose result was accepted, and gives the others back with a delay. The execution is
  read and written through \<open>api.ts\<close>. \<open>handler.ts\<close> runs the job: \<open>compile\<close> finds a plan
  (\<open>compiler.ts\<close>, scripted for the fixture shop or live with the model), \<open>check\<close> replays a
  plan without the model, \<open>repair\<close> heals a plan and has it confirmed in a second, independent
  session. Every URL and every action passes \<open>safety.ts\<close>; \<open>extract.ts\<close> reads an
  observation through the strategies of the plan (\<open>extractorPolicy.ts\<close> chooses them for live
  plans), \<open>validation.ts\<close> parses prices and decides whether the product is still the same,
  \<open>artifacts.ts\<close> writes evidence, \<open>browser.ts\<close> owns a session, \<open>config.ts\<close> reads
  the environment and \<open>contracts.ts\<close> declares the data.

  \<^bold>\<open>How the web application works.\<close> \<open>api/client.ts\<close> sends the requests and brings the answers
  into the shapes of \<open>types.ts\<close>. The hooks of \<open>api/queries.ts\<close> hand its operations to a query
  client with a key each and say which keys a change makes stale. \<open>live-events.tsx\<close> keeps one
  event source open, decodes its messages and makes stale what they name. The pages show what the
  queries return (\<open>lib/format.ts\<close>) and send what their forms hold. Casts check nothing at run time, so
  every function is defined on any parsed value, and what the declared types give is a theorem.

  \<^bold>\<open>The language.\<close> \<open>Prelude\<close>: results of code that may throw (\<open>'e + 'a\<close>) and the fact
  collections. \<open>JsString\<close>: strings as lists of UTF-16 code units. \<open>JsRegex\<close>,
  \<open>JsRegexLaws\<close>: the backtracking matcher of ECMAScript, a relational semantics it is proved
  equal to, and rules for its first match. \<open>JsNumber\<close>: binary64 numbers as rationals with
  rounding \<open>fl\<close> (interface \<open>rounding\<close>). \<open>JsObject\<close>: objects as association lists in
  property order. \<open>Json\<close>: \<open>JSON.parse\<close> and conversion to strings. \<open>JsValue\<close>: properties, \<open>??\<close>, \<open>?.\<close>,
  \<open>JSON.stringify\<close>, \<open>encodeURIComponent\<close>. \<open>JsonText\<close>: parsing reads back what stringifying
  writes. \<open>JsMath\<close>, \<open>JsDate\<close>: more arithmetic, comparison, stable sorting, and the instants of
  ISO date strings.
  \<open>Platform\<close>: Unicode tables, SHA-256, the URL parser and \<open>isIP\<close> as a record of functions
  every user takes as an argument; \<open>unicode_ok\<close> is what the Unicode standard fixes of them on
  ASCII. \<open>Effects\<close>: programs that interact. A program maps a world (the calls made so far and
  the timings noted) to a result and a world; the answers of DNS, browser, model, file system,
  clock, control plane and broker are a record \<open>env\<close> of functions of the calls made so far, so
  a theorem for every \<open>env\<close> covers every behaviour of the outside, failures included. \<open>emits\<close>,
  \<open>returns\<close>, \<open>settles\<close> and \<open>yields\<close> are the program logic; \<open>Traces\<close> adds properties of
  whole call sequences (interface \<open>trace_property\<close>), \<open>Moments\<close> the moments of a run: that one world
  continues another and where in between a call was made. \<open>UrlPath\<close>: what \<open>fetch\<close> and the router
  take as the path of a URL, dot segments included.

  \<^bold>\<open>The components.\<close>
  \<^item> \<open>Contracts\<close>, \<open>Decode\<close> (\<open>contracts.ts\<close>): types, schema predicates, the schemas as parsers,
    encoders; a plan survives encoding and parsing.
  \<^item> \<open>Config\<close> (\<open>config.ts\<close>): a configuration that loads satisfies the schema.
  \<^item> \<open>Validation\<close>, \<open>UsdText\<close>, \<open>ValidationLaws\<close> (\<open>validation.ts\<close>): formatted dollar amounts
    are read back to the cent, when a price is refused, exactly which observations a plan accepts.
  \<^item> \<open>Browser\<close> (\<open>browser.ts\<close>): a session and the life cycle of its \<open>init\<close> and \<open>close\<close>
    under concurrent callers, \<open>close\<close> coming while the launcher, the domain policy or the page is
    awaited; no browser survives a finished close, closing ends in eight steps.
  \<^item> \<open>Safety\<close> (\<open>safety.ts\<close>): which targets and actions are let through, private IPv4 text
    against CIDR blocks, replay behind the interface \<open>action_replayer\<close>: what is handed to Stagehand
    and what comes back for a plan is checked; a replacement chosen by self-healing has then been executed.
  \<^item> \<open>Extract\<close> (\<open>extract.ts\<close>, \<open>extractorPolicy.ts\<close>): every field of an observation is
    what the page answered, in this extraction, to a strategy of the plan, or is read from it.
  \<^item> \<open>Artifacts\<close> (\<open>artifacts.ts\<close>): evidence stays in the directory of its execution.
  \<^item> \<open>Compiler\<close> (\<open>compiler.ts\<close>): a compiled plan gave its observation in this run and was
    verified again last of all; it satisfies the schema exactly when its actions have descriptions.
  \<^item> \<open>Handler\<close>, \<open>HandlerLaws\<close>, \<open>JobLaws\<close> (\<open>handler.ts\<close>): a job always reports, performs
    safe actions only, closes its sessions, checks without the model, publishes repairs only after
    an independent session of the same run observed the same. \<open>Shop\<close> is a concrete environment on which they are evaluated.
  \<^item> \<open>Api\<close> (\<open>api.ts\<close>): one request each, to the paths of the execution and with the token, for every
    identifier that \<open>fetch\<close> leaves in the path; a posted
    plan comes back unchanged; plans of finished executions are ignored.
  \<^item> \<open>Queue\<close>, \<open>Trace\<close>, \<open>Delivery\<close>, \<open>QueueLaws\<close> (\<open>queue.ts\<close>): \<open>WorkerApi\<close> and
    \<open>JobExecutor\<close> are the interfaces \<open>worker_api\<close> and \<open>job_executor\<close>; what a delivery
    guarantees is proved over them in \<open>delivery\<close> and interpreted on \<open>Api\<close> and \<open>Handler\<close>:
    each message is settled once, and acknowledged only after its result was accepted. \<open>Deadline\<close>:
    whenever the deadline of a job passes, it starts nothing afterwards and reports the deadline.
  \<^item> \<open>Worker\<close> (\<open>queue.ts\<close> run and stop, \<open>index.ts\<close>): the process as a step relation; it
    refines a worker that handles one message at a time and stops once; shutdown ends.
  \<^item> \<open>Fixture\<close>, \<open>FixtureLaws\<close>, \<open>FixturePage\<close> (\<open>fixture/src/server.ts\<close>): requests, pages and
    the price the page script shows; the state invariant, who may change the state, the texts of
    the page, and that the plan of the scripted compiler observes exactly what the shop shows.
  \<^item> \<open>WebTypes\<close> (\<open>types.ts\<close>): the interfaces as predicates on parsed values. \<open>WebFormat\<close>
    (\<open>lib/format.ts\<close>): what the reader sees of money, dates, durations and names.
  \<^item> \<open>WebClient\<close>, \<open>WebLaws\<close>, \<open>WebRequests\<close> (\<open>api/client.ts\<close>): a program maps the requests sent
    so far to a result and the requests sent then. Typed answers are normalised to typed values with
    the newest observation and the current generation; each operation sends one request to its own path; refusals
    throw with the control plane's message; what a review compares. \<open>WebDemo\<close> is a concrete server.
  \<^item> \<open>WebQueries\<close> (\<open>api/queries.ts\<close>): every query and mutation as a record. The query client's
    cache is an argument; \<open>invalidates\<close> states that an invalidation makes exactly the keys with
    the given prefix stale.
  \<^item> \<open>LiveEvents\<close> (\<open>live-events.tsx\<close>): one run of the provider's effect as a step relation with
    the browser's event sources and timers in its state; it refines an abstract feed, has at most
    one connection, recovers from every failure and leaves nothing behind.
  \<^item> \<open>WebPages\<close>, \<open>PageLaws\<close> (\<open>pages\<close>, \<open>components\<close>): forms, actions and shown values; a new monitor
    arrives as entered, a threshold survives being shown and confirmed, the candidate asked about.
  \<^item> \<open>WebViews\<close>, \<open>MonitorViews\<close>, \<open>RunViews\<close> (\<open>pages\<close>, \<open>components\<close>): what is shown, as trees of
    elements: the frame and the dashboard, the page of a monitor with its chart, the pages of an execution,
    a review, the operations and a new monitor. \<open>ViewLaws\<close>: which buttons can be pressed in which state,
    the steps of a review over all visits of its page, with a confirmed rejection and the decisions on
    their way accounted for, every monitor and every
    artifact linked once. \<open>AppRoutes\<close> (\<open>App.tsx\<close>): the routes, and that no link of any page is dead as long
    as the identifiers it is made of are single segments.
    \<open>ChartLaws\<close>: rounding is monotone, and the chart stays inside its frame.

  \<^bold>\<open>Bounds.\<close> Nothing runs on fuel that could end early: the matcher's star iterates as often as
  the remaining input has units, which is enough because each round must consume one; the JSON parser
  recurses on its input; at most 20 scripts are searched for JSON-LD and 1,000,000 units of each,
  as in the code. Doubles are exact rationals with rounding, so 2 to the 50th cents is the bound
  up to which prices are proved exact; JSON texts are proved to be read back for integers of at most
  fourteen digits, thresholds for 100 to 10 to the 14th cents, and charts of whole prices below 10 to the
  12th. After a stop request at most six steps of the process follow.

  \<^bold>\<open>What the theorems show to be wrong in the code.\<close> A live plan without a currency label can never
  observe a page without JSON-LD; \<open>CA$\<close> is read as AUD and \<open>R$\<close> as USD; negated availability
  is read as in stock; link-local IPv6 addresses outside \<open>fe80:\<close> count as public. A review compares a
  candidate with the next lower generation, active or not; durations just below a minute are shown
  as 60 seconds; an availability that is not known is in stock on the dashboard and out of stock on the
  page of an execution; nothing keeps a second decision on a candidate from being sent while the first
  is on its way; an execution named \<open>..\<close> takes the worker's requests out of the executions; a live plan whose
  action has an empty description is published and can never be parsed again; most refusals without a message get an empty one; metrics with a negative exponent
  are dropped.

  \<^bold>\<open>Not modelled.\<close> The heartbeat timer of a delivery, log lines, metrics output and the
  registration of abort listeners change no state the program reads. The text of the fixture's
  style sheet and the message of a JSON syntax error are arguments. Of the web application the
  class names of containers, labels for assistive technology, the drawings of icons, the timer that clears the
  message on a monitor's page and the providers around the application are left to the rendering
  library; the states of the pages change between renderings, one handler at a time; and \<open>live-events.tsx\<close> is modelled for one run of its effect. The Go control plane is another program; its answers are the environment.
\<close>

end
